(* ===== verification/Prelude.thy ===== *)
theory Prelude
  imports Main "HOL-Library.AList" "HOL-Library.Word" "HOL-Library.Sublist"
    "HOL-Library.Multiset"
begin

text \<open>
  Shared vocabulary of the development.

  \<^item> machine integers: \<open>u8\<close>, \<open>u16\<close>, \<open>u32\<close>, \<open>u64\<close> are words; \<open>i32\<close> and \<open>i64\<close> are the
    integers a two's complement reading of a word gives (\<open>as_i32\<close>, \<open>as_i64\<close>);
  \<^item> results: \<open>'e + 'a\<close>, with \<open>Inl\<close> the Rust \<open>Err\<close> and \<open>Inr\<close> the Rust \<open>Ok\<close>;
  \<^item> keyed tables (\<open>HashMap\<close>, \<open>DashMap\<close> and SQL tables with a primary key) as association
    lists with distinct keys; the laws of the operations are the locale \<open>keyed_table\<close>,
    interpreted on the association lists as \<open>tbl\<close>;
  \<^item> the Rust string functions the sources use, on strings as lists of characters.
\<close>

section \<open>Collections of simplification rules\<close>

named_theorems table_simps \<open>lookup and update laws of the tables\<close>
named_theorems res_simps \<open>evaluation of results and of state-passing operations\<close>
named_theorems str_simps \<open>laws of the string functions\<close>

section \<open>Machine integers and results\<close>

type_synonym u8 = "8 word"
type_synonym u16 = "16 word"
type_synonym u32 = "32 word"
type_synonym u64 = "64 word"
type_synonym i32 = int
type_synonym i64 = int
type_synonym usize = nat

definition as_i32 :: "u32 \<Rightarrow> i32" where
  "as_i32 w = sint w"

definition i32_as_u32 :: "i32 \<Rightarrow> u32" where
  "i32_as_u32 i = word_of_int i"

definition as_i64 :: "u64 \<Rightarrow> i64" where
  "as_i64 w = sint w"

definition i64_as_u64 :: "i64 \<Rightarrow> u64" where
  "i64_as_u64 i = word_of_int i"

definition in_i32 :: "int \<Rightarrow> bool" where
  "in_i32 i \<longleftrightarrow> - (2 ^ 31) \<le> i \<and> i < 2 ^ 31"

definition in_i64 :: "int \<Rightarrow> bool" where
  "in_i64 i \<longleftrightarrow> - (2 ^ 63) \<le> i \<and> i < 2 ^ 63"

lemma i32_as_u32_as_i32 [simp]: "i32_as_u32 (as_i32 w) = w"
  by (simp add: i32_as_u32_def as_i32_def)

lemma i64_as_u64_as_i64 [simp]: "i64_as_u64 (as_i64 w) = w"
  by (simp add: i64_as_u64_def as_i64_def)

lemma in_i32_as_i32 [simp]: "in_i32 (as_i32 w)"
  using sint_range_size [of w] by (simp add: in_i32_def as_i32_def word_size)

lemma in_i64_as_i64 [simp]: "in_i64 (as_i64 w)"
  using sint_range_size [of w] by (simp add: in_i64_def as_i64_def word_size)

lemma sint_eq_uint_below:
  fixes w :: "'a::len word"
  assumes "uint w < 2 ^ (LENGTH('a) - 1)"
  shows "sint w = uint w"
proof -
  have "signed_take_bit (LENGTH('a) - Suc 0) (uint w) = uint w"
    using assms by (intro signed_take_bit_int_eq_self) (auto intro: order_trans [of _ 0])
  then show ?thesis
    by (simp add: sint_uint)
qed

lemma as_i32_small: "unat w < 2 ^ 31 \<Longrightarrow> as_i32 w = int (unat w)"
proof -
  assume "unat w < 2 ^ 31"
  then have "int (unat w) < int (2 ^ 31)"
    by (simp only: of_nat_less_iff)
  then have "uint w < 2 ^ 31"
    by simp
  then show ?thesis
    unfolding as_i32_def using sint_eq_uint_below [of w] by simp
qed

lemma as_i64_small: "unat w < 2 ^ 63 \<Longrightarrow> as_i64 w = int (unat w)"
proof -
  assume "unat w < 2 ^ 63"
  then have "int (unat w) < int (2 ^ 63)"
    by (simp only: of_nat_less_iff)
  then have "uint w < 2 ^ 63"
    by simp
  then show ?thesis
    unfolding as_i64_def using sint_eq_uint_below [of w] by simp
qed

lemma unat_i32_as_u32: "0 \<le> i \<Longrightarrow> in_i32 i \<Longrightarrow> int (unat (i32_as_u32 i)) = i"
  by (simp add: i32_as_u32_def in_i32_def uint_word_of_int)

lemma unat_i64_as_u64: "0 \<le> i \<Longrightarrow> in_i64 i \<Longrightarrow> int (unat (i64_as_u64 i)) = i"
  by (simp add: i64_as_u64_def in_i64_def uint_word_of_int)

definition is_ok :: "'e + 'a \<Rightarrow> bool" where
  "is_ok r = (case r of Inl _ \<Rightarrow> False | Inr _ \<Rightarrow> True)"

definition map_err :: "('e \<Rightarrow> 'f) \<Rightarrow> 'e + 'a \<Rightarrow> 'f + 'a" where
  "map_err f r = (case r of Inl e \<Rightarrow> Inl (f e) | Inr a \<Rightarrow> Inr a)"

definition ok_or :: "'a option \<Rightarrow> 'e \<Rightarrow> 'e + 'a" where
  "ok_or x e = (case x of None \<Rightarrow> Inl e | Some a \<Rightarrow> Inr a)"

lemma is_ok_simps [simp]: "is_ok (Inr a)" "\<not> is_ok (Inl e)"
  by (simp_all add: is_ok_def)

lemma map_err_simps [simp]: "map_err f (Inl e) = Inl (f e)" "map_err f (Inr a) = Inr a"
  by (simp_all add: map_err_def)

lemma ok_or_simps [simp]: "ok_or None e = Inl e" "ok_or (Some a) e = Inr a"
  by (simp_all add: ok_or_def)

section \<open>Keyed tables\<close>

type_synonym ('k, 'v) tbl = "('k \<times> 'v) list"

definition tbl_get :: "('k, 'v) tbl \<Rightarrow> 'k \<Rightarrow> 'v option" where
  "tbl_get t k = map_of t k"

definition tbl_put :: "'k \<Rightarrow> 'v \<Rightarrow> ('k, 'v) tbl \<Rightarrow> ('k, 'v) tbl" where
  "tbl_put k v t = AList.update k v t"

definition tbl_retain :: "('k \<Rightarrow> 'v \<Rightarrow> bool) \<Rightarrow> ('k, 'v) tbl \<Rightarrow> ('k, 'v) tbl" where
  "tbl_retain P t = filter (\<lambda>(k, v). P k v) t"

definition tbl_del :: "'k \<Rightarrow> ('k, 'v) tbl \<Rightarrow> ('k, 'v) tbl" where
  "tbl_del k t = tbl_retain (\<lambda>k' _. k' \<noteq> k) t"

definition tbl_ok :: "('k, 'v) tbl \<Rightarrow> bool" where
  "tbl_ok t \<longleftrightarrow> distinct (map fst t)"

text \<open>The interface of a keyed table, and what its clients derive from the laws.\<close>

locale keyed_table =
  fixes get :: "'t \<Rightarrow> 'k \<Rightarrow> 'v option"
    and put :: "'k \<Rightarrow> 'v \<Rightarrow> 't \<Rightarrow> 't"
    and retain :: "('k \<Rightarrow> 'v \<Rightarrow> bool) \<Rightarrow> 't \<Rightarrow> 't"
    and del :: "'k \<Rightarrow> 't \<Rightarrow> 't"
    and ok :: "'t \<Rightarrow> bool"
  assumes get_put: "get (put k v t) k' = (if k' = k then Some v else get t k')"
    and get_retain: "ok t \<Longrightarrow> get (retain P t) k =
      (case get t k of None \<Rightarrow> None | Some v \<Rightarrow> if P k v then Some v else None)"
    and get_del: "get (del k t) k' = (if k' = k then None else get t k')"
    and ok_put: "ok t \<Longrightarrow> ok (put k v t)"
    and ok_retain: "ok t \<Longrightarrow> ok (retain P t)"
    and ok_del: "ok t \<Longrightarrow> ok (del k t)"
begin

lemma get_put_same: "get (put k v t) k = Some v"
  by (simp add: get_put)

lemma get_put_other: "k' \<noteq> k \<Longrightarrow> get (put k v t) k' = get t k'"
  by (simp add: get_put)

lemma del_absent: "get t k = None \<Longrightarrow> get (del k t) = get t"
  by (rule ext) (simp add: get_del)

lemma put_del: "get t k = None \<Longrightarrow> get (del k (put k v t)) = get t"
  by (rule ext) (simp add: get_del get_put)

lemma retain_id: "ok t \<Longrightarrow> (\<And>k v. get t k = Some v \<Longrightarrow> P k v) \<Longrightarrow> get (retain P t) = get t"
  by (rule ext) (simp add: get_retain split: option.splits)

lemma retain_subset: "ok t \<Longrightarrow> get (retain P t) k = Some v \<Longrightarrow> get t k = Some v \<and> P k v"
  by (simp add: get_retain split: option.splits if_splits)

lemma retain_idem: "ok t \<Longrightarrow> get (retain P (retain P t)) = get (retain P t)"
  by (rule ext) (simp add: get_retain ok_retain split: option.splits)

lemma retain_retain:
  "ok t \<Longrightarrow> get (retain P (retain Q t)) = get (retain (\<lambda>k v. P k v \<and> Q k v) t)"
  by (rule ext) (simp add: get_retain ok_retain split: option.splits)

end

lemma map_of_filter_keys:
  "distinct (map fst t) \<Longrightarrow> map_of (filter (\<lambda>(k, v). P k v) t) k =
     (case map_of t k of None \<Rightarrow> None | Some v \<Rightarrow> if P k v then Some v else None)"
  by (induction t) (auto split: option.splits simp: map_of_eq_None_iff
      dest: map_of_SomeD intro: rev_image_eqI)

lemma map_of_filter_key_ne:
  "map_of (filter (\<lambda>(k', _). k' \<noteq> k) t) x = (if x = k then None else map_of t x)"
  by (induction t) auto

interpretation tbl: keyed_table tbl_get tbl_put tbl_retain tbl_del tbl_ok
proof unfold_locales
  fix k k' and v :: 'b and t :: "('a, 'b) tbl"
  show "tbl_get (tbl_put k v t) k' = (if k' = k then Some v else tbl_get t k')"
    by (simp add: tbl_get_def tbl_put_def update_conv')
next
  fix t :: "('a, 'b) tbl" and P k
  show "tbl_ok t \<Longrightarrow> tbl_get (tbl_retain P t) k =
      (case tbl_get t k of None \<Rightarrow> None | Some v \<Rightarrow> if P k v then Some v else None)"
    by (simp add: tbl_get_def tbl_retain_def tbl_ok_def map_of_filter_keys)
next
  fix t :: "('a, 'b) tbl" and k k'
  show "tbl_get (tbl_del k t) k' = (if k' = k then None else tbl_get t k')"
    by (simp add: tbl_get_def tbl_del_def tbl_retain_def map_of_filter_key_ne)
next
  fix t :: "('a, 'b) tbl" and k v
  show "tbl_ok t \<Longrightarrow> tbl_ok (tbl_put k v t)"
    by (simp add: tbl_ok_def tbl_put_def distinct_update)
next
  fix t :: "('a, 'b) tbl" and P
  show "tbl_ok t \<Longrightarrow> tbl_ok (tbl_retain P t)"
    by (simp add: tbl_ok_def tbl_retain_def distinct_map_filter)
next
  fix t :: "('a, 'b) tbl" and k
  show "tbl_ok t \<Longrightarrow> tbl_ok (tbl_del k t)"
    by (simp add: tbl_ok_def tbl_del_def tbl_retain_def distinct_map_filter)
qed

declare tbl.get_put [table_simps] tbl.get_del [table_simps] tbl.get_retain [table_simps]
  tbl.ok_put [table_simps] tbl.ok_del [table_simps] tbl.ok_retain [table_simps]

lemma tbl_get_Nil [simp]: "tbl_get [] k = None"
  by (simp add: tbl_get_def)

lemma tbl_get_Cons [table_simps]: "tbl_get ((k, v) # t) x = (if x = k then Some v else tbl_get t x)"
  by (simp add: tbl_get_def)

lemma tbl_ok_Nil [simp]: "tbl_ok []"
  by (simp add: tbl_ok_def)

lemma tbl_get_in_set: "tbl_get t k = Some v \<Longrightarrow> (k, v) \<in> set t"
  by (simp add: tbl_get_def map_of_SomeD)

lemma tbl_in_set_get: "tbl_ok t \<Longrightarrow> (k, v) \<in> set t \<longleftrightarrow> tbl_get t k = Some v"
  by (simp add: tbl_get_def tbl_ok_def)

lemma tbl_get_dom: "k \<in> fst ` set t \<longleftrightarrow> tbl_get t k \<noteq> None"
  by (force simp: tbl_get_def map_of_eq_None_iff)

end
