(* ===== verification/Rust_Std.thy ===== *)
theory Rust_Std
  imports Prelude
begin

text \<open>
  The part of the Rust standard library the sources call: \<open>str\<close> methods on strings as
  character lists (one character per UTF-8 byte), decimal formatting, and durations.
  Each function is total and executable; the lemmas are the laws the components use.
\<close>

section \<open>Characters\<close>

definition char_code :: "char \<Rightarrow> nat" where
  "char_code c = of_char c"

definition is_ascii_digit :: "char \<Rightarrow> bool" where
  "is_ascii_digit c \<longleftrightarrow> 48 \<le> char_code c \<and> char_code c \<le> 57"

definition is_ascii_uppercase :: "char \<Rightarrow> bool" where
  "is_ascii_uppercase c \<longleftrightarrow> 65 \<le> char_code c \<and> char_code c \<le> 90"

definition is_ascii_hexdigit :: "char \<Rightarrow> bool" where
  "is_ascii_hexdigit c \<longleftrightarrow> is_ascii_digit c
     \<or> (97 \<le> char_code c \<and> char_code c \<le> 102) \<or> (65 \<le> char_code c \<and> char_code c \<le> 70)"

definition ascii_lower_char :: "char \<Rightarrow> char" where
  "ascii_lower_char c = (if is_ascii_uppercase c then char_of (char_code c + 32) else c)"

definition to_ascii_lowercase :: "string \<Rightarrow> string" where
  "to_ascii_lowercase s = map ascii_lower_char s"

definition eq_ignore_ascii_case :: "string \<Rightarrow> string \<Rightarrow> bool" where
  "eq_ignore_ascii_case a b \<longleftrightarrow> to_ascii_lowercase a = to_ascii_lowercase b"

lemma char_code_less: "char_code c < 256"
  by (simp add: char_code_def)

lemma char_code_inj: "char_code c = char_code d \<longleftrightarrow> c = d"
  by (simp add: char_code_def of_char_eq_iff)

lemma char_code_char_of: "n < 256 \<Longrightarrow> char_code (char_of n) = n"
  by (simp add: char_code_def)

lemma ascii_lower_char_idem [simp]: "ascii_lower_char (ascii_lower_char c) = ascii_lower_char c"
proof (cases "is_ascii_uppercase c")
  case True
  then have "char_code (char_of (char_code c + 32)) = char_code c + 32"
    by (intro char_code_char_of) (simp add: is_ascii_uppercase_def)
  with True show ?thesis
    by (simp add: ascii_lower_char_def is_ascii_uppercase_def)
qed (simp add: ascii_lower_char_def)

lemma to_ascii_lowercase_idem [simp]:
  "to_ascii_lowercase (to_ascii_lowercase s) = to_ascii_lowercase s"
  by (simp add: to_ascii_lowercase_def)

lemma length_to_ascii_lowercase [simp]: "length (to_ascii_lowercase s) = length s"
  by (simp add: to_ascii_lowercase_def)

section \<open>Prefixes, substrings and splitting\<close>

definition starts_with :: "string \<Rightarrow> string \<Rightarrow> bool" where
  "starts_with s p \<longleftrightarrow> take (length p) s = p"

definition strip_prefix :: "string \<Rightarrow> string \<Rightarrow> string option" where
  "strip_prefix s p = (if starts_with s p then Some (drop (length p) s) else None)"

fun find_str :: "string \<Rightarrow> string \<Rightarrow> nat option" where
  "find_str [] p = (if p = [] then Some 0 else None)"
| "find_str (c # s) p =
    (if starts_with (c # s) p then Some 0 else map_option Suc (find_str s p))"

fun find_char :: "string \<Rightarrow> char \<Rightarrow> nat option" where
  "find_char [] d = None"
| "find_char (c # s) d = (if c = d then Some 0 else map_option Suc (find_char s d))"

definition contains_str :: "string \<Rightarrow> string \<Rightarrow> bool" where
  "contains_str s p \<longleftrightarrow> find_str s p \<noteq> None"

text \<open>\<open>str::split\<close> on one character: always at least one piece.\<close>

fun split_char :: "char \<Rightarrow> string \<Rightarrow> string list" where
  "split_char d [] = [[]]"
| "split_char d (c # s) =
    (if c = d then [] # split_char d s
     else (case split_char d s of [] \<Rightarrow> [[c]] | p # ps \<Rightarrow> (c # p) # ps))"

definition is_trim_char :: "char \<Rightarrow> bool" where
  "is_trim_char c \<longleftrightarrow> char_code c = 32 \<or> (9 \<le> char_code c \<and> char_code c \<le> 13)"

definition str_trim :: "string \<Rightarrow> string" where
  "str_trim s = rev (dropWhile is_trim_char (rev (dropWhile is_trim_char s)))"

lemma starts_with_append [simp]: "starts_with (p @ s) p"
  by (simp add: starts_with_def)

lemma starts_with_iff: "starts_with s p \<longleftrightarrow> (\<exists>t. s = p @ t)"
  by (metis append_take_drop_id starts_with_append starts_with_def)

lemma strip_prefix_append [simp]: "strip_prefix (p @ s) p = Some s"
  by (simp add: strip_prefix_def)

lemma strip_prefix_Some: "strip_prefix s p = Some t \<longleftrightarrow> s = p @ t"
  by (auto simp: strip_prefix_def starts_with_iff)

lemma find_char_Some: "find_char s d = Some i \<Longrightarrow>
  i < length s \<and> s ! i = d \<and> (\<forall>j<i. s ! j \<noteq> d)"
  by (induction s arbitrary: i) (auto split: if_splits simp: nth_Cons less_Suc_eq_0_disj split: nat.splits)

lemma find_char_None: "find_char s d = None \<longleftrightarrow> d \<notin> set s"
  by (induction s) auto

lemma find_char_append: "d \<notin> set a \<Longrightarrow> find_char (a @ d # b) d = Some (length a)"
  by (induction a) auto

lemma split_char_not_Nil [simp]: "split_char d s \<noteq> []"
  by (induction s) (auto split: list.splits)

lemma split_char_no_sep: "d \<notin> set s \<Longrightarrow> split_char d s = [s]"
  by (induction s) auto

lemma split_char_append: "d \<notin> set a \<Longrightarrow> split_char d (a @ d # b) = a # split_char d b"
  by (induction a) auto

lemma split_char_pieces: "p \<in> set (split_char d s) \<Longrightarrow> d \<notin> set p"
  by (induction s arbitrary: p) (auto split: if_splits list.splits)

lemma find_str_head: "starts_with s p \<Longrightarrow> find_str s p = Some 0"
  by (cases s) (auto simp: starts_with_def)

lemma find_str_skip:
  assumes "\<And>i. i < length a \<Longrightarrow> \<not> starts_with (drop i (a @ p @ s)) p"
  shows "find_str (a @ p @ s) p = Some (length a)"
  using assms
proof (induction a)
  case Nil
  show ?case
    by (simp add: find_str_head)
next
  case (Cons c a)
  from Cons.prems [of 0] have no: "\<not> starts_with (c # a @ p @ s) p" by simp
  have "find_str (a @ p @ s) p = Some (length a)"
    using Cons.prems [of "Suc _"] by (intro Cons.IH) auto
  with no show ?case by simp
qed

section \<open>Decimal formatting\<close>

definition digit_char :: "nat \<Rightarrow> char" where
  "digit_char n = char_of (48 + n mod 10)"

fun show_nat :: "nat \<Rightarrow> string" where
  "show_nat n = (if n < 10 then [digit_char n] else show_nat (n div 10) @ [digit_char n])"

declare show_nat.simps [simp del]

definition show_int :: "int \<Rightarrow> string" where
  "show_int i = (if i < 0 then ''-'' @ show_nat (nat (- i)) else show_nat (nat i))"

definition digit_value :: "char \<Rightarrow> nat" where
  "digit_value c = char_code c - 48"

definition read_nat :: "string \<Rightarrow> nat" where
  "read_nat s = foldl (\<lambda>n c. 10 * n + digit_value c) 0 s"

lemma digit_value_digit_char [simp]: "digit_value (digit_char n) = n mod 10"
  using char_code_char_of [of "48 + n mod 10"] by (simp add: digit_value_def digit_char_def)

lemma is_ascii_digit_digit_char [simp]: "is_ascii_digit (digit_char n)"
  using char_code_char_of [of "48 + n mod 10"] by (simp add: is_ascii_digit_def digit_char_def)

lemma read_show_nat [simp]: "read_nat (show_nat n) = n"
proof (induction n rule: show_nat.induct)
  case (1 n)
  show ?case
  proof (cases "n < 10")
    case True
    then show ?thesis by (simp add: show_nat.simps [of n] read_nat_def)
  next
    case False
    with 1 show ?thesis by (simp add: show_nat.simps [of n] read_nat_def)
  qed
qed

lemma show_nat_inj: "show_nat m = show_nat n \<longleftrightarrow> m = n"
  by (metis read_show_nat)

lemma show_nat_digits: "c \<in> set (show_nat n) \<Longrightarrow> is_ascii_digit c"
proof (induction n rule: show_nat.induct)
  case (1 n)
  then show ?case
    by (cases "n < 10") (auto simp: show_nat.simps [of n])
qed

lemma show_nat_not_Nil [simp]: "show_nat n \<noteq> []"
  by (simp add: show_nat.simps [of n])

section \<open>Lists of bytes\<close>

type_synonym bytes = "u8 list"

text \<open>\<open>slice::chunks(n)\<close> for a positive chunk size.\<close>

function chunks :: "nat \<Rightarrow> 'a list \<Rightarrow> 'a list list" where
  "chunks n xs = (if xs = [] \<or> n = 0 then [] else take n xs # chunks n (drop n xs))"
  by auto
termination
  by (relation "measure (\<lambda>(n, xs). length xs)") auto

declare chunks.simps [simp del]

lemma chunks_Nil [simp]: "chunks n [] = []"
  by (simp add: chunks.simps)

lemma concat_chunks: "0 < n \<Longrightarrow> concat (chunks n xs) = xs"
proof (induction n xs rule: chunks.induct)
  case (1 n xs)
  then show ?case by (cases "xs = []") (simp_all add: chunks.simps [of n xs])
qed

lemma chunks_sizes: "c \<in> set (chunks n xs) \<Longrightarrow> c \<noteq> [] \<and> length c \<le> n"
proof (induction n xs rule: chunks.induct)
  case (1 n xs)
  then show ?case
    by (cases "xs = [] \<or> n = 0") (auto simp: chunks.simps [of n xs])
qed

section \<open>Durations\<close>

text \<open>\<open>std::time::Duration\<close> as its whole number of nanoseconds.\<close>

type_synonym duration = nat

definition dur_secs :: "nat \<Rightarrow> duration" where
  "dur_secs s = s * 1000000000"

definition dur_millis :: "nat \<Rightarrow> duration" where
  "dur_millis m = m * 1000000"

definition dur_as_secs :: "duration \<Rightarrow> nat" where
  "dur_as_secs d = d div 1000000000"

definition dur_subsec_nanos :: "duration \<Rightarrow> nat" where
  "dur_subsec_nanos d = d mod 1000000000"

definition dur_as_millis :: "duration \<Rightarrow> nat" where
  "dur_as_millis d = d div 1000000"

lemma dur_as_secs_secs [simp]: "dur_as_secs (dur_secs s) = s"
  by (simp add: dur_as_secs_def dur_secs_def)

section \<open>Lines, words and JSON values\<close>

text \<open>\<open>str::lines\<close> and \<open>str::split_whitespace\<close>.\<close>

definition str_lines :: "string \<Rightarrow> string list" where
  "str_lines s =
    (let ls = split_char (CHR 0x0A) s;
         ls' = (if last ls = [] then butlast ls else ls)
     in map (\<lambda>l. if l \<noteq> [] \<and> last l = CHR 0x0D then butlast l else l) ls')"

fun split_ws_aux :: "string \<Rightarrow> string \<Rightarrow> string list" where
  "split_ws_aux acc [] = (if acc = [] then [] else [acc])"
| "split_ws_aux acc (c # s) =
    (if is_trim_char c then (if acc = [] then split_ws_aux [] s else acc # split_ws_aux [] s)
     else split_ws_aux (acc @ [c]) s)"

definition split_whitespace :: "string \<Rightarrow> string list" where
  "split_whitespace s = split_ws_aux [] s"

text \<open>\<open>serde_json::Value\<close>, as far as the programs build it.\<close>

datatype json = JString string | JBool bool | JNumber nat | JArray "json list" | JObject "(string \<times> json) list"

end
