(* ===== verification/Contracts.thy ===== *)
theory Contracts
  imports Rust_Std
begin

text \<open>
  The crate \<open>contracts\<close>: identifiers (\<open>types.rs\<close>), the error enums (\<open>error.rs\<close>), the validated
  wire types (\<open>wire.rs\<close>) and the constants (\<open>constants.rs\<close>) shared by the services.

  The text functions of the \<open>uuid\<close> crate are a parameter, the record \<open>uuid_lib\<close>; what the
  sources rely on is the locale \<open>uuid_text\<close>. The functions of the canonical 8-4-4-4-12
  lower-case form, \<open>rfc4122\<close>, satisfy it.
\<close>

section \<open>Constants (constants.rs)\<close>

definition HEARTBEAT_INTERVAL :: duration where "HEARTBEAT_INTERVAL = dur_secs 5"
definition DEAD_AGENT_THRESHOLD :: nat where "DEAD_AGENT_THRESHOLD = 3"
definition DEAD_AGENT_TIMEOUT :: duration where "DEAD_AGENT_TIMEOUT = dur_secs 15"
definition UPSTREAM_TIMEOUT :: duration where "UPSTREAM_TIMEOUT = dur_secs 30"
definition SANDBOX_STOP_TIMEOUT :: duration where "SANDBOX_STOP_TIMEOUT = dur_secs 10"
definition RECONNECT_BASE_DELAY :: duration where "RECONNECT_BASE_DELAY = dur_secs 1"
definition RECONNECT_MAX_DELAY :: duration where "RECONNECT_MAX_DELAY = dur_secs 30"
definition SUBDOMAIN_LEN :: nat where "SUBDOMAIN_LEN = 12"
definition LIST_SANDBOXES_MAX :: nat where "LIST_SANDBOXES_MAX = 1000"
definition WAIT_PORT_LISTENING_MAX_TIMEOUT_MS :: u32 where
  "WAIT_PORT_LISTENING_MAX_TIMEOUT_MS = 300000"

section \<open>Identifiers (types.rs)\<close>

type_synonym uuid = "128 word"

record uuid_lib =
  uuid_to_string :: "uuid \<Rightarrow> string"
  uuid_simple :: "uuid \<Rightarrow> string"
  uuid_parse_str :: "string \<Rightarrow> uuid option"

datatype AgentId = AgentId (agent_uuid: uuid)
datatype SandboxId = SandboxId (sandbox_uuid: uuid)

datatype InvalidSandboxId = InvalidSandboxId

record RoutingEntry =
  re_sandbox_id :: SandboxId
  re_agent_id :: AgentId

definition AgentId_to_string :: "uuid_lib \<Rightarrow> AgentId \<Rightarrow> string" where
  "AgentId_to_string U a = uuid_to_string U (agent_uuid a)"

definition SandboxId_to_string :: "uuid_lib \<Rightarrow> SandboxId \<Rightarrow> string" where
  "SandboxId_to_string U s = uuid_to_string U (sandbox_uuid s)"

definition subdomain :: "uuid_lib \<Rightarrow> SandboxId \<Rightarrow> string" where
  "subdomain U s = take SUBDOMAIN_LEN (uuid_simple U (sandbox_uuid s))"

definition SandboxId_from_str :: "uuid_lib \<Rightarrow> string \<Rightarrow> InvalidSandboxId + SandboxId" where
  "SandboxId_from_str U s = ok_or (map_option SandboxId (uuid_parse_str U s)) InvalidSandboxId"

definition AgentId_from_str :: "uuid_lib \<Rightarrow> string \<Rightarrow> InvalidSandboxId + AgentId" where
  "AgentId_from_str U s = ok_or (map_option AgentId (uuid_parse_str U s)) InvalidSandboxId"

definition subdomain_is_valid :: "string \<Rightarrow> bool" where
  "subdomain_is_valid s \<longleftrightarrow> length s = SUBDOMAIN_LEN \<and> (\<forall>c\<in>set s. is_ascii_hexdigit c)"

definition is_lower_hex :: "char \<Rightarrow> bool" where
  "is_lower_hex c \<longleftrightarrow> is_ascii_digit c \<or> (97 \<le> char_code c \<and> char_code c \<le> 102)"

locale uuid_text =
  fixes U :: uuid_lib
  assumes parse_to_string: "uuid_parse_str U (uuid_to_string U u) = Some u"
    and simple_length: "length (uuid_simple U u) = 32"
    and simple_hex: "c \<in> set (uuid_simple U u) \<Longrightarrow> is_lower_hex c"
    and simple_of_string: "uuid_simple U u = filter (\<lambda>c. c \<noteq> CHR ''-'') (uuid_to_string U u)"
    and to_string_chars: "c \<in> set (uuid_to_string U u) \<Longrightarrow> is_lower_hex c \<or> c = CHR ''-''"
    and to_string_length: "length (uuid_to_string U u) = 36"
begin

lemma to_string_inj: "uuid_to_string U u = uuid_to_string U v \<longleftrightarrow> u = v"
  by (metis option.inject parse_to_string)

lemma sandbox_roundtrip: "SandboxId_from_str U (SandboxId_to_string U s) = Inr s"
  by (simp add: SandboxId_from_str_def SandboxId_to_string_def parse_to_string)

lemma agent_roundtrip: "AgentId_from_str U (AgentId_to_string U a) = Inr a"
  by (simp add: AgentId_from_str_def AgentId_to_string_def parse_to_string)

lemma quote_notin_to_string: "CHR 0x22 \<notin> set (uuid_to_string U u)"
  using to_string_chars [of "CHR 0x22" u] by (auto simp: is_lower_hex_def is_ascii_digit_def char_code_def)

lemma subdomain_length: "length (subdomain U s) = SUBDOMAIN_LEN"
  by (simp add: subdomain_def simple_length SUBDOMAIN_LEN_def)

lemma subdomain_hex: "c \<in> set (subdomain U s) \<Longrightarrow> is_lower_hex c"
  unfolding subdomain_def by (rule simple_hex) (rule in_set_takeD)

lemma subdomain_valid: "subdomain_is_valid (subdomain U s)"
  using subdomain_hex [of _ s]
  by (auto simp: subdomain_is_valid_def subdomain_length is_lower_hex_def is_ascii_hexdigit_def)

end

subsection \<open>The canonical text form\<close>

definition hex_char :: "nat \<Rightarrow> char" where
  "hex_char n = (if n < 10 then char_of (48 + n) else char_of (87 + n))"

definition hex_value :: "char \<Rightarrow> nat" where
  "hex_value c = (if is_ascii_digit c then char_code c - 48 else char_code c - 87)"

fun hex_digits :: "nat \<Rightarrow> nat \<Rightarrow> string" where
  "hex_digits 0 n = []"
| "hex_digits (Suc k) n = hex_digits k (n div 16) @ [hex_char (n mod 16)]"

definition read_hex :: "string \<Rightarrow> nat" where
  "read_hex s = foldl (\<lambda>n c. 16 * n + hex_value c) 0 s"

definition hyphenate :: "string \<Rightarrow> string" where
  "hyphenate s = take 8 s @ ''-'' @ take 4 (drop 8 s) @ ''-'' @ take 4 (drop 12 s) @ ''-'' @
     take 4 (drop 16 s) @ ''-'' @ drop 20 s"

definition rfc4122 :: uuid_lib where
  "rfc4122 = \<lparr> uuid_to_string = (\<lambda>u. hyphenate (hex_digits 32 (unat u))),
     uuid_simple = (\<lambda>u. hex_digits 32 (unat u)),
     uuid_parse_str = (\<lambda>s. let u = of_nat (read_hex (filter (\<lambda>c. c \<noteq> CHR ''-'') s)) in
        if hyphenate (hex_digits 32 (unat u)) = s then Some u else None) \<rparr>"

lemma hex_char_code: "n < 16 \<Longrightarrow> char_code (hex_char n) = (if n < 10 then 48 + n else 87 + n)"
  by (simp add: hex_char_def char_code_char_of)

lemma is_lower_hex_hex_char: "n < 16 \<Longrightarrow> is_lower_hex (hex_char n)"
  by (simp add: is_lower_hex_def is_ascii_digit_def hex_char_code)

lemma hex_value_hex_char: "n < 16 \<Longrightarrow> hex_value (hex_char n) = n"
  by (simp add: hex_value_def is_ascii_digit_def hex_char_code)

lemma length_hex_digits [simp]: "length (hex_digits k n) = k"
  by (induction k arbitrary: n) simp_all

lemma hex_digits_lower: "c \<in> set (hex_digits k n) \<Longrightarrow> is_lower_hex c"
  by (induction k arbitrary: n) (auto intro: is_lower_hex_hex_char)

lemma read_hex_digits: "n < 16 ^ k \<Longrightarrow> read_hex (hex_digits k n) = n"
proof (induction k arbitrary: n)
  case (Suc k)
  then have "read_hex (hex_digits k (n div 16)) = n div 16"
    by (intro Suc.IH) (simp add: less_mult_imp_div_less mult.commute)
  then show ?case
    by (simp add: read_hex_def hex_value_hex_char)
qed (simp add: read_hex_def)

lemma dash_not_hex: "is_lower_hex c \<Longrightarrow> c \<noteq> CHR ''-''"
  by (auto simp: is_lower_hex_def is_ascii_digit_def char_code_def)

lemma filter_hyphenate:
  assumes "\<And>c. c \<in> set s \<Longrightarrow> c \<noteq> CHR ''-''"
  shows "filter (\<lambda>c. c \<noteq> CHR ''-'') (hyphenate s) = s"
proof -
  have keep: "filter (\<lambda>c. c \<noteq> CHR ''-'') t = t" if "set t \<subseteq> set s" for t
    using that assms by (intro filter_True) blast
  have sub: "set (take n (drop m s)) \<subseteq> set s" "set (take n s) \<subseteq> set s" "set (drop m s) \<subseteq> set s" for n m
    by (auto dest: in_set_takeD in_set_dropD)
  have "take 8 s @ take 4 (drop 8 s) @ take 4 (drop 12 s) @ take 4 (drop 16 s) @ drop 20 s = s"
    using append_take_drop_id [of 4 "drop 16 s"] append_take_drop_id [of 4 "drop 12 s"]
      append_take_drop_id [of 4 "drop 8 s"] append_take_drop_id [of 8 s] by simp
  then show ?thesis
    by (simp add: hyphenate_def keep sub)
qed

lemma hex_no_dash: "c \<in> set (hex_digits k n) \<Longrightarrow> c \<noteq> CHR ''-''"
  using dash_not_hex hex_digits_lower by blast

lemma rfc4122_read:
  "of_nat (read_hex (filter (\<lambda>c. c \<noteq> CHR ''-'') (hyphenate (hex_digits 32 (unat u))))) = (u :: uuid)"
proof -
  have "unat u < 2 ^ 128"
    using unsigned_less [where ?'a = nat, of u] by simp
  then have "read_hex (hex_digits 32 (unat u)) = unat u"
    by (intro read_hex_digits) simp
  then show ?thesis
    by (simp add: filter_hyphenate hex_no_dash)
qed

interpretation rfc: uuid_text rfc4122
proof unfold_locales
  fix u :: uuid and c :: char
  show "uuid_parse_str rfc4122 (uuid_to_string rfc4122 u) = Some u"
    by (simp add: rfc4122_def rfc4122_read Let_def)
  show "length (uuid_simple rfc4122 u) = 32"
    by (simp add: rfc4122_def)
  show "c \<in> set (uuid_simple rfc4122 u) \<Longrightarrow> is_lower_hex c"
    by (simp add: rfc4122_def hex_digits_lower)
  show "uuid_simple rfc4122 u = filter (\<lambda>c. c \<noteq> CHR ''-'') (uuid_to_string rfc4122 u)"
    by (simp add: rfc4122_def filter_hyphenate hex_no_dash)
  show "c \<in> set (uuid_to_string rfc4122 u) \<Longrightarrow> is_lower_hex c \<or> c = CHR ''-''"
    by (auto simp: rfc4122_def hyphenate_def dest!: in_set_takeD in_set_dropD intro: hex_digits_lower)
  show "length (uuid_to_string rfc4122 u) = 36"
    by (simp add: rfc4122_def hyphenate_def)
qed

section \<open>Image pull policy (types.rs)\<close>

datatype PullPolicy = IfNotPresent | Always | Never

text \<open>The enum \<open>PullPolicy\<close> of \<open>proto/api.proto\<close> and its numbering.\<close>

datatype WirePullPolicy = PP_Unspecified | PP_IfNotPresent | PP_Always | PP_Never

fun wire_pull_policy_as_i32 :: "WirePullPolicy \<Rightarrow> i32" where
  "wire_pull_policy_as_i32 PP_Unspecified = 0"
| "wire_pull_policy_as_i32 PP_IfNotPresent = 1"
| "wire_pull_policy_as_i32 PP_Always = 2"
| "wire_pull_policy_as_i32 PP_Never = 3"

definition wire_pull_policy_try_from :: "i32 \<Rightarrow> WirePullPolicy option" where
  "wire_pull_policy_try_from v =
    (if v = 0 then Some PP_Unspecified else if v = 1 then Some PP_IfNotPresent
     else if v = 2 then Some PP_Always else if v = 3 then Some PP_Never else None)"

fun from_wire :: "WirePullPolicy \<Rightarrow> PullPolicy" where
  "from_wire PP_Unspecified = IfNotPresent"
| "from_wire PP_IfNotPresent = IfNotPresent"
| "from_wire PP_Always = Always"
| "from_wire PP_Never = Never"

fun to_wire :: "PullPolicy \<Rightarrow> WirePullPolicy" where
  "to_wire IfNotPresent = PP_IfNotPresent"
| "to_wire Always = PP_Always"
| "to_wire Never = PP_Never"

datatype UnknownPullPolicy = UnknownPullPolicy i32

definition UnknownPullPolicy_to_string :: "UnknownPullPolicy \<Rightarrow> string" where
  "UnknownPullPolicy_to_string e = (case e of UnknownPullPolicy v \<Rightarrow>
     ''unknown PullPolicy wire value '' @ show_int v @
     '' (expected 0..=3); refusing to silently downgrade because a future variant could carry '' @
     ''stricter semantics than IfNotPresent'')"

definition from_wire_i32_strict :: "i32 \<Rightarrow> UnknownPullPolicy + PullPolicy" where
  "from_wire_i32_strict v =
    (case wire_pull_policy_try_from v of
       None \<Rightarrow> Inl (UnknownPullPolicy v) | Some w \<Rightarrow> Inr (from_wire w))"

definition pull_policy_from_i32 :: "i32 \<Rightarrow> PullPolicy" where
  "pull_policy_from_i32 v =
    (case from_wire_i32_strict v of Inl _ \<Rightarrow> IfNotPresent | Inr p \<Rightarrow> p)"

lemma from_wire_to_wire [simp]: "from_wire (to_wire p) = p"
  by (cases p) simp_all

lemma wire_try_from_as_i32 [simp]:
  "wire_pull_policy_try_from (wire_pull_policy_as_i32 w) = Some w"
  by (cases w) (simp_all add: wire_pull_policy_try_from_def)

lemma from_wire_i32_strict_ok: "is_ok (from_wire_i32_strict v) \<longleftrightarrow> 0 \<le> v \<and> v \<le> 3"
  by (auto simp: from_wire_i32_strict_def wire_pull_policy_try_from_def)

section \<open>Errors (error.rs)\<close>

datatype ControllerError =
    InvalidToken
  | AgentNotFound string
  | SandboxNotFound string
  | NoAvailableAgents
  | Database string
  | Internal string

datatype ProxyError =
    RoutingMiss string
  | TunnelUnavailable string
  | UpstreamTimeout string u64
  | UpstreamRejected string string
  | Internal string

datatype ApiError =
    Unauthorized string
  | SandboxNotFound string
  | ControllerUnavailable string
  | ProxyUnavailable string
  | InvalidRequest string
  | InvalidUpload string
  | IoStreamFailed string
  | SandboxGone string
  | FileNotFound string
  | InvalidState string
  | RevisionMismatch string
  | NotImplemented string
  | DirectoryNotEmpty string
  | Internal string

datatype AgentError =
    ControllerDisconnected
  | TunnelDisconnected
  | Runtime string
  | SandboxNotFound string
  | Internal string

fun ControllerError_to_string :: "ControllerError \<Rightarrow> string" where
  "ControllerError_to_string InvalidToken = ''invalid join token''"
| "ControllerError_to_string (AgentNotFound a) = ''agent '' @ a @ '' not found''"
| "ControllerError_to_string (ControllerError.SandboxNotFound s) = ''sandbox '' @ s @ '' not found''"
| "ControllerError_to_string NoAvailableAgents = ''no agents available with sufficient resources''"
| "ControllerError_to_string (Database d) = ''database error: '' @ d"
| "ControllerError_to_string (ControllerError.Internal d) = ''internal error: '' @ d"

fun ProxyError_to_string :: "ProxyError \<Rightarrow> string" where
  "ProxyError_to_string (RoutingMiss s) = ''sandbox '' @ s @ '' not found in routing table''"
| "ProxyError_to_string (TunnelUnavailable a) = ''tunnel to agent '' @ a @ '' unavailable''"
| "ProxyError_to_string (UpstreamTimeout s t) =
    ''upstream timeout after '' @ show_nat (unat t) @ ''ms for sandbox '' @ s"
| "ProxyError_to_string (UpstreamRejected i r) =
    ''upstream rejected request for stream '' @ i @ '': '' @ r"
| "ProxyError_to_string (ProxyError.Internal d) = ''internal error: '' @ d"

fun AgentError_to_string :: "AgentError \<Rightarrow> string" where
  "AgentError_to_string ControllerDisconnected = ''controller connection lost''"
| "AgentError_to_string TunnelDisconnected = ''proxy tunnel lost''"
| "AgentError_to_string (Runtime d) = ''container runtime error: '' @ d"
| "AgentError_to_string (AgentError.SandboxNotFound s) = ''sandbox '' @ s @ '' not found locally''"
| "AgentError_to_string (AgentError.Internal d) = ''internal error: '' @ d"

fun error_code :: "ApiError \<Rightarrow> string" where
  "error_code (Unauthorized _) = ''UNAUTHORIZED''"
| "error_code (ApiError.SandboxNotFound _) = ''SANDBOX_NOT_FOUND''"
| "error_code (ControllerUnavailable _) = ''CONTROLLER_UNAVAILABLE''"
| "error_code (ProxyUnavailable _) = ''PROXY_UNAVAILABLE''"
| "error_code (ApiError.InvalidRequest _) = ''INVALID_REQUEST''"
| "error_code (InvalidUpload _) = ''INVALID_UPLOAD''"
| "error_code (IoStreamFailed _) = ''IO_STREAM_FAILED''"
| "error_code (ApiError.SandboxGone _) = ''SANDBOX_GONE''"
| "error_code (ApiError.FileNotFound _) = ''FILE_NOT_FOUND''"
| "error_code (InvalidState _) = ''INVALID_STATE''"
| "error_code (ApiError.RevisionMismatch _) = ''REVISION_MISMATCH''"
| "error_code (ApiError.NotImplemented _) = ''NOT_IMPLEMENTED''"
| "error_code (ApiError.DirectoryNotEmpty _) = ''DIRECTORY_NOT_EMPTY''"
| "error_code (ApiError.Internal _) = ''INTERNAL_ERROR''"

section \<open>Validated wire types (wire.rs)\<close>

datatype IoErrorCode =
    RuntimeError | SandboxGone | ExecFailed | ReadFailed | WriteFailed | FileNotFound
  | InvalidRequest | ExtractFailed | PayloadTooLarge | Cancelled | StreamIdReused
  | RevisionMismatch | NotImplemented | DirectoryNotEmpty | DeleteFailed
  | Other string

fun IoErrorCode_as_str :: "IoErrorCode \<Rightarrow> string" where
  "IoErrorCode_as_str RuntimeError = ''RUNTIME_ERROR''"
| "IoErrorCode_as_str IoErrorCode.SandboxGone = ''SANDBOX_GONE''"
| "IoErrorCode_as_str ExecFailed = ''EXEC_FAILED''"
| "IoErrorCode_as_str ReadFailed = ''READ_FAILED''"
| "IoErrorCode_as_str WriteFailed = ''WRITE_FAILED''"
| "IoErrorCode_as_str IoErrorCode.FileNotFound = ''FILE_NOT_FOUND''"
| "IoErrorCode_as_str IoErrorCode.InvalidRequest = ''INVALID_REQUEST''"
| "IoErrorCode_as_str ExtractFailed = ''EXTRACT_FAILED''"
| "IoErrorCode_as_str PayloadTooLarge = ''PAYLOAD_TOO_LARGE''"
| "IoErrorCode_as_str Cancelled = ''CANCELLED''"
| "IoErrorCode_as_str StreamIdReused = ''STREAM_ID_REUSED''"
| "IoErrorCode_as_str IoErrorCode.RevisionMismatch = ''REVISION_MISMATCH''"
| "IoErrorCode_as_str IoErrorCode.NotImplemented = ''NOT_IMPLEMENTED''"
| "IoErrorCode_as_str IoErrorCode.DirectoryNotEmpty = ''DIRECTORY_NOT_EMPTY''"
| "IoErrorCode_as_str DeleteFailed = ''DELETE_FAILED''"
| "IoErrorCode_as_str (Other s) = s"

definition IoErrorCode_from_str :: "string \<Rightarrow> IoErrorCode" where
  "IoErrorCode_from_str s =
    (if s = ''RUNTIME_ERROR'' then RuntimeError
     else if s = ''SANDBOX_GONE'' \<or> s = ''SANDBOX_NOT_FOUND'' then IoErrorCode.SandboxGone
     else if s = ''EXEC_FAILED'' then ExecFailed
     else if s = ''READ_FAILED'' then ReadFailed
     else if s = ''WRITE_FAILED'' then WriteFailed
     else if s = ''FILE_NOT_FOUND'' then IoErrorCode.FileNotFound
     else if s = ''INVALID_REQUEST'' then IoErrorCode.InvalidRequest
     else if s = ''EXTRACT_FAILED'' then ExtractFailed
     else if s = ''PAYLOAD_TOO_LARGE'' then PayloadTooLarge
     else if s = ''CANCELLED'' then Cancelled
     else if s = ''STREAM_ID_REUSED'' then StreamIdReused
     else if s = ''REVISION_MISMATCH'' then IoErrorCode.RevisionMismatch
     else if s = ''NOT_IMPLEMENTED'' then IoErrorCode.NotImplemented
     else if s = ''DIRECTORY_NOT_EMPTY'' then IoErrorCode.DirectoryNotEmpty
     else if s = ''DELETE_FAILED'' then DeleteFailed
     else Other s)"

datatype Signum = Signum (Signum_as_u8: u8)
datatype InvalidSignum = InvalidSignum u32

definition SIGINT :: Signum where "SIGINT = Signum 2"
definition SIGKILL :: Signum where "SIGKILL = Signum 9"
definition SIGTERM :: Signum where "SIGTERM = Signum 15"

definition Signum_as_i32 :: "Signum \<Rightarrow> i32" where
  "Signum_as_i32 s = uint (Signum_as_u8 s)"

definition Signum_try_from :: "u32 \<Rightarrow> InvalidSignum + Signum" where
  "Signum_try_from v = (if (1 \<le> v \<and> v \<le> 31) \<or> (34 \<le> v \<and> v \<le> 64)
     then Inr (Signum (ucast v)) else Inl (InvalidSignum v))"

datatype Port = Port (Port_as_u16: u16)
datatype PortOutOfRange = PortOutOfRange u32

definition Port_as_u32 :: "Port \<Rightarrow> u32" where
  "Port_as_u32 p = ucast (Port_as_u16 p)"

definition Port_try_from :: "u32 \<Rightarrow> PortOutOfRange + Port" where
  "Port_try_from v = (if v \<le> 65535 then Inr (Port (ucast v)) else Inl (PortOutOfRange v))"

definition try_duration_as_secs_u32 :: "duration \<Rightarrow> string + u32" where
  "try_duration_as_secs_u32 d =
    (if dur_subsec_nanos d \<noteq> 0 then Inl ''Duration has sub-second component; would truncate''
     else if dur_as_secs d < 2 ^ 32 then Inr (of_nat (dur_as_secs d))
     else Inl ''Duration overflows u32 seconds'')"

lemma ucast_small: "unat (v :: u32) < 2 ^ LENGTH('a) \<Longrightarrow> unat (ucast v :: 'a::len word) = unat v"
  by (simp add: unsigned_ucast_eq take_bit_nat_eq_self)

lemma Signum_try_from_ok:
  "Signum_try_from v = Inr g \<Longrightarrow> unat (Signum_as_u8 g) = unat v \<and> 1 \<le> unat v \<and> unat v \<le> 64"
proof -
  assume *: "Signum_try_from v = Inr g"
  then have r: "1 \<le> unat v \<and> unat v \<le> 64"
    by (auto simp: Signum_try_from_def word_le_nat_alt split: if_splits)
  with * show ?thesis
    by (auto simp: Signum_try_from_def ucast_small split: if_splits)
qed

lemma Port_try_from_ok: "Port_try_from v = Inr p \<longleftrightarrow> unat v \<le> 65535 \<and> Port_as_u32 p = v"
proof -
  have b: "unat (Port_as_u16 p) < 2 ^ 16"
    using unsigned_less [where ?'a = nat, of "Port_as_u16 p"] by simp
  then have "unat (Port_as_u32 p) = unat (Port_as_u16 p)"
    by (simp add: Port_as_u32_def unsigned_ucast_eq take_bit_nat_eq_self)
  note this b
  moreover have "unat (ucast v :: u16) = unat v" if "unat v \<le> 65535"
    using that by (simp add: ucast_small)
  ultimately show ?thesis
    by (cases p) (auto simp: Port_try_from_def word_le_nat_alt Port_as_u32_def
        simp flip: word_unat_eq_iff split: if_splits)
qed

end
