(* ===== verification/Controller_Store.thy ===== *)
theory Controller_Store
  imports Contracts
begin

text \<open>
  \<open>controller/src/store.rs\<close>: the records the controller keeps and the trait \<open>ControllerStore\<close>.
  A value of the record type \<open>'s ControllerStore\<close> is an implementation of the trait over a
  state type \<open>'s\<close>; the generic code of the controller takes one as an argument, as the
  Rust code takes a type parameter. Every operation returns a result and the new state.
\<close>

section \<open>State-passing operations with errors\<close>

type_synonym ('s, 'e, 'a) op = "'s \<Rightarrow> ('e + 'a) \<times> 's"

definition ok_op :: "'a \<Rightarrow> ('s, 'e, 'a) op" where
  "ok_op a s = (Inr a, s)"

definition err_op :: "'e \<Rightarrow> ('s, 'e, 'a) op" where
  "err_op e s = (Inl e, s)"

text \<open>\<open>bind_op m f\<close> is \<open>let a = m?; f(a)\<close>: an error of \<open>m\<close> returns at once.\<close>

definition bind_op :: "('s, 'e, 'a) op \<Rightarrow> ('a \<Rightarrow> ('s, 'e, 'b) op) \<Rightarrow> ('s, 'e, 'b) op" where
  "bind_op m f s = (case m s of (Inl e, s') \<Rightarrow> (Inl e, s') | (Inr a, s') \<Rightarrow> f a s')"

definition then_op :: "('s, 'e, 'a) op \<Rightarrow> ('s, 'e, 'b) op \<Rightarrow> ('s, 'e, 'b) op" where
  "then_op m k = bind_op m (\<lambda>_. k)"

fun each_op :: "('x \<Rightarrow> ('s, 'e, unit) op) \<Rightarrow> 'x list \<Rightarrow> ('s, 'e, unit) op" where
  "each_op f [] = ok_op ()"
| "each_op f (x # xs) = then_op (f x) (each_op f xs)"

lemma ok_op_simps [res_simps]: "ok_op a s = (Inr a, s)" "err_op e s = (Inl e, s)"
  by (simp_all add: ok_op_def err_op_def)

lemma bind_op_Inr:
  "bind_op m f s = (Inr b, s') \<longleftrightarrow> (\<exists>a s1. m s = (Inr a, s1) \<and> f a s1 = (Inr b, s'))"
  by (auto simp: bind_op_def split: prod.splits sum.splits)

lemma bind_op_Inl:
  "bind_op m f s = (Inl e, s') \<longleftrightarrow>
     m s = (Inl e, s') \<or> (\<exists>a s1. m s = (Inr a, s1) \<and> f a s1 = (Inl e, s'))"
  by (auto simp: bind_op_def split: prod.splits sum.splits)

lemma then_op_Inr:
  "then_op m k s = (Inr b, s') \<longleftrightarrow> (\<exists>a s1. m s = (Inr a, s1) \<and> k s1 = (Inr b, s'))"
  by (simp add: then_op_def bind_op_Inr)

lemma then_op_Inl:
  "then_op m k s = (Inl e, s') \<longleftrightarrow>
     m s = (Inl e, s') \<or> (\<exists>a s1. m s = (Inr a, s1) \<and> k s1 = (Inl e, s'))"
  by (simp add: then_op_def bind_op_Inl)

lemma bind_op_step [res_simps]:
  "m s = (Inr a, s1) \<Longrightarrow> bind_op m f s = f a s1"
  "m s = (Inl e, s1) \<Longrightarrow> bind_op m f s = (Inl e, s1)"
  by (simp_all add: bind_op_def)

lemma then_op_step [res_simps]:
  "m s = (Inr a, s1) \<Longrightarrow> then_op m k s = k s1"
  "m s = (Inl e, s1) \<Longrightarrow> then_op m k s = (Inl e, s1)"
  by (simp_all add: then_op_def bind_op_def)

lemmas op_results = bind_op_Inr bind_op_Inl then_op_Inr then_op_Inl ok_op_simps

section \<open>Records of the store\<close>

record AgentCapacity =
  ac_cpu_cores :: u32
  ac_memory_bytes :: u64

record AvailableResources =
  av_cpu_millicores :: u32
  av_memory_bytes :: u64
  av_running_sandboxes :: u32

datatype AgentState = Active | Dead

record AgentRecord =
  ar_agent_id :: AgentId
  ar_capacity :: AgentCapacity
  ar_available :: AvailableResources
  ar_state :: AgentState

record SandboxStateRow =
  ss_state :: string
  ss_error :: "string option"

section \<open>The trait\<close>

record 's ControllerStore =
  save_agent :: "AgentRecord \<Rightarrow> ('s, ControllerError, unit) op"
  get_agent :: "AgentId \<Rightarrow> ('s, ControllerError, AgentRecord option) op"
  remove_agent :: "AgentId \<Rightarrow> ('s, ControllerError, unit) op"
  list_active_agents :: "('s, ControllerError, AgentRecord list) op"
  update_agent_state :: "AgentId \<Rightarrow> AgentState \<Rightarrow> ('s, ControllerError, unit) op"
  insert_routing_entry :: "RoutingEntry \<Rightarrow> ('s, ControllerError, unit) op"
  remove_routing_entries_for_agent :: "AgentId \<Rightarrow> ('s, ControllerError, unit) op"
  find_routing_entry :: "SandboxId \<Rightarrow> ('s, ControllerError, RoutingEntry option) op"
  list_routing_entries :: "('s, ControllerError, RoutingEntry list) op"
  remove_routing_entry :: "SandboxId \<Rightarrow> ('s, ControllerError, unit) op"
  save_sandbox_state ::
    "SandboxId \<Rightarrow> AgentId \<Rightarrow> string \<Rightarrow> string option \<Rightarrow> ('s, ControllerError, unit) op"
  get_sandbox_state :: "SandboxId \<Rightarrow> ('s, ControllerError, SandboxStateRow option) op"
  mark_agent_dead_atomic :: "AgentId \<Rightarrow> ('s, ControllerError, unit) op"
  try_assign_sandbox ::
    "AgentId \<Rightarrow> SandboxId \<Rightarrow> u32 \<Rightarrow> u64 \<Rightarrow> ('s, ControllerError, bool) op"
  release_sandbox :: "SandboxId \<Rightarrow> ('s, ControllerError, AgentId option) op"
  record_heartbeat :: "AgentId \<Rightarrow> ('s, ControllerError, unit) op"
  dead_agents :: "('s, ControllerError, AgentId list) op"

definition fits :: "u32 \<Rightarrow> u64 \<Rightarrow> AgentRecord \<Rightarrow> bool" where
  "fits cpu mem r \<longleftrightarrow> cpu \<le> av_cpu_millicores (ar_available r) \<and> mem \<le> av_memory_bytes (ar_available r)"

definition debit :: "u32 \<Rightarrow> u64 \<Rightarrow> AgentRecord \<Rightarrow> AgentRecord" where
  "debit cpu mem r = r\<lparr>ar_available :=
     \<lparr> av_cpu_millicores = av_cpu_millicores (ar_available r) - cpu,
       av_memory_bytes = av_memory_bytes (ar_available r) - mem,
       av_running_sandboxes = av_running_sandboxes (ar_available r) + 1 \<rparr>\<rparr>"

definition credit :: "u32 \<Rightarrow> u64 \<Rightarrow> AgentRecord \<Rightarrow> AgentRecord" where
  "credit cpu mem r = r\<lparr>ar_available :=
     \<lparr> av_cpu_millicores = av_cpu_millicores (ar_available r) + cpu,
       av_memory_bytes = av_memory_bytes (ar_available r) + mem,
       av_running_sandboxes = (if av_running_sandboxes (ar_available r) = 0 then 0
          else av_running_sandboxes (ar_available r) - 1) \<rparr>\<rparr>"

lemma credit_debit:
  assumes "av_running_sandboxes (ar_available r) + 1 \<noteq> 0"
  shows "credit cpu mem (debit cpu mem r) = r"
  using assms by (simp add: credit_def debit_def)

lemma debit_fields [simp]:
  "ar_agent_id (debit cpu mem r) = ar_agent_id r" "ar_state (debit cpu mem r) = ar_state r"
  "ar_capacity (debit cpu mem r) = ar_capacity r"
  by (simp_all add: debit_def)

lemma credit_fields [simp]:
  "ar_agent_id (credit cpu mem r) = ar_agent_id r" "ar_state (credit cpu mem r) = ar_state r"
  "ar_capacity (credit cpu mem r) = ar_capacity r"
  by (simp_all add: credit_def)

text \<open>
  The contract. \<open>agent_of\<close>, \<open>route_of\<close> and \<open>reservation_of\<close> read a state, \<open>healthy\<close> says that no
  storage error is due, and \<open>wf\<close> is the implementation's own invariant. Each write takes
  effect entirely or, where it reports that it did nothing, not at all.
\<close>

locale controller_store =
  fixes S :: "'s ControllerStore"
    and agent_of :: "'s \<Rightarrow> AgentId \<Rightarrow> AgentRecord option"
    and route_of :: "'s \<Rightarrow> SandboxId \<Rightarrow> AgentId option"
    and reservation_of :: "'s \<Rightarrow> SandboxId \<Rightarrow> (AgentId \<times> u32 \<times> u64) option"
    and wf :: "'s \<Rightarrow> bool"
    and healthy :: "'s \<Rightarrow> bool"
  assumes agent_id: "wf s \<Longrightarrow> agent_of s a = Some ag \<Longrightarrow> ar_agent_id ag = a"
    and list_active_views: "wf s \<Longrightarrow> list_active_agents S s = (agents, s') \<Longrightarrow>
      wf s' \<and> agent_of s' = agent_of s \<and> route_of s' = route_of s \<and>
      reservation_of s' = reservation_of s \<and> (healthy s \<longrightarrow> healthy s')"
    and list_active_ok: "wf s \<Longrightarrow> healthy s \<Longrightarrow> is_ok (fst (list_active_agents S s))"
    and list_active_sound: "wf s \<Longrightarrow> list_active_agents S s = (Inr rs, s') \<Longrightarrow>
      ag \<in> set rs \<longleftrightarrow> agent_of s (ar_agent_id ag) = Some ag \<and> ar_state ag = Active"
    and try_assign_wf: "wf s \<Longrightarrow> try_assign_sandbox S a sid cpu mem s = (reserved, s') \<Longrightarrow> wf s'"
    and try_assign_true: "wf s \<Longrightarrow> try_assign_sandbox S a sid cpu mem s = (Inr True, s') \<Longrightarrow>
      (\<exists>ag. agent_of s a = Some ag \<and> ar_state ag = Active \<and> fits cpu mem ag \<and>
            av_running_sandboxes (ar_available ag) + 1 \<noteq> 0 \<and>
            agent_of s' = (agent_of s)(a \<mapsto> debit cpu mem ag)) \<and>
      route_of s sid = None \<and> route_of s' = (route_of s)(sid \<mapsto> a) \<and>
      reservation_of s' = (reservation_of s)(sid \<mapsto> (a, cpu, mem))"
    and try_assign_false: "wf s \<Longrightarrow> try_assign_sandbox S a sid cpu mem s = (Inr False, s') \<Longrightarrow>
      agent_of s' = agent_of s \<and> route_of s' = route_of s \<and> reservation_of s' = reservation_of s \<and>
      (\<forall>ag. agent_of s a = Some ag \<longrightarrow> \<not> (ar_state ag = Active \<and> fits cpu mem ag))"
    and try_assign_live: "wf s \<Longrightarrow> healthy s \<Longrightarrow> agent_of s a = Some ag \<Longrightarrow> ar_state ag = Active \<Longrightarrow>
      fits cpu mem ag \<Longrightarrow> route_of s sid = None \<Longrightarrow>
      Suc (unat (av_running_sandboxes (ar_available ag))) < 2 ^ 31 \<Longrightarrow>
      fst (try_assign_sandbox S a sid cpu mem s) = Inr True"
    and release_wf: "wf s \<Longrightarrow> release_sandbox S sid s = (holder, s') \<Longrightarrow> wf s'"
    and release_none: "wf s \<Longrightarrow> release_sandbox S sid s = (Inr None, s') \<Longrightarrow>
      reservation_of s sid = None \<and>
      agent_of s' = agent_of s \<and> route_of s' = route_of s \<and> reservation_of s' = reservation_of s"
    and release_some: "wf s \<Longrightarrow> release_sandbox S sid s = (Inr (Some a), s') \<Longrightarrow>
      \<exists>cpu mem. reservation_of s sid = Some (a, cpu, mem) \<and>
        route_of s' = (route_of s)(sid := None) \<and>
        reservation_of s' = (reservation_of s)(sid := None) \<and>
        agent_of s' = (agent_of s)(a := map_option (credit cpu mem) (agent_of s a))"
    and mark_dead_wf: "wf s \<Longrightarrow> mark_agent_dead_atomic S a s = (marked, s') \<Longrightarrow> wf s'"
    and mark_dead_ok: "wf s \<Longrightarrow> mark_agent_dead_atomic S a s = (Inr u, s') \<Longrightarrow>
      (\<exists>ag. agent_of s a = Some ag \<and> agent_of s' = (agent_of s)(a \<mapsto> ag\<lparr>ar_state := Dead\<rparr>)) \<and>
      route_of s' = (\<lambda>sid. if route_of s sid = Some a then None else route_of s sid) \<and>
      reservation_of s' = reservation_of s"
begin

text \<open>A reservation that is released gives back exactly what it took.\<close>

lemma assign_release_restores:
  assumes "wf s" and assigned: "try_assign_sandbox S a sid cpu mem s = (Inr True, s1)"
    and released: "release_sandbox S sid s1 = (Inr h, s2)"
    and fresh: "reservation_of s sid = None"
  shows "h = Some a \<and> agent_of s2 = agent_of s \<and> route_of s2 = route_of s \<and>
    reservation_of s2 = reservation_of s"
proof -
  from try_assign_true [OF \<open>wf s\<close> assigned] obtain ag where
    ag: "agent_of s a = Some ag" "av_running_sandboxes (ar_available ag) + 1 \<noteq> 0"
      "agent_of s1 = (agent_of s)(a \<mapsto> debit cpu mem ag)"
    and rt: "route_of s sid = None" "route_of s1 = (route_of s)(sid \<mapsto> a)"
    and rs: "reservation_of s1 = (reservation_of s)(sid \<mapsto> (a, cpu, mem))"
    by blast
  have wf1: "wf s1" using try_assign_wf [OF \<open>wf s\<close> assigned] .
  with release_none [OF wf1, of sid s2] rs released have "h \<noteq> None" by (cases h) auto
  then obtain b where b: "h = Some b" by blast
  from release_some [OF wf1 released [unfolded b]] rs have "b = a"
    and "route_of s2 = (route_of s1)(sid := None)"
    and "reservation_of s2 = (reservation_of s1)(sid := None)"
    and "agent_of s2 = (agent_of s1)(a := map_option (credit cpu mem) (agent_of s1 a))"
    by auto
  with ag rt rs fresh b show ?thesis
    by (auto simp: credit_debit fun_upd_idem)
qed

end

end
