(* ===== verification/Pg_Store.thy ===== *)
theory Pg_Store
  imports Controller_Store
begin

text \<open>
  \<open>controller/src/pg_store.rs\<close>: the Postgres implementation of the store.

  The database is a record of tables keyed by their primary keys, plus the payloads of
  \<open>pg_notify\<close> in the order they became visible. \<open>INTEGER\<close> and \<open>BIGINT\<close> columns are integers that
  raise an error outside their range; unique and foreign keys raise an error when violated.
  Rows come back in table order; the statements hold for every order, since they hold for
  every table. Column \<open>created_at\<close> is written and never read, and left out.

  Faults are part of the state: \<open>faults\<close> lists, statement by statement, what the connection
  does (\<open>None\<close>: the statement runs). A fault \<open>Refused\<close> leaves the database alone; \<open>AckLost\<close>
  lets the statement take effect and reports an error. The list being finite, statements past
  its end run. \<open>BEGIN\<close> and \<open>COMMIT\<close> are statements like the others.
\<close>

section \<open>Tables (PgStore::migrate)\<close>

record agent_row =
  cpu_cores :: i32
  memory_bytes :: i64
  available_cpu_millicores :: i32
  available_memory_bytes :: i64
  running_sandboxes :: i32
  agent_state :: string
  last_heartbeat_at :: nat

record sandbox_row =
  sr_agent_id :: uuid
  sr_state :: string
  sr_error :: "string option"
  sr_cpu_millicores :: i32
  sr_memory_bytes :: i64

record pg_tables =
  agents :: "(uuid, agent_row) tbl"
  routing_entries :: "(uuid, uuid) tbl"
  sandboxes :: "(uuid, sandbox_row) tbl"
  notifications :: "string list"

datatype db_fault = Refused string | AckLost string

record pg =
  db :: pg_tables
  pg_now :: nat
  faults :: "db_fault option list"

section \<open>Statements and transactions\<close>

definition db_err :: "string \<Rightarrow> ControllerError" where
  "db_err e = Database e"

definition sql :: "(nat \<Rightarrow> pg_tables \<Rightarrow> string + ('a \<times> pg_tables)) \<Rightarrow> (pg, ControllerError, 'a) op" where
  "sql q s =
    (let s' = s\<lparr>faults := tl (faults s)\<rparr> in
     case (case faults s of [] \<Rightarrow> None | f # _ \<Rightarrow> f) of
       Some (Refused e) \<Rightarrow> (Inl (db_err e), s')
     | Some (AckLost e) \<Rightarrow> (case q (pg_now s) (db s) of
           Inl e' \<Rightarrow> (Inl (db_err e'), s') | Inr (_, t) \<Rightarrow> (Inl (db_err e), s'\<lparr>db := t\<rparr>))
     | None \<Rightarrow> (case q (pg_now s) (db s) of
           Inl e \<Rightarrow> (Inl (db_err e), s') | Inr (a, t) \<Rightarrow> (Inr a, s'\<lparr>db := t\<rparr>)))"

text \<open>A transaction body ends with \<open>tx.commit()\<close> or returns and drops (rolls back) the transaction.\<close>

datatype 'a tx_end = Commit 'a | Rollback 'a

definition roll_back :: "pg \<Rightarrow> pg \<Rightarrow> pg" where
  "roll_back s0 s = s\<lparr>db := db s0\<rparr>"

definition nop_stmt :: "nat \<Rightarrow> pg_tables \<Rightarrow> string + (unit \<times> pg_tables)" where
  "nop_stmt now t = Inr ((), t)"

definition commit_tx :: "pg \<Rightarrow> 'a \<Rightarrow> (pg, ControllerError, 'a) op" where
  "commit_tx s0 a s =
    (let s' = s\<lparr>faults := tl (faults s)\<rparr> in
     case (case faults s of [] \<Rightarrow> None | f # _ \<Rightarrow> f) of
       Some (Refused e) \<Rightarrow> (Inl (db_err e), roll_back s0 s')
     | Some (AckLost e) \<Rightarrow> (Inl (db_err e), s')
     | None \<Rightarrow> (Inr a, s'))"

definition transaction :: "(pg, ControllerError, 'a tx_end) op \<Rightarrow> (pg, ControllerError, 'a) op" where
  "transaction body = then_op (sql nop_stmt) (\<lambda>s0.
     case body s0 of
       (Inl e, s) \<Rightarrow> (Inl e, roll_back s0 s)
     | (Inr (Rollback a), s) \<Rightarrow> (Inr a, roll_back s0 s)
     | (Inr (Commit a), s) \<Rightarrow> commit_tx s0 a s)"

text \<open>The conditions under which the server rejects a statement.\<close>

definition fk_violation :: string where "fk_violation = ''violates foreign key constraint''"
definition unique_violation :: string where "unique_violation = ''violates unique constraint''"
definition integer_out_of_range :: string where "integer_out_of_range = ''integer out of range''"
definition bigint_out_of_range :: string where "bigint_out_of_range = ''bigint out of range''"

section \<open>Row mapping\<close>

fun state_to_str :: "AgentState \<Rightarrow> string" where
  "state_to_str Active = ''active''"
| "state_to_str Dead = ''dead''"

definition state_from_str :: "string \<Rightarrow> AgentState" where
  "state_from_str s = (if s = ''dead'' then Dead else Active)"

definition into_record :: "uuid \<Rightarrow> agent_row \<Rightarrow> AgentRecord" where
  "into_record a r =
    \<lparr> ar_agent_id = AgentId a,
      ar_capacity = \<lparr> ac_cpu_cores = i32_as_u32 (cpu_cores r), ac_memory_bytes = i64_as_u64 (memory_bytes r) \<rparr>,
      ar_available = \<lparr> av_cpu_millicores = i32_as_u32 (available_cpu_millicores r),
        av_memory_bytes = i64_as_u64 (available_memory_bytes r),
        av_running_sandboxes = i32_as_u32 (running_sandboxes r) \<rparr>,
      ar_state = state_from_str (agent_state r) \<rparr>"

section \<open>Notifications\<close>

definition json_quote :: "string \<Rightarrow> string" where
  "json_quote s = [CHR 0x22] @ s @ [CHR 0x22]"

definition routing_payload :: "uuid_lib \<Rightarrow> string \<Rightarrow> uuid \<Rightarrow> uuid option \<Rightarrow> string" where
  "routing_payload U opn sid aid = (case aid of
      Some a \<Rightarrow> ''{'' @ json_quote ''op'' @ '':'' @ json_quote opn @ '','' @
        json_quote ''sandbox_id'' @ '':'' @ json_quote (uuid_to_string U sid) @ '','' @
        json_quote ''agent_id'' @ '':'' @ json_quote (uuid_to_string U a) @ ''}''
    | None \<Rightarrow> ''{'' @ json_quote ''op'' @ '':'' @ json_quote opn @ '','' @
        json_quote ''sandbox_id'' @ '':'' @ json_quote (uuid_to_string U sid) @ ''}'')"

definition notify_routing_change ::
    "uuid_lib \<Rightarrow> string \<Rightarrow> uuid \<Rightarrow> uuid option \<Rightarrow> (pg, ControllerError, unit) op" where
  "notify_routing_change U opn sid aid =
    sql (\<lambda>_ t. Inr ((), t\<lparr>notifications := notifications t @ [routing_payload U opn sid aid]\<rparr>))"

section \<open>Operations\<close>

definition pg_save_agent :: "AgentRecord \<Rightarrow> (pg, ControllerError, unit) op" where
  "pg_save_agent r = sql (\<lambda>now t.
    let k = agent_uuid (ar_agent_id r);
        beat = (case tbl_get (agents t) k of None \<Rightarrow> now | Some old \<Rightarrow> last_heartbeat_at old)
    in Inr ((), t\<lparr>agents := tbl_put k
      \<lparr> cpu_cores = as_i32 (ac_cpu_cores (ar_capacity r)),
        memory_bytes = as_i64 (ac_memory_bytes (ar_capacity r)),
        available_cpu_millicores = as_i32 (av_cpu_millicores (ar_available r)),
        available_memory_bytes = as_i64 (av_memory_bytes (ar_available r)),
        running_sandboxes = as_i32 (av_running_sandboxes (ar_available r)),
        agent_state = state_to_str (ar_state r),
        last_heartbeat_at = beat \<rparr> (agents t)\<rparr>))"

definition pg_get_agent :: "AgentId \<Rightarrow> (pg, ControllerError, AgentRecord option) op" where
  "pg_get_agent a = sql (\<lambda>_ t.
    Inr (map_option (into_record (agent_uuid a)) (tbl_get (agents t) (agent_uuid a)), t))"

definition pg_remove_agent :: "AgentId \<Rightarrow> (pg, ControllerError, unit) op" where
  "pg_remove_agent a = sql (\<lambda>_ t.
    if \<exists>(_, owner) \<in> set (routing_entries t). owner = agent_uuid a \<and> tbl_get (agents t) owner \<noteq> None
    then Inl fk_violation
    else Inr ((), t\<lparr>agents := tbl_del (agent_uuid a) (agents t)\<rparr>))"

definition pg_list_active_agents :: "(pg, ControllerError, AgentRecord list) op" where
  "pg_list_active_agents = sql (\<lambda>_ t.
    Inr (map (\<lambda>(a, r). into_record a r) (filter (\<lambda>(_, r). agent_state r = ''active'') (agents t)), t))"

definition set_agent_state :: "uuid \<Rightarrow> AgentState \<Rightarrow> pg_tables \<Rightarrow> nat \<times> pg_tables" where
  "set_agent_state a st t = (case tbl_get (agents t) a of
      None \<Rightarrow> (0, t)
    | Some r \<Rightarrow> (1, t\<lparr>agents := tbl_put a (r\<lparr>agent_state := state_to_str st\<rparr>) (agents t)\<rparr>))"

definition pg_update_agent_state ::
    "uuid_lib \<Rightarrow> AgentId \<Rightarrow> AgentState \<Rightarrow> (pg, ControllerError, unit) op" where
  "pg_update_agent_state U a st =
    bind_op (sql (\<lambda>_ t. Inr (set_agent_state (agent_uuid a) st t))) (\<lambda>n.
      if n = 0 then err_op (AgentNotFound (AgentId_to_string U a)) else ok_op ())"

definition insert_route :: "bool \<Rightarrow> uuid \<Rightarrow> uuid \<Rightarrow> pg_tables \<Rightarrow> string + (unit \<times> pg_tables)" where
  "insert_route on_conflict_update sid aid t =
    (if tbl_get (routing_entries t) sid \<noteq> None \<and> \<not> on_conflict_update
     then Inl unique_violation
     else if tbl_get (agents t) aid = None
     then Inl fk_violation
     else Inr ((), t\<lparr>routing_entries := tbl_put sid aid (routing_entries t)\<rparr>))"

definition pg_insert_routing_entry ::
    "uuid_lib \<Rightarrow> RoutingEntry \<Rightarrow> (pg, ControllerError, unit) op" where
  "pg_insert_routing_entry U e =
    (let sid = sandbox_uuid (re_sandbox_id e); aid = agent_uuid (re_agent_id e) in
     transaction
       (then_op (sql (\<lambda>_. insert_route True sid aid))
       (then_op (notify_routing_change U ''insert'' sid (Some aid))
       (ok_op (Commit ())))))"

definition routes_of_agent :: "uuid \<Rightarrow> pg_tables \<Rightarrow> uuid list" where
  "routes_of_agent a t = map fst (filter (\<lambda>(_, owner). owner = a) (routing_entries t))"

definition delete_routes_of_agent :: "uuid \<Rightarrow> pg_tables \<Rightarrow> pg_tables" where
  "delete_routes_of_agent a t =
    t\<lparr>routing_entries := tbl_retain (\<lambda>_ owner. owner \<noteq> a) (routing_entries t)\<rparr>"

definition pg_remove_routing_entries_for_agent ::
    "uuid_lib \<Rightarrow> AgentId \<Rightarrow> (pg, ControllerError, unit) op" where
  "pg_remove_routing_entries_for_agent U a = transaction
    (bind_op (sql (\<lambda>_ t. Inr (routes_of_agent (agent_uuid a) t, t))) (\<lambda>rows.
     then_op (sql (\<lambda>_ t. Inr ((), delete_routes_of_agent (agent_uuid a) t)))
     (then_op (each_op (\<lambda>sid. notify_routing_change U ''remove'' sid None) rows)
     (ok_op (Commit ())))))"

definition pg_find_routing_entry :: "SandboxId \<Rightarrow> (pg, ControllerError, RoutingEntry option) op" where
  "pg_find_routing_entry sid = sql (\<lambda>_ t.
    Inr (map_option (\<lambda>a. \<lparr> re_sandbox_id = sid, re_agent_id = AgentId a \<rparr>)
           (tbl_get (routing_entries t) (sandbox_uuid sid)), t))"

definition pg_list_routing_entries :: "(pg, ControllerError, RoutingEntry list) op" where
  "pg_list_routing_entries = sql (\<lambda>_ t.
    Inr (map (\<lambda>(s, a). \<lparr> re_sandbox_id = SandboxId s, re_agent_id = AgentId a \<rparr>)
           (sort_key fst (routing_entries t)), t))"

definition pg_remove_routing_entry :: "uuid_lib \<Rightarrow> SandboxId \<Rightarrow> (pg, ControllerError, unit) op" where
  "pg_remove_routing_entry U sid = transaction
    (then_op (sql (\<lambda>_ t. Inr ((), t\<lparr>routing_entries := tbl_del (sandbox_uuid sid) (routing_entries t)\<rparr>)))
    (then_op (notify_routing_change U ''remove'' (sandbox_uuid sid) None)
    (ok_op (Commit ()))))"

definition pg_save_sandbox_state ::
    "SandboxId \<Rightarrow> AgentId \<Rightarrow> string \<Rightarrow> string option \<Rightarrow> (pg, ControllerError, unit) op" where
  "pg_save_sandbox_state sid aid st err = sql (\<lambda>_ t.
    let k = sandbox_uuid sid in
    Inr ((), t\<lparr>sandboxes := tbl_put k (case tbl_get (sandboxes t) k of
        None \<Rightarrow> \<lparr> sr_agent_id = agent_uuid aid, sr_state = st, sr_error = err,
                  sr_cpu_millicores = 0, sr_memory_bytes = 0 \<rparr>
      | Some old \<Rightarrow> old\<lparr>sr_state := st, sr_error := err\<rparr>) (sandboxes t)\<rparr>))"

definition pg_get_sandbox_state :: "SandboxId \<Rightarrow> (pg, ControllerError, SandboxStateRow option) op" where
  "pg_get_sandbox_state sid = sql (\<lambda>_ t.
    Inr (map_option (\<lambda>r. \<lparr> ss_state = sr_state r, ss_error = sr_error r \<rparr>)
           (tbl_get (sandboxes t) (sandbox_uuid sid)), t))"

definition mark_dead_tx :: "uuid_lib \<Rightarrow> AgentId \<Rightarrow> (pg, ControllerError, unit tx_end) op" where
  "mark_dead_tx U a =
    (bind_op (sql (\<lambda>_ t. Inr (set_agent_state (agent_uuid a) Dead t))) (\<lambda>n.
     if n = 0 then err_op (AgentNotFound (AgentId_to_string U a))
     else bind_op (sql (\<lambda>_ t. Inr (routes_of_agent (agent_uuid a) t, t))) (\<lambda>affected.
       then_op (sql (\<lambda>_ t. Inr ((), delete_routes_of_agent (agent_uuid a) t)))
       (then_op (each_op (\<lambda>sid. notify_routing_change U ''remove'' sid None) affected)
       (ok_op (Commit ()))))))"

definition pg_mark_agent_dead_atomic :: "uuid_lib \<Rightarrow> AgentId \<Rightarrow> (pg, ControllerError, unit) op" where
  "pg_mark_agent_dead_atomic U a = transaction (mark_dead_tx U a)"

definition reserve_agent :: "i32 \<Rightarrow> i64 \<Rightarrow> agent_row \<Rightarrow> agent_row" where
  "reserve_agent cpu mem r = r\<lparr>
     available_cpu_millicores := available_cpu_millicores r - cpu,
     available_memory_bytes := available_memory_bytes r - mem,
     running_sandboxes := running_sandboxes r + 1\<rparr>"

definition reserve_row :: "uuid \<Rightarrow> i32 \<Rightarrow> i64 \<Rightarrow> pg_tables \<Rightarrow> string + (unit \<times> pg_tables)" where
  "reserve_row a cpu mem t = (case tbl_get (agents t) a of
      None \<Rightarrow> Inr ((), t)
    | Some r \<Rightarrow>
        if \<not> in_i32 (available_cpu_millicores r - cpu) \<or> \<not> in_i32 (running_sandboxes r + 1)
        then Inl integer_out_of_range
        else if \<not> in_i64 (available_memory_bytes r - mem) then Inl bigint_out_of_range
        else Inr ((), t\<lparr>agents := tbl_put a (reserve_agent cpu mem r) (agents t)\<rparr>))"

definition upsert_reservation :: "uuid \<Rightarrow> uuid \<Rightarrow> i32 \<Rightarrow> i64 \<Rightarrow> pg_tables \<Rightarrow> pg_tables" where
  "upsert_reservation sid a cpu mem t =
    t\<lparr>sandboxes := tbl_put sid (case tbl_get (sandboxes t) sid of
        None \<Rightarrow> \<lparr> sr_agent_id = a, sr_state = ''reserved'', sr_error = None,
                  sr_cpu_millicores = cpu, sr_memory_bytes = mem \<rparr>
      | Some old \<Rightarrow> old\<lparr>sr_agent_id := a, sr_cpu_millicores := cpu, sr_memory_bytes := mem\<rparr>)
      (sandboxes t)\<rparr>"

definition try_assign_tx :: "uuid_lib \<Rightarrow> AgentId \<Rightarrow> SandboxId \<Rightarrow> u32 \<Rightarrow> u64 \<Rightarrow> (pg, ControllerError, bool tx_end) op" where
  "try_assign_tx U aid sid cpu mem =
    (bind_op (sql (\<lambda>_ t. Inr (map_option (\<lambda>r. (available_cpu_millicores r, available_memory_bytes r,
                agent_state r)) (tbl_get (agents t) (agent_uuid aid)), t))) (\<lambda>row.
     case row of
       None \<Rightarrow> err_op (AgentNotFound (AgentId_to_string U aid))
     | Some (avail_cpu, avail_mem, st) \<Rightarrow>
         if st \<noteq> ''active'' then ok_op (Rollback False)
         else if i32_as_u32 avail_cpu < cpu \<or> i64_as_u64 avail_mem < mem then ok_op (Rollback False)
         else
           then_op (sql (\<lambda>_. reserve_row (agent_uuid aid) (as_i32 cpu) (as_i64 mem)))
           (then_op (sql (\<lambda>_. insert_route False (sandbox_uuid sid) (agent_uuid aid)))
           (then_op (notify_routing_change U ''insert'' (sandbox_uuid sid) (Some (agent_uuid aid)))
           (then_op (sql (\<lambda>_ t. Inr ((), upsert_reservation (sandbox_uuid sid) (agent_uuid aid)
                       (as_i32 cpu) (as_i64 mem) t)))
           (ok_op (Commit True)))))))"

definition pg_try_assign_sandbox ::
    "uuid_lib \<Rightarrow> AgentId \<Rightarrow> SandboxId \<Rightarrow> u32 \<Rightarrow> u64 \<Rightarrow> (pg, ControllerError, bool) op" where
  "pg_try_assign_sandbox U aid sid cpu mem = transaction (try_assign_tx U aid sid cpu mem)"

definition pg_record_heartbeat :: "AgentId \<Rightarrow> (pg, ControllerError, unit) op" where
  "pg_record_heartbeat a = sql (\<lambda>now t. Inr ((), case tbl_get (agents t) (agent_uuid a) of
      None \<Rightarrow> t
    | Some r \<Rightarrow> t\<lparr>agents := tbl_put (agent_uuid a) (r\<lparr>last_heartbeat_at := now\<rparr>) (agents t)\<rparr>))"

text \<open>Times are nanoseconds; \<open>now() - threshold\<close> is an earlier time, so the comparison is
  written with an addition.\<close>

definition pg_dead_agents :: "(pg, ControllerError, AgentId list) op" where
  "pg_dead_agents = sql (\<lambda>now t. Inr (map (\<lambda>(a, _). AgentId a)
    (filter (\<lambda>(_, r). agent_state r = ''active'' \<and> last_heartbeat_at r + DEAD_AGENT_TIMEOUT < now)
      (agents t)), t))"

definition release_agent :: "i32 \<Rightarrow> i64 \<Rightarrow> agent_row \<Rightarrow> agent_row" where
  "release_agent cpu mem r = r\<lparr>
     available_cpu_millicores := available_cpu_millicores r + cpu,
     available_memory_bytes := available_memory_bytes r + mem,
     running_sandboxes := max (running_sandboxes r - 1) 0\<rparr>"

definition release_row :: "uuid \<Rightarrow> i32 \<Rightarrow> i64 \<Rightarrow> pg_tables \<Rightarrow> string + (unit \<times> pg_tables)" where
  "release_row a cpu mem t = (case tbl_get (agents t) a of
      None \<Rightarrow> Inr ((), t)
    | Some r \<Rightarrow>
        if \<not> in_i32 (available_cpu_millicores r + cpu) \<or> \<not> in_i32 (running_sandboxes r - 1)
        then Inl integer_out_of_range
        else if \<not> in_i64 (available_memory_bytes r + mem) then Inl bigint_out_of_range
        else Inr ((), t\<lparr>agents := tbl_put a (release_agent cpu mem r) (agents t)\<rparr>))"

definition release_tx :: "uuid_lib \<Rightarrow> SandboxId \<Rightarrow> (pg, ControllerError, AgentId option tx_end) op" where
  "release_tx U sid =
    (bind_op (sql (\<lambda>_ t. Inr (map_option (\<lambda>r. (sr_agent_id r, sr_cpu_millicores r, sr_memory_bytes r))
                (tbl_get (sandboxes t) (sandbox_uuid sid)), t))) (\<lambda>row.
     case row of
       None \<Rightarrow> ok_op (Rollback None)
     | Some (a, cpu, mem) \<Rightarrow>
         then_op (sql (\<lambda>_. release_row a cpu mem))
         (then_op (sql (\<lambda>_ t. Inr ((), t\<lparr>routing_entries := tbl_del (sandbox_uuid sid) (routing_entries t)\<rparr>)))
         (then_op (notify_routing_change U ''remove'' (sandbox_uuid sid) None)
         (then_op (sql (\<lambda>_ t. Inr ((), t\<lparr>sandboxes := tbl_del (sandbox_uuid sid) (sandboxes t)\<rparr>)))
         (ok_op (Commit (Some (AgentId a)))))))))"

definition pg_release_sandbox :: "uuid_lib \<Rightarrow> SandboxId \<Rightarrow> (pg, ControllerError, AgentId option) op" where
  "pg_release_sandbox U sid = transaction (release_tx U sid)"

definition PgStore :: "uuid_lib \<Rightarrow> pg ControllerStore" where
  "PgStore U = \<lparr> save_agent = pg_save_agent, get_agent = pg_get_agent, remove_agent = pg_remove_agent,
     list_active_agents = pg_list_active_agents, update_agent_state = pg_update_agent_state U,
     insert_routing_entry = pg_insert_routing_entry U,
     remove_routing_entries_for_agent = pg_remove_routing_entries_for_agent U,
     find_routing_entry = pg_find_routing_entry, list_routing_entries = pg_list_routing_entries,
     remove_routing_entry = pg_remove_routing_entry U, save_sandbox_state = pg_save_sandbox_state,
     get_sandbox_state = pg_get_sandbox_state, mark_agent_dead_atomic = pg_mark_agent_dead_atomic U,
     try_assign_sandbox = pg_try_assign_sandbox U, release_sandbox = pg_release_sandbox U,
     record_heartbeat = pg_record_heartbeat, dead_agents = pg_dead_agents \<rparr>"

section \<open>Statement and transaction lemmas\<close>

definition no_faults :: "db_fault option list \<Rightarrow> bool" where
  "no_faults fs \<longleftrightarrow> (\<forall>f\<in>set fs. f = None)"

definition pg_healthy :: "pg \<Rightarrow> bool" where
  "pg_healthy s \<longleftrightarrow> no_faults (faults s)"

lemma no_faults_simps [simp]: "no_faults []" "no_faults (f # fs) \<longleftrightarrow> f = None \<and> no_faults fs"
  "no_faults fs \<Longrightarrow> no_faults (tl fs)"
  by (simp_all add: no_faults_def) (cases fs; simp)

lemma sql_Inr: "sql q s = (Inr a, s') \<Longrightarrow> is_ok (q (pg_now s) (db s)) \<and>
    a = fst (projr (q (pg_now s) (db s))) \<and> db s' = snd (projr (q (pg_now s) (db s))) \<and> pg_now s' = pg_now s"
  by (auto simp: sql_def Let_def split: option.splits db_fault.splits sum.splits prod.splits list.splits)

lemma sql_db: "sql q s = (r, s') \<Longrightarrow> db s' = db s \<or>
    is_ok (q (pg_now s) (db s)) \<and> db s' = snd (projr (q (pg_now s) (db s)))"
  by (auto simp: sql_def Let_def split: option.splits db_fault.splits sum.splits prod.splits list.splits)

lemma sql_healthy:
  assumes "pg_healthy s"
  shows "sql q s = (case q (pg_now s) (db s) of
      Inl e \<Rightarrow> (Inl (db_err e), s\<lparr>faults := tl (faults s)\<rparr>)
    | Inr (a, t) \<Rightarrow> (Inr a, s\<lparr>faults := tl (faults s), db := t\<rparr>))"
  using assms by (cases "faults s") (simp_all add: sql_def Let_def pg_healthy_def split: sum.splits prod.splits)

lemma healthy_tl [simp]:
  "pg_healthy s \<Longrightarrow> pg_healthy (s\<lparr>faults := tl (faults s)\<rparr>)"
  "pg_healthy (s\<lparr>db := t\<rparr>) = pg_healthy s"
  by (simp_all add: pg_healthy_def)

lemma healthy_sql: "pg_healthy s \<Longrightarrow> sql q s = (r, s') \<Longrightarrow> pg_healthy s'"
  by (auto simp: sql_healthy split: sum.splits prod.splits)

lemma commit_tx_cases: "commit_tx s0 a s = (r, s') \<Longrightarrow>
    (db s' = db s \<and> (r = Inr a \<or> (\<exists>e. r = Inl e))) \<or> (db s' = db s0 \<and> (\<exists>e. r = Inl e))"
  by (auto simp: commit_tx_def roll_back_def Let_def split: option.splits db_fault.splits list.splits)

lemma transaction_db:
  assumes "transaction body s = (r, s')"
  shows "db s' = db s \<or> (\<exists>s0 s1 a. db s0 = db s \<and> body s0 = (Inr (Commit a), s1) \<and> db s' = db s1)"
proof (cases "sql nop_stmt s")
  case (Pair b s0)
  then have "db s0 = db s"
    by (auto dest: sql_db simp: nop_stmt_def)
  with assms Pair show ?thesis
    by (cases b) (auto simp: transaction_def then_op_def bind_op_def roll_back_def
        split: prod.splits sum.splits tx_end.splits dest!: commit_tx_cases)
qed

lemma transaction_Inr:
  assumes "transaction body s = (Inr a, s')"
  shows "(\<exists>s0 s1. db s0 = db s \<and> body s0 = (Inr (Commit a), s1) \<and> db s' = db s1) \<or>
    (\<exists>s0 s1. db s0 = db s \<and> body s0 = (Inr (Rollback a), s1) \<and> db s' = db s)"
proof (cases "sql nop_stmt s")
  case (Pair b s0)
  then have "db s0 = db s"
    by (auto dest: sql_db simp: nop_stmt_def)
  with assms Pair show ?thesis
    by (cases b) (auto simp: transaction_def then_op_def bind_op_def roll_back_def
        split: prod.splits sum.splits tx_end.splits dest!: commit_tx_cases)
qed

lemma bind_read:
  "bind_op (sql (\<lambda>_ t. Inr (f t, t))) g s = (Inr b, s') \<Longrightarrow>
    \<exists>s1. db s1 = db s \<and> g (f (db s)) s1 = (Inr b, s')"
  by (auto simp: bind_op_Inr dest!: sql_Inr)

lemma notify_Inr: "notify_routing_change U opn sid aid s = (Inr u, s') \<Longrightarrow>
    db s' = (db s)\<lparr>notifications := notifications (db s) @ [routing_payload U opn sid aid]\<rparr>"
  by (auto simp: notify_routing_change_def dest: sql_Inr)

lemma notify_each_Inr:
  "each_op (\<lambda>sid. notify_routing_change U ''remove'' sid None) sids s = (Inr u, s') \<Longrightarrow>
    db s' = (db s)\<lparr>notifications := notifications (db s) @ map (\<lambda>sid. routing_payload U ''remove'' sid None) sids\<rparr>"
proof (induction sids arbitrary: s)
  case (Cons sid sids)
  then obtain s1 where "notify_routing_change U ''remove'' sid None s = (Inr (), s1)"
    and "each_op (\<lambda>sid. notify_routing_change U ''remove'' sid None) sids s1 = (Inr u, s')"
    by (auto simp: then_op_Inr)
  with Cons.IH [of s1] show ?case
    by (auto dest!: notify_Inr)
qed (simp add: res_simps)

section \<open>What a committed transaction does\<close>

definition dead_effect :: "uuid_lib \<Rightarrow> uuid \<Rightarrow> agent_row \<Rightarrow> pg_tables \<Rightarrow> pg_tables" where
  "dead_effect U a r t =
    t\<lparr>agents := tbl_put a (r\<lparr>agent_state := ''dead''\<rparr>) (agents t),
      routing_entries := tbl_retain (\<lambda>_ owner. owner \<noteq> a) (routing_entries t),
      notifications := notifications t @
        map (\<lambda>sid. routing_payload U ''remove'' sid None) (routes_of_agent a t)\<rparr>"

definition assign_effect :: "uuid_lib \<Rightarrow> uuid \<Rightarrow> uuid \<Rightarrow> i32 \<Rightarrow> i64 \<Rightarrow> agent_row \<Rightarrow> pg_tables \<Rightarrow> pg_tables" where
  "assign_effect U a sid cpu mem r t = upsert_reservation sid a cpu mem
    (t\<lparr>agents := tbl_put a (reserve_agent cpu mem r) (agents t),
       routing_entries := tbl_put sid a (routing_entries t),
       notifications := notifications t @ [routing_payload U ''insert'' sid (Some a)]\<rparr>)"

definition release_effect :: "uuid_lib \<Rightarrow> uuid \<Rightarrow> sandbox_row \<Rightarrow> pg_tables \<Rightarrow> pg_tables" where
  "release_effect U sid b t =
    t\<lparr>agents := (case tbl_get (agents t) (sr_agent_id b) of
         None \<Rightarrow> agents t
       | Some r \<Rightarrow> tbl_put (sr_agent_id b) (release_agent (sr_cpu_millicores b) (sr_memory_bytes b) r) (agents t)),
      routing_entries := tbl_del sid (routing_entries t),
      sandboxes := tbl_del sid (sandboxes t),
      notifications := notifications t @ [routing_payload U ''remove'' sid None]\<rparr>"

lemma mark_dead_commit:
  assumes "mark_dead_tx U a s0 = (Inr (Commit u), s1)"
  shows "\<exists>r. tbl_get (agents (db s0)) (agent_uuid a) = Some r \<and> db s1 = dead_effect U (agent_uuid a) r (db s0)"
  using assms
  by (auto simp: mark_dead_tx_def op_results set_agent_state_def dead_effect_def
      routes_of_agent_def delete_routes_of_agent_def split: if_splits option.splits
      dest!: sql_Inr notify_each_Inr)

lemma mark_dead_no_rollback: "mark_dead_tx U a s0 \<noteq> (Inr (Rollback u), s1)"
  by (auto simp: mark_dead_tx_def op_results split: if_splits)

lemma try_assign_commit:
  assumes "try_assign_tx U a sid cpu mem s0 = (Inr (Commit b), s1)"
  shows "b \<and> (\<exists>r. tbl_get (agents (db s0)) (agent_uuid a) = Some r \<and> agent_state r = ''active'' \<and>
      cpu \<le> i32_as_u32 (available_cpu_millicores r) \<and> mem \<le> i64_as_u64 (available_memory_bytes r) \<and>
      in_i32 (available_cpu_millicores r - as_i32 cpu) \<and> in_i32 (running_sandboxes r + 1) \<and>
      in_i64 (available_memory_bytes r - as_i64 mem) \<and>
      tbl_get (routing_entries (db s0)) (sandbox_uuid sid) = None \<and>
      db s1 = assign_effect U (agent_uuid a) (sandbox_uuid sid) (as_i32 cpu) (as_i64 mem) r (db s0))"
proof -
  let ?a = "agent_uuid a" and ?sid = "sandbox_uuid sid"
  from bind_read [OF assms [unfolded try_assign_tx_def]] obtain r s' where
    r: "tbl_get (agents (db s0)) ?a = Some r" "agent_state r = ''active''"
      "cpu \<le> i32_as_u32 (available_cpu_millicores r)" "mem \<le> i64_as_u64 (available_memory_bytes r)"
    and s': "db s' = db s0"
    and run: "then_op (sql (\<lambda>_. reserve_row ?a (as_i32 cpu) (as_i64 mem)))
       (then_op (sql (\<lambda>_. insert_route False ?sid ?a))
       (then_op (notify_routing_change U ''insert'' ?sid (Some ?a))
       (then_op (sql (\<lambda>_ t. Inr ((), upsert_reservation ?sid ?a (as_i32 cpu) (as_i64 mem) t)))
       (ok_op (Commit True))))) s' = (Inr (Commit b), s1)"
    by (auto simp: ok_op_simps not_less split: if_splits option.splits)
  from run obtain sa sb sc where
    "sql (\<lambda>_. reserve_row ?a (as_i32 cpu) (as_i64 mem)) s' = (Inr (), sa)"
    "sql (\<lambda>_. insert_route False ?sid ?a) sa = (Inr (), sb)"
    "notify_routing_change U ''insert'' ?sid (Some ?a) sb = (Inr (), sc)"
    "sql (\<lambda>_ t. Inr ((), upsert_reservation ?sid ?a (as_i32 cpu) (as_i64 mem) t)) sc = (Inr (), s1)"
    and "b"
    by (auto simp: op_results)
  note steps = \<open>sql (\<lambda>_. reserve_row ?a (as_i32 cpu) (as_i64 mem)) s' = (Inr (), sa)\<close> [THEN sql_Inr]
    \<open>sql (\<lambda>_. insert_route False ?sid ?a) sa = (Inr (), sb)\<close> [THEN sql_Inr]
    \<open>notify_routing_change U ''insert'' ?sid (Some ?a) sb = (Inr (), sc)\<close> [THEN notify_Inr]
    \<open>sql (\<lambda>_ t. Inr ((), upsert_reservation ?sid ?a (as_i32 cpu) (as_i64 mem) t)) sc = (Inr (), s1)\<close> [THEN sql_Inr]
  from steps(1) r s' have 1: "db sa = (db s0)\<lparr>agents := tbl_put ?a (reserve_agent (as_i32 cpu) (as_i64 mem) r) (agents (db s0))\<rparr>"
    "in_i32 (available_cpu_millicores r - as_i32 cpu)" "in_i32 (running_sandboxes r + 1)"
    "in_i64 (available_memory_bytes r - as_i64 mem)"
    by (simp_all add: reserve_row_def split: if_splits)
  from steps(2) have 2: "db sb = (db sa)\<lparr>routing_entries := tbl_put ?sid ?a (routing_entries (db sa))\<rparr>"
    "tbl_get (routing_entries (db sa)) ?sid = None"
    by (auto simp: insert_route_def split: if_splits)
  from steps(4) have 4: "db s1 = upsert_reservation ?sid ?a (as_i32 cpu) (as_i64 mem) (db sc)"
    by simp
  have "db s1 = assign_effect U ?a ?sid (as_i32 cpu) (as_i64 mem) r (db s0)"
    unfolding assign_effect_def 4 steps(3) 2(1) 1(1) by simp
  with r 1 2(2) \<open>b\<close> show ?thesis by auto
qed

lemma try_assign_rollback:
  assumes "try_assign_tx U a sid cpu mem s0 = (Inr (Rollback b), s1)"
  shows "\<not> b \<and> (\<exists>r. tbl_get (agents (db s0)) (agent_uuid a) = Some r \<and>
      (agent_state r \<noteq> ''active'' \<or> i32_as_u32 (available_cpu_millicores r) < cpu \<or>
       i64_as_u64 (available_memory_bytes r) < mem))"
  using bind_read [OF assms [unfolded try_assign_tx_def]]
  by (auto simp: op_results split: if_splits option.splits)

lemma release_commit:
  assumes "release_tx U sid s0 = (Inr (Commit h), s1)"
  shows "\<exists>b. tbl_get (sandboxes (db s0)) (sandbox_uuid sid) = Some b \<and> h = Some (AgentId (sr_agent_id b)) \<and>
      (\<forall>r. tbl_get (agents (db s0)) (sr_agent_id b) = Some r \<longrightarrow>
         in_i32 (available_cpu_millicores r + sr_cpu_millicores b) \<and>
         in_i64 (available_memory_bytes r + sr_memory_bytes b)) \<and>
      db s1 = release_effect U (sandbox_uuid sid) b (db s0)"
proof (cases "tbl_get (sandboxes (db s0)) (sandbox_uuid sid)")
  case None
  then show ?thesis
    using bind_read [OF assms [unfolded release_tx_def]] by (auto simp: op_results)
next
  case (Some b)
  then have "h = Some (AgentId (sr_agent_id b)) \<and>
      (\<forall>r. tbl_get (agents (db s0)) (sr_agent_id b) = Some r \<longrightarrow>
         in_i32 (available_cpu_millicores r + sr_cpu_millicores b) \<and>
         in_i64 (available_memory_bytes r + sr_memory_bytes b)) \<and>
      db s1 = release_effect U (sandbox_uuid sid) b (db s0)"
    using bind_read [OF assms [unfolded release_tx_def]]
    by (cases "tbl_get (agents (db s0)) (sr_agent_id b)")
      (auto simp: op_results release_effect_def release_row_def
        split: if_splits dest!: sql_Inr notify_Inr)
  with Some show ?thesis by blast
qed

lemma release_rollback:
  assumes "release_tx U sid s0 = (Inr (Rollback h), s1)"
  shows "h = None \<and> tbl_get (sandboxes (db s0)) (sandbox_uuid sid) = None"
  using bind_read [OF assms [unfolded release_tx_def]]
  by (auto simp: op_results split: option.splits)

section \<open>Invariant and views\<close>

definition row_ok :: "agent_row \<Rightarrow> bool" where
  "row_ok r \<longleftrightarrow> (agent_state r = ''active'' \<or> agent_state r = ''dead'') \<and>
    0 \<le> available_cpu_millicores r \<and> in_i32 (available_cpu_millicores r) \<and>
    0 \<le> available_memory_bytes r \<and> in_i64 (available_memory_bytes r) \<and>
    0 \<le> running_sandboxes r \<and> in_i32 (running_sandboxes r)"

definition reservation_ok :: "sandbox_row \<Rightarrow> bool" where
  "reservation_ok b \<longleftrightarrow> 0 \<le> sr_cpu_millicores b \<and> in_i32 (sr_cpu_millicores b) \<and>
    0 \<le> sr_memory_bytes b \<and> in_i64 (sr_memory_bytes b)"

definition tables_wf :: "pg_tables \<Rightarrow> bool" where
  "tables_wf t \<longleftrightarrow> tbl_ok (agents t) \<and> tbl_ok (routing_entries t) \<and> tbl_ok (sandboxes t) \<and>
    (\<forall>a r. tbl_get (agents t) a = Some r \<longrightarrow> row_ok r) \<and>
    (\<forall>sid b. tbl_get (sandboxes t) sid = Some b \<longrightarrow> reservation_ok b) \<and>
    (\<forall>sid a. tbl_get (routing_entries t) sid = Some a \<longrightarrow> tbl_get (agents t) a \<noteq> None)"

definition pg_wf :: "pg \<Rightarrow> bool" where
  "pg_wf s \<longleftrightarrow> tables_wf (db s)"

definition pg_agent_of :: "pg \<Rightarrow> AgentId \<Rightarrow> AgentRecord option" where
  "pg_agent_of s a = map_option (into_record (agent_uuid a)) (tbl_get (agents (db s)) (agent_uuid a))"

definition pg_route_of :: "pg \<Rightarrow> SandboxId \<Rightarrow> AgentId option" where
  "pg_route_of s sid = map_option AgentId (tbl_get (routing_entries (db s)) (sandbox_uuid sid))"

definition pg_reservation_of :: "pg \<Rightarrow> SandboxId \<Rightarrow> (AgentId \<times> u32 \<times> u64) option" where
  "pg_reservation_of s sid = map_option (\<lambda>b. (AgentId (sr_agent_id b),
     i32_as_u32 (sr_cpu_millicores b), i64_as_u64 (sr_memory_bytes b)))
     (tbl_get (sandboxes (db s)) (sandbox_uuid sid))"

lemmas pg_views = pg_agent_of_def pg_route_of_def pg_reservation_of_def

lemma pg_views_cong:
  "db s' = db s \<Longrightarrow> pg_agent_of s' = pg_agent_of s"
  "db s' = db s \<Longrightarrow> pg_route_of s' = pg_route_of s"
  "db s' = db s \<Longrightarrow> pg_reservation_of s' = pg_reservation_of s"
  "db s' = db s \<Longrightarrow> pg_wf s' = pg_wf s"
  by (simp_all add: pg_views pg_wf_def fun_eq_iff)

lemma uuid_eq [simp]: "agent_uuid a = agent_uuid b \<longleftrightarrow> a = b" "sandbox_uuid x = sandbox_uuid y \<longleftrightarrow> x = y"
  by (cases a; cases b; simp) (cases x; cases y; simp)

lemma u32_arith: "i32_as_u32 (x - as_i32 c) = i32_as_u32 x - c" "i32_as_u32 (x + y) = i32_as_u32 x + i32_as_u32 y"
  "i32_as_u32 (x - 1) = i32_as_u32 x - 1" "i32_as_u32 1 = 1" "i32_as_u32 0 = 0"
  by (simp_all add: i32_as_u32_def as_i32_def)

lemma u64_arith: "i64_as_u64 (x - as_i64 c) = i64_as_u64 x - c" "i64_as_u64 (x + y) = i64_as_u64 x + i64_as_u64 y"
  by (simp_all add: i64_as_u64_def as_i64_def)

lemma i32_as_u32_eq_0: "0 \<le> x \<Longrightarrow> in_i32 x \<Longrightarrow> i32_as_u32 x = 0 \<longleftrightarrow> x = 0"
  using unat_i32_as_u32 [of x] by (auto simp: u32_arith)

lemma into_record_reserve:
  "into_record a (reserve_agent (as_i32 cpu) (as_i64 mem) r) = debit cpu mem (into_record a r)"
  by (simp add: into_record_def reserve_agent_def debit_def u32_arith u64_arith)

lemma into_record_release:
  "row_ok r \<Longrightarrow> into_record a (release_agent c m r) = credit (i32_as_u32 c) (i64_as_u64 m) (into_record a r)"
  by (cases "running_sandboxes r = 1")
    (auto simp: into_record_def release_agent_def credit_def u32_arith u64_arith row_ok_def
      i32_as_u32_eq_0 max_def)

lemma as_i32_bounds:
  assumes "cpu \<le> i32_as_u32 x" "0 \<le> x" "in_i32 x"
  shows "0 \<le> as_i32 cpu \<and> as_i32 cpu \<le> x"
proof -
  have "uint cpu \<le> x"
    using assms unat_i32_as_u32 [of x] by (simp add: word_le_def)
  moreover from this have "as_i32 cpu = uint cpu"
    using assms(3) sint_eq_uint_below [of cpu] by (simp add: in_i32_def as_i32_def)
  ultimately show ?thesis by simp
qed

lemma as_i64_bounds:
  assumes "mem \<le> i64_as_u64 x" "0 \<le> x" "in_i64 x"
  shows "0 \<le> as_i64 mem \<and> as_i64 mem \<le> x"
proof -
  have "uint mem \<le> x"
    using assms unat_i64_as_u64 [of x] by (simp add: word_le_def)
  moreover from this have "as_i64 mem = uint mem"
    using assms(3) sint_eq_uint_below [of mem] by (simp add: in_i64_def as_i64_def)
  ultimately show ?thesis by simp
qed

lemma row_ok_reserve:
  assumes "row_ok r" "cpu \<le> i32_as_u32 (available_cpu_millicores r)"
    "mem \<le> i64_as_u64 (available_memory_bytes r)" "in_i32 (running_sandboxes r + 1)"
  shows "row_ok (reserve_agent (as_i32 cpu) (as_i64 mem) r)"
  using assms as_i32_bounds [of cpu "available_cpu_millicores r"] as_i64_bounds [of mem "available_memory_bytes r"]
  by (auto simp: row_ok_def reserve_agent_def in_i32_def in_i64_def)

lemma row_ok_release:
  assumes "row_ok r" "0 \<le> c" "0 \<le> m" "in_i32 (available_cpu_millicores r + c)" "in_i64 (available_memory_bytes r + m)"
  shows "row_ok (release_agent c m r)"
  using assms by (auto simp: row_ok_def release_agent_def in_i32_def in_i64_def)

lemma row_ok_frame [simp]: "row_ok (r\<lparr>last_heartbeat_at := n\<rparr>) = row_ok r"
  "row_ok r \<Longrightarrow> row_ok (r\<lparr>agent_state := state_to_str st\<rparr>)"
  by (simp_all add: row_ok_def) (cases st; simp)

lemma tables_wf_dead:
  "tables_wf t \<Longrightarrow> tbl_get (agents t) a = Some r \<Longrightarrow> tables_wf (dead_effect U a r t)"
  by (auto simp: tables_wf_def dead_effect_def table_simps row_ok_def split: option.splits if_splits)

lemma tables_wf_assign:
  assumes "tables_wf t" "tbl_get (agents t) a = Some r" "cpu \<le> i32_as_u32 (available_cpu_millicores r)"
    "mem \<le> i64_as_u64 (available_memory_bytes r)" "in_i32 (running_sandboxes r + 1)"
  shows "tables_wf (assign_effect U a sid (as_i32 cpu) (as_i64 mem) r t)"
proof -
  have ok: "row_ok r" using assms(1,2) by (auto simp: tables_wf_def)
  then have "row_ok (reserve_agent (as_i32 cpu) (as_i64 mem) r)"
    using assms by (intro row_ok_reserve)
  moreover have "0 \<le> as_i32 cpu" "0 \<le> as_i64 mem"
    using ok assms as_i32_bounds [of cpu] as_i64_bounds [of mem] by (auto simp: row_ok_def)
  ultimately show ?thesis
    using assms(1)
    by (auto simp: tables_wf_def assign_effect_def upsert_reservation_def table_simps reservation_ok_def
        split: option.splits if_splits)
qed

lemma tables_wf_release:
  assumes "tables_wf t" "tbl_get (sandboxes t) sid = Some b"
    "\<forall>r. tbl_get (agents t) (sr_agent_id b) = Some r \<longrightarrow>
       in_i32 (available_cpu_millicores r + sr_cpu_millicores b) \<and>
       in_i64 (available_memory_bytes r + sr_memory_bytes b)"
  shows "tables_wf (release_effect U sid b t)"
proof -
  have b: "reservation_ok b" using assms(1,2) by (auto simp: tables_wf_def)
  have "row_ok (release_agent (sr_cpu_millicores b) (sr_memory_bytes b) r)"
    if "tbl_get (agents t) (sr_agent_id b) = Some r" for r
    using that assms(1,3) b by (intro row_ok_release) (auto simp: tables_wf_def reservation_ok_def)
  with assms(1) show ?thesis
    by (auto simp: tables_wf_def release_effect_def table_simps split: option.splits if_splits)
qed

lemma pg_wf_mark_dead: "pg_wf s \<Longrightarrow> pg_mark_agent_dead_atomic U a s = (r, s') \<Longrightarrow> pg_wf s'"
  unfolding pg_mark_agent_dead_atomic_def pg_wf_def
  by (drule transaction_db) (auto dest!: mark_dead_commit intro!: tables_wf_dead)

lemma pg_wf_try_assign: "pg_wf s \<Longrightarrow> pg_try_assign_sandbox U a sid cpu mem s = (r, s') \<Longrightarrow> pg_wf s'"
  unfolding pg_try_assign_sandbox_def pg_wf_def
  by (drule transaction_db) (auto dest!: try_assign_commit intro!: tables_wf_assign)

lemma pg_wf_release: "pg_wf s \<Longrightarrow> pg_release_sandbox U sid s = (r, s') \<Longrightarrow> pg_wf s'"
  unfolding pg_release_sandbox_def pg_wf_def
  by (drule transaction_db) (auto dest!: release_commit intro!: tables_wf_release)

section \<open>Runs without storage errors\<close>

lemma sql_healthy_step:
  assumes "pg_healthy s" "q (pg_now s) (db s) = Inr (a, t)"
  obtains s' where "sql q s = (Inr a, s')" "pg_healthy s'" "db s' = t" "pg_now s' = pg_now s"
  using assms by (simp add: sql_healthy)

lemma transaction_healthy:
  assumes "pg_healthy s"
    and "\<And>s0. pg_healthy s0 \<Longrightarrow> db s0 = db s \<Longrightarrow> \<exists>s1. body s0 = (Inr (Commit a), s1) \<and> pg_healthy s1"
  shows "fst (transaction body s) = Inr a"
proof -
  obtain s0 where s0: "sql nop_stmt s = (Inr (), s0)" "pg_healthy s0" "db s0 = db s"
    using assms(1) by (rule sql_healthy_step [where q = nop_stmt and a = "()" and t = "db s"])
      (simp_all add: nop_stmt_def)
  from assms(2) [OF s0(2,3)] obtain s1 where "body s0 = (Inr (Commit a), s1)" "pg_healthy s1"
    by blast
  with s0 show ?thesis
    by (cases "faults s1") (simp_all add: transaction_def then_op_step commit_tx_def Let_def pg_healthy_def)
qed

lemma try_assign_live:
  assumes "pg_healthy s" "pg_wf s" "tbl_get (agents (db s)) (agent_uuid a) = Some r"
    "agent_state r = ''active''" "cpu \<le> i32_as_u32 (available_cpu_millicores r)"
    "mem \<le> i64_as_u64 (available_memory_bytes r)" "in_i32 (running_sandboxes r + 1)"
    "tbl_get (routing_entries (db s)) (sandbox_uuid sid) = None"
  shows "fst (pg_try_assign_sandbox U a sid cpu mem s) = Inr True"
  unfolding pg_try_assign_sandbox_def
proof (rule transaction_healthy [OF assms(1)])
  fix s0 assume "pg_healthy s0" and eq: "db s0 = db s"
  have r: "row_ok r" using assms(2,3) by (auto simp: pg_wf_def tables_wf_def)
  then have "row_ok (reserve_agent (as_i32 cpu) (as_i64 mem) r)"
    using assms by (intro row_ok_reserve)
  then have reserve: "reserve_row (agent_uuid a) (as_i32 cpu) (as_i64 mem) (db s) =
      Inr ((), (db s)\<lparr>agents := tbl_put (agent_uuid a) (reserve_agent (as_i32 cpu) (as_i64 mem) r) (agents (db s))\<rparr>)"
    using assms(3,7) by (auto simp: reserve_row_def row_ok_def reserve_agent_def)
  with \<open>pg_healthy s0\<close> eq assms(3-8)
  show "\<exists>s1. try_assign_tx U a sid cpu mem s0 = (Inr (Commit True), s1) \<and> pg_healthy s1"
    by (simp add: try_assign_tx_def bind_op_def then_op_def sql_healthy notify_routing_change_def
        insert_route_def ok_op_def not_less table_simps pg_healthy_def)
qed

section \<open>The store contract\<close>

lemma uuid_ext: "AgentId (agent_uuid a) = a" "SandboxId (sandbox_uuid x) = x"
  by (cases a; simp) (cases x; simp)

lemma into_record_dead: "into_record a (r\<lparr>agent_state := ''dead''\<rparr>) = (into_record a r)\<lparr>ar_state := Dead\<rparr>"
  by (simp add: into_record_def state_from_str_def)

lemma views_dead_effect:
  assumes "pg_wf s" "tbl_get (agents (db s)) (agent_uuid a) = Some r" "db s' = dead_effect U (agent_uuid a) r (db s)"
  shows "pg_agent_of s' = (pg_agent_of s)(a \<mapsto> (into_record (agent_uuid a) r)\<lparr>ar_state := Dead\<rparr>)"
    and "pg_route_of s' = (\<lambda>sid. if pg_route_of s sid = Some a then None else pg_route_of s sid)"
    and "pg_reservation_of s' = pg_reservation_of s"
  using assms by (auto simp: pg_views dead_effect_def fun_eq_iff table_simps into_record_dead uuid_ext
      pg_wf_def tables_wf_def split: option.splits)

lemma views_assign_effect:
  assumes "tbl_get (agents (db s)) (agent_uuid a) = Some r"
    "db s' = assign_effect U (agent_uuid a) (sandbox_uuid sid) (as_i32 cpu) (as_i64 mem) r (db s)"
  shows "pg_agent_of s' = (pg_agent_of s)(a \<mapsto> debit cpu mem (into_record (agent_uuid a) r))"
    and "pg_route_of s' = (pg_route_of s)(sid \<mapsto> a)"
    and "pg_reservation_of s' = (pg_reservation_of s)(sid \<mapsto> (a, cpu, mem))"
  using assms by (auto simp: pg_views assign_effect_def upsert_reservation_def fun_eq_iff table_simps
      into_record_reserve uuid_ext split: option.splits)

lemma views_release_effect:
  assumes "pg_wf s" "tbl_get (sandboxes (db s)) (sandbox_uuid sid) = Some b"
    "db s' = release_effect U (sandbox_uuid sid) b (db s)"
  shows "pg_route_of s' = (pg_route_of s)(sid := None)"
    and "pg_reservation_of s' = (pg_reservation_of s)(sid := None)"
    and "pg_agent_of s' = (pg_agent_of s)(AgentId (sr_agent_id b) := map_option
          (credit (i32_as_u32 (sr_cpu_millicores b)) (i64_as_u64 (sr_memory_bytes b)))
          (pg_agent_of s (AgentId (sr_agent_id b))))"
proof -
  have same: "a = AgentId (sr_agent_id b) \<longleftrightarrow> agent_uuid a = sr_agent_id b" for a
    by (cases a) simp
  show "pg_route_of s' = (pg_route_of s)(sid := None)"
    and "pg_reservation_of s' = (pg_reservation_of s)(sid := None)"
    using assms by (auto simp: pg_views release_effect_def fun_eq_iff table_simps)
  show "pg_agent_of s' = (pg_agent_of s)(AgentId (sr_agent_id b) := map_option
          (credit (i32_as_u32 (sr_cpu_millicores b)) (i64_as_u64 (sr_memory_bytes b)))
          (pg_agent_of s (AgentId (sr_agent_id b))))"
    using assms by (auto simp: pg_views release_effect_def fun_eq_iff table_simps same pg_wf_def
        tables_wf_def into_record_release split: option.splits)
qed

lemma sql_read_db: "sql (\<lambda>n t. Inr (f n t, t)) s = (r, s') \<Longrightarrow> db s' = db s"
  by (auto dest: sql_db)

lemma list_active_result:
  "pg_list_active_agents s = (Inr rs, s') \<Longrightarrow> rs = map (\<lambda>(a, r). into_record a r)
     (filter (\<lambda>(_, r). agent_state r = ''active'') (agents (db s)))"
  by (auto simp: pg_list_active_agents_def dest!: sql_Inr)

lemma list_active_sound:
  assumes "pg_wf s" "pg_list_active_agents s = (Inr rs, s')"
  shows "ag \<in> set rs \<longleftrightarrow> pg_agent_of s (ar_agent_id ag) = Some ag \<and> ar_state ag = Active"
proof -
  have wf: "tbl_ok (agents (db s))" "\<And>a r. tbl_get (agents (db s)) a = Some r \<Longrightarrow> row_ok r"
    using assms(1) by (auto simp: pg_wf_def tables_wf_def)
  have act: "row_ok r \<Longrightarrow> agent_state r = ''active'' \<longleftrightarrow> ar_state (into_record a r) = Active" for a r
    by (auto simp: row_ok_def into_record_def state_from_str_def)
  have id: "ar_agent_id (into_record a r) = AgentId a" for a r
    by (simp add: into_record_def)
  have "ag \<in> set rs \<longleftrightarrow> (\<exists>a r. tbl_get (agents (db s)) a = Some r \<and> agent_state r = ''active'' \<and> ag = into_record a r)"
    unfolding list_active_result [OF assms(2)] using tbl_in_set_get [OF wf(1)] by force
  also have "\<dots> \<longleftrightarrow> pg_agent_of s (ar_agent_id ag) = Some ag \<and> ar_state ag = Active"
  proof
    assume "\<exists>a r. tbl_get (agents (db s)) a = Some r \<and> agent_state r = ''active'' \<and> ag = into_record a r"
    then show "pg_agent_of s (ar_agent_id ag) = Some ag \<and> ar_state ag = Active"
      using wf(2) act by (auto simp: pg_agent_of_def id)
  next
    assume *: "pg_agent_of s (ar_agent_id ag) = Some ag \<and> ar_state ag = Active"
    then obtain r where "tbl_get (agents (db s)) (agent_uuid (ar_agent_id ag)) = Some r"
      "ag = into_record (agent_uuid (ar_agent_id ag)) r"
      by (auto simp: pg_agent_of_def)
    with * wf(2) act show "\<exists>a r. tbl_get (agents (db s)) a = Some r \<and> agent_state r = ''active'' \<and> ag = into_record a r"
      by metis
  qed
  finally show ?thesis .
qed

lemma mark_dead_views:
  assumes "pg_wf s" "pg_mark_agent_dead_atomic U a s = (Inr u, s')"
  shows "(\<exists>ag. pg_agent_of s a = Some ag \<and> pg_agent_of s' = (pg_agent_of s)(a \<mapsto> ag\<lparr>ar_state := Dead\<rparr>)) \<and>
      pg_route_of s' = (\<lambda>sid. if pg_route_of s sid = Some a then None else pg_route_of s sid) \<and>
      pg_reservation_of s' = pg_reservation_of s"
proof -
  from assms(2) obtain r where r: "tbl_get (agents (db s)) (agent_uuid a) = Some r"
      "db s' = dead_effect U (agent_uuid a) r (db s)"
    unfolding pg_mark_agent_dead_atomic_def
    by (drule_tac transaction_Inr) (auto simp: mark_dead_no_rollback dest!: mark_dead_commit)
  with views_dead_effect [OF assms(1) r] show ?thesis
    by (simp add: pg_agent_of_def)
qed

lemma try_assign_true_views:
  assumes "pg_wf s" "pg_try_assign_sandbox U a sid cpu mem s = (Inr True, s')"
  shows "(\<exists>ag. pg_agent_of s a = Some ag \<and> ar_state ag = Active \<and> fits cpu mem ag \<and>
            av_running_sandboxes (ar_available ag) + 1 \<noteq> 0 \<and>
            pg_agent_of s' = (pg_agent_of s)(a \<mapsto> debit cpu mem ag)) \<and>
      pg_route_of s sid = None \<and> pg_route_of s' = (pg_route_of s)(sid \<mapsto> a) \<and>
      pg_reservation_of s' = (pg_reservation_of s)(sid \<mapsto> (a, cpu, mem))"
proof -
  from assms(2) obtain r where r: "tbl_get (agents (db s)) (agent_uuid a) = Some r" "agent_state r = ''active''"
      "cpu \<le> i32_as_u32 (available_cpu_millicores r)" "mem \<le> i64_as_u64 (available_memory_bytes r)"
      "in_i32 (running_sandboxes r + 1)" "tbl_get (routing_entries (db s)) (sandbox_uuid sid) = None"
    and eff: "db s' = assign_effect U (agent_uuid a) (sandbox_uuid sid) (as_i32 cpu) (as_i64 mem) r (db s)"
    unfolding pg_try_assign_sandbox_def
    by (drule_tac transaction_Inr) (auto dest!: try_assign_commit try_assign_rollback)
  have "row_ok r" using assms(1) r(1) by (auto simp: pg_wf_def tables_wf_def)
  then have "i32_as_u32 (running_sandboxes r) + 1 \<noteq> 0"
    using i32_as_u32_eq_0 [of "running_sandboxes r + 1"] r(5) by (auto simp: u32_arith row_ok_def)
  with r views_assign_effect [OF r(1) eff] show ?thesis
    by (auto simp: pg_agent_of_def pg_route_of_def into_record_def fits_def state_from_str_def)
qed

lemma try_assign_false_views:
  assumes "pg_try_assign_sandbox U a sid cpu mem s = (Inr False, s')"
  shows "db s' = db s \<and> (\<exists>ag. pg_agent_of s a = Some ag) \<and>
    (\<forall>ag. pg_agent_of s a = Some ag \<longrightarrow> pg_wf s \<longrightarrow> \<not> (ar_state ag = Active \<and> fits cpu mem ag))"
proof -
  from transaction_Inr [OF assms [unfolded pg_try_assign_sandbox_def]] obtain r where
    r: "db s' = db s" "tbl_get (agents (db s)) (agent_uuid a) = Some r"
      "agent_state r \<noteq> ''active'' \<or> i32_as_u32 (available_cpu_millicores r) < cpu \<or>
       i64_as_u64 (available_memory_bytes r) < mem"
    by (auto dest!: try_assign_commit try_assign_rollback)
  moreover have "pg_wf s \<Longrightarrow> row_ok r"
    using r(2) by (simp add: pg_wf_def tables_wf_def)
  ultimately show ?thesis
    by (auto simp: pg_agent_of_def into_record_def fits_def state_from_str_def row_ok_def not_le)
qed

lemma release_views:
  assumes "pg_wf s" "pg_release_sandbox U sid s = (Inr h, s')"
  shows "h = None \<Longrightarrow> pg_reservation_of s sid = None \<and> db s' = db s"
    and "h = Some a \<Longrightarrow> \<exists>cpu mem. pg_reservation_of s sid = Some (a, cpu, mem) \<and>
        pg_route_of s' = (pg_route_of s)(sid := None) \<and>
        pg_reservation_of s' = (pg_reservation_of s)(sid := None) \<and>
        pg_agent_of s' = (pg_agent_of s)(a := map_option (credit cpu mem) (pg_agent_of s a))"
proof -
  from transaction_Inr [OF assms(2) [unfolded pg_release_sandbox_def]]
  have *: "(h = None \<and> db s' = db s \<and> tbl_get (sandboxes (db s)) (sandbox_uuid sid) = None) \<or>
     (\<exists>b. tbl_get (sandboxes (db s)) (sandbox_uuid sid) = Some b \<and> h = Some (AgentId (sr_agent_id b)) \<and>
        db s' = release_effect U (sandbox_uuid sid) b (db s))"
    by (auto dest!: release_commit release_rollback)
  then show "h = None \<Longrightarrow> pg_reservation_of s sid = None \<and> db s' = db s"
    by (auto simp: pg_reservation_of_def)
  assume "h = Some a"
  with * obtain b where b: "tbl_get (sandboxes (db s)) (sandbox_uuid sid) = Some b"
    "a = AgentId (sr_agent_id b)" "db s' = release_effect U (sandbox_uuid sid) b (db s)"
    by auto
  with views_release_effect [OF assms(1) b(1,3)]
  show "\<exists>cpu mem. pg_reservation_of s sid = Some (a, cpu, mem) \<and>
        pg_route_of s' = (pg_route_of s)(sid := None) \<and>
        pg_reservation_of s' = (pg_reservation_of s)(sid := None) \<and>
        pg_agent_of s' = (pg_agent_of s)(a := map_option (credit cpu mem) (pg_agent_of s a))"
    by (simp add: pg_reservation_of_def)
qed

lemma try_assign_live_views:
  assumes "pg_wf s" "pg_healthy s" "pg_agent_of s a = Some ag" "ar_state ag = Active" "fits cpu mem ag"
    "pg_route_of s sid = None" "Suc (unat (av_running_sandboxes (ar_available ag))) < 2 ^ 31"
  shows "fst (pg_try_assign_sandbox U a sid cpu mem s) = Inr True"
proof -
  from assms(3) obtain r where r: "tbl_get (agents (db s)) (agent_uuid a) = Some r" "ag = into_record (agent_uuid a) r"
    by (auto simp: pg_agent_of_def)
  then have ok: "row_ok r" using assms(1) by (auto simp: pg_wf_def tables_wf_def)
  have "Suc (unat (i32_as_u32 (running_sandboxes r))) < 2 ^ 31"
    using assms(7) r(2) by (simp add: into_record_def)
  then have "int (Suc (unat (i32_as_u32 (running_sandboxes r)))) < int (2 ^ 31)"
    by (simp only: of_nat_less_iff)
  moreover have "int (unat (i32_as_u32 (running_sandboxes r))) = running_sandboxes r"
    by (rule unat_i32_as_u32) (use ok in \<open>simp_all add: row_ok_def\<close>)
  ultimately have "running_sandboxes r + 1 < 2 ^ 31"
    by simp
  then have "in_i32 (running_sandboxes r + 1)"
    using ok by (simp add: row_ok_def in_i32_def)
  then show ?thesis
    using assms r ok
    by (intro try_assign_live [of s a r])
      (auto simp: into_record_def state_from_str_def row_ok_def fits_def pg_route_of_def split: if_splits)
qed

lemma PgStore_simps [simp]:
  "list_active_agents (PgStore U) = pg_list_active_agents"
  "try_assign_sandbox (PgStore U) = pg_try_assign_sandbox U"
  "release_sandbox (PgStore U) = pg_release_sandbox U"
  "mark_agent_dead_atomic (PgStore U) = pg_mark_agent_dead_atomic U"
  "save_agent (PgStore U) = pg_save_agent" "get_agent (PgStore U) = pg_get_agent"
  "find_routing_entry (PgStore U) = pg_find_routing_entry"
  "list_routing_entries (PgStore U) = pg_list_routing_entries"
  "save_sandbox_state (PgStore U) = pg_save_sandbox_state"
  "get_sandbox_state (PgStore U) = pg_get_sandbox_state"
  "record_heartbeat (PgStore U) = pg_record_heartbeat" "dead_agents (PgStore U) = pg_dead_agents"
  by (simp_all add: PgStore_def)

interpretation pgs: controller_store "PgStore U" pg_agent_of pg_route_of pg_reservation_of pg_wf pg_healthy
proof (unfold_locales, unfold PgStore_simps)
  show "pg_agent_of s a = Some ag \<Longrightarrow> ar_agent_id ag = a" for s a ag
    by (auto simp: pg_agent_of_def into_record_def uuid_ext)
  show "pg_list_active_agents s = (agents, s') \<Longrightarrow> pg_wf s' \<and> pg_agent_of s' = pg_agent_of s \<and>
      pg_route_of s' = pg_route_of s \<and> pg_reservation_of s' = pg_reservation_of s \<and> (pg_healthy s \<longrightarrow> pg_healthy s')"
    if "pg_wf s" for s s' agents
    using that pg_views_cong [of s' s] unfolding pg_list_active_agents_def
    by (auto dest: sql_read_db healthy_sql)
  show "pg_healthy s \<Longrightarrow> is_ok (fst (pg_list_active_agents s))" for s
    by (simp add: pg_list_active_agents_def sql_healthy)
  show "pg_wf s \<Longrightarrow> pg_list_active_agents s = (Inr rs, s') \<Longrightarrow>
      ag \<in> set rs \<longleftrightarrow> pg_agent_of s (ar_agent_id ag) = Some ag \<and> ar_state ag = Active" for s rs s' ag
    by (rule list_active_sound)
  show "pg_wf s \<Longrightarrow> pg_try_assign_sandbox U a sid cpu mem s = (reserved, s') \<Longrightarrow> pg_wf s'"
    for s a sid cpu mem reserved s' by (rule pg_wf_try_assign)
  show "pg_try_assign_sandbox U a sid cpu mem s = (Inr False, s') \<Longrightarrow>
      pg_agent_of s' = pg_agent_of s \<and> pg_route_of s' = pg_route_of s \<and> pg_reservation_of s' = pg_reservation_of s \<and>
      (\<forall>ag. pg_agent_of s a = Some ag \<longrightarrow> \<not> (ar_state ag = Active \<and> fits cpu mem ag))"
    if "pg_wf s" for s a sid cpu mem s'
    using that try_assign_false_views [of U a sid cpu mem s s'] pg_views_cong [of s' s] by blast
  show "pg_wf s \<Longrightarrow> pg_release_sandbox U sid s = (Inr None, s') \<Longrightarrow> pg_reservation_of s sid = None \<and>
      pg_agent_of s' = pg_agent_of s \<and> pg_route_of s' = pg_route_of s \<and> pg_reservation_of s' = pg_reservation_of s"
    for s sid s'
    using release_views(1) [of s U sid None s'] pg_views_cong [of s' s] by blast
qed (fact try_assign_true_views try_assign_live_views pg_wf_release release_views(2) [OF _ _ refl]
      pg_wf_mark_dead mark_dead_views)+

end
