(* ===== verification/Controller_Services.thy ===== *)
theory Controller_Services
  imports Pg_Store
begin

text \<open>
  The services of the controller that only use the store: admin authentication (\<open>auth.rs\<close>), the
  mapping of errors to gRPC statuses (\<open>error_status.rs\<close>), agent registration (\<open>registry.rs\<close>),
  heartbeats (\<open>heartbeat.rs\<close>) and placement (\<open>scheduler.rs\<close>). The generic code takes the store
  as an argument; its lemmas are proved once in the locale \<open>controller_store\<close>.
\<close>

section \<open>gRPC statuses\<close>

datatype Code = Code_Ok | Code_Cancelled | Code_Unknown | Code_InvalidArgument | Code_DeadlineExceeded
  | Code_NotFound | Code_AlreadyExists | Code_PermissionDenied | Code_ResourceExhausted
  | Code_FailedPrecondition | Code_Aborted | Code_OutOfRange | Code_Unimplemented | Code_Internal
  | Code_Unavailable | Code_DataLoss | Code_Unauthenticated

text \<open>A status: its code, its message and the trailer \<open>x-os-error-code\<close>.\<close>

record Status =
  st_code :: Code
  st_message :: string
  st_error_code :: "string option"

definition status :: "Code \<Rightarrow> string \<Rightarrow> Status" where
  "status c m = \<lparr> st_code = c, st_message = m, st_error_code = None \<rparr>"

section \<open>Admin authentication (auth.rs)\<close>

definition constant_time_eq :: "u8 list \<Rightarrow> u8 list \<Rightarrow> bool" where
  "constant_time_eq a b =
    (if length a \<noteq> length b then False
     else foldl (\<lambda>diff (x, y). or diff (xor x y)) 0 (zip a b) = 0)"

definition str_bytes :: "string \<Rightarrow> u8 list" where
  "str_bytes s = map (\<lambda>c. of_nat (char_code c)) s"

text \<open>\<open>to_str\<close> is the conversion of a header value to text; it belongs to the \<open>http\<close> crate.\<close>

definition admin_auth_call :: "(string \<Rightarrow> string option) \<Rightarrow> string \<Rightarrow> string option \<Rightarrow> Status + unit" where
  "admin_auth_call to_str expected_token authorization =
    (case authorization of
       None \<Rightarrow> Inl (status Code_Unauthenticated ''missing authorization header'')
     | Some raw \<Rightarrow> (case to_str raw of
         None \<Rightarrow> Inl (status Code_Unauthenticated ''authorization header is not ascii'')
       | Some header \<Rightarrow> (case strip_prefix header ''Bearer '' of
           None \<Rightarrow> Inl (status Code_Unauthenticated ''authorization must use Bearer scheme'')
         | Some token \<Rightarrow>
             if constant_time_eq (str_bytes token) (str_bytes expected_token) then Inr ()
             else Inl (status Code_Unauthenticated ''invalid token''))))"

datatype AuthInitError = TokenUnset | TokenEmpty

definition admin_auth_from_env :: "string option \<Rightarrow> AuthInitError + string" where
  "admin_auth_from_env var = (case var of
      None \<Rightarrow> Inl TokenUnset
    | Some token \<Rightarrow> if token = [] then Inl TokenEmpty else Inr token)"

lemma or_eq_0_word: "or (a :: u8) b = 0 \<longleftrightarrow> a = 0 \<and> b = 0"
  by (auto simp: bit_eq_iff bit_simps)

lemma xor_eq_0_word: "xor (a :: u8) b = 0 \<longleftrightarrow> a = b"
  by (auto simp: bit_eq_iff bit_simps)

lemma constant_time_fold:
  "length a = length b \<Longrightarrow>
     foldl (\<lambda>diff (x, y). or diff (xor x y)) d (zip a b) = (0 :: u8) \<longleftrightarrow> d = 0 \<and> a = b"
  by (induction a b arbitrary: d rule: list_induct2) (auto simp: or_eq_0_word xor_eq_0_word)

lemma constant_time_eq_iff: "constant_time_eq a b \<longleftrightarrow> a = b"
  by (auto simp: constant_time_eq_def constant_time_fold)

lemma str_bytes_inj: "str_bytes s = str_bytes t \<longleftrightarrow> s = t"
proof -
  have "inj (\<lambda>c. of_nat (char_code c) :: u8)"
  proof (rule injI)
    fix c d assume "(of_nat (char_code c) :: u8) = of_nat (char_code d)"
    then have "unat (of_nat (char_code c) :: u8) = unat (of_nat (char_code d) :: u8)"
      by simp
    then show "c = d"
      using char_code_less [of c] char_code_less [of d]
      by (simp add: unsigned_of_nat take_bit_nat_eq_self char_code_inj)
  qed
  then show ?thesis
    by (simp add: str_bytes_def inj_map_eq_map)
qed

lemma admin_auth_accepts_iff:
  assumes "\<And>h t. to_str h = Some t \<Longrightarrow> t = h"
  shows "admin_auth_call to_str tok hdr = Inr () \<longleftrightarrow>
    (\<exists>h. hdr = Some h \<and> to_str h \<noteq> None \<and> h = ''Bearer '' @ tok)"
proof (cases "\<exists>h. hdr = Some h \<and> to_str h \<noteq> None")
  case True
  then obtain h where h: "hdr = Some h" "to_str h = Some h"
    using assms by fastforce
  then show ?thesis
    by (auto simp: admin_auth_call_def constant_time_eq_iff str_bytes_inj strip_prefix_Some
        split: option.splits if_splits simp del: append.simps)
qed (auto simp: admin_auth_call_def split: option.splits)

section \<open>Errors on the wire (error_status.rs)\<close>

fun controller_error_code :: "ControllerError \<Rightarrow> string" where
  "controller_error_code InvalidToken = ''INVALID_TOKEN''"
| "controller_error_code (ControllerError.SandboxNotFound _) = ''SANDBOX_NOT_FOUND''"
| "controller_error_code (AgentNotFound _) = ''AGENT_NOT_FOUND''"
| "controller_error_code NoAvailableAgents = ''NO_AVAILABLE_AGENTS''"
| "controller_error_code (Database _) = ''DATABASE_ERROR''"
| "controller_error_code (ControllerError.Internal _) = ''INTERNAL''"

fun controller_error_base :: "ControllerError \<Rightarrow> Status" where
  "controller_error_base InvalidToken =
    status Code_Unauthenticated (ControllerError_to_string InvalidToken)"
| "controller_error_base (ControllerError.SandboxNotFound sid) = status Code_NotFound sid"
| "controller_error_base (AgentNotFound aid) =
    status Code_FailedPrecondition (''agent '' @ aid @ '' not available'')"
| "controller_error_base NoAvailableAgents =
    status Code_ResourceExhausted (ControllerError_to_string NoAvailableAgents)"
| "controller_error_base (Database d) = status Code_Internal (''database error: '' @ d)"
| "controller_error_base (ControllerError.Internal d) = status Code_Internal d"

definition controller_error_to_status :: "ControllerError \<Rightarrow> Status" where
  "controller_error_to_status e = (controller_error_base e)\<lparr>st_error_code := Some (controller_error_code e)\<rparr>"

section \<open>Registration (registry.rs)\<close>

text \<open>A validator of join tokens is a predicate; the one \<open>run_controller\<close> installs compares with the configured token.\<close>

definition static_token_validate :: "string \<Rightarrow> string \<Rightarrow> bool" where
  "static_token_validate expected token \<longleftrightarrow> token = expected"

datatype RegistrationResult = Accepted | Rejected string

definition fresh_record :: "AgentId \<Rightarrow> AgentCapacity \<Rightarrow> AgentRecord" where
  "fresh_record aid cap =
    \<lparr> ar_agent_id = aid, ar_capacity = cap,
      ar_available = \<lparr> av_cpu_millicores = ac_cpu_cores cap * 1000,
        av_memory_bytes = ac_memory_bytes cap, av_running_sandboxes = 0 \<rparr>,
      ar_state = Active \<rparr>"

definition register ::
    "'s ControllerStore \<Rightarrow> (string \<Rightarrow> bool) \<Rightarrow> AgentId \<Rightarrow> string \<Rightarrow> AgentCapacity \<Rightarrow>
     ('s, ControllerError, RegistrationResult) op" where
  "register S validate aid token cap =
    (if \<not> validate token then ok_op (Rejected ''invalid join token'')
     else then_op (save_agent S (fresh_record aid cap)) (ok_op Accepted))"

definition registry_heartbeat ::
    "uuid_lib \<Rightarrow> 's ControllerStore \<Rightarrow> AgentId \<Rightarrow> ('s, ControllerError, unit) op" where
  "registry_heartbeat U S aid = bind_op (get_agent S aid) (\<lambda>r.
     case r of Some _ \<Rightarrow> ok_op () | None \<Rightarrow> err_op (AgentNotFound (AgentId_to_string U aid)))"

definition mark_agent_dead :: "'s ControllerStore \<Rightarrow> AgentId \<Rightarrow> ('s, ControllerError, unit) op" where
  "mark_agent_dead S aid = mark_agent_dead_atomic S aid"

section \<open>Heartbeats (heartbeat.rs)\<close>

definition monitor_record_heartbeat :: "'s ControllerStore \<Rightarrow> AgentId \<Rightarrow> ('s, ControllerError, unit) op" where
  "monitor_record_heartbeat S aid = record_heartbeat S aid"

definition monitor_dead_agents :: "'s ControllerStore \<Rightarrow> ('s, ControllerError, AgentId list) op" where
  "monitor_dead_agents S = dead_agents S"

definition tracked_agents :: "'s ControllerStore \<Rightarrow> ('s, ControllerError, AgentId list) op" where
  "tracked_agents S = bind_op (list_active_agents S) (\<lambda>rs. ok_op (map ar_agent_id rs))"

section \<open>Placement (scheduler.rs)\<close>

record SandboxRequirements =
  rq_cpu_millicores :: u32
  rq_memory_bytes :: u64

record SandboxAssignment =
  as_agent_id :: AgentId
  as_sandbox_id :: SandboxId

fun try_candidates ::
    "'s ControllerStore \<Rightarrow> SandboxId \<Rightarrow> SandboxRequirements \<Rightarrow> AgentRecord list \<Rightarrow>
     ('s, ControllerError, SandboxAssignment) op" where
  "try_candidates S sid req [] = err_op NoAvailableAgents"
| "try_candidates S sid req (ag # rest) =
    (if av_cpu_millicores (ar_available ag) < rq_cpu_millicores req
        \<or> av_memory_bytes (ar_available ag) < rq_memory_bytes req
     then try_candidates S sid req rest
     else bind_op (try_assign_sandbox S (ar_agent_id ag) sid (rq_cpu_millicores req) (rq_memory_bytes req))
       (\<lambda>reserved. if reserved
          then ok_op \<lparr> as_agent_id = ar_agent_id ag, as_sandbox_id = sid \<rparr>
          else try_candidates S sid req rest))"

text \<open>\<open>sort_by(|a, b| b.cmp(a))\<close> is a stable sort, largest available CPU first.\<close>

definition best_first :: "AgentRecord list \<Rightarrow> AgentRecord list" where
  "best_first rs = sort_key (\<lambda>r. - int (unat (av_cpu_millicores (ar_available r)))) rs"

definition assign_sandbox ::
    "'s ControllerStore \<Rightarrow> SandboxId \<Rightarrow> SandboxRequirements \<Rightarrow>
     ('s, ControllerError, SandboxAssignment) op" where
  "assign_sandbox S sid req = bind_op (list_active_agents S) (\<lambda>rs. try_candidates S sid req (best_first rs))"

definition fits_req :: "SandboxRequirements \<Rightarrow> AgentRecord \<Rightarrow> bool" where
  "fits_req req ag \<longleftrightarrow> fits (rq_cpu_millicores req) (rq_memory_bytes req) ag"

lemma set_best_first [simp]: "set (best_first rs) = set rs"
  by (simp add: best_first_def)

lemma best_first_sorted:
  "sorted_wrt (\<lambda>a b. av_cpu_millicores (ar_available b) \<le> av_cpu_millicores (ar_available a)) (best_first rs)"
proof -
  have "sorted (map (\<lambda>r. - int (unat (av_cpu_millicores (ar_available r)))) (best_first rs))"
    by (simp add: best_first_def)
  then show ?thesis
    by (simp add: sorted_map) (erule sorted_wrt_mono_rel [rotated], simp add: word_le_def)
qed

lemma find_first_max:
  "sorted_wrt (\<lambda>a b. f b \<le> f a) rs \<Longrightarrow> find P rs = Some r \<Longrightarrow>
     r \<in> set rs \<and> P r \<and> (\<forall>r'\<in>set rs. P r' \<longrightarrow> f r' \<le> (f r :: 'a::order))"
  by (induction rs) (auto split: if_splits)

context controller_store
begin

lemma try_candidates_assigned:
  assumes "wf s" "try_candidates S sid req rs s = (Inr asg, s')"
  shows "wf s' \<and> as_sandbox_id asg = sid \<and> (\<exists>ag. agent_of s (as_agent_id asg) = Some ag \<and> ar_state ag = Active \<and>
      fits_req req ag \<and> agent_of s' = (agent_of s)(as_agent_id asg \<mapsto>
        debit (rq_cpu_millicores req) (rq_memory_bytes req) ag)) \<and>
    route_of s sid = None \<and> route_of s' = (route_of s)(sid \<mapsto> as_agent_id asg) \<and>
    reservation_of s' = (reservation_of s)(sid \<mapsto>
      (as_agent_id asg, rq_cpu_millicores req, rq_memory_bytes req))"
  using assms
proof (induction rs arbitrary: s)
  case (Cons ag rest)
  show ?case
  proof (cases "fits_req req ag")
    case False
    then have "av_cpu_millicores (ar_available ag) < rq_cpu_millicores req \<or>
        av_memory_bytes (ar_available ag) < rq_memory_bytes req"
      by (auto simp: fits_req_def fits_def not_le)
    with Cons.prems(2) have "try_candidates S sid req rest s = (Inr asg, s')"
      by auto
    then show ?thesis by (rule Cons.IH [OF Cons.prems(1)])
  next
    case True
    with Cons.prems(2) obtain reserved s1 where
      tr: "try_assign_sandbox S (ar_agent_id ag) sid (rq_cpu_millicores req) (rq_memory_bytes req) s = (Inr reserved, s1)"
      and rest: "(if reserved then ok_op \<lparr> as_agent_id = ar_agent_id ag, as_sandbox_id = sid \<rparr>
         else try_candidates S sid req rest) s1 = (Inr asg, s')"
      by (auto simp: fits_req_def fits_def bind_op_Inr not_less [symmetric])
    have wf1: "wf s1" using try_assign_wf [OF Cons.prems(1) tr] .
    show ?thesis
    proof (cases reserved)
      case True
      with rest try_assign_true [OF Cons.prems(1)] tr wf1 show ?thesis
        by (fastforce simp: ok_op_simps fits_req_def)
    next
      case False
      with rest have r: "try_candidates S sid req rest s1 = (Inr asg, s')" by simp
      from tr False have "try_assign_sandbox S (ar_agent_id ag) sid (rq_cpu_millicores req)
          (rq_memory_bytes req) s = (Inr False, s1)" by simp
      from Cons.IH [OF wf1 r] try_assign_false [OF Cons.prems(1) this] show ?thesis by simp
    qed
  qed
qed (simp add: ok_op_simps)

lemma assign_sandbox_assigned:
  assumes "wf s" "assign_sandbox S sid req s = (Inr asg, s')"
  shows "wf s' \<and> as_sandbox_id asg = sid \<and> (\<exists>ag. agent_of s (as_agent_id asg) = Some ag \<and> ar_state ag = Active \<and>
      fits_req req ag \<and> agent_of s' = (agent_of s)(as_agent_id asg \<mapsto>
        debit (rq_cpu_millicores req) (rq_memory_bytes req) ag)) \<and>
    route_of s sid = None \<and> route_of s' = (route_of s)(sid \<mapsto> as_agent_id asg) \<and>
    reservation_of s' = (reservation_of s)(sid \<mapsto>
      (as_agent_id asg, rq_cpu_millicores req, rq_memory_bytes req))"
proof -
  from assms(2) obtain rs s1 where l: "list_active_agents S s = (Inr rs, s1)"
    and t: "try_candidates S sid req (best_first rs) s1 = (Inr asg, s')"
    by (auto simp: assign_sandbox_def bind_op_Inr)
  note views = list_active_views [OF assms(1) l]
  from try_candidates_assigned [OF views [THEN conjunct1] t] views show ?thesis
    by simp
qed

lemma try_candidates_find:
  assumes "wf s" "healthy s" "route_of s sid = None"
    and "\<And>ag. ag \<in> set rs \<Longrightarrow> agent_of s (ar_agent_id ag) = Some ag \<and> ar_state ag = Active \<and>
      Suc (unat (av_running_sandboxes (ar_available ag))) < 2 ^ 31"
  shows "case find (fits_req req) rs of
      None \<Rightarrow> try_candidates S sid req rs s = (Inl NoAvailableAgents, s)
    | Some ag \<Rightarrow> fst (try_candidates S sid req rs s) = Inr \<lparr> as_agent_id = ar_agent_id ag, as_sandbox_id = sid \<rparr>"
  using assms(4)
proof (induction rs)
  case (Cons ag rest)
  show ?case
  proof (cases "fits_req req ag")
    case True
    then have "fst (try_assign_sandbox S (ar_agent_id ag) sid (rq_cpu_millicores req) (rq_memory_bytes req) s) = Inr True"
      using Cons.prems [of ag] assms(1-3) by (intro try_assign_live) (auto simp: fits_req_def)
    then obtain s1 where "try_assign_sandbox S (ar_agent_id ag) sid (rq_cpu_millicores req) (rq_memory_bytes req) s = (Inr True, s1)"
      by (metis prod.collapse)
    with True show ?thesis
      by (auto simp: fits_req_def fits_def bind_op_step ok_op_simps not_less [symmetric])
  next
    case False
    with Cons show ?thesis
      by (auto simp: fits_req_def fits_def not_le split: option.splits)
  qed
qed (simp add: ok_op_simps)

lemma assign_sandbox_best:
  assumes "wf s" "healthy s" "route_of s sid = None"
    and few: "\<And>a ag. agent_of s a = Some ag \<Longrightarrow> Suc (unat (av_running_sandboxes (ar_available ag))) < 2 ^ 31"
  shows "(\<exists>a ag. agent_of s a = Some ag \<and> ar_state ag = Active \<and> fits_req req ag) \<Longrightarrow>
      \<exists>asg s'. assign_sandbox S sid req s = (Inr asg, s') \<and>
        (\<forall>a ag best. agent_of s a = Some ag \<longrightarrow> ar_state ag = Active \<longrightarrow> fits_req req ag \<longrightarrow>
           agent_of s (as_agent_id asg) = Some best \<longrightarrow>
           av_cpu_millicores (ar_available ag) \<le> av_cpu_millicores (ar_available best))"
    and "\<not> (\<exists>a ag. agent_of s a = Some ag \<and> ar_state ag = Active \<and> fits_req req ag) \<Longrightarrow>
      \<exists>s'. assign_sandbox S sid req s = (Inl NoAvailableAgents, s') \<and>
        agent_of s' = agent_of s \<and> route_of s' = route_of s"
proof -
  obtain rs s1 where l: "list_active_agents S s = (Inr rs, s1)"
    using list_active_ok [OF assms(1,2)] by (cases "list_active_agents S s") (auto simp: is_ok_def split: sum.splits)
  note v = list_active_views [OF assms(1) l] and sound = list_active_sound [OF assms(1) l]
  have mem: "agent_of s1 (ar_agent_id ag) = Some ag \<and> ar_state ag = Active \<and>
      Suc (unat (av_running_sandboxes (ar_available ag))) < 2 ^ 31" if "ag \<in> set (best_first rs)" for ag
    using that sound [of ag] few v by auto
  have run: "assign_sandbox S sid req s = try_candidates S sid req (best_first rs) s1"
    by (simp add: assign_sandbox_def bind_op_step l)
  have find: "case find (fits_req req) (best_first rs) of
      None \<Rightarrow> try_candidates S sid req (best_first rs) s1 = (Inl NoAvailableAgents, s1)
    | Some ag \<Rightarrow> fst (try_candidates S sid req (best_first rs) s1) =
        Inr \<lparr> as_agent_id = ar_agent_id ag, as_sandbox_id = sid \<rparr>"
    using v assms(2,3) mem by (intro try_candidates_find) auto
  have all: "ag \<in> set rs" if "agent_of s a = Some ag" "ar_state ag = Active" for a ag
    using that agent_id [OF assms(1) that(1)] sound by simp
  {
    assume "\<exists>a ag. agent_of s a = Some ag \<and> ar_state ag = Active \<and> fits_req req ag"
    then have "find (fits_req req) (best_first rs) \<noteq> None"
      using all by (auto simp: find_None_iff)
    then obtain best where best: "find (fits_req req) (best_first rs) = Some best"
      by blast
    note max = find_first_max [OF best_first_sorted best]
    have "agent_of s (ar_agent_id best) = Some best"
      using max sound [of best] by simp
    then show "\<exists>asg s'. assign_sandbox S sid req s = (Inr asg, s') \<and>
        (\<forall>a ag best. agent_of s a = Some ag \<longrightarrow> ar_state ag = Active \<longrightarrow> fits_req req ag \<longrightarrow>
           agent_of s (as_agent_id asg) = Some best \<longrightarrow>
           av_cpu_millicores (ar_available ag) \<le> av_cpu_millicores (ar_available best))"
      using find best max all unfolding run
      by (cases "try_candidates S sid req (best_first rs) s1") auto
  }
  assume "\<not> (\<exists>a ag. agent_of s a = Some ag \<and> ar_state ag = Active \<and> fits_req req ag)"
  then have "find (fits_req req) (best_first rs) = None"
    using sound by (fastforce simp: find_None_iff)
  with find v show "\<exists>s'. assign_sandbox S sid req s = (Inl NoAvailableAgents, s') \<and>
        agent_of s' = agent_of s \<and> route_of s' = route_of s"
    unfolding run by simp
qed

end

end
