(* ===== verification/Controller_Capacity.thy ===== *)
theory Controller_Capacity
  imports Controller_Services
begin

text \<open>
  Capacity accounting over the Postgres store. \<open>store_step\<close> is every way the controller
  changes the database, one committed or failed operation at a time, so that a run of it is any
  interleaving of the concurrent handlers, with any storage faults. The invariant: what an
  agent has available plus what its sandboxes hold is what it registered.
\<close>

section \<open>Sums over a table\<close>

definition tsum :: "('v \<Rightarrow> int) \<Rightarrow> ('k, 'v) tbl \<Rightarrow> int" where
  "tsum f t = sum_list (map (\<lambda>(_, v). f v) t)"

lemma tsum_put:
  "tbl_ok t \<Longrightarrow> tsum f (tbl_put k v t) = tsum f t - (case tbl_get t k of None \<Rightarrow> 0 | Some w \<Rightarrow> f w) + f v"
  by (induction t) (auto simp: tsum_def tbl_put_def tbl_get_def tbl_ok_def map_of_eq_None_iff
      rev_image_eqI split: option.splits)

lemma tsum_del:
  "tbl_ok t \<Longrightarrow> tsum f (tbl_del k t) = tsum f t - (case tbl_get t k of None \<Rightarrow> 0 | Some w \<Rightarrow> f w)"
proof (induction t)
  case (Cons p t)
  have same: "tbl_del k t = t" if "k \<notin> fst ` set t"
    using that by (force simp: tbl_del_def tbl_retain_def filter_id_conv)
  from Cons show ?case
    by (cases p) (auto simp: tsum_def tbl_get_def tbl_ok_def same tbl_del_def tbl_retain_def
        map_of_eq_None_iff split: option.splits dest: same [unfolded tbl_del_def tbl_retain_def])
qed (simp add: tsum_def tbl_del_def tbl_retain_def)

lemma tsum_nonneg: "(\<And>k v. (k, v) \<in> set t \<Longrightarrow> 0 \<le> f v) \<Longrightarrow> 0 \<le> tsum f t"
  unfolding tsum_def by (rule sum_list_nonneg) auto

section \<open>The accounting invariant\<close>

definition reserved_cpu :: "pg_tables \<Rightarrow> uuid \<Rightarrow> int" where
  "reserved_cpu t a = tsum (\<lambda>b. if sr_agent_id b = a then sr_cpu_millicores b else 0) (sandboxes t)"

definition reserved_mem :: "pg_tables \<Rightarrow> uuid \<Rightarrow> int" where
  "reserved_mem t a = tsum (\<lambda>b. if sr_agent_id b = a then sr_memory_bytes b else 0) (sandboxes t)"

definition accounted :: "pg_tables \<Rightarrow> bool" where
  "accounted t \<longleftrightarrow> (\<forall>a r. tbl_get (agents t) a = Some r \<longrightarrow>
     available_cpu_millicores r + reserved_cpu t a = cpu_cores r * 1000 \<and>
     available_memory_bytes r + reserved_mem t a = memory_bytes r)"

definition capacity_inv :: "pg_tables \<Rightarrow> bool" where
  "capacity_inv t \<longleftrightarrow> tables_wf t \<and> accounted t"

text \<open>The sandboxes of a new agent: none are recorded for its identifier.\<close>

definition unknown_agent :: "pg_tables \<Rightarrow> uuid \<Rightarrow> bool" where
  "unknown_agent t a \<longleftrightarrow> tbl_get (agents t) a = None \<and> (\<forall>(_, b)\<in>set (sandboxes t). sr_agent_id b \<noteq> a)"

inductive store_step :: "uuid_lib \<Rightarrow> pg \<Rightarrow> pg \<Rightarrow> bool" for U where
  step_register: "register (PgStore U) validate aid tok cap s = (r, s') \<Longrightarrow>
    unknown_agent (db s) (agent_uuid aid) \<Longrightarrow> unat (ac_cpu_cores cap) * 1000 < 2 ^ 31 \<Longrightarrow>
    unat (ac_memory_bytes cap) < 2 ^ 63 \<Longrightarrow> store_step U s s'"
| step_assign: "pg_try_assign_sandbox U aid sid cpu mem s = (r1, s') \<Longrightarrow>
    tbl_get (sandboxes (db s)) (sandbox_uuid sid) = None \<Longrightarrow> store_step U s s'"
| step_release: "pg_release_sandbox U sid s = (r2, s') \<Longrightarrow> store_step U s s'"
| step_dead: "pg_mark_agent_dead_atomic U aid s = (r3, s') \<Longrightarrow> store_step U s s'"
| step_state: "pg_save_sandbox_state sid aid st err s = (r4, s') \<Longrightarrow> store_step U s s'"
| step_heartbeat: "pg_record_heartbeat aid s = (r5, s') \<Longrightarrow> store_step U s s'"
| step_query: "db s' = db s \<Longrightarrow> store_step U s s'"

lemma reserved_agents_update [simp]:
  "reserved_cpu (t\<lparr>agents := x\<rparr>) = reserved_cpu t" "reserved_mem (t\<lparr>agents := x\<rparr>) = reserved_mem t"
  "reserved_cpu (t\<lparr>routing_entries := y\<rparr>) = reserved_cpu t" "reserved_mem (t\<lparr>routing_entries := y\<rparr>) = reserved_mem t"
  "reserved_cpu (t\<lparr>notifications := z\<rparr>) = reserved_cpu t" "reserved_mem (t\<lparr>notifications := z\<rparr>) = reserved_mem t"
  by (simp_all add: fun_eq_iff reserved_cpu_def reserved_mem_def)

lemma accounted_dead: "accounted t \<Longrightarrow> tbl_get (agents t) a = Some r \<Longrightarrow> accounted (dead_effect U a r t)"
  by (auto simp: accounted_def dead_effect_def table_simps)

lemma accounted_assign:
  assumes "tables_wf t" "accounted t" "tbl_get (agents t) a = Some r" "tbl_get (sandboxes t) sid = None"
  shows "accounted (assign_effect U a sid cpu mem r t)"
proof -
  have "tbl_ok (sandboxes t)" using assms(1) by (simp add: tables_wf_def)
  then have "reserved_cpu (assign_effect U a sid cpu mem r t) x = reserved_cpu t x + (if x = a then cpu else 0)"
    "reserved_mem (assign_effect U a sid cpu mem r t) x = reserved_mem t x + (if x = a then mem else 0)" for x
    using assms(4) by (auto simp: assign_effect_def upsert_reservation_def reserved_cpu_def reserved_mem_def tsum_put)
  with assms(2,3) show ?thesis
    by (auto simp: accounted_def assign_effect_def upsert_reservation_def table_simps reserve_agent_def split: if_splits)
qed

lemma accounted_release:
  assumes "tables_wf t" "accounted t" "tbl_get (sandboxes t) sid = Some b"
  shows "accounted (release_effect U sid b t)"
proof -
  have "tbl_ok (sandboxes t)" using assms(1) by (simp add: tables_wf_def)
  then have "reserved_cpu (release_effect U sid b t) x = reserved_cpu t x - (if x = sr_agent_id b then sr_cpu_millicores b else 0)"
    "reserved_mem (release_effect U sid b t) x = reserved_mem t x - (if x = sr_agent_id b then sr_memory_bytes b else 0)" for x
    using assms(3) by (auto simp: release_effect_def reserved_cpu_def reserved_mem_def tsum_del)
  with assms(2) show ?thesis
    by (auto simp: accounted_def release_effect_def table_simps release_agent_def split: if_splits option.splits)
qed

section \<open>Every step keeps it\<close>

definition registered_row :: "AgentCapacity \<Rightarrow> nat \<Rightarrow> agent_row" where
  "registered_row cap beat =
    \<lparr> cpu_cores = as_i32 (ac_cpu_cores cap), memory_bytes = as_i64 (ac_memory_bytes cap),
      available_cpu_millicores = as_i32 (ac_cpu_cores cap * 1000),
      available_memory_bytes = as_i64 (ac_memory_bytes cap),
      running_sandboxes = 0, agent_state = ''active'', last_heartbeat_at = beat \<rparr>"

lemma register_db:
  assumes "register (PgStore U) validate aid tok cap s = (r, s')"
  shows "db s' = db s \<or> (\<exists>beat. db s' =
    (db s)\<lparr>agents := tbl_put (agent_uuid aid) (registered_row cap beat) (agents (db s))\<rparr>)"
proof -
  have zero: "as_i32 0 = 0" by (simp add: as_i32_def)
  show ?thesis
  proof (cases "validate tok")
    case True
    with assms obtain r' where "pg_save_agent (fresh_record aid cap) s = (r', s')"
      by (auto simp: register_def then_op_def bind_op_def ok_op_simps split: prod.splits sum.splits)
    then show ?thesis
      unfolding pg_save_agent_def
      by (drule_tac sql_db) (auto simp: Let_def fresh_record_def registered_row_def zero)
  next
    case False
    with assms show ?thesis by (auto simp: register_def ok_op_simps)
  qed
qed

lemma registered_row_ok:
  assumes "unat (ac_cpu_cores cap) * 1000 < 2 ^ 31" "unat (ac_memory_bytes cap) < 2 ^ 63"
  shows "row_ok (registered_row cap beat)"
    and "available_cpu_millicores (registered_row cap beat) = cpu_cores (registered_row cap beat) * 1000"
proof -
  have u: "unat (ac_cpu_cores cap * 1000) = unat (ac_cpu_cores cap) * 1000"
    using assms(1) by (simp add: unat_word_ariths)
  have cpu: "as_i32 (ac_cpu_cores cap * 1000) = int (unat (ac_cpu_cores cap) * 1000)"
    using assms(1) u as_i32_small [of "ac_cpu_cores cap * 1000"] by simp
  have cores: "as_i32 (ac_cpu_cores cap) = int (unat (ac_cpu_cores cap))"
    using assms(1) by (intro as_i32_small) simp
  have mem: "as_i64 (ac_memory_bytes cap) = int (unat (ac_memory_bytes cap))"
    using assms(2) by (rule as_i64_small)
  show "row_ok (registered_row cap beat)"
    using in_i32_as_i32 [of "ac_cpu_cores cap * 1000"] in_i64_as_i64 [of "ac_memory_bytes cap"] cpu mem
    by (simp add: row_ok_def registered_row_def in_i32_def)
  show "available_cpu_millicores (registered_row cap beat) = cpu_cores (registered_row cap beat) * 1000"
    by (simp add: registered_row_def cpu cores)
qed

lemma unknown_reserved: "unknown_agent t a \<Longrightarrow> reserved_cpu t a = 0 \<and> reserved_mem t a = 0"
proof -
  assume "unknown_agent t a"
  then have "\<forall>p\<in>set (sandboxes t). sr_agent_id (snd p) \<noteq> a"
    by (auto simp: unknown_agent_def)
  then have "map (\<lambda>(_, b). if sr_agent_id b = a then f b else 0) (sandboxes t) = map (\<lambda>_. 0) (sandboxes t)"
    for f :: "sandbox_row \<Rightarrow> int" by (intro map_cong) auto
  then show ?thesis
    by (simp add: reserved_cpu_def reserved_mem_def tsum_def map_replicate_const sum_list_replicate)
qed

lemma capacity_register:
  assumes "capacity_inv (db s)" "register (PgStore U) validate aid tok cap s = (r, s')"
    "unknown_agent (db s) (agent_uuid aid)" "unat (ac_cpu_cores cap) * 1000 < 2 ^ 31"
    "unat (ac_memory_bytes cap) < 2 ^ 63"
  shows "capacity_inv (db s')"
  using register_db [OF assms(2)]
proof
  assume "\<exists>beat. db s' = (db s)\<lparr>agents := tbl_put (agent_uuid aid) (registered_row cap beat) (agents (db s))\<rparr>"
  then obtain beat where
    s': "db s' = (db s)\<lparr>agents := tbl_put (agent_uuid aid) (registered_row cap beat) (agents (db s))\<rparr>"
    by blast
  note row = registered_row_ok [OF assms(4,5), of beat]
  have "available_memory_bytes (registered_row cap beat) = memory_bytes (registered_row cap beat)"
    by (simp add: registered_row_def)
  with assms(1) s' row unknown_reserved [OF assms(3)] show ?thesis
    by (auto simp: capacity_inv_def tables_wf_def accounted_def table_simps split: if_splits)
qed (use assms(1) in simp)

lemma capacity_state:
  assumes "capacity_inv (db s)" "pg_save_sandbox_state sid aid st err s = (r, s')"
  shows "capacity_inv (db s')"
proof -
  have ok: "tbl_ok (sandboxes (db s))"
    using assms(1) by (simp add: capacity_inv_def tables_wf_def)
  let ?row = "case tbl_get (sandboxes (db s)) (sandbox_uuid sid) of
        None \<Rightarrow> \<lparr> sr_agent_id = agent_uuid aid, sr_state = st, sr_error = err,
                  sr_cpu_millicores = 0, sr_memory_bytes = 0 \<rparr>
      | Some old \<Rightarrow> old\<lparr>sr_state := st, sr_error := err\<rparr>"
  let ?t = "(db s)\<lparr>sandboxes := tbl_put (sandbox_uuid sid) ?row (sandboxes (db s))\<rparr>"
  have res: "reserved_cpu ?t = reserved_cpu (db s)" "reserved_mem ?t = reserved_mem (db s)"
    by (auto simp: fun_eq_iff reserved_cpu_def reserved_mem_def tsum_put [OF ok] split: option.splits)
  have "reservation_ok ?row"
    using assms(1) by (auto simp: capacity_inv_def tables_wf_def reservation_ok_def in_i32_def in_i64_def split: option.splits)
  then have "tables_wf ?t"
    using assms(1) by (auto simp: capacity_inv_def tables_wf_def table_simps split: if_splits)
  with assms(1) res have "capacity_inv ?t"
    by (simp add: capacity_inv_def accounted_def)
  moreover have "db s' = db s \<or> db s' = ?t"
    using sql_db [OF assms(2) [unfolded pg_save_sandbox_state_def]] by (auto simp: Let_def)
  ultimately show ?thesis using assms(1) by auto
qed

lemma capacity_heartbeat:
  assumes "capacity_inv (db s)" "pg_record_heartbeat aid s = (r, s')"
  shows "capacity_inv (db s')"
  using sql_db [OF assms(2) [unfolded pg_record_heartbeat_def]] assms(1)
  by (auto simp: capacity_inv_def tables_wf_def accounted_def table_simps split: option.splits if_splits)

lemma capacity_step: "store_step U s s' \<Longrightarrow> capacity_inv (db s) \<Longrightarrow> capacity_inv (db s')"
proof (induction rule: store_step.induct)
  case (step_register validate aid tok cap s r s')
  then show ?case by (blast intro: capacity_register)
next
  case (step_assign aid sid cpu mem s r1 s')
  then show ?case
    using transaction_db [OF step_assign(1) [unfolded pg_try_assign_sandbox_def]]
    by (auto simp: capacity_inv_def dest!: try_assign_commit intro!: tables_wf_assign accounted_assign)
next
  case (step_release sid s r2 s')
  then show ?case
    using transaction_db [OF step_release(1) [unfolded pg_release_sandbox_def]]
    by (auto simp: capacity_inv_def dest!: release_commit intro!: tables_wf_release accounted_release)
next
  case (step_dead aid s r3 s')
  then show ?case
    using transaction_db [OF step_dead(1) [unfolded pg_mark_agent_dead_atomic_def]]
    by (auto simp: capacity_inv_def dest!: mark_dead_commit intro!: tables_wf_dead accounted_dead)
next
  case (step_state sid aid st err s r4 s')
  then show ?case by (blast intro: capacity_state)
next
  case (step_heartbeat aid s r5 s')
  then show ?case by (blast intro: capacity_heartbeat)
qed simp

lemma capacity_reachable: "(store_step U)\<^sup>*\<^sup>* s s' \<Longrightarrow> capacity_inv (db s) \<Longrightarrow> capacity_inv (db s')"
  by (induction rule: rtranclp_induct) (auto intro: capacity_step)

lemma reserved_nonneg:
  "tables_wf t \<Longrightarrow> 0 \<le> reserved_cpu t a \<and> 0 \<le> reserved_mem t a"
  unfolding reserved_cpu_def reserved_mem_def
  by (intro conjI tsum_nonneg) (auto simp: tables_wf_def tbl_in_set_get reservation_ok_def)

definition empty_db :: pg_tables where
  "empty_db = \<lparr> agents = [], routing_entries = [], sandboxes = [], notifications = [] \<rparr>"

lemma capacity_empty [simp]: "capacity_inv empty_db"
  by (simp add: capacity_inv_def tables_wf_def accounted_def empty_db_def)

section \<open>Properties\<close>


definition demo_start :: pg where
  "demo_start = \<lparr> db = empty_db, pg_now = 0, faults = [] \<rparr>"

definition demo_cap :: AgentCapacity where
  "demo_cap = \<lparr> ac_cpu_cores = 4, ac_memory_bytes = 4096 \<rparr>"

definition demo_registered :: pg where
  "demo_registered = demo_start\<lparr>db := empty_db\<lparr>agents := [(1, registered_row demo_cap 0)]\<rparr>\<rparr>"

definition demo_assigned :: pg where
  "demo_assigned = demo_start\<lparr>db := assign_effect rfc4122 1 7 500 1024 (registered_row demo_cap 0) (db demo_registered)\<rparr>"

lemma demo_register:
  "register (PgStore rfc4122) (\<lambda>t. t = ''join'') (AgentId 1) ''join'' demo_cap demo_start = (Inr Accepted, demo_registered)"
  by (simp add: register_def then_op_def bind_op_def pg_save_agent_def sql_def demo_start_def empty_db_def
      demo_registered_def fresh_record_def registered_row_def ok_op_def tbl_put_def Let_def as_i32_def)

lemma demo_row: "registered_row demo_cap 0 =
    \<lparr> cpu_cores = 4, memory_bytes = 4096, available_cpu_millicores = 4000, available_memory_bytes = 4096,
      running_sandboxes = 0, agent_state = ''active'', last_heartbeat_at = 0 \<rparr>"
  by (simp add: registered_row_def demo_cap_def as_i32_def as_i64_def)

lemma demo_assign:
  "pg_try_assign_sandbox rfc4122 (AgentId 1) (SandboxId 7) 500 1024 demo_registered = (Inr True, demo_assigned)"
  by (simp add: pg_try_assign_sandbox_def transaction_def try_assign_tx_def then_op_def bind_op_def sql_def
      demo_start_def empty_db_def demo_registered_def demo_assigned_def demo_row ok_op_def Let_def nop_stmt_def
      table_simps commit_tx_def assign_effect_def reserve_row_def insert_route_def notify_routing_change_def
      i32_as_u32_def i64_as_u64_def as_i32_def as_i64_def in_i32_def in_i64_def)


text \<open>C3. Eviction is atomic. Whatever storage faults occur while an agent is marked dead, the
  database either is untouched, and the caller gets an error, or has the agent dead, none of
  its routing entries, all others', and one removal notification per entry removed.\<close>

theorem mark_dead_all_or_nothing:
  assumes "pg_wf s" "pg_mark_agent_dead_atomic U a s = (r, s')"
  shows "(db s' = db s \<and> \<not> is_ok r) \<or>
    (\<exists>row. tbl_get (agents (db s)) (agent_uuid a) = Some row \<and>
       tbl_get (agents (db s')) = (tbl_get (agents (db s)))(agent_uuid a \<mapsto> row\<lparr>agent_state := ''dead''\<rparr>) \<and>
       (\<forall>sid. tbl_get (routing_entries (db s')) sid =
          (if tbl_get (routing_entries (db s)) sid = Some (agent_uuid a) then None
           else tbl_get (routing_entries (db s)) sid)) \<and>
       notifications (db s') = notifications (db s) @
         map (\<lambda>sid. routing_payload U ''remove'' sid None) (routes_of_agent (agent_uuid a) (db s)))"
proof -
  have ok: "tbl_ok (routing_entries (db s))"
    using assms(1) by (simp add: pg_wf_def tables_wf_def)
  have effect: "?thesis" if "tbl_get (agents (db s)) (agent_uuid a) = Some row"
    "db s' = dead_effect U (agent_uuid a) row (db s)" for row
    using that ok
    by (intro disjI2 exI [of _ row]) (auto simp: dead_effect_def table_simps fun_eq_iff split: option.splits)
  note run = assms(2) [unfolded pg_mark_agent_dead_atomic_def]
  show ?thesis
  proof (cases r)
    case (Inl e)
    then show ?thesis
      using transaction_db [OF run] effect by (auto dest!: mark_dead_commit)
  next
    case (Inr u)
    then show ?thesis
      using transaction_Inr [OF run [unfolded Inr]] effect
      by (auto simp: mark_dead_no_rollback dest!: mark_dead_commit)
  qed
qed

definition demo_faulty :: pg where
  "demo_faulty = demo_assigned\<lparr>faults := [None, None, None, Some (Refused ''connection reset'')]\<rparr>"

lemma demo_assigned_wf: "pg_wf demo_assigned" "pg_wf demo_faulty"
proof -
  have reg: "capacity_inv (db demo_registered)"
    using capacity_register [OF _ demo_register]
    by (simp add: demo_start_def unknown_agent_def empty_db_def demo_cap_def
        capacity_empty [unfolded empty_db_def])
  show "pg_wf demo_assigned"
    using pg_wf_try_assign [OF _ demo_assign] reg by (simp add: pg_wf_def capacity_inv_def)
  then show "pg_wf demo_faulty"
    by (simp add: pg_wf_def demo_faulty_def)
qed

theorem mark_dead_all_or_nothing_witness:
  "pg_wf demo_faulty \<and> \<not> is_ok (fst (pg_mark_agent_dead_atomic rfc4122 (AgentId 1) demo_faulty)) \<and>
   tbl_get (agents (db (snd (pg_mark_agent_dead_atomic rfc4122 (AgentId 1) demo_faulty)))) 1 =
   tbl_get (agents (db demo_faulty)) 1"
proof -
  have run: "pg_mark_agent_dead_atomic rfc4122 (AgentId 1) demo_faulty =
      (Inl (Database ''connection reset''), demo_assigned)"
    by (simp add: pg_mark_agent_dead_atomic_def transaction_def mark_dead_tx_def then_op_def bind_op_def sql_def
        demo_faulty_def demo_assigned_def assign_effect_def upsert_reservation_def set_agent_state_def
        nop_stmt_def Let_def db_err_def roll_back_def demo_start_def table_simps)
  from mark_dead_all_or_nothing [OF demo_assigned_wf(2) run] demo_assigned_wf(2) run show ?thesis
    by (auto simp: demo_faulty_def)
qed

text \<open>A reservation that is given up leaves no trace: releasing a sandbox right after it was
  assigned returns its agent and restores every agent's record, every route and every other reservation.\<close>

lemma assign_then_release:
  assumes "pg_wf s" "pg_try_assign_sandbox U a sid cpu mem s = (Inr True, s1)"
    "pg_release_sandbox U sid s1 = (Inr h, s2)" "pg_reservation_of s sid = None"
  shows "h = Some a \<and> pg_agent_of s2 = pg_agent_of s \<and> pg_route_of s2 = pg_route_of s \<and>
    pg_reservation_of s2 = pg_reservation_of s"
  using pgs.assign_release_restores [of s U a sid cpu mem s1 h s2] assms by simp

definition demo_released :: pg where
  "demo_released = demo_assigned\<lparr>db := release_effect rfc4122 7
     \<lparr> sr_agent_id = 1, sr_state = ''reserved'', sr_error = None, sr_cpu_millicores = 500, sr_memory_bytes = 1024 \<rparr>
     (db demo_assigned)\<rparr>"

lemma demo_release:
  "pg_release_sandbox rfc4122 (SandboxId 7) demo_assigned = (Inr (Some (AgentId 1)), demo_released)"
  by (simp add: pg_release_sandbox_def transaction_def release_tx_def then_op_def bind_op_def sql_def
      demo_assigned_def demo_released_def assign_effect_def upsert_reservation_def release_effect_def
      release_row_def nop_stmt_def Let_def demo_start_def demo_registered_def empty_db_def table_simps ok_op_def
      commit_tx_def notify_routing_change_def reserve_agent_def demo_row in_i32_def in_i64_def)

lemma demo_registered_wf: "pg_wf demo_registered"
  by (simp add: pg_wf_def tables_wf_def demo_registered_def demo_start_def empty_db_def table_simps
      tbl_ok_def demo_row row_ok_def in_i32_def in_i64_def)

lemma assign_then_release_witness:
  "pg_route_of demo_registered (SandboxId 7) = None \<and> pg_route_of demo_assigned (SandboxId 7) = Some (AgentId 1) \<and>
   pg_agent_of demo_released = pg_agent_of demo_registered"
proof -
  have "pg_reservation_of demo_registered (SandboxId 7) = None"
    by (simp add: pg_reservation_of_def demo_registered_def empty_db_def)
  from assign_then_release [OF demo_registered_wf demo_assign demo_release this] show ?thesis
    by (simp add: pg_route_of_def demo_registered_def empty_db_def demo_assigned_def assign_effect_def
        upsert_reservation_def table_simps)
qed

text \<open>Placement is sound: when the scheduler assigns a sandbox, the agent was active and had
  room for the request, the sandbox had no route, and the new state has exactly the one new
  route and reservation and the agent's availability reduced by exactly the request.\<close>

lemma assign_sandbox_sound:
  assumes "pg_wf s" "assign_sandbox (PgStore U) sid req s = (Inr asg, s')"
  shows "as_sandbox_id asg = sid \<and> (\<exists>ag. pg_agent_of s (as_agent_id asg) = Some ag \<and> ar_state ag = Active \<and>
      fits_req req ag \<and> pg_agent_of s' = (pg_agent_of s)(as_agent_id asg \<mapsto>
        debit (rq_cpu_millicores req) (rq_memory_bytes req) ag)) \<and>
    pg_route_of s sid = None \<and> pg_route_of s' = (pg_route_of s)(sid \<mapsto> as_agent_id asg) \<and>
    pg_reservation_of s' = (pg_reservation_of s)(sid \<mapsto>
      (as_agent_id asg, rq_cpu_millicores req, rq_memory_bytes req))"
  using pgs.assign_sandbox_assigned [OF assms] by blast

definition demo_req :: SandboxRequirements where
  "demo_req = \<lparr> rq_cpu_millicores = 500, rq_memory_bytes = 1024 \<rparr>"

lemma demo_list_active: "pg_list_active_agents demo_registered =
    (Inr [into_record 1 (registered_row demo_cap 0)], demo_registered)"
  by (simp add: pg_list_active_agents_def sql_def Let_def demo_registered_def demo_start_def empty_db_def demo_row)

lemma demo_schedule: "assign_sandbox (PgStore rfc4122) (SandboxId 7) demo_req demo_registered =
    (Inr \<lparr> as_agent_id = AgentId 1, as_sandbox_id = SandboxId 7 \<rparr>, demo_assigned)"
proof -
  have rec: "into_record 1 (registered_row demo_cap 0) = \<lparr> ar_agent_id = AgentId 1,
      ar_capacity = \<lparr> ac_cpu_cores = 4, ac_memory_bytes = 4096 \<rparr>,
      ar_available = \<lparr> av_cpu_millicores = 4000, av_memory_bytes = 4096, av_running_sandboxes = 0 \<rparr>,
      ar_state = Active \<rparr>"
    by (simp add: into_record_def demo_row i32_as_u32_def i64_as_u64_def state_from_str_def)
  show ?thesis
    by (simp add: assign_sandbox_def bind_op_def demo_list_active best_first_def rec demo_req_def demo_assign ok_op_def)
qed

lemma assign_sandbox_sound_witness:
  "pg_wf demo_registered \<and> pg_route_of demo_assigned (SandboxId 7) = Some (AgentId 1)"
  using assign_sandbox_sound [OF demo_registered_wf demo_schedule] demo_registered_wf by simp





end
