(* ===== verification/Controller_Grpc.thy ===== *)
theory Controller_Grpc
  imports Controller_Capacity
begin

text \<open>
  \<open>controller/src/grpc.rs\<close>: the connections to agents, the agent stream and the controller
  operations, over any implementation of the store.

  An \<open>mpsc\<close> channel is a number; the state records what was sent on it and whether its receiver
  is gone. A send on an open channel is taken to complete (the bound of 32 only delays it).
  The stream task of one connection is \<open>agent_stream_msg\<close> on each message and
  \<open>agent_stream_end\<close> when the stream ends.
\<close>

section \<open>Messages (proto/controller.proto)\<close>

datatype SandboxState = Unspecified | Creating | Running | Stopping | Stopped | Failed
  | Pausing | Paused | Unpausing

definition sandbox_state_of_i32 :: "i32 \<Rightarrow> SandboxState" where
  "sandbox_state_of_i32 v =
    (if v = 1 then Creating else if v = 2 then Running else if v = 3 then Stopping
     else if v = 4 then Stopped else if v = 5 then Failed else if v = 6 then Pausing
     else if v = 7 then Paused else if v = 8 then Unpausing else Unspecified)"

fun sandbox_state_to_str :: "SandboxState \<Rightarrow> string" where
  "sandbox_state_to_str Creating = ''creating''"
| "sandbox_state_to_str Running = ''running''"
| "sandbox_state_to_str Stopping = ''stopping''"
| "sandbox_state_to_str Stopped = ''stopped''"
| "sandbox_state_to_str Failed = ''failed''"
| "sandbox_state_to_str Pausing = ''pausing''"
| "sandbox_state_to_str Paused = ''paused''"
| "sandbox_state_to_str Unpausing = ''unpausing''"
| "sandbox_state_to_str Unspecified = ''unknown''"

record AgentResources =
  rs_cpu_cores :: u32
  rs_memory_bytes :: u64

datatype AgentPayload =
    Register string string "AgentResources option"
  | Heartbeat string
  | SandboxStatus string i32 string
  | ResourceReport

type_synonym AgentMessage = "AgentPayload option"

record ProtoSandboxConfig =
  pc_cpu_limit_millicores :: u32
  pc_memory_limit_bytes :: u64
  pc_env_vars :: "(string \<times> string) list"
  pc_exposed_port :: u32
  pc_pull_policy :: i32

datatype ControllerCommand =
    RegisterResponse bool string string
  | HeartbeatAck nat
  | StartSandbox string string ProtoSandboxConfig
  | StopSandbox string u32
  | PauseSandbox string
  | UnpauseSandbox string
  | FetchLogs string u32 bool

section \<open>Connections (AgentConnections)\<close>

type_synonym chan = nat

record 's ctl =
  ctl_store :: 's
  senders :: "(AgentId, chan) tbl"
  sent :: "chan \<Rightarrow> (Status + ControllerCommand) list"
  receiver_gone :: "chan \<Rightarrow> bool"

definition conn_add :: "AgentId \<Rightarrow> chan \<Rightarrow> 's ctl \<Rightarrow> 's ctl" where
  "conn_add a ch c = c\<lparr>senders := tbl_put a ch (senders c)\<rparr>"

definition conn_remove :: "AgentId \<Rightarrow> 's ctl \<Rightarrow> 's ctl" where
  "conn_remove a c = c\<lparr>senders := tbl_del a (senders c)\<rparr>"

text \<open>\<open>tx.send(item).await\<close>: true when the item was accepted.\<close>

definition chan_send :: "chan \<Rightarrow> Status + ControllerCommand \<Rightarrow> 's ctl \<Rightarrow> bool \<times> 's ctl" where
  "chan_send ch item c =
    (if receiver_gone c ch then (False, c)
     else (True, c\<lparr>sent := (sent c)(ch := sent c ch @ [item])\<rparr>))"

definition send_command ::
    "uuid_lib \<Rightarrow> AgentId \<Rightarrow> ControllerCommand \<Rightarrow> ('s ctl, ControllerError, unit) op" where
  "send_command U a cmd c = (case tbl_get (senders c) a of
      Some ch \<Rightarrow> (case chan_send ch (Inr cmd) c of
          (True, c') \<Rightarrow> (Inr (), c')
        | (False, c') \<Rightarrow> (Inl (ControllerError.Internal (''agent '' @ AgentId_to_string U a @ '' channel closed'')), c'))
    | None \<Rightarrow> (Inl (AgentNotFound (AgentId_to_string U a)), c))"

definition on_store :: "('s, 'e, 'a) op \<Rightarrow> ('s ctl, 'e, 'a) op" where
  "on_store f c = (case f (ctl_store c) of (r, s') \<Rightarrow> (r, c\<lparr>ctl_store := s'\<rparr>))"

section \<open>The agent stream (GrpcHandler::agent_stream)\<close>

text \<open>Result of one message: whether the loop goes on, the registered agent, the new state.\<close>

type_synonym 's stream_step = "bool \<times> AgentId option \<times> 's ctl"

definition handle_register ::
    "uuid_lib \<Rightarrow> 's ControllerStore \<Rightarrow> (string \<Rightarrow> bool) \<Rightarrow> chan \<Rightarrow> string \<Rightarrow> string \<Rightarrow> AgentResources option \<Rightarrow>
     AgentId option \<Rightarrow> 's ctl \<Rightarrow> 's stream_step" where
  "handle_register U S validate ch agent_id_str join_token resources reg c =
    (case uuid_parse_str U agent_id_str of
       None \<Rightarrow>
         (let (_, c') = chan_send ch (Inl (status Code_InvalidArgument ''invalid agent_id UUID'')) c
          in (False, reg, c'))
     | Some u \<Rightarrow>
         (let agent_id = AgentId u;
              capacity = \<lparr> ac_cpu_cores = (case resources of None \<Rightarrow> 0 | Some r \<Rightarrow> rs_cpu_cores r),
                ac_memory_bytes = (case resources of None \<Rightarrow> 0 | Some r \<Rightarrow> rs_memory_bytes r) \<rparr>;
              (result, c1) = on_store (register S validate agent_id join_token capacity) c;
              (response, reg', c2) = (case result of
                 Inr Accepted \<Rightarrow>
                   (let c' = conn_add agent_id ch c1;
                        (_, c'') = on_store (monitor_record_heartbeat S agent_id) c'
                    in (RegisterResponse True [] [], Some agent_id, c''))
               | Inr (Rejected reason) \<Rightarrow> (RegisterResponse False reason [], reg, c1)
               | Inl e \<Rightarrow> (RegisterResponse False (ControllerError_to_string e) [], reg, c1));
              (ok, c3) = chan_send ch (Inr response) c2
          in (ok, reg', c3)))"

definition handle_heartbeat ::
    "uuid_lib \<Rightarrow> 's ControllerStore \<Rightarrow> nat \<Rightarrow> chan \<Rightarrow> string \<Rightarrow> AgentId option \<Rightarrow> 's ctl \<Rightarrow> 's stream_step" where
  "handle_heartbeat U S now ch agent_id_str reg c =
    (case uuid_parse_str U agent_id_str of
       None \<Rightarrow> (True, reg, c)
     | Some u \<Rightarrow>
         if reg \<noteq> Some (AgentId u) then (True, reg, c)
         else (case on_store (registry_heartbeat U S (AgentId u)) c of
             (Inl e, c1) \<Rightarrow>
               (let (_, c2) = chan_send ch (Inl (status Code_NotFound (ControllerError_to_string e))) c1
                in (False, reg, c2))
           | (Inr _, c1) \<Rightarrow>
               (let (_, c2) = on_store (monitor_record_heartbeat S (AgentId u)) c1;
                    (ok, c3) = chan_send ch (Inr (HeartbeatAck now)) c2
                in (ok, reg, c3))))"

definition is_terminal :: "SandboxState \<Rightarrow> bool" where
  "is_terminal st \<longleftrightarrow> st = Stopped \<or> st = Failed"

definition handle_status ::
    "uuid_lib \<Rightarrow> 's ControllerStore \<Rightarrow> string \<Rightarrow> i32 \<Rightarrow> string \<Rightarrow> AgentId option \<Rightarrow> 's ctl \<Rightarrow> 's stream_step" where
  "handle_status U S sandbox_id_str state_i32 error_message reg c =
    (case reg of
       None \<Rightarrow> (True, reg, c)
     | Some agent_id \<Rightarrow> (case uuid_parse_str U sandbox_id_str of
         None \<Rightarrow> (True, reg, c)
       | Some u \<Rightarrow>
           (let sandbox_id = SandboxId u;
                st = sandbox_state_of_i32 state_i32;
                (found, c1) = on_store (find_routing_entry S sandbox_id) c;
                accept = (case found of
                    Inr (Some entry) \<Rightarrow> re_agent_id entry = agent_id
                  | Inr None \<Rightarrow> is_terminal st
                  | Inl _ \<Rightarrow> False)
            in if \<not> accept then (True, reg, c1)
               else (let (_, c2) = on_store (save_sandbox_state S sandbox_id agent_id (sandbox_state_to_str st)
                            (if error_message = [] then None else Some error_message)) c1
                     in (True, reg, c2)))))"

definition agent_stream_msg ::
    "uuid_lib \<Rightarrow> 's ControllerStore \<Rightarrow> (string \<Rightarrow> bool) \<Rightarrow> nat \<Rightarrow> chan \<Rightarrow> AgentMessage \<Rightarrow>
     AgentId option \<Rightarrow> 's ctl \<Rightarrow> 's stream_step" where
  "agent_stream_msg U S validate now ch msg reg c =
    (case msg of
       None \<Rightarrow> (True, reg, c)
     | Some (Register a t r) \<Rightarrow> handle_register U S validate ch a t r reg c
     | Some (Heartbeat a) \<Rightarrow> handle_heartbeat U S now ch a reg c
     | Some (SandboxStatus sid st e) \<Rightarrow> handle_status U S sid st e reg c
     | Some ResourceReport \<Rightarrow> (True, reg, c))"

definition agent_stream_end :: "AgentId option \<Rightarrow> 's ctl \<Rightarrow> 's ctl" where
  "agent_stream_end reg c = (case reg of Some a \<Rightarrow> conn_remove a c | None \<Rightarrow> c)"

fun agent_stream ::
    "uuid_lib \<Rightarrow> 's ControllerStore \<Rightarrow> (string \<Rightarrow> bool) \<Rightarrow> nat \<Rightarrow> chan \<Rightarrow> AgentMessage list \<Rightarrow>
     AgentId option \<Rightarrow> 's ctl \<Rightarrow> 's ctl" where
  "agent_stream U S validate now ch [] reg c = agent_stream_end reg c"
| "agent_stream U S validate now ch (msg # msgs) reg c =
    (case agent_stream_msg U S validate now ch msg reg c of
       (True, reg', c') \<Rightarrow> agent_stream U S validate now ch msgs reg' c'
     | (False, reg', c') \<Rightarrow> agent_stream_end reg' c')"

section \<open>Controller operations (Controller)\<close>

record CreateSandboxRequest =
  cr_sandbox_id :: SandboxId
  cr_image :: string
  cr_requirements :: SandboxRequirements
  cr_env_vars :: "(string \<times> string) list"
  cr_exposed_port :: u32
  cr_pull_policy :: PullPolicy

definition start_command :: "uuid_lib \<Rightarrow> CreateSandboxRequest \<Rightarrow> ControllerCommand" where
  "start_command U req = StartSandbox (SandboxId_to_string U (cr_sandbox_id req)) (cr_image req)
    \<lparr> pc_cpu_limit_millicores = rq_cpu_millicores (cr_requirements req),
      pc_memory_limit_bytes = rq_memory_bytes (cr_requirements req),
      pc_env_vars = cr_env_vars req, pc_exposed_port = cr_exposed_port req,
      pc_pull_policy = wire_pull_policy_as_i32 (to_wire (cr_pull_policy req)) \<rparr>"

definition controller_create_sandbox ::
    "uuid_lib \<Rightarrow> 's ControllerStore \<Rightarrow> CreateSandboxRequest \<Rightarrow> ('s ctl, ControllerError, SandboxAssignment) op" where
  "controller_create_sandbox U S req =
    bind_op (on_store (assign_sandbox S (cr_sandbox_id req) (cr_requirements req))) (\<lambda>assignment c.
      case send_command U (as_agent_id assignment) (start_command U req) c of
        (Inr _, c') \<Rightarrow> (Inr assignment, c')
      | (Inl err, c') \<Rightarrow> (Inl err, snd (on_store (release_sandbox S (as_sandbox_id assignment)) c')))"

fun sweep_each :: "'s ControllerStore \<Rightarrow> AgentId list \<Rightarrow> 's ctl \<Rightarrow> 's ctl" where
  "sweep_each S [] c = c"
| "sweep_each S (a # as) c =
    (case on_store (mark_agent_dead S a) c of
       (Inr _, c') \<Rightarrow> sweep_each S as (conn_remove a c')
     | (Inl (AgentNotFound _), c') \<Rightarrow> sweep_each S as (conn_remove a c')
     | (Inl _, c') \<Rightarrow> sweep_each S as c')"

definition sweep_dead_agents :: "'s ControllerStore \<Rightarrow> 's ctl \<Rightarrow> AgentId list \<times> 's ctl" where
  "sweep_dead_agents S c = (case on_store (monitor_dead_agents S) c of
      (Inl _, c') \<Rightarrow> ([], c')
    | (Inr dead, c') \<Rightarrow> (dead, sweep_each S dead c'))"

section \<open>Operations only consume faults\<close>

text \<open>Every operation of the Postgres store leaves the clock alone and uses up a prefix of the
  fault list; hence it keeps \<open>pg_healthy\<close>.\<close>

definition pg_op :: "(pg, ControllerError, 'a) op \<Rightarrow> bool" where
  "pg_op m \<longleftrightarrow> (\<forall>s r s'. m s = (r, s') \<longrightarrow> pg_now s' = pg_now s \<and> (pg_healthy s \<longrightarrow> pg_healthy s'))"

named_theorems pg_op_intros \<open>operations that only consume faults\<close>

lemma pg_op_sql [pg_op_intros]: "pg_op (sql q)"
  by (auto simp: pg_op_def pg_healthy_def sql_def Let_def split: option.splits db_fault.splits sum.splits prod.splits)

lemma pg_op_ok [pg_op_intros]: "pg_op (ok_op a)" "pg_op (err_op e)"
  by (simp_all add: pg_op_def ok_op_simps)

lemma pg_op_bind [pg_op_intros]: "pg_op m \<Longrightarrow> (\<And>a. pg_op (f a)) \<Longrightarrow> pg_op (bind_op m f)"
  by (auto simp: pg_op_def bind_op_def split: prod.splits sum.splits)

lemma pg_op_then [pg_op_intros]: "pg_op m \<Longrightarrow> pg_op k \<Longrightarrow> pg_op (then_op m k)"
  by (simp add: then_op_def pg_op_bind)

lemma pg_op_if [pg_op_intros]: "pg_op m \<Longrightarrow> pg_op k \<Longrightarrow> pg_op (if b then m else k)"
  by simp

lemma pg_op_notify [pg_op_intros]: "pg_op (notify_routing_change U opn sid aid)"
  by (simp add: notify_routing_change_def pg_op_sql)

lemma pg_op_each [pg_op_intros]: "(\<And>x. pg_op (f x)) \<Longrightarrow> pg_op (each_op f xs)"
  by (induction xs) (simp_all add: pg_op_ok pg_op_then)

lemma pg_op_transaction [pg_op_intros]:
  assumes "pg_op body"
  shows "pg_op (transaction body)"
  unfolding transaction_def
proof (rule pg_op_then [OF pg_op_sql])
  have "pg_now s' = pg_now s0 \<and> (pg_healthy s0 \<longrightarrow> pg_healthy s')"
    if "(case body s0 of (Inl e, s) \<Rightarrow> (Inl e, roll_back s0 s)
       | (Inr (Rollback a), s) \<Rightarrow> (Inr a, roll_back s0 s)
       | (Inr (Commit a), s) \<Rightarrow> commit_tx s0 a s) = (r, s')" for s0 r s'
    using that assms
    by (auto simp: pg_op_def pg_healthy_def roll_back_def commit_tx_def Let_def
        split: prod.splits sum.splits tx_end.splits option.splits db_fault.splits)
  then show "pg_op (\<lambda>s0. case body s0 of (Inl e, s) \<Rightarrow> (Inl e, roll_back s0 s)
       | (Inr (Rollback a), s) \<Rightarrow> (Inr a, roll_back s0 s)
       | (Inr (Commit a), s) \<Rightarrow> commit_tx s0 a s)"
    by (auto simp: pg_op_def)
qed

lemma pg_op_try_assign [pg_op_intros]: "pg_op (pg_try_assign_sandbox U a sid cpu mem)"
  unfolding pg_try_assign_sandbox_def try_assign_tx_def
  by (intro pg_op_intros) (auto intro!: pg_op_intros split: option.splits)

lemma pg_op_release [pg_op_intros]: "pg_op (pg_release_sandbox U sid)"
  unfolding pg_release_sandbox_def release_tx_def
  by (intro pg_op_intros) (auto intro!: pg_op_intros split: option.splits)

lemma pg_op_mark_dead [pg_op_intros]: "pg_op (pg_mark_agent_dead_atomic U a)"
  unfolding pg_mark_agent_dead_atomic_def mark_dead_tx_def
  by (intro pg_op_intros)

lemma pg_op_candidates [pg_op_intros]: "pg_op (try_candidates (PgStore U) sid req rs)"
  by (induction rs) (auto intro!: pg_op_intros)

lemma pg_op_assign [pg_op_intros]: "pg_op (assign_sandbox (PgStore U) sid req)"
  unfolding assign_sandbox_def by (auto intro!: pg_op_intros simp: pg_list_active_agents_def)

lemma pg_op_healthy: "pg_op m \<Longrightarrow> m s = (r, s') \<Longrightarrow> pg_healthy s \<Longrightarrow> pg_healthy s'"
  by (auto simp: pg_op_def)

lemma release_live:
  assumes "pg_healthy s" "tbl_get (sandboxes (db s)) (sandbox_uuid sid) = Some b"
    "\<And>r. tbl_get (agents (db s)) (sr_agent_id b) = Some r \<Longrightarrow>
       in_i32 (available_cpu_millicores r + sr_cpu_millicores b) \<and> in_i32 (running_sandboxes r - 1) \<and>
       in_i64 (available_memory_bytes r + sr_memory_bytes b)"
  shows "fst (pg_release_sandbox U sid s) = Inr (Some (AgentId (sr_agent_id b)))"
  unfolding pg_release_sandbox_def
proof (rule transaction_healthy [OF assms(1)])
  fix s0 assume "pg_healthy s0" "db s0 = db s"
  moreover obtain t where "release_row (sr_agent_id b) (sr_cpu_millicores b) (sr_memory_bytes b) (db s) = Inr ((), t)"
    using assms(3) by (cases "tbl_get (agents (db s)) (sr_agent_id b)") (auto simp: release_row_def)
  ultimately show "\<exists>s1. release_tx U sid s0 = (Inr (Commit (Some (AgentId (sr_agent_id b)))), s1) \<and> pg_healthy s1"
    using assms(2)
    by (simp add: release_tx_def bind_op_def then_op_def sql_healthy notify_routing_change_def ok_op_def pg_healthy_def)
qed

section \<open>Creating a sandbox\<close>

lemma send_command_store: "send_command U a cmd c = (r, c') \<Longrightarrow>
    ctl_store c' = ctl_store c \<and> senders c' = senders c \<and> receiver_gone c' = receiver_gone c"
  by (auto simp: send_command_def chan_send_def split: option.splits if_splits prod.splits)

lemma i32_as_u32_inj: "i32_as_u32 x = i32_as_u32 y \<Longrightarrow> 0 \<le> x \<Longrightarrow> x < 2 ^ 32 \<Longrightarrow> 0 \<le> y \<Longrightarrow> y < 2 ^ 32 \<Longrightarrow> x = y"
  by (drule arg_cong [where f = uint]) (simp add: i32_as_u32_def uint_word_of_int)

lemma i64_as_u64_inj: "i64_as_u64 x = i64_as_u64 y \<Longrightarrow> 0 \<le> x \<Longrightarrow> x < 2 ^ 64 \<Longrightarrow> 0 \<le> y \<Longrightarrow> y < 2 ^ 64 \<Longrightarrow> x = y"
  by (drule arg_cong [where f = uint]) (simp add: i64_as_u64_def uint_word_of_int)

lemma release_after_assign:
  assumes "pg_wf s" "pg_healthy s" "assign_sandbox (PgStore U) sid req s = (Inr asg, s1)"
  shows "\<exists>s2. pg_release_sandbox U (as_sandbox_id asg) s1 = (Inr (Some (as_agent_id asg)), s2)"
proof -
  let ?cpu = "rq_cpu_millicores req" and ?mem = "rq_memory_bytes req" and ?a = "as_agent_id asg"
  note * = pgs.assign_sandbox_assigned [OF assms(1,3)]
  have wf1: "pg_wf s1" and healthy1: "pg_healthy s1"
    using * pg_op_healthy [OF pg_op_assign assms(3,2)] by auto
  have sid: "as_sandbox_id asg = sid" using * by simp
  from * obtain b where b: "tbl_get (sandboxes (db s1)) (sandbox_uuid sid) = Some b"
    "AgentId (sr_agent_id b) = ?a" "i32_as_u32 (sr_cpu_millicores b) = ?cpu" "i64_as_u64 (sr_memory_bytes b) = ?mem"
    by (auto simp: pg_reservation_of_def fun_eq_iff split: if_splits)
  from * obtain ag where ag: "pg_agent_of s ?a = Some ag" "fits_req req ag" "pg_agent_of s1 ?a = Some (debit ?cpu ?mem ag)"
    by auto
  have bok: "reservation_ok b"
    using wf1 b(1) by (auto simp: pg_wf_def tables_wf_def)
  have range: "in_i32 (available_cpu_millicores r + sr_cpu_millicores b) \<and> in_i32 (running_sandboxes r - 1) \<and>
      in_i64 (available_memory_bytes r + sr_memory_bytes b)" if r: "tbl_get (agents (db s1)) (sr_agent_id b) = Some r" for r
  proof -
    have rok: "row_ok r" using r wf1 by (auto simp: pg_wf_def tables_wf_def)
    from ag(1) obtain r0 where r0: "tbl_get (agents (db s)) (agent_uuid ?a) = Some r0" "ag = into_record (agent_uuid ?a) r0"
      by (auto simp: pg_agent_of_def)
    then have r0ok: "row_ok r0" using assms(1) by (auto simp: pg_wf_def tables_wf_def)
    have "agent_uuid ?a = sr_agent_id b" using b(2) by (metis AgentId.sel)
    then have "into_record (agent_uuid ?a) r = debit ?cpu ?mem (into_record (agent_uuid ?a) r0)"
      using ag(3) r r0 by (simp add: pg_agent_of_def)
    then have cpu: "i32_as_u32 (available_cpu_millicores r + sr_cpu_millicores b) = i32_as_u32 (available_cpu_millicores r0)"
      and mem: "i64_as_u64 (available_memory_bytes r + sr_memory_bytes b) = i64_as_u64 (available_memory_bytes r0)"
      by (simp_all add: into_record_def debit_def u32_arith u64_arith b)
    have "available_cpu_millicores r + sr_cpu_millicores b < 2 ^ 32" "available_memory_bytes r + sr_memory_bytes b < 2 ^ 64"
      using rok bok by (auto simp: row_ok_def reservation_ok_def in_i32_def in_i64_def)
    then have "available_cpu_millicores r + sr_cpu_millicores b = available_cpu_millicores r0"
      "available_memory_bytes r + sr_memory_bytes b = available_memory_bytes r0"
      using i32_as_u32_inj [OF cpu] i64_as_u64_inj [OF mem] rok r0ok bok
      by (auto simp: row_ok_def reservation_ok_def in_i32_def in_i64_def)
    with r0ok rok show ?thesis
      by (auto simp: row_ok_def in_i32_def)
  qed
  have "fst (pg_release_sandbox U sid s1) = Inr (Some (AgentId (sr_agent_id b)))"
    using release_live [OF healthy1 b(1) range] .
  with b(2) sid show ?thesis
    by (metis prod.collapse)
qed

text \<open>C17. A failed creation has no effect on the database: with storage available, when
  \<open>create_sandbox\<close> returns an error (no agent has room, the chosen agent is not connected, or
  its channel is closed) every agent record and every route is what it was before.\<close>

theorem create_failure_rolls_back:
  assumes "pg_wf (ctl_store c)" "pg_healthy (ctl_store c)"
    "pg_reservation_of (ctl_store c) (cr_sandbox_id req) = None"
    "pg_route_of (ctl_store c) (cr_sandbox_id req) = None"
    "\<forall>a ag. pg_agent_of (ctl_store c) a = Some ag \<longrightarrow> Suc (unat (av_running_sandboxes (ar_available ag))) < 2 ^ 31"
    "controller_create_sandbox U (PgStore U) req c = (Inl e, c')"
  shows "pg_agent_of (ctl_store c') = pg_agent_of (ctl_store c) \<and>
    pg_route_of (ctl_store c') = pg_route_of (ctl_store c)"
proof (cases "assign_sandbox (PgStore U) (cr_sandbox_id req) (cr_requirements req) (ctl_store c)")
  case (Pair r s1)
  show ?thesis
  proof (cases r)
    case (Inl err)
    with assms(6) Pair have "c' = c\<lparr>ctl_store := s1\<rparr>"
      by (simp add: controller_create_sandbox_def bind_op_def on_store_def)
    with Pair Inl pgs.assign_sandbox_best [of "ctl_store c" "cr_sandbox_id req" "cr_requirements req" U] assms(1,2,4,5)
    show ?thesis by (auto split: if_splits)
  next
    case (Inr asg)
    note * = pgs.assign_sandbox_assigned [OF assms(1) Pair [unfolded Inr]]
    have sid: "as_sandbox_id asg = cr_sandbox_id req" using * by simp
    obtain s2 where rel: "pg_release_sandbox U (as_sandbox_id asg) s1 = (Inr (Some (as_agent_id asg)), s2)"
      using release_after_assign [OF assms(1,2) Pair [unfolded Inr]] by blast
    obtain c1 where c1: "ctl_store c1 = s1" "c' = c1\<lparr>ctl_store := s2\<rparr>"
      using assms(6) Pair Inr rel
      by (auto simp: controller_create_sandbox_def bind_op_def on_store_def split: prod.splits sum.splits
          dest!: send_command_store)
    from * obtain ag where ag: "pg_agent_of (ctl_store c) (as_agent_id asg) = Some ag"
      "pg_agent_of s1 = (pg_agent_of (ctl_store c))(as_agent_id asg \<mapsto>
         debit (rq_cpu_millicores (cr_requirements req)) (rq_memory_bytes (cr_requirements req)) ag)"
      by blast
    have "av_running_sandboxes (ar_available ag) + 1 \<noteq> 0"
    proof
      assume "av_running_sandboxes (ar_available ag) + 1 = 0"
      then have "av_running_sandboxes (ar_available ag) = - 1" by (simp add: eq_neg_iff_add_eq_0)
      then have "unat (av_running_sandboxes (ar_available ag)) = 2 ^ 32 - 1" by (simp add: unsigned_minus_1_eq_mask mask_eq_exp_minus_1)
      with assms(5) ag(1) show False by fastforce
    qed
    moreover from release_views(2) [OF _ rel refl] * obtain cpu mem where
      "pg_reservation_of s1 (cr_sandbox_id req) = Some (as_agent_id asg, cpu, mem)"
      "pg_route_of s2 = (pg_route_of s1)(cr_sandbox_id req := None)"
      "pg_agent_of s2 = (pg_agent_of s1)(as_agent_id asg := map_option (credit cpu mem) (pg_agent_of s1 (as_agent_id asg)))"
      by (auto simp: sid)
    ultimately show ?thesis
      using * ag c1 assms(4) by (auto simp: credit_debit fun_upd_idem)
  qed
qed

definition demo_ctl :: "pg ctl" where
  "demo_ctl = \<lparr> ctl_store = demo_registered, senders = [], sent = (\<lambda>_. []), receiver_gone = (\<lambda>_. False) \<rparr>"

definition demo_create :: CreateSandboxRequest where
  "demo_create = \<lparr> cr_sandbox_id = SandboxId 7, cr_image = ''alpine'', cr_requirements = demo_req,
     cr_env_vars = [], cr_exposed_port = 8080, cr_pull_policy = IfNotPresent \<rparr>"

lemma demo_ctl_pre:
  "pg_wf (ctl_store demo_ctl)" "pg_healthy (ctl_store demo_ctl)"
  "pg_reservation_of (ctl_store demo_ctl) (cr_sandbox_id demo_create) = None"
  "pg_route_of (ctl_store demo_ctl) (cr_sandbox_id demo_create) = None"
  "\<forall>a ag. pg_agent_of (ctl_store demo_ctl) a = Some ag \<longrightarrow> Suc (unat (av_running_sandboxes (ar_available ag))) < 2 ^ 31"
  using demo_registered_wf
  by (auto simp: demo_ctl_def pg_healthy_def demo_registered_def demo_start_def pg_views empty_db_def demo_create_def
      table_simps into_record_def demo_row i32_as_u32_def split: if_splits)

theorem create_failure_rolls_back_witness:
  "\<not> is_ok (fst (controller_create_sandbox rfc4122 (PgStore rfc4122) demo_create demo_ctl)) \<and>
   pg_agent_of (ctl_store (snd (controller_create_sandbox rfc4122 (PgStore rfc4122) demo_create demo_ctl))) =
     pg_agent_of demo_registered"
proof -
  define c' where "c' = snd (controller_create_sandbox rfc4122 (PgStore rfc4122) demo_create demo_ctl)"
  have run: "controller_create_sandbox rfc4122 (PgStore rfc4122) demo_create demo_ctl =
      (Inl (AgentNotFound (AgentId_to_string rfc4122 (AgentId 1))), c')"
    by (simp add: c'_def controller_create_sandbox_def bind_op_def on_store_def demo_ctl_def demo_create_def
        demo_schedule send_command_def)
  from create_failure_rolls_back [OF demo_ctl_pre run] run show ?thesis
    by (simp add: demo_ctl_def)
qed

section \<open>What an agent's messages may change\<close>

lemma on_store_eq: "on_store f c = (r, c') \<Longrightarrow>
    f (ctl_store c) = (r, ctl_store c') \<and> senders c' = senders c \<and> sent c' = sent c \<and> receiver_gone c' = receiver_gone c"
  by (auto simp: on_store_def split: prod.splits)

lemma chan_send_store: "chan_send ch item c = (ok, c') \<Longrightarrow>
    ctl_store c' = ctl_store c \<and> senders c' = senders c \<and> receiver_gone c' = receiver_gone c"
  by (auto simp: chan_send_def split: if_splits)

definition status_rights :: "pg_tables \<Rightarrow> AgentId \<Rightarrow> uuid \<Rightarrow> SandboxState \<Rightarrow> bool" where
  "status_rights t a u st \<longleftrightarrow> tbl_get (routing_entries t) u = Some (agent_uuid a) \<or>
     tbl_get (routing_entries t) u = None \<and> is_terminal st"

lemma handle_status_effect:
  assumes "handle_status U (PgStore U) sid_str st_i32 err reg c = (go, reg', c')"
  shows "go \<and> reg' = reg \<and> senders c' = senders c \<and> sent c' = sent c \<and> (db (ctl_store c') = db (ctl_store c) \<or>
    (\<exists>a u b. reg = Some a \<and> uuid_parse_str U sid_str = Some u \<and>
       status_rights (db (ctl_store c)) a u (sandbox_state_of_i32 st_i32) \<and>
       db (ctl_store c') = (db (ctl_store c))\<lparr>sandboxes := tbl_put u b (sandboxes (db (ctl_store c)))\<rparr> \<and>
       (\<forall>old. tbl_get (sandboxes (db (ctl_store c))) u = Some old \<longrightarrow>
          b = old\<lparr>sr_state := sr_state b, sr_error := sr_error b\<rparr>)))"
proof (cases "\<exists>a u. reg = Some a \<and> uuid_parse_str U sid_str = Some u")
  case False
  with assms show ?thesis
    by (auto simp: handle_status_def split: option.splits)
next
  case True
  then obtain a u where a: "reg = Some a" and u: "uuid_parse_str U sid_str = Some u" by blast
  let ?st = "sandbox_state_of_i32 st_i32" and ?err = "if err = [] then None else Some err"
  obtain found c1 where f: "on_store (pg_find_routing_entry (SandboxId u)) c = (found, c1)"
    by (cases "on_store (pg_find_routing_entry (SandboxId u)) c")
  note f' = on_store_eq [OF f]
  have db1: "db (ctl_store c1) = db (ctl_store c)"
    using conjunct1 [OF f'] unfolding pg_find_routing_entry_def by (rule sql_read_db)
  let ?ok = "case found of Inr (Some entry) \<Rightarrow> re_agent_id entry = a | Inr None \<Rightarrow> is_terminal ?st | Inl _ \<Rightarrow> False"
  obtain r2 c2 where s2: "on_store (pg_save_sandbox_state (SandboxId u) a (sandbox_state_to_str ?st) ?err) c1 = (r2, c2)"
    by (cases "on_store (pg_save_sandbox_state (SandboxId u) a (sandbox_state_to_str ?st) ?err) c1")
  note s2' = on_store_eq [OF s2]
  have res: "go \<and> reg' = reg \<and> c' = (if ?ok then c2 else c1)"
    using assms a u f s2 by (simp add: handle_status_def Let_def split: if_splits)
  have "status_rights (db (ctl_store c)) a u ?st" if "?ok"
    using that f' by (cases "tbl_get (routing_entries (db (ctl_store c))) u")
      (auto simp: status_rights_def pg_find_routing_entry_def split: sum.splits option.splits dest!: sql_Inr)
  with res db1 f' s2' sql_db [OF conjunct1 [OF s2', unfolded pg_save_sandbox_state_def], simplified Let_def] show ?thesis
    using a u by (simp split: if_splits option.splits) fastforce+
qed

text \<open>C19. Only the owner reports on a sandbox. A \<open>SandboxStatus\<close> message on an agent stream, with
  any storage faults, leaves agents, routes, notifications and connections alone, and changes the
  row of a sandbox only if it names that sandbox and the stream's registered agent owns its route,
  or the sandbox has no route and the reported state is terminal; a row it finds keeps its owner and reservation.\<close>

theorem status_only_from_owner:
  assumes "handle_status U (PgStore U) sid_str st_i32 err reg c = (go, reg', c')"
  shows "agents (db (ctl_store c')) = agents (db (ctl_store c)) \<and>
    routing_entries (db (ctl_store c')) = routing_entries (db (ctl_store c)) \<and>
    notifications (db (ctl_store c')) = notifications (db (ctl_store c)) \<and> senders c' = senders c \<and>
    (\<forall>k. tbl_get (sandboxes (db (ctl_store c'))) k \<noteq> tbl_get (sandboxes (db (ctl_store c))) k \<longrightarrow>
      uuid_parse_str U sid_str = Some k \<and>
      (\<exists>a. reg = Some a \<and>
        (tbl_get (routing_entries (db (ctl_store c))) k = Some (agent_uuid a) \<or>
         tbl_get (routing_entries (db (ctl_store c))) k = None \<and> is_terminal (sandbox_state_of_i32 st_i32))) \<and>
      (\<forall>b b'. tbl_get (sandboxes (db (ctl_store c))) k = Some b \<longrightarrow>
         tbl_get (sandboxes (db (ctl_store c'))) k = Some b' \<longrightarrow>
         sr_agent_id b' = sr_agent_id b \<and> sr_cpu_millicores b' = sr_cpu_millicores b \<and>
         sr_memory_bytes b' = sr_memory_bytes b))"
proof -
  from handle_status_effect [OF assms] consider "db (ctl_store c') = db (ctl_store c)" "senders c' = senders c"
    | a u b where "reg = Some a" "uuid_parse_str U sid_str = Some u" "senders c' = senders c"
      "status_rights (db (ctl_store c)) a u (sandbox_state_of_i32 st_i32)"
      "db (ctl_store c') = (db (ctl_store c))\<lparr>sandboxes := tbl_put u b (sandboxes (db (ctl_store c)))\<rparr>"
      "\<forall>old. tbl_get (sandboxes (db (ctl_store c))) u = Some old \<longrightarrow> b = old\<lparr>sr_state := sr_state b, sr_error := sr_error b\<rparr>"
    by blast
  then show ?thesis
  proof cases
    case 2
    have "sr_agent_id b = sr_agent_id old \<and> sr_cpu_millicores b = sr_cpu_millicores old \<and> sr_memory_bytes b = sr_memory_bytes old"
      if "tbl_get (sandboxes (db (ctl_store c))) u = Some old" for old
      using 2(6) that by (cases b; cases old) auto
    with 2 show ?thesis
      by (simp add: table_simps status_rights_def split: if_splits)
  qed simp
qed

definition demo_ctl2 :: "pg ctl" where
  "demo_ctl2 = demo_ctl\<lparr>ctl_store := demo_assigned\<rparr>"

theorem status_only_from_owner_witness:
  "\<exists>c'. handle_status rfc4122 (PgStore rfc4122) (uuid_to_string rfc4122 7) 2 [] (Some (AgentId 1)) demo_ctl2 =
      (True, Some (AgentId 1), c') \<and>
    map_option sr_state (tbl_get (sandboxes (db (ctl_store c'))) 7) = Some ''running'' \<and>
    map_option sr_state (tbl_get (sandboxes (db (ctl_store demo_ctl2))) 7) = Some ''reserved'' \<and>
    tbl_get (routing_entries (db (ctl_store demo_ctl2))) 7 = Some 1"
proof -
  define c' where "c' = snd (snd (handle_status rfc4122 (PgStore rfc4122) (uuid_to_string rfc4122 7) 2 []
     (Some (AgentId 1)) demo_ctl2))"
  have route: "tbl_get (routing_entries (db demo_assigned)) 7 = Some 1"
    by (simp add: demo_assigned_def assign_effect_def upsert_reservation_def table_simps)
  have fl: "faults demo_assigned = []" "pg_now demo_assigned = 0"
    by (simp_all add: demo_assigned_def demo_start_def)
  have run: "handle_status rfc4122 (PgStore rfc4122) (uuid_to_string rfc4122 7) 2 [] (Some (AgentId 1)) demo_ctl2 =
      (True, Some (AgentId 1), c')"
    and row': "map_option sr_state (tbl_get (sandboxes (db (ctl_store c'))) 7) = Some ''running''"
    using route fl
    by (simp_all add: c'_def handle_status_def demo_ctl2_def rfc.parse_to_string Let_def on_store_def
        pg_find_routing_entry_def pg_save_sandbox_state_def sql_def sandbox_state_of_i32_def table_simps
        split: option.splits)
  have row: "map_option sr_state (tbl_get (sandboxes (db (ctl_store demo_ctl2))) 7) = Some ''reserved''"
    by (simp add: demo_ctl2_def demo_assigned_def assign_effect_def upsert_reservation_def table_simps
        demo_registered_def empty_db_def)
  have "tbl_get (sandboxes (db (ctl_store c'))) 7 \<noteq> tbl_get (sandboxes (db (ctl_store demo_ctl2))) 7"
    using row row' by auto
  with status_only_from_owner [OF run] run row row' show ?thesis
    by (auto simp: is_terminal_def sandbox_state_of_i32_def)
qed

text \<open>Heartbeats are bound to the registered agent and never revive a dead one: a heartbeat
  that names another agent than the stream's is dropped without touching anything; one that
  names it changes at most that agent's heartbeat time, so an agent marked dead stays dead.\<close>

lemma heartbeat_scope:
  assumes "handle_heartbeat U (PgStore U) now ch aid_str reg c = (go, reg', c')"
  shows "reg' = reg \<and> senders c' = senders c \<and>
    routing_entries (db (ctl_store c')) = routing_entries (db (ctl_store c)) \<and>
    sandboxes (db (ctl_store c')) = sandboxes (db (ctl_store c)) \<and>
    (\<forall>k. tbl_get (agents (db (ctl_store c'))) k \<noteq> tbl_get (agents (db (ctl_store c))) k \<longrightarrow>
      reg = Some (AgentId k) \<and> uuid_parse_str U aid_str = Some k \<and>
      (\<exists>r. tbl_get (agents (db (ctl_store c))) k = Some r \<and>
        tbl_get (agents (db (ctl_store c'))) k = Some (r\<lparr>last_heartbeat_at := pg_now (ctl_store c)\<rparr>)))"
proof (cases "\<exists>u. uuid_parse_str U aid_str = Some u \<and> reg = Some (AgentId u)")
  case False
  then have "c' = c \<and> reg' = reg"
    using assms by (auto simp: handle_heartbeat_def split: option.splits if_splits)
  then show ?thesis by simp
next
  case True
  then obtain u where u: "uuid_parse_str U aid_str = Some u" "reg = Some (AgentId u)" by blast
  obtain r1 c1 where h: "on_store (registry_heartbeat U (PgStore U) (AgentId u)) c = (r1, c1)"
    by (cases "on_store (registry_heartbeat U (PgStore U) (AgentId u)) c")
  have 1: "db (ctl_store c1) = db (ctl_store c)" "senders c1 = senders c"
    using on_store_eq [OF h]
    by (auto simp: registry_heartbeat_def pg_get_agent_def bind_op_def ok_op_simps split: prod.splits sum.splits option.splits
        dest!: sql_read_db)
  have "pg_op (registry_heartbeat U (PgStore U) (AgentId u))"
    by (auto simp: registry_heartbeat_def pg_get_agent_def intro!: pg_op_intros split: option.splits)
  then have now: "pg_now (ctl_store c1) = pg_now (ctl_store c)"
    using on_store_eq [OF h] by (simp add: pg_op_def)
  show ?thesis
  proof (cases r1)
    case (Inl e)
    then show ?thesis
      using assms u h 1 by (auto simp: handle_heartbeat_def split: prod.splits dest!: chan_send_store)
  next
    case (Inr x)
    obtain r2 c2 where b: "on_store (monitor_record_heartbeat (PgStore U) (AgentId u)) c1 = (r2, c2)"
      by (cases "on_store (monitor_record_heartbeat (PgStore U) (AgentId u)) c1")
    have "pg_record_heartbeat (AgentId u) (ctl_store c1) = (r2, ctl_store c2)" and "senders c2 = senders c1"
      using on_store_eq [OF b] by (simp_all add: monitor_record_heartbeat_def)
    note upd = sql_db [OF this(1) [unfolded pg_record_heartbeat_def], simplified] this(2)
    have "reg' = reg \<and> senders c' = senders c2 \<and> ctl_store c' = ctl_store c2"
      using assms u h b Inr by (auto simp: handle_heartbeat_def split: prod.splits dest!: chan_send_store)
    with upd 1 now u show ?thesis
      by (auto simp: table_simps split: option.splits if_splits)
  qed
qed

definition demo_dead :: "pg ctl" where
  "demo_dead = demo_ctl\<lparr>ctl_store := demo_registered\<lparr>pg_now := 20, db := (db demo_registered)\<lparr>agents :=
     [(1, (registered_row demo_cap 0)\<lparr>agent_state := ''dead''\<rparr>)]\<rparr>\<rparr>\<rparr>"

lemma heartbeat_scope_witness:
  "\<exists>c'. handle_heartbeat rfc4122 (PgStore rfc4122) 5 3 (uuid_to_string rfc4122 1) (Some (AgentId 1)) demo_dead =
      (True, Some (AgentId 1), c') \<and> sent c' 3 = [Inr (HeartbeatAck 5)] \<and>
    map_option agent_state (tbl_get (agents (db (ctl_store c'))) 1) = Some ''dead'' \<and>
    map_option last_heartbeat_at (tbl_get (agents (db (ctl_store c'))) 1) = Some 20"
proof -
  define c' where "c' = snd (snd (handle_heartbeat rfc4122 (PgStore rfc4122) 5 3 (uuid_to_string rfc4122 1)
    (Some (AgentId 1)) demo_dead))"
  have run: "handle_heartbeat rfc4122 (PgStore rfc4122) 5 3 (uuid_to_string rfc4122 1) (Some (AgentId 1)) demo_dead =
      (True, Some (AgentId 1), c')" and acked: "sent c' 3 = [Inr (HeartbeatAck 5)]"
    and row: "map_option last_heartbeat_at (tbl_get (agents (db (ctl_store c'))) 1) = Some 20"
    by (simp_all add: c'_def handle_heartbeat_def rfc.parse_to_string on_store_def registry_heartbeat_def pg_get_agent_def
        monitor_record_heartbeat_def pg_record_heartbeat_def bind_op_def ok_op_def sql_def Let_def demo_dead_def demo_ctl_def
        demo_registered_def demo_start_def table_simps chan_send_def)
  have old: "tbl_get (agents (db (ctl_store demo_dead))) 1 = Some ((registered_row demo_cap 0)\<lparr>agent_state := ''dead''\<rparr>)"
    by (simp add: demo_dead_def table_simps)
  then have "tbl_get (agents (db (ctl_store c'))) 1 \<noteq> tbl_get (agents (db (ctl_store demo_dead))) 1"
    using row by (auto simp: registered_row_def)
  then obtain r where "tbl_get (agents (db (ctl_store demo_dead))) 1 = Some r"
    "tbl_get (agents (db (ctl_store c'))) 1 = Some (r\<lparr>last_heartbeat_at := pg_now (ctl_store demo_dead)\<rparr>)"
    using heartbeat_scope [OF run] by blast
  with old run acked row show ?thesis
    by auto
qed



section \<open>Sweeping dead agents\<close>

lemma notify_each_healthy:
  "pg_healthy s \<Longrightarrow> \<exists>s'. each_op (\<lambda>sid. notify_routing_change U ''remove'' sid None) sids s = (Inr (), s') \<and> pg_healthy s'"
proof (induction sids arbitrary: s)
  case (Cons sid sids)
  obtain s1 where "notify_routing_change U ''remove'' sid None s = (Inr (), s1)" "pg_healthy s1"
    using Cons.prems by (simp add: notify_routing_change_def sql_healthy)
  with Cons.IH [of s1] show ?case by (simp add: then_op_def bind_op_def)
qed (simp add: ok_op_def)

lemma mark_dead_live:
  assumes "pg_healthy s" "pg_agent_of s a = Some ag"
  shows "fst (pg_mark_agent_dead_atomic U a s) = Inr ()"
  unfolding pg_mark_agent_dead_atomic_def
proof (rule transaction_healthy [OF assms(1)])
  fix s0 assume s0: "pg_healthy s0" "db s0 = db s"
  obtain r where r: "tbl_get (agents (db s0)) (agent_uuid a) = Some r"
    using assms(2) s0(2) by (auto simp: pg_agent_of_def)
  let ?t = "(db s0)\<lparr>agents := tbl_put (agent_uuid a) (r\<lparr>agent_state := ''dead''\<rparr>) (agents (db s0))\<rparr>"
  let ?s = "s0\<lparr>faults := tl (tl (tl (faults s0))), db := delete_routes_of_agent (agent_uuid a) ?t\<rparr>"
  have "pg_healthy ?s" using s0(1) by (simp add: pg_healthy_def)
  then obtain s1 where "each_op (\<lambda>sid. notify_routing_change U ''remove'' sid None) (routes_of_agent (agent_uuid a) ?t) ?s =
      (Inr (), s1)" "pg_healthy s1"
    using notify_each_healthy by blast
  then show "\<exists>s1. mark_dead_tx U a s0 = (Inr (Commit ()), s1) \<and> pg_healthy s1"
    using s0(1) r
    by (simp add: mark_dead_tx_def bind_op_def then_op_def sql_healthy set_agent_state_def pg_healthy_def ok_op_def)
qed

lemma sweep_each_views:
  assumes "pg_wf (ctl_store c)" "pg_healthy (ctl_store c)" "\<And>a. a \<in> set as \<Longrightarrow> pg_agent_of (ctl_store c) a \<noteq> None"
  shows "pg_wf (ctl_store (sweep_each (PgStore U) as c)) \<and>
    pg_agent_of (ctl_store (sweep_each (PgStore U) as c)) = (\<lambda>a. if a \<in> set as
      then map_option (\<lambda>ag. ag\<lparr>ar_state := Dead\<rparr>) (pg_agent_of (ctl_store c) a) else pg_agent_of (ctl_store c) a) \<and>
    pg_route_of (ctl_store (sweep_each (PgStore U) as c)) = (\<lambda>sid. case pg_route_of (ctl_store c) sid of
      None \<Rightarrow> None | Some a \<Rightarrow> if a \<in> set as then None else Some a) \<and>
    tbl_get (senders (sweep_each (PgStore U) as c)) = (\<lambda>a. if a \<in> set as then None else tbl_get (senders c) a)"
  using assms
proof (induction as arbitrary: c)
  case Nil
  then show ?case by (auto simp: fun_eq_iff split: option.splits)
next
  case (Cons a as)
  obtain s1 where m: "pg_mark_agent_dead_atomic U a (ctl_store c) = (Inr (), s1)"
    using mark_dead_live [OF Cons.prems(2)] Cons.prems(3) [of a] by (metis list.set_intros(1) not_Some_eq prod.collapse)
  note v = mark_dead_views [OF Cons.prems(1) m]
  have wf1: "pg_wf s1" "pg_healthy s1"
    using pg_wf_mark_dead [OF Cons.prems(1) m] pg_op_healthy [OF pg_op_mark_dead m Cons.prems(2)] by auto
  let ?c = "conn_remove a (c\<lparr>ctl_store := s1\<rparr>)"
  have step: "sweep_each (PgStore U) (a # as) c = sweep_each (PgStore U) as ?c"
    by (simp add: on_store_def mark_agent_dead_def m)
  have cs: "ctl_store ?c = s1" by (simp add: conn_remove_def)
  have "\<And>b. b \<in> set as \<Longrightarrow> pg_agent_of s1 b \<noteq> None"
    using Cons.prems(3) v by auto
  note Cons.IH [of ?c, unfolded cs, OF wf1 this]
  with v show ?case
    unfolding step by (auto simp: fun_eq_iff conn_remove_def table_simps split: option.splits)
qed

text \<open>C20. The sweep evicts exactly the silent agents: with storage available, the agents it returns
  are the active ones whose last heartbeat is more than fifteen seconds old; each of them is then
  dead, owns no route and has no connection, and every other agent, route and connection is kept.\<close>

theorem sweep_evicts_silent_agents:
  assumes "pg_wf (ctl_store c)" "pg_healthy (ctl_store c)" "sweep_dead_agents (PgStore U) c = (dead, c')"
  shows "(\<forall>a. a \<in> set dead \<longleftrightarrow> (\<exists>r. tbl_get (agents (db (ctl_store c))) (agent_uuid a) = Some r \<and>
        agent_state r = ''active'' \<and> last_heartbeat_at r + dur_secs 15 < pg_now (ctl_store c))) \<and>
    pg_agent_of (ctl_store c') = (\<lambda>a. if a \<in> set dead
      then map_option (\<lambda>ag. ag\<lparr>ar_state := Dead\<rparr>) (pg_agent_of (ctl_store c) a) else pg_agent_of (ctl_store c) a) \<and>
    pg_route_of (ctl_store c') = (\<lambda>sid. case pg_route_of (ctl_store c) sid of
      None \<Rightarrow> None | Some a \<Rightarrow> if a \<in> set dead then None else Some a) \<and>
    tbl_get (senders c') = (\<lambda>a. if a \<in> set dead then None else tbl_get (senders c) a)"
proof -
  let ?c = "c\<lparr>ctl_store := (ctl_store c)\<lparr>faults := tl (faults (ctl_store c))\<rparr>\<rparr>"
  let ?sel = "\<lambda>(_ :: uuid, r). agent_state r = ''active'' \<and> last_heartbeat_at r + DEAD_AGENT_TIMEOUT < pg_now (ctl_store c)"
  have q: "dead = map (\<lambda>(a, _). AgentId a) (filter ?sel (agents (db (ctl_store c))))" "c' = sweep_each (PgStore U) dead ?c"
    using assms(2,3)
    by (auto simp: sweep_dead_agents_def on_store_def monitor_dead_agents_def pg_dead_agents_def sql_healthy)
  have ok: "tbl_ok (agents (db (ctl_store c)))"
    using assms(1) by (simp add: pg_wf_def tables_wf_def)
  have mem: "a \<in> set dead \<longleftrightarrow> (\<exists>r. tbl_get (agents (db (ctl_store c))) (agent_uuid a) = Some r \<and>
        agent_state r = ''active'' \<and> last_heartbeat_at r + dur_secs 15 < pg_now (ctl_store c))" for a
    unfolding q(1) tbl_in_set_get [OF ok, symmetric] DEAD_AGENT_TIMEOUT_def by (cases a) force
  have pre: "pg_wf (ctl_store ?c)" "pg_healthy (ctl_store ?c)"
    using assms(1,2) by (auto simp: pg_wf_def pg_healthy_def)
  have known: "\<And>a. a \<in> set dead \<Longrightarrow> pg_agent_of (ctl_store ?c) a \<noteq> None"
    using mem by (auto simp: pg_agent_of_def)
  have same: "pg_agent_of (ctl_store ?c) = pg_agent_of (ctl_store c)" "pg_route_of (ctl_store ?c) = pg_route_of (ctl_store c)"
    "senders ?c = senders c"
    by (simp_all add: pg_views fun_eq_iff)
  note sweep_each_views [where as = dead and U = U, OF pre known, folded q(2), unfolded same]
  with mem show ?thesis by blast
qed

definition demo_silent :: "pg ctl" where
  "demo_silent = \<lparr> ctl_store = demo_registered\<lparr>pg_now := dur_secs 16\<rparr>, senders = [(AgentId 1, 4)],
     sent = (\<lambda>_. []), receiver_gone = (\<lambda>_. False) \<rparr>"

theorem sweep_evicts_silent_agents_witness:
  "\<exists>c'. sweep_dead_agents (PgStore rfc4122) demo_silent = ([AgentId 1], c') \<and>
    map_option ar_state (pg_agent_of (ctl_store c') (AgentId 1)) = Some Dead \<and>
    tbl_get (senders c') (AgentId 1) = None"
proof -
  have pre: "pg_wf (ctl_store demo_silent)" "pg_healthy (ctl_store demo_silent)"
    using demo_registered_wf by (simp_all add: demo_silent_def pg_wf_def pg_healthy_def demo_registered_def demo_start_def)
  have dead: "fst (sweep_dead_agents (PgStore rfc4122) demo_silent) = [AgentId 1]"
    by (simp add: sweep_dead_agents_def on_store_def monitor_dead_agents_def pg_dead_agents_def sql_def Let_def
        demo_silent_def demo_registered_def demo_start_def demo_row DEAD_AGENT_TIMEOUT_def dur_secs_def empty_db_def)
  then obtain c' where run: "sweep_dead_agents (PgStore rfc4122) demo_silent = ([AgentId 1], c')"
    by (metis prod.collapse)
  have "pg_agent_of (ctl_store demo_silent) (AgentId 1) \<noteq> None"
    by (simp add: pg_agent_of_def demo_silent_def demo_registered_def table_simps)
  then have "map_option ar_state (pg_agent_of (ctl_store c') (AgentId 1)) = Some Dead" "tbl_get (senders c') (AgentId 1) = None"
    using sweep_evicts_silent_agents [OF pre run, THEN conjunct2] by auto
  with run show ?thesis by blast
qed

end
