(* ===== verification/Controller_Management.thy ===== *)
theory Controller_Management
  imports Controller_Grpc
begin

text \<open>
  \<open>controller/src/management.rs\<close>: the management service the API gateway calls. Each handler is an
  operation over the controller state with gRPC statuses as errors; the identifier
  \<open>SandboxId::new()\<close> draws is an argument. \<open>management_call\<close> puts the admin interceptor in front.
\<close>

section \<open>Requests and responses (proto/api.proto)\<close>

record ApiCreateSandboxRequest =
  rq_image :: string
  rq_cpu :: u32
  rq_memory :: u64
  rq_env_vars :: "(string \<times> string) list"
  rq_exposed_port :: u32
  rq_pull_policy :: i32

record CreateSandboxResponse =
  rp_sandbox_id :: string
  rp_subdomain :: string
  rp_agent_id :: string
  rp_status :: string

record GetSandboxResponse =
  gr_sandbox_id :: string
  gr_agent_id :: string
  gr_subdomain :: string
  gr_status :: string
  gr_error :: string

definition DEFAULT_SANDBOX_CPU_MILLICORES :: u32 where "DEFAULT_SANDBOX_CPU_MILLICORES = 1000"
definition DEFAULT_SANDBOX_MEMORY_BYTES :: u64 where "DEFAULT_SANDBOX_MEMORY_BYTES = 536870912"
definition DEFAULT_SANDBOX_EXPOSED_PORT :: u32 where "DEFAULT_SANDBOX_EXPOSED_PORT = 8080"

section \<open>Handlers\<close>

definition status_err :: "('s, ControllerError, 'a) op \<Rightarrow> ('s, Status, 'a) op" where
  "status_err m s = (case m s of (Inl e, s') \<Rightarrow> (Inl (controller_error_to_status e), s') | (Inr a, s') \<Rightarrow> (Inr a, s'))"

definition ignore_err :: "('s, 'f, 'a) op \<Rightarrow> ('s, 'e, unit) op" where
  "ignore_err m s = (Inr (), snd (m s))"

definition parse_id :: "uuid_lib \<Rightarrow> string \<Rightarrow> Status + SandboxId" where
  "parse_id U s = ok_or (map_option SandboxId (uuid_parse_str U s)) (status Code_InvalidArgument ''invalid sandbox_id'')"

definition status_with_invalid_state :: "string \<Rightarrow> Status" where
  "status_with_invalid_state msg = (status Code_FailedPrecondition msg)\<lparr>st_error_code := Some ''INVALID_STATE''\<rparr>"

definition mgmt_create_sandbox ::
    "uuid_lib \<Rightarrow> 's ControllerStore \<Rightarrow> SandboxId \<Rightarrow> ApiCreateSandboxRequest \<Rightarrow> ('s ctl, Status, CreateSandboxResponse) op" where
  "mgmt_create_sandbox U S sandbox_id req =
    (let cpu = (if rq_cpu req = 0 then DEFAULT_SANDBOX_CPU_MILLICORES else rq_cpu req);
         mem = (if rq_memory req = 0 then DEFAULT_SANDBOX_MEMORY_BYTES else rq_memory req);
         exposed_port = (if rq_exposed_port req = 0 then DEFAULT_SANDBOX_EXPOSED_PORT
           else rq_exposed_port req)
     in case from_wire_i32_strict (rq_pull_policy req) of
       Inl e \<Rightarrow> err_op (status Code_InvalidArgument (UnknownPullPolicy_to_string e))
     | Inr pull_policy \<Rightarrow>
         bind_op (status_err (controller_create_sandbox U S
           \<lparr> cr_sandbox_id = sandbox_id, cr_image = rq_image req,
             cr_requirements = \<lparr> rq_cpu_millicores = cpu, rq_memory_bytes = mem \<rparr>,
             cr_env_vars = rq_env_vars req, cr_exposed_port = exposed_port, cr_pull_policy = pull_policy \<rparr>))
         (\<lambda>assignment.
           then_op (ignore_err (on_store (save_sandbox_state S sandbox_id (as_agent_id assignment) ''creating'' None)))
           (ok_op \<lparr> rp_sandbox_id = SandboxId_to_string U sandbox_id, rp_subdomain = subdomain U sandbox_id,
              rp_agent_id = AgentId_to_string U (as_agent_id assignment), rp_status = ''creating'' \<rparr>)))"

definition entry_view :: "uuid_lib \<Rightarrow> RoutingEntry \<Rightarrow> SandboxStateRow option \<Rightarrow> GetSandboxResponse" where
  "entry_view U entry row =
    (let (st, err) = (case row of
         Some r \<Rightarrow> (ss_state r, (case ss_error r of None \<Rightarrow> [] | Some e \<Rightarrow> e))
       | None \<Rightarrow> (''running'', []))
     in \<lparr> gr_sandbox_id = SandboxId_to_string U (re_sandbox_id entry), gr_agent_id = AgentId_to_string U (re_agent_id entry),
          gr_subdomain = subdomain U (re_sandbox_id entry), gr_status = st, gr_error = err \<rparr>)"

definition mgmt_get_sandbox ::
    "uuid_lib \<Rightarrow> 's ControllerStore \<Rightarrow> string \<Rightarrow> ('s ctl, Status, GetSandboxResponse) op" where
  "mgmt_get_sandbox U S sid_str = (case parse_id U sid_str of
      Inl e \<Rightarrow> err_op e
    | Inr sandbox_id \<Rightarrow>
        bind_op (status_err (on_store (find_routing_entry S sandbox_id))) (\<lambda>entry.
          case entry of
            Some entry \<Rightarrow> bind_op (status_err (on_store (get_sandbox_state S sandbox_id)))
              (\<lambda>row. ok_op (entry_view U entry row))
          | None \<Rightarrow> err_op (status Code_NotFound sid_str)))"

definition mgmt_delete_sandbox :: "uuid_lib \<Rightarrow> 's ControllerStore \<Rightarrow> string \<Rightarrow> ('s ctl, Status, bool) op" where
  "mgmt_delete_sandbox U S sid_str = (case parse_id U sid_str of
      Inl e \<Rightarrow> err_op e
    | Inr sandbox_id \<Rightarrow>
        bind_op (status_err (on_store (find_routing_entry S sandbox_id))) (\<lambda>entry.
          case entry of
            None \<Rightarrow> err_op (status Code_NotFound sid_str)
          | Some entry \<Rightarrow>
              then_op (status_err (send_command U (re_agent_id entry)
                (StopSandbox (SandboxId_to_string U sandbox_id) (of_nat (dur_as_secs SANDBOX_STOP_TIMEOUT)))))
              (then_op (status_err (on_store (release_sandbox S sandbox_id)))
              (ok_op True))))"

definition mgmt_pause_sandbox :: "uuid_lib \<Rightarrow> 's ControllerStore \<Rightarrow> string \<Rightarrow> ('s ctl, Status, string) op" where
  "mgmt_pause_sandbox U S sid_str = (case parse_id U sid_str of
      Inl e \<Rightarrow> err_op e
    | Inr sandbox_id \<Rightarrow>
        bind_op (status_err (on_store (find_routing_entry S sandbox_id))) (\<lambda>entry.
          case entry of
            None \<Rightarrow> err_op (status Code_NotFound sid_str)
          | Some entry \<Rightarrow> bind_op (status_err (on_store (get_sandbox_state S sandbox_id))) (\<lambda>row.
              let refused = (case row of
                  Some r \<Rightarrow> \<not> (ss_state r = ''running'' \<or> ss_state r = ''pausing'' \<or> ss_state r = ''paused'')
                | None \<Rightarrow> False)
              in if refused
                 then err_op (status_with_invalid_state (''cannot pause sandbox in state '' @ [CHR 0x27] @
                        ss_state (the row) @ [CHR 0x27]))
                 else then_op (status_err (send_command U (re_agent_id entry)
                        (PauseSandbox (SandboxId_to_string U sandbox_id))))
                   (then_op (ignore_err (on_store (save_sandbox_state S sandbox_id (re_agent_id entry) ''pausing'' None)))
                   (ok_op ''pausing'')))))"

definition mgmt_unpause_sandbox :: "uuid_lib \<Rightarrow> 's ControllerStore \<Rightarrow> string \<Rightarrow> ('s ctl, Status, string) op" where
  "mgmt_unpause_sandbox U S sid_str = (case parse_id U sid_str of
      Inl e \<Rightarrow> err_op e
    | Inr sandbox_id \<Rightarrow>
        bind_op (status_err (on_store (find_routing_entry S sandbox_id))) (\<lambda>entry.
          case entry of
            None \<Rightarrow> err_op (status Code_NotFound sid_str)
          | Some entry \<Rightarrow> bind_op (status_err (on_store (get_sandbox_state S sandbox_id))) (\<lambda>row.
              let refused = (case row of
                  Some r \<Rightarrow> \<not> (ss_state r = ''paused'' \<or> ss_state r = ''unpausing'' \<or> ss_state r = ''running'')
                | None \<Rightarrow> False)
              in if refused
                 then err_op (status_with_invalid_state (''cannot unpause sandbox in state '' @ [CHR 0x27] @
                        ss_state (the row) @ [CHR 0x27]))
                 else then_op (status_err (send_command U (re_agent_id entry)
                        (UnpauseSandbox (SandboxId_to_string U sandbox_id))))
                   (then_op (ignore_err (on_store (save_sandbox_state S sandbox_id (re_agent_id entry) ''unpausing'' None)))
                   (ok_op ''unpausing'')))))"

fun list_states ::
    "uuid_lib \<Rightarrow> 's ControllerStore \<Rightarrow> RoutingEntry list \<Rightarrow> ('s ctl, Status, GetSandboxResponse list) op" where
  "list_states U S [] = ok_op []"
| "list_states U S (entry # entries) =
    bind_op (status_err (on_store (get_sandbox_state S (re_sandbox_id entry)))) (\<lambda>row.
    bind_op (list_states U S entries) (\<lambda>rest. ok_op (entry_view U entry row # rest)))"

definition mgmt_list_sandboxes :: "uuid_lib \<Rightarrow> 's ControllerStore \<Rightarrow> ('s ctl, Status, GetSandboxResponse list) op" where
  "mgmt_list_sandboxes U S =
    bind_op (status_err (on_store (list_routing_entries S))) (\<lambda>entries.
      list_states U S (if LIST_SANDBOXES_MAX < length entries then take LIST_SANDBOXES_MAX entries else entries))"

text \<open>\<open>management_service\<close>: the interceptor runs before any handler.\<close>

definition management_call ::
    "(string \<Rightarrow> string option) \<Rightarrow> string \<Rightarrow> string option \<Rightarrow> ('s ctl, Status, 'a) op \<Rightarrow> ('s ctl, Status, 'a) op" where
  "management_call to_str token authorization handler = (case admin_auth_call to_str token authorization of
      Inl e \<Rightarrow> err_op e
    | Inr _ \<Rightarrow> handler)"

section \<open>Properties\<close>

text \<open>The management service is closed to callers without the admin token: unless the call
  carries exactly \<open>Bearer\<close> and the token, the handler does not run, nothing changes and the answer
  is \<open>Unauthenticated\<close>; with it the answer is the handler's.\<close>

lemma management_requires_token:
  assumes "\<And>h t. to_str h = Some t \<Longrightarrow> t = h"
  shows "management_call to_str token hdr handler c =
    (if \<exists>h. hdr = Some h \<and> to_str h \<noteq> None \<and> h = ''Bearer '' @ token then handler c
     else (fst (management_call to_str token hdr handler c), c)) \<and>
    (\<not> (\<exists>h. hdr = Some h \<and> to_str h \<noteq> None \<and> h = ''Bearer '' @ token) \<longrightarrow>
      (\<exists>m. fst (management_call to_str token hdr handler c) = Inl (status Code_Unauthenticated m)))"
proof -
  note iff = admin_auth_accepts_iff [of to_str token hdr, OF assms]
  show ?thesis
  proof (cases "admin_auth_call to_str token hdr")
    case (Inl e)
    then have "\<exists>m. e = status Code_Unauthenticated m"
      by (auto simp: admin_auth_call_def split: option.splits if_splits)
    with Inl iff show ?thesis
      by (auto simp: management_call_def ok_op_simps simp del: append.simps)
  next
    case (Inr u)
    with iff show ?thesis
      by (auto simp: management_call_def simp del: append.simps)
  qed
qed

lemma management_requires_token_witness:
  "management_call Some ''secret'' (Some ''Bearer secret'') (ok_op ''done'') demo_ctl = (Inr ''done'', demo_ctl) \<and>
   snd (management_call Some ''secret'' (Some ''bearer secret'') (ok_op ''done'') demo_ctl) = demo_ctl"
  using management_requires_token [of Some "''secret''" "Some ''Bearer secret''" "ok_op ''done''" demo_ctl]
    management_requires_token [of Some "''secret''" "Some ''bearer secret''" "ok_op ''done''" demo_ctl]
  by (auto simp: ok_op_simps)

lemma status_err_Inr: "status_err m s = (Inr a, s') \<longleftrightarrow> m s = (Inr a, s')"
  by (auto simp: status_err_def split: prod.splits sum.splits)

lemma status_err_Inl: "status_err m s = (Inl e, s') \<longleftrightarrow> (\<exists>ce. m s = (Inl ce, s') \<and> e = controller_error_to_status ce)"
  by (auto simp: status_err_def split: prod.splits sum.splits)

lemma ignore_err_Inr: "ignore_err m s = (Inr u, s') \<longleftrightarrow> s' = snd (m s)"
  by (auto simp: ignore_err_def)

lemmas mgmt_results = op_results status_err_Inr status_err_Inl ignore_err_Inr

lemma save_state_frame: "pg_save_sandbox_state sid a st err s = (r, s') \<Longrightarrow>
    routing_entries (db s') = routing_entries (db s) \<and> agents (db s') = agents (db s)"
  unfolding pg_save_sandbox_state_def by (drule sql_db) (auto simp: Let_def)

lemma save_state_views: "pg_route_of (ctl_store (snd (on_store (pg_save_sandbox_state sid a st err) c))) = pg_route_of (ctl_store c)"
  "sent (snd (on_store (pg_save_sandbox_state sid a st err) c)) = sent c"
proof -
  obtain r s' where e: "pg_save_sandbox_state sid a st err (ctl_store c) = (r, s')"
    by (cases "pg_save_sandbox_state sid a st err (ctl_store c)")
  note f = save_state_frame [OF e]
  have "snd (on_store (pg_save_sandbox_state sid a st err) c) = c\<lparr>ctl_store := s'\<rparr>"
    by (simp add: on_store_def e)
  with f show "pg_route_of (ctl_store (snd (on_store (pg_save_sandbox_state sid a st err) c))) = pg_route_of (ctl_store c)"
    "sent (snd (on_store (pg_save_sandbox_state sid a st err) c)) = sent c"
    by (simp_all add: pg_route_of_def fun_eq_iff)
qed

lemma find_route_Inr: "on_store (pg_find_routing_entry sid) c = (Inr e, c') \<Longrightarrow>
    db (ctl_store c') = db (ctl_store c) \<and> sent c' = sent c \<and> senders c' = senders c \<and>
    e = map_option (\<lambda>a. \<lparr> re_sandbox_id = sid, re_agent_id = a \<rparr>) (pg_route_of (ctl_store c) sid)"
  by (auto simp: on_store_def pg_find_routing_entry_def pg_route_of_def option.map_comp comp_def
      split: prod.splits dest!: sql_Inr)

lemma get_state_Inr: "on_store (pg_get_sandbox_state sid) c = (Inr row, c') \<Longrightarrow>
    db (ctl_store c') = db (ctl_store c) \<and> sent c' = sent c \<and> senders c' = senders c \<and>
    row = map_option (\<lambda>r. \<lparr> ss_state = sr_state r, ss_error = sr_error r \<rparr>)
      (tbl_get (sandboxes (db (ctl_store c))) (sandbox_uuid sid))"
  by (auto simp: on_store_def pg_get_sandbox_state_def split: prod.splits dest!: sql_Inr)

lemma send_command_Inr: "send_command U a cmd c = (Inr u, c') \<Longrightarrow>
    \<exists>ch. tbl_get (senders c) a = Some ch \<and> c' = c\<lparr>sent := (sent c)(ch := sent c ch @ [Inr cmd])\<rparr>"
  by (auto simp: send_command_def chan_send_def split: option.splits if_splits prod.splits)

text \<open>Creation starts what it answers. When \<open>create_sandbox\<close> succeeds, the sandbox is routed to the
  agent the answer names, that agent was active with room for the request (zero meaning the
  defaults), and the only command sent is the \<open>StartSandbox\<close> for it, on that agent's connection.\<close>

lemma create_starts_sandbox:
  assumes "pg_wf (ctl_store c)" "mgmt_create_sandbox U (PgStore U) sid req c = (Inr resp, c')"
  shows "\<exists>a ag ch cfg. rp_agent_id resp = AgentId_to_string U a \<and> rp_sandbox_id resp = SandboxId_to_string U sid \<and>
    rp_subdomain resp = subdomain U sid \<and> pg_route_of (ctl_store c') sid = Some a \<and>
    pg_agent_of (ctl_store c) a = Some ag \<and> ar_state ag = Active \<and>
    fits (if rq_cpu req = 0 then 1000 else rq_cpu req) (if rq_memory req = 0 then 512 * 1024 * 1024 else rq_memory req) ag \<and>
    tbl_get (senders c) a = Some ch \<and> 
    sent c' = (sent c)(ch := sent c ch @ [Inr (StartSandbox (SandboxId_to_string U sid) (rq_image req) cfg)]) \<and>
    pc_cpu_limit_millicores cfg = (if rq_cpu req = 0 then 1000 else rq_cpu req) \<and>
    pc_memory_limit_bytes cfg = (if rq_memory req = 0 then 512 * 1024 * 1024 else rq_memory req)"
proof -
  obtain pp where pp: "from_wire_i32_strict (rq_pull_policy req) = Inr pp"
    using assms(2) by (cases "from_wire_i32_strict (rq_pull_policy req)")
      (auto simp: mgmt_create_sandbox_def Let_def ok_op_simps)
  define reqs where "reqs = \<lparr> rq_cpu_millicores = (if rq_cpu req = 0 then DEFAULT_SANDBOX_CPU_MILLICORES else rq_cpu req),
     rq_memory_bytes = (if rq_memory req = 0 then DEFAULT_SANDBOX_MEMORY_BYTES else rq_memory req) \<rparr>"
  define cr where "cr = \<lparr> cr_sandbox_id = sid, cr_image = rq_image req, cr_requirements = reqs, cr_env_vars = rq_env_vars req,
     cr_exposed_port = (if rq_exposed_port req = 0 then DEFAULT_SANDBOX_EXPOSED_PORT else rq_exposed_port req),
     cr_pull_policy = pp \<rparr>"
  have unfold: "mgmt_create_sandbox U (PgStore U) sid req = bind_op (status_err (controller_create_sandbox U (PgStore U) cr))
      (\<lambda>assignment.
         then_op (ignore_err (on_store (pg_save_sandbox_state sid (as_agent_id assignment) ''creating'' None)))
         (ok_op \<lparr> rp_sandbox_id = SandboxId_to_string U sid, rp_subdomain = subdomain U sid,
              rp_agent_id = AgentId_to_string U (as_agent_id assignment), rp_status = ''creating'' \<rparr>))"
    by (simp add: mgmt_create_sandbox_def Let_def pp cr_def reqs_def)
  from assms(2) [unfolded unfold] obtain asg c1 where create: "controller_create_sandbox U (PgStore U) cr c = (Inr asg, c1)"
    and resp: "c' = snd (on_store (pg_save_sandbox_state sid (as_agent_id asg) ''creating'' None) c1)"
      "resp = \<lparr> rp_sandbox_id = SandboxId_to_string U sid, rp_subdomain = subdomain U sid,
              rp_agent_id = AgentId_to_string U (as_agent_id asg), rp_status = ''creating'' \<rparr>"
    by (auto simp: mgmt_results)
  from create obtain s1 where asg: "assign_sandbox (PgStore U) sid reqs (ctl_store c) = (Inr asg, s1)"
    and send: "send_command U (as_agent_id asg) (start_command U cr) (c\<lparr>ctl_store := s1\<rparr>) = (Inr (), c1)"
    by (auto simp: controller_create_sandbox_def bind_op_def on_store_def cr_def [THEN arg_cong [where f = cr_sandbox_id]]
        cr_def [THEN arg_cong [where f = cr_requirements]] split: prod.splits sum.splits)
  note placed = pgs.assign_sandbox_assigned [OF assms(1) asg]
  from send_command_Inr [OF send] obtain ch where ch: "tbl_get (senders c) (as_agent_id asg) = Some ch"
    "ctl_store c1 = s1" "sent c1 = (sent c)(ch := sent c ch @ [Inr (start_command U cr)])"
    by auto
  have "pg_route_of (ctl_store c') sid = Some (as_agent_id asg)"
    using placed ch(2) resp(1) save_state_views(1) by simp
  moreover have "sent c' = (sent c)(ch := sent c ch @ [Inr (start_command U cr)])"
    using ch(3) resp(1) save_state_views(2) by simp
  moreover obtain cfg where "start_command U cr = StartSandbox (SandboxId_to_string U sid) (rq_image req) cfg"
    "pc_cpu_limit_millicores cfg = rq_cpu_millicores reqs" "pc_memory_limit_bytes cfg = rq_memory_bytes reqs"
    by (simp add: start_command_def cr_def)
  moreover have "rq_cpu_millicores reqs = (if rq_cpu req = 0 then 1000 else rq_cpu req)"
    "rq_memory_bytes reqs = (if rq_memory req = 0 then 512 * 1024 * 1024 else rq_memory req)"
    by (simp_all add: reqs_def DEFAULT_SANDBOX_CPU_MILLICORES_def DEFAULT_SANDBOX_MEMORY_BYTES_def)
  moreover obtain ag where "pg_agent_of (ctl_store c) (as_agent_id asg) = Some ag" "ar_state ag = Active"
    "fits (rq_cpu_millicores reqs) (rq_memory_bytes reqs) ag"
    using placed by (auto simp: fits_req_def)
  ultimately show ?thesis
    using ch(1) resp(2)
    by (intro exI [of _ "as_agent_id asg"] exI [of _ ag] exI [of _ ch] exI [of _ cfg]) simp
qed

definition demo_conn :: "pg ctl" where
  "demo_conn = demo_ctl\<lparr>senders := [(AgentId 1, 4)]\<rparr>"

definition demo_api_req :: ApiCreateSandboxRequest where
  "demo_api_req = \<lparr> rq_image = ''alpine'', rq_cpu = 500, rq_memory = 1024, rq_env_vars = [], rq_exposed_port = 0,
     rq_pull_policy = 0 \<rparr>"

lemma create_starts_sandbox_witness:
  "\<exists>resp c'. mgmt_create_sandbox rfc4122 (PgStore rfc4122) (SandboxId 7) demo_api_req demo_conn = (Inr resp, c') \<and>
     pg_route_of (ctl_store c') (SandboxId 7) = Some (AgentId 1) \<and> length (sent c' 4) = 1"
proof -
  have pre: "pg_wf (ctl_store demo_conn)"
    using demo_registered_wf by (simp add: demo_conn_def demo_ctl_def)
  have "is_ok (fst (mgmt_create_sandbox rfc4122 (PgStore rfc4122) (SandboxId 7) demo_api_req demo_conn))"
    using demo_schedule
    by (simp add: mgmt_create_sandbox_def demo_api_req_def from_wire_i32_strict_def wire_pull_policy_try_from_def Let_def
        bind_op_def status_err_def controller_create_sandbox_def on_store_def demo_req_def demo_conn_def demo_ctl_def
        send_command_def chan_send_def table_simps then_op_def ignore_err_def ok_op_def)
  then obtain resp c' where run:
    "mgmt_create_sandbox rfc4122 (PgStore rfc4122) (SandboxId 7) demo_api_req demo_conn = (Inr resp, c')"
    by (cases "mgmt_create_sandbox rfc4122 (PgStore rfc4122) (SandboxId 7) demo_api_req demo_conn")
      (auto simp: is_ok_def split: sum.splits)
  from create_starts_sandbox [OF pre run] obtain a ch cfg where
    "pg_route_of (ctl_store c') (SandboxId 7) = Some a" "tbl_get (senders demo_conn) a = Some ch"
    "sent c' = (sent demo_conn)(ch := sent demo_conn ch @ [Inr (StartSandbox (SandboxId_to_string rfc4122 (SandboxId 7)) ''alpine'' cfg)])"
    by (auto simp: demo_api_req_def)
  with run show ?thesis
    by (auto simp: demo_conn_def demo_ctl_def table_simps split: if_splits)
qed

text \<open>Deletion stops and frees. When \<open>delete_sandbox\<close> succeeds, the sandbox had a route, the only
  command sent is the \<open>StopSandbox\<close> for it (ten seconds) on its owner's connection, its reservation
  is gone and, if it had one, exactly its route has been removed.\<close>

lemma delete_stops_and_frees:
  assumes "pg_wf (ctl_store c)" "mgmt_delete_sandbox U (PgStore U) sid_str c = (Inr b, c')"
  shows "\<exists>u a ch. uuid_parse_str U sid_str = Some u \<and> pg_route_of (ctl_store c) (SandboxId u) = Some a \<and>
    tbl_get (senders c) a = Some ch \<and>
    sent c' = (sent c)(ch := sent c ch @ [Inr (StopSandbox (SandboxId_to_string U (SandboxId u)) 10)]) \<and>
    pg_reservation_of (ctl_store c') (SandboxId u) = None \<and>
    (pg_reservation_of (ctl_store c) (SandboxId u) \<noteq> None \<longrightarrow>
      pg_route_of (ctl_store c') = (pg_route_of (ctl_store c))(SandboxId u := None))"
proof -
  from assms(2) obtain u where u: "uuid_parse_str U sid_str = Some u"
    by (cases "uuid_parse_str U sid_str") (auto simp: mgmt_delete_sandbox_def parse_id_def ok_op_simps)
  let ?sid = "SandboxId u"
  from assms(2) u obtain e c1 where find: "on_store (pg_find_routing_entry ?sid) c = (Inr (Some e), c1)"
    and rest: "then_op (status_err (send_command U (re_agent_id e)
                (StopSandbox (SandboxId_to_string U ?sid) (of_nat (dur_as_secs SANDBOX_STOP_TIMEOUT)))))
              (then_op (status_err (on_store (pg_release_sandbox U ?sid))) (ok_op True)) c1 = (Inr b, c')"
    by (auto simp: mgmt_delete_sandbox_def parse_id_def bind_op_Inr status_err_Inr ok_op_simps split: option.splits)
  note f = find_route_Inr [OF find]
  from rest obtain c2 h where send: "send_command U (re_agent_id e)
      (StopSandbox (SandboxId_to_string U ?sid) (of_nat (dur_as_secs SANDBOX_STOP_TIMEOUT))) c1 = (Inr (), c2)"
    and rel: "on_store (pg_release_sandbox U ?sid) c2 = (Inr h, c')"
    by (auto simp: mgmt_results)
  from send_command_Inr [OF send] f obtain ch where ch: "tbl_get (senders c) (re_agent_id e) = Some ch"
    "ctl_store c2 = ctl_store c1"
    "sent c2 = (sent c)(ch := sent c ch @ [Inr (StopSandbox (SandboxId_to_string U ?sid) 10)])"
    by (auto simp: SANDBOX_STOP_TIMEOUT_def)
  have rel': "pg_release_sandbox U ?sid (ctl_store c1) = (Inr h, ctl_store c')" and sent: "sent c' = sent c2"
    using on_store_eq [OF rel] ch(2) by simp_all
  have wf1: "pg_wf (ctl_store c1)" and views: "pg_route_of (ctl_store c1) = pg_route_of (ctl_store c)"
    "pg_reservation_of (ctl_store c1) = pg_reservation_of (ctl_store c)"
    using assms(1) f pg_views_cong [of "ctl_store c1" "ctl_store c"] by auto
  have "pg_reservation_of (ctl_store c') ?sid = None \<and> (pg_reservation_of (ctl_store c) ?sid \<noteq> None \<longrightarrow>
      pg_route_of (ctl_store c') = (pg_route_of (ctl_store c))(?sid := None))"
  proof (cases h)
    case None
    with release_views(1) [OF wf1 rel'] views pg_views_cong(3) [of "ctl_store c'" "ctl_store c1"] show ?thesis by auto
  next
    case (Some a)
    with release_views(2) [OF wf1 rel'] views show ?thesis by auto
  qed
  moreover have "pg_route_of (ctl_store c) ?sid = Some (re_agent_id e)"
    using f by (cases "pg_route_of (ctl_store c) ?sid") auto
  ultimately show ?thesis
    using u ch sent by (intro exI [of _ u] exI [of _ "re_agent_id e"] exI [of _ ch]) auto
qed

lemma demo_route: "pg_route_of demo_assigned (SandboxId 7) = Some (AgentId 1)"
  by (simp add: pg_route_of_def demo_assigned_def assign_effect_def upsert_reservation_def table_simps)

lemma delete_stops_and_frees_witness:
  "\<exists>b c'. mgmt_delete_sandbox rfc4122 (PgStore rfc4122) (uuid_to_string rfc4122 7) (demo_conn\<lparr>ctl_store := demo_assigned\<rparr>) =
     (Inr b, c') \<and> pg_route_of (ctl_store c') (SandboxId 7) = None \<and> length (sent c' 4) = 1"
proof -
  let ?c = "demo_conn\<lparr>ctl_store := demo_assigned\<rparr>"
  have pre: "pg_wf (ctl_store ?c)"
    using demo_assigned_wf by simp
  have find: "pg_find_routing_entry (SandboxId 7) demo_assigned =
      (Inr (Some \<lparr> re_sandbox_id = SandboxId 7, re_agent_id = AgentId 1 \<rparr>), demo_assigned)"
    using demo_route
    by (auto simp: pg_find_routing_entry_def sql_def Let_def pg_route_of_def demo_assigned_def demo_start_def)
  have "is_ok (fst (mgmt_delete_sandbox rfc4122 (PgStore rfc4122) (uuid_to_string rfc4122 7) ?c))"
    by (simp add: mgmt_delete_sandbox_def parse_id_def rfc.parse_to_string bind_op_def status_err_def on_store_def find
        then_op_def send_command_def demo_conn_def demo_ctl_def table_simps chan_send_def demo_release ok_op_def)
  then obtain b c' where run:
    "mgmt_delete_sandbox rfc4122 (PgStore rfc4122) (uuid_to_string rfc4122 7) ?c = (Inr b, c')"
    by (cases "mgmt_delete_sandbox rfc4122 (PgStore rfc4122) (uuid_to_string rfc4122 7) ?c")
      (auto simp: is_ok_def split: sum.splits)
  have "pg_reservation_of demo_assigned (SandboxId 7) \<noteq> None"
    by (simp add: pg_reservation_of_def demo_assigned_def assign_effect_def upsert_reservation_def table_simps)
  with delete_stops_and_frees [OF pre run] have "pg_route_of (ctl_store c') (SandboxId 7) = None \<and> length (sent c' 4) = 1"
    by (auto simp: rfc.parse_to_string demo_conn_def demo_ctl_def table_simps split: if_splits)
  with run show ?thesis by blast
qed

lemma on_store_read: "on_store (sql (\<lambda>_ t. Inr (f t, t))) c = (r, c') \<Longrightarrow>
    db (ctl_store c') = db (ctl_store c) \<and> sent c' = sent c"
  by (auto dest!: on_store_eq sql_read_db)

lemma find_route_frame: "on_store (pg_find_routing_entry sid) c = (r, c') \<Longrightarrow>
    db (ctl_store c') = db (ctl_store c) \<and> sent c' = sent c"
  unfolding pg_find_routing_entry_def by (rule on_store_read)

lemma get_state_frame: "on_store (pg_get_sandbox_state sid) c = (r, c') \<Longrightarrow>
    db (ctl_store c') = db (ctl_store c) \<and> sent c' = sent c"
  unfolding pg_get_sandbox_state_def by (rule on_store_read)

text \<open>The common shape of pause and unpause: a route, then the recorded state, then the action.\<close>

lemma guarded_refusal:
  assumes "tbl_get (sandboxes (db (ctl_store c))) (sandbox_uuid sid) = Some row"
    and "\<And>e c1. db (ctl_store c1) = db (ctl_store c) \<Longrightarrow> sent c1 = sent c \<Longrightarrow>
      act e (Some \<lparr> ss_state = sr_state row, ss_error = sr_error row \<rparr>) c1 = (Inl (err e), c1)"
    and "bind_op (status_err (on_store (pg_find_routing_entry sid))) (\<lambda>entry.
        case entry of None \<Rightarrow> err_op nf
        | Some e \<Rightarrow> bind_op (status_err (on_store (pg_get_sandbox_state sid))) (act e)) c = (r, c')"
  shows "\<not> is_ok r \<and> sent c' = sent c \<and> db (ctl_store c') = db (ctl_store c)"
proof -
  obtain r1 c1 where f: "on_store (pg_find_routing_entry sid) c = (r1, c1)"
    by (cases "on_store (pg_find_routing_entry sid) c")
  note fr = find_route_frame [OF f]
  obtain r2 c2 where g: "on_store (pg_get_sandbox_state sid) c1 = (r2, c2)"
    by (cases "on_store (pg_get_sandbox_state sid) c1")
  note gr = get_state_frame [OF g]
  have row: "row2 = Some \<lparr> ss_state = sr_state row, ss_error = sr_error row \<rparr>" if "r2 = Inr row2" for row2
    using get_state_Inr [OF g [unfolded that]] assms(1) fr by simp
  show ?thesis
    using assms(3) fr gr row assms(2) [of c2]
    by (auto simp: bind_op_def status_err_def f g ok_op_simps split: sum.splits option.splits)
qed

text \<open>A pause is refused outside a running sandbox: if the recorded state is none of \<open>running\<close>,
  \<open>pausing\<close>, \<open>paused\<close>, \<open>pause_sandbox\<close> fails, sends no command and leaves the database alone; likewise
  \<open>unpause_sandbox\<close> outside \<open>paused\<close>, \<open>unpausing\<close>, \<open>running\<close>.\<close>

lemma pause_precondition:
  assumes "uuid_parse_str U sid_str = Some u" "tbl_get (sandboxes (db (ctl_store c))) u = Some row"
  shows "(sr_state row \<notin> {''running'', ''pausing'', ''paused''} \<longrightarrow>
      (case mgmt_pause_sandbox U (PgStore U) sid_str c of (r, c') \<Rightarrow>
        \<not> is_ok r \<and> sent c' = sent c \<and> db (ctl_store c') = db (ctl_store c))) \<and>
    (sr_state row \<notin> {''paused'', ''unpausing'', ''running''} \<longrightarrow>
      (case mgmt_unpause_sandbox U (PgStore U) sid_str c of (r, c') \<Rightarrow>
        \<not> is_ok r \<and> sent c' = sent c \<and> db (ctl_store c') = db (ctl_store c)))"
proof (intro conjI impI)
  have row: "tbl_get (sandboxes (db (ctl_store c))) (sandbox_uuid (SandboxId u)) = Some row"
    using assms(2) by simp
  show "case mgmt_pause_sandbox U (PgStore U) sid_str c of (r, c') \<Rightarrow>
        \<not> is_ok r \<and> sent c' = sent c \<and> db (ctl_store c') = db (ctl_store c)"
    if "sr_state row \<notin> {''running'', ''pausing'', ''paused''}"
    unfolding mgmt_pause_sandbox_def parse_id_def assms(1) option.map ok_or_simps sum.case PgStore_simps
    by (rule case_prodI2, erule guarded_refusal [OF row, rotated])
      (use that in \<open>simp add: Let_def ok_op_simps\<close>)
  show "case mgmt_unpause_sandbox U (PgStore U) sid_str c of (r, c') \<Rightarrow>
        \<not> is_ok r \<and> sent c' = sent c \<and> db (ctl_store c') = db (ctl_store c)"
    if "sr_state row \<notin> {''paused'', ''unpausing'', ''running''}"
    unfolding mgmt_unpause_sandbox_def parse_id_def assms(1) option.map ok_or_simps sum.case PgStore_simps
    by (rule case_prodI2, erule guarded_refusal [OF row, rotated])
      (use that in \<open>simp add: Let_def ok_op_simps\<close>)
qed

lemma pause_precondition_witness:
  "case mgmt_pause_sandbox rfc4122 (PgStore rfc4122) (uuid_to_string rfc4122 7) demo_ctl2 of (r, c') \<Rightarrow>
     \<not> is_ok r \<and> sent c' = sent demo_ctl2"
proof -
  have "tbl_get (sandboxes (db (ctl_store demo_ctl2))) 7 =
      Some \<lparr> sr_agent_id = 1, sr_state = ''reserved'', sr_error = None, sr_cpu_millicores = 500, sr_memory_bytes = 1024 \<rparr>"
    by (simp add: demo_ctl2_def demo_assigned_def assign_effect_def upsert_reservation_def table_simps
        demo_registered_def empty_db_def)
  from pause_precondition [OF rfc.parse_to_string this] show ?thesis
    by (auto split: prod.splits)
qed

section \<open>Every routed sandbox has a recorded state\<close>

definition routes_recorded :: "pg_tables \<Rightarrow> bool" where
  "routes_recorded t \<longleftrightarrow> (\<forall>sid. tbl_get (routing_entries t) sid \<noteq> None \<longrightarrow> tbl_get (sandboxes t) sid \<noteq> None)"

lemma routes_recorded_step:
  "store_step U s s' \<Longrightarrow> tables_wf (db s) \<Longrightarrow> routes_recorded (db s) \<Longrightarrow> routes_recorded (db s')"
proof (induction rule: store_step.induct)
  case (step_register validate aid tok cap s r s')
  from register_db [OF step_register(1)] step_register(6) show ?case
    by (auto simp: routes_recorded_def)
next
  case (step_assign aid sid cpu mem s r1 s')
  then show ?case
    using transaction_db [OF step_assign(1) [unfolded pg_try_assign_sandbox_def]]
    by (auto simp: routes_recorded_def assign_effect_def upsert_reservation_def table_simps dest!: try_assign_commit)
next
  case (step_release sid s r2 s')
  then show ?case
    using transaction_db [OF step_release(1) [unfolded pg_release_sandbox_def]]
    by (auto simp: routes_recorded_def release_effect_def table_simps dest!: release_commit)
next
  case (step_dead aid s r3 s')
  then have ok: "tbl_ok (routing_entries (db s))" by (simp add: tables_wf_def)
  from step_dead show ?case
    using transaction_db [OF step_dead(1) [unfolded pg_mark_agent_dead_atomic_def]] tbl.get_retain [OF ok]
    by (auto simp: routes_recorded_def dead_effect_def dest!: mark_dead_commit split: option.splits)
next
  case (step_state sid aid st err s r4 s')
  from sql_db [OF step_state(1) [unfolded pg_save_sandbox_state_def]] step_state(3) show ?case
    by (auto simp: routes_recorded_def Let_def table_simps)
next
  case (step_heartbeat aid s r5 s')
  from sql_db [OF step_heartbeat(1) [unfolded pg_record_heartbeat_def]] step_heartbeat(3) show ?case
    by (auto simp: routes_recorded_def split: option.splits)
qed simp

lemma routes_recorded_reachable:
  assumes "(store_step U)\<^sup>*\<^sup>* s s'" "capacity_inv (db s)" "routes_recorded (db s)"
  shows "routes_recorded (db s')"
  using assms
proof (induction rule: rtranclp_induct)
  case (step y z)
  then have "tables_wf (db y)"
    using capacity_reachable [OF step(1)] by (simp add: capacity_inv_def)
  with step show ?case by (blast intro: routes_recorded_step)
qed

lemma reachable_recorded:
  assumes "db s = empty_db" "(store_step U)\<^sup>*\<^sup>* s s'"
  shows "tables_wf (db s') \<and> routes_recorded (db s')"
  using assms capacity_reachable [OF assms(2)] routes_recorded_reachable [OF assms(2)]
  by (simp add: capacity_inv_def [of "db s'"] routes_recorded_def [of empty_db]) (simp add: empty_db_def)



text \<open>The reported status is the recorded one: in every database reached from the empty one,
  when \<open>get_sandbox\<close> answers, the answer carries the state and the error of the sandbox's row, so
  the fallback answer \<open>running\<close> for a sandbox without a row never occurs.\<close>

lemma get_reports_recorded_state:
  assumes "db s = empty_db" "(store_step U)\<^sup>*\<^sup>* s (ctl_store c)"
    "mgmt_get_sandbox U (PgStore U) sid_str c = (Inr resp, c')"
  shows "\<exists>u row. uuid_parse_str U sid_str = Some u \<and> tbl_get (sandboxes (db (ctl_store c))) u = Some row \<and>
    gr_status resp = sr_state row \<and> gr_error resp = (case sr_error row of None \<Rightarrow> [] | Some e \<Rightarrow> e) \<and>
    map_option (AgentId_to_string U) (pg_route_of (ctl_store c) (SandboxId u)) = Some (gr_agent_id resp)"
proof -
  have rec: "routes_recorded (db (ctl_store c))"
    using assms(1) by (intro routes_recorded_reachable [OF assms(2)]) (simp_all add: routes_recorded_def empty_db_def
        capacity_empty [unfolded empty_db_def])
  from assms(3) obtain u where u: "uuid_parse_str U sid_str = Some u"
    by (cases "uuid_parse_str U sid_str") (auto simp: mgmt_get_sandbox_def parse_id_def ok_op_simps)
  from assms(3) u obtain e c1 row where find: "on_store (pg_find_routing_entry (SandboxId u)) c = (Inr (Some e), c1)"
    and get: "on_store (pg_get_sandbox_state (SandboxId u)) c1 = (Inr row, c')" and resp: "resp = entry_view U e row"
    by (auto simp: mgmt_get_sandbox_def parse_id_def mgmt_results split: option.splits)
  note f = find_route_Inr [OF find] and g = get_state_Inr [OF get]
  obtain a where a: "pg_route_of (ctl_store c) (SandboxId u) = Some a" "e = \<lparr> re_sandbox_id = SandboxId u, re_agent_id = a \<rparr>"
    using f by (cases "pg_route_of (ctl_store c) (SandboxId u)") auto
  then obtain b where "tbl_get (sandboxes (db (ctl_store c))) u = Some b"
    using rec by (auto simp: routes_recorded_def pg_route_of_def)
  with f g a u resp show ?thesis
    by (auto simp: entry_view_def)
qed

lemma get_reports_recorded_state_witness:
  "\<exists>resp c'. mgmt_get_sandbox rfc4122 (PgStore rfc4122) (uuid_to_string rfc4122 7) demo_ctl2 = (Inr resp, c') \<and>
     gr_status resp = ''reserved''"
proof -
  have "store_step rfc4122 demo_start demo_registered"
    by (rule step_register [OF demo_register]) (simp_all add: unknown_agent_def demo_start_def empty_db_def demo_cap_def)
  moreover have "store_step rfc4122 demo_registered demo_assigned"
    by (rule step_assign [OF demo_assign]) (simp add: demo_registered_def empty_db_def)
  ultimately have reach: "(store_step rfc4122)\<^sup>*\<^sup>* demo_start (ctl_store demo_ctl2)"
    by (simp add: demo_ctl2_def)
  have start: "db demo_start = empty_db" by (simp add: demo_start_def)
  have row: "tbl_get (sandboxes (db (ctl_store demo_ctl2))) 7 =
      Some \<lparr> sr_agent_id = 1, sr_state = ''reserved'', sr_error = None, sr_cpu_millicores = 500, sr_memory_bytes = 1024 \<rparr>"
    by (simp add: demo_ctl2_def demo_assigned_def assign_effect_def upsert_reservation_def table_simps
        demo_registered_def empty_db_def)
  have "is_ok (fst (mgmt_get_sandbox rfc4122 (PgStore rfc4122) (uuid_to_string rfc4122 7) demo_ctl2))"
    using demo_route
    by (auto simp: mgmt_get_sandbox_def parse_id_def rfc.parse_to_string bind_op_def status_err_def on_store_def
        pg_find_routing_entry_def pg_get_sandbox_state_def sql_def demo_ctl2_def demo_assigned_def demo_start_def Let_def
        pg_route_of_def ok_op_def)
  then obtain resp c' where run: "mgmt_get_sandbox rfc4122 (PgStore rfc4122) (uuid_to_string rfc4122 7) demo_ctl2 = (Inr resp, c')"
    by (cases "mgmt_get_sandbox rfc4122 (PgStore rfc4122) (uuid_to_string rfc4122 7) demo_ctl2")
      (auto simp: is_ok_def split: sum.splits)
  from get_reports_recorded_state [OF start reach run] row run show ?thesis
    by (auto simp: rfc.parse_to_string)
qed

lemma list_states_ids: "list_states U (PgStore U) es c = (Inr rs, c') \<Longrightarrow>
    map gr_sandbox_id rs = map (SandboxId_to_string U \<circ> re_sandbox_id) es \<and> db (ctl_store c') = db (ctl_store c) \<and> sent c' = sent c"
proof (induction es arbitrary: c rs)
  case (Cons e es)
  from Cons.prems obtain row c1 rest where
    get: "on_store (pg_get_sandbox_state (re_sandbox_id e)) c = (Inr row, c1)"
    and rest: "list_states U (PgStore U) es c1 = (Inr rest, c')" "rs = entry_view U e row # rest"
    by (auto simp: mgmt_results)
  from Cons.IH [OF rest(1)] get_state_Inr [OF get] rest(2) show ?case
    by (simp add: entry_view_def split: prod.splits)
qed (simp add: ok_op_simps)

lemma map_fst_sort_key: "map fst (sort_key fst xs) = sort (map fst xs)"
  by (rule properties_for_sort [symmetric]) simp_all

text \<open>Listing is capped and ordered: a successful \<open>list_sandboxes\<close> answers the first thousand
  routed sandboxes in the order of their identifiers, each once, and changes nothing.\<close>

lemma list_capped_and_ordered:
  assumes "mgmt_list_sandboxes U (PgStore U) c = (Inr rs, c')"
  shows "length rs \<le> 1000 \<and>
    map gr_sandbox_id rs = map (uuid_to_string U) (take 1000 (sort (map fst (routing_entries (db (ctl_store c)))))) \<and>
    db (ctl_store c') = db (ctl_store c) \<and> sent c' = sent c"
proof -
  from assms obtain es c1 where l: "on_store pg_list_routing_entries c = (Inr es, c1)"
    and st: "list_states U (PgStore U) (take LIST_SANDBOXES_MAX es) c1 = (Inr rs, c')"
    by (auto simp: mgmt_list_sandboxes_def mgmt_results split: if_splits)
  have es: "es = map (\<lambda>(s, a). \<lparr> re_sandbox_id = SandboxId s, re_agent_id = AgentId a \<rparr>) (sort_key fst (routing_entries (db (ctl_store c))))"
    "db (ctl_store c1) = db (ctl_store c)" "sent c1 = sent c"
    using on_store_eq [OF l] by (auto simp: pg_list_routing_entries_def dest!: sql_Inr)
  have "map (SandboxId_to_string U \<circ> re_sandbox_id) es = map (uuid_to_string U) (map fst (sort_key fst (routing_entries (db (ctl_store c)))))"
    unfolding es(1) by (simp add: comp_def case_prod_unfold SandboxId_to_string_def)
  then have ids: "map (SandboxId_to_string U \<circ> re_sandbox_id) (take 1000 es) =
      map (uuid_to_string U) (take 1000 (sort (map fst (routing_entries (db (ctl_store c))))))"
    by (simp add: map_fst_sort_key flip: take_map)
  from list_states_ids [OF st] have "length rs \<le> 1000"
    by (metis LIST_SANDBOXES_MAX_def length_map length_take min.cobounded2)
  with list_states_ids [OF st] ids es(2,3) show ?thesis
    by (simp add: LIST_SANDBOXES_MAX_def)
qed

lemma list_capped_and_ordered_witness:
  "\<exists>rs c'. mgmt_list_sandboxes rfc4122 (PgStore rfc4122) demo_ctl2 = (Inr rs, c') \<and>
     map gr_sandbox_id rs = [uuid_to_string rfc4122 7]"
proof -
  have rt: "routing_entries (db (ctl_store demo_ctl2)) = [(7, 1)]"
    by (simp add: demo_ctl2_def demo_assigned_def assign_effect_def upsert_reservation_def demo_registered_def
        empty_db_def tbl_put_def)
  have "is_ok (fst (mgmt_list_sandboxes rfc4122 (PgStore rfc4122) demo_ctl2))"
    using rt
    by (simp add: mgmt_list_sandboxes_def bind_op_def status_err_def on_store_def pg_list_routing_entries_def sql_def
        demo_ctl2_def Let_def LIST_SANDBOXES_MAX_def pg_get_sandbox_state_def ok_op_def)
      (simp add: demo_assigned_def demo_start_def bind_op_def status_err_def on_store_def pg_get_sandbox_state_def sql_def
        Let_def ok_op_def)
  then obtain rs c' where run: "mgmt_list_sandboxes rfc4122 (PgStore rfc4122) demo_ctl2 = (Inr rs, c')"
    by (cases "mgmt_list_sandboxes rfc4122 (PgStore rfc4122) demo_ctl2") (auto simp: is_ok_def split: sum.splits)
  from list_capped_and_ordered [OF run] run rt show ?thesis by simp
qed

end
