(* ===== verification/Proxy_Routing.thy ===== *)
theory Proxy_Routing
  imports Controller_Management
begin

text \<open>
  Routing in the proxy: the routing store over Postgres (\<open>proxy/src/pg_store.rs\<close>), the change
  notifications and their parser, the routing cache (\<open>routing_cache.rs\<close>), the handler of the
  notifications (\<open>cli/src/run.rs\<close>) and the extraction of a sandbox from a host name
  (\<open>router.rs\<close>). The proxy reads the controller's tables: the state of its store is the same \<open>pg\<close>.

  The lemmas connect the two services: the routing table is the replay of the notifications,
  and a cache fed with them answers as the table does.
\<close>

section \<open>Change notifications (RoutingChange)\<close>

datatype RoutingChange = Insert SandboxId AgentId | Remove SandboxId

definition extract_json_field :: "string \<Rightarrow> string \<Rightarrow> string option" where
  "extract_json_field payload field =
    (let needle = [CHR 0x22] @ field @ [CHR 0x22] @ '':'' @ [CHR 0x22] in
     case find_str payload needle of
       None \<Rightarrow> None
     | Some i \<Rightarrow>
         (let rest = drop (i + length needle) payload in
          map_option (\<lambda>e. take e rest) (find_char rest (CHR 0x22))))"

definition routing_change_parse :: "uuid_lib \<Rightarrow> string \<Rightarrow> RoutingChange option" where
  "routing_change_parse U payload =
    (case extract_json_field payload ''op'' of None \<Rightarrow> None | Some opn \<Rightarrow>
     case extract_json_field payload ''sandbox_id'' of None \<Rightarrow> None | Some sandbox_id_str \<Rightarrow>
     case uuid_parse_str U sandbox_id_str of None \<Rightarrow> None | Some sid \<Rightarrow>
       if opn = ''insert'' then
         (case extract_json_field payload ''agent_id'' of None \<Rightarrow> None | Some agent_id_str \<Rightarrow>
          case uuid_parse_str U agent_id_str of None \<Rightarrow> None | Some aid \<Rightarrow>
            Some (Insert (SandboxId sid) (AgentId aid)))
       else if opn = ''remove'' then Some (Remove (SandboxId sid))
       else None)"

section \<open>Routing store (RoutingStore, PgRoutingStore)\<close>

record 'r RoutingStore =
  rs_lookup :: "SandboxId \<Rightarrow> ('r, ProxyError, AgentId option) op"
  rs_lookup_by_subdomain :: "string \<Rightarrow> ('r, ProxyError, RoutingEntry option) op"
  rs_load_all :: "('r, ProxyError, RoutingEntry list) op"

fun proxy_db_err :: "ControllerError \<Rightarrow> ProxyError" where
  "proxy_db_err (Database e) = ProxyError.Internal e"
| "proxy_db_err e = ProxyError.Internal (ControllerError_to_string e)"

definition proxy_sql :: "(pg_tables \<Rightarrow> 'a) \<Rightarrow> (pg, ProxyError, 'a) op" where
  "proxy_sql f s = (case sql (\<lambda>_ t. Inr (f t, t)) s of (r, s') \<Rightarrow> (map_err proxy_db_err r, s'))"

text \<open>SQL \<open>LIKE\<close> with the wildcards and the escape character.\<close>

fun sql_like :: "string \<Rightarrow> string \<Rightarrow> bool" where
  "sql_like [] s = (s = [])"
| "sql_like (p # ps) s =
    (if p = CHR ''%'' then (sql_like ps s \<or> (case s of [] \<Rightarrow> False | _ # s' \<Rightarrow> sql_like (p # ps) s'))
     else if p = CHR ''_'' then (case s of [] \<Rightarrow> False | _ # s' \<Rightarrow> sql_like ps s')
     else if p = CHR 0x5C then
       (case ps of [] \<Rightarrow> False | q # qs \<Rightarrow> (case s of [] \<Rightarrow> False | c # s' \<Rightarrow> c = q \<and> sql_like qs s'))
     else (case s of [] \<Rightarrow> False | c # s' \<Rightarrow> c = p \<and> sql_like ps s'))"

definition prs_lookup :: "SandboxId \<Rightarrow> (pg, ProxyError, AgentId option) op" where
  "prs_lookup sid = proxy_sql (\<lambda>t. map_option AgentId (tbl_get (routing_entries t) (sandbox_uuid sid)))"

definition mk_entry :: "uuid \<times> uuid \<Rightarrow> RoutingEntry" where
  "mk_entry = (\<lambda>(s, a). \<lparr> re_sandbox_id = SandboxId s, re_agent_id = AgentId a \<rparr>)"

text \<open>\<open>sandbox_id::text\<close> and the \<open>uuid\<close> crate both print the canonical form.\<close>

definition prs_lookup_by_subdomain :: "uuid_lib \<Rightarrow> string \<Rightarrow> (pg, ProxyError, RoutingEntry option) op" where
  "prs_lookup_by_subdomain U sd = proxy_sql (\<lambda>t. map_option mk_entry
     (find (\<lambda>(s, _). sql_like (sd @ ''%'') (filter (\<lambda>c. c \<noteq> CHR ''-'') (uuid_to_string U s))) (routing_entries t)))"

definition prs_load_all :: "(pg, ProxyError, RoutingEntry list) op" where
  "prs_load_all = proxy_sql (\<lambda>t. map mk_entry (routing_entries t))"

definition PgRoutingStore :: "uuid_lib \<Rightarrow> pg RoutingStore" where
  "PgRoutingStore U = \<lparr> rs_lookup = prs_lookup, rs_lookup_by_subdomain = prs_lookup_by_subdomain U, rs_load_all = prs_load_all \<rparr>"

section \<open>Routing cache (RoutingCache)\<close>

record CachedRoute =
  ca_agent_id :: AgentId
  ca_sandbox_id :: SandboxId

type_synonym route_cache = "(string, CachedRoute) tbl"

definition cache_lookup :: "route_cache \<Rightarrow> string \<Rightarrow> CachedRoute option" where
  "cache_lookup c sd = tbl_get c sd"

definition cache_insert :: "uuid_lib \<Rightarrow> SandboxId \<Rightarrow> AgentId \<Rightarrow> route_cache \<Rightarrow> route_cache" where
  "cache_insert U sid aid c = tbl_put (subdomain U sid) \<lparr> ca_agent_id = aid, ca_sandbox_id = sid \<rparr> c"

definition cache_remove_by_subdomain :: "string \<Rightarrow> route_cache \<Rightarrow> route_cache" where
  "cache_remove_by_subdomain sd c = tbl_del sd c"

definition cache_remove_by_sandbox_id :: "uuid_lib \<Rightarrow> SandboxId \<Rightarrow> route_cache \<Rightarrow> route_cache" where
  "cache_remove_by_sandbox_id U sid c = tbl_del (subdomain U sid) c"

definition cache_remove_for_agent :: "AgentId \<Rightarrow> route_cache \<Rightarrow> route_cache" where
  "cache_remove_for_agent aid c = tbl_retain (\<lambda>_ v. ca_agent_id v \<noteq> aid) c"

definition lookup_or_fetch ::
    "uuid_lib \<Rightarrow> 'r RoutingStore \<Rightarrow> string \<Rightarrow> ('r \<times> route_cache, ProxyError, CachedRoute option) op" where
  "lookup_or_fetch U R sd st = (case st of (s, c) \<Rightarrow>
    (case cache_lookup c sd of
       Some hit \<Rightarrow> (Inr (Some hit), (s, c))
     | None \<Rightarrow> (case rs_lookup_by_subdomain R sd s of
         (Inl e, s') \<Rightarrow> (Inl e, (s', c))
       | (Inr None, s') \<Rightarrow> (Inr None, (s', c))
       | (Inr (Some entry), s') \<Rightarrow>
           (Inr (Some \<lparr> ca_agent_id = re_agent_id entry, ca_sandbox_id = re_sandbox_id entry \<rparr>),
            (s', cache_insert U (re_sandbox_id entry) (re_agent_id entry) c)))))"

definition cache_of_entries :: "uuid_lib \<Rightarrow> RoutingEntry list \<Rightarrow> route_cache" where
  "cache_of_entries U es = foldl (\<lambda>c e. cache_insert U (re_sandbox_id e) (re_agent_id e) c) [] es"

definition cache_refresh :: "uuid_lib \<Rightarrow> 'r RoutingStore \<Rightarrow> ('r \<times> route_cache, ProxyError, unit) op" where
  "cache_refresh U R st = (case st of (s, c) \<Rightarrow> (case rs_load_all R s of
      (Inl e, s') \<Rightarrow> (Inl e, (s', c))
    | (Inr entries, s') \<Rightarrow> (Inr (), (s', cache_of_entries U entries))))"

section \<open>Notification handler (run_proxy)\<close>

definition apply_notification :: "uuid_lib \<Rightarrow> string \<Rightarrow> route_cache \<Rightarrow> route_cache" where
  "apply_notification U payload c = (case routing_change_parse U payload of
      Some (Insert sid aid) \<Rightarrow> cache_insert U sid aid c
    | Some (Remove sid) \<Rightarrow> cache_remove_by_sandbox_id U sid c
    | None \<Rightarrow> c)"

section \<open>Host names (Router::extract_sandbox_id)\<close>

definition extract_sandbox_id :: "string \<Rightarrow> string option" where
  "extract_sandbox_id host_header =
    (let host = hd (split_char (CHR '':'') host_header) in
     case find_char host (CHR ''.'') of
       None \<Rightarrow> None
     | Some first_dot \<Rightarrow>
         (let lower = to_ascii_lowercase (take first_dot host) in
          if subdomain_is_valid lower then Some lower else None))"

section \<open>Parsing what the controller prints\<close>

lemma find_str_skip_chars:
  "p \<noteq> [] \<Longrightarrow> (\<And>c. c \<in> set a \<Longrightarrow> c \<noteq> hd p) \<Longrightarrow> find_str (a @ s) p = map_option ((+) (length a)) (find_str s p)"
proof (induction a)
  case (Cons c a)
  then have "\<not> starts_with (c # a @ s) p"
    by (cases p) (auto simp: starts_with_def)
  with Cons show ?case by (simp add: option.map_comp comp_def)
qed (cases "find_str s p"; simp)

lemma extract_at:
  assumes "payload = pre @ ([CHR 0x22] @ field @ [CHR 0x22] @ '':'' @ [CHR 0x22]) @ val @ CHR 0x22 # post"
    "find_str payload ([CHR 0x22] @ field @ [CHR 0x22] @ '':'' @ [CHR 0x22]) = Some (length pre)" "CHR 0x22 \<notin> set val"
  shows "extract_json_field payload field = Some val"
proof -
  define needle where "needle = [CHR 0x22] @ field @ [CHR 0x22] @ '':'' @ [CHR 0x22]"
  have "drop (length pre + length needle) payload = val @ CHR 0x22 # post"
    unfolding assms(1) needle_def [symmetric] by simp
  with assms(2) find_char_append [OF assms(3), of post] show ?thesis
    unfolding extract_json_field_def Let_def needle_def [symmetric] by simp
qed

context uuid_text
begin

lemma skip_uuid: "find_str (uuid_to_string U u @ s) (CHR 0x22 # p) = map_option ((+) 36) (find_str s (CHR 0x22 # p))"
  using find_str_skip_chars [of "CHR 0x22 # p" "uuid_to_string U u" s] quote_notin_to_string [of u] to_string_length [of u] by auto

lemma take_uuid_ne: "CHR 0x22 \<in> set xs \<Longrightarrow> take n (uuid_to_string U u) \<noteq> xs"
  using quote_notin_to_string [of u] by (auto dest: in_set_takeD)

lemma payload_insert_parses:
  "routing_change_parse U (routing_payload U ''insert'' sid (Some aid)) = Some (Insert (SandboxId sid) (AgentId aid))"
proof -
  let ?p = "routing_payload U ''insert'' sid (Some aid)" and ?q = "[CHR 0x22]"
  have "extract_json_field ?p ''op'' = Some ''insert''"
    by (rule extract_at [where pre = "''{''" and post = "'','' @ ?q @ ''sandbox_id'' @ ?q @ '':'' @ ?q @ uuid_to_string U sid @ ?q @
          '','' @ ?q @ ''agent_id'' @ ?q @ '':'' @ ?q @ uuid_to_string U aid @ ?q @ ''}''"])
      (simp_all add: routing_payload_def json_quote_def starts_with_def)
  moreover have "extract_json_field ?p ''sandbox_id'' = Some (uuid_to_string U sid)"
    by (rule extract_at [where pre = "''{'' @ ?q @ ''op'' @ ?q @ '':'' @ ?q @ ''insert'' @ ?q @ '',''" and
          post = "'','' @ ?q @ ''agent_id'' @ ?q @ '':'' @ ?q @ uuid_to_string U aid @ ?q @ ''}''"])
      (simp_all add: routing_payload_def json_quote_def starts_with_def quote_notin_to_string)
  moreover have "extract_json_field ?p ''agent_id'' = Some (uuid_to_string U aid)"
    by (rule extract_at [where pre = "''{'' @ ?q @ ''op'' @ ?q @ '':'' @ ?q @ ''insert'' @ ?q @ '','' @ ?q @ ''sandbox_id'' @ ?q @
          '':'' @ ?q @ uuid_to_string U sid @ ?q @ '',''" and post = "''}''"])
      (simp_all add: routing_payload_def json_quote_def starts_with_def quote_notin_to_string skip_uuid to_string_length take_uuid_ne)
  ultimately show ?thesis
    by (simp add: routing_change_parse_def parse_to_string)
qed

lemma payload_remove_parses:
  "routing_change_parse U (routing_payload U ''remove'' sid None) = Some (Remove (SandboxId sid))"
proof -
  let ?p = "routing_payload U ''remove'' sid None" and ?q = "[CHR 0x22]"
  have "extract_json_field ?p ''op'' = Some ''remove''"
    by (rule extract_at [where pre = "''{''" and post = "'','' @ ?q @ ''sandbox_id'' @ ?q @ '':'' @ ?q @ uuid_to_string U sid @ ?q @ ''}''"])
      (simp_all add: routing_payload_def json_quote_def starts_with_def)
  moreover have "extract_json_field ?p ''sandbox_id'' = Some (uuid_to_string U sid)"
    by (rule extract_at [where pre = "''{'' @ ?q @ ''op'' @ ?q @ '':'' @ ?q @ ''remove'' @ ?q @ '',''" and post = "''}''"])
      (simp_all add: routing_payload_def json_quote_def starts_with_def quote_notin_to_string)
  ultimately show ?thesis
    by (simp add: routing_change_parse_def parse_to_string)
qed

end

section \<open>The routing table is the replay of the notifications\<close>

type_synonym routes = "uuid \<Rightarrow> uuid option"

fun change_route :: "RoutingChange \<Rightarrow> routes \<Rightarrow> routes" where
  "change_route (Insert sid aid) m = m(sandbox_uuid sid \<mapsto> agent_uuid aid)"
| "change_route (Remove sid) m = m(sandbox_uuid sid := None)"

definition replay_one :: "uuid_lib \<Rightarrow> routes \<Rightarrow> string \<Rightarrow> routes" where
  "replay_one U m p = (case routing_change_parse U p of None \<Rightarrow> m | Some ch \<Rightarrow> change_route ch m)"

definition replay :: "uuid_lib \<Rightarrow> string list \<Rightarrow> routes" where
  "replay U ps = foldl (replay_one U) Map.empty ps"

lemma foldl_removes:
  assumes "uuid_text U"
  shows "foldl (replay_one U) m (map (\<lambda>sid. routing_payload U ''remove'' sid None) sids) =
    (\<lambda>sid. if sid \<in> set sids then None else m sid)"
  by (induction sids arbitrary: m)
    (auto simp: replay_one_def uuid_text.payload_remove_parses [OF assms] fun_eq_iff)

lemma routes_of_agent_set: "tbl_ok (routing_entries t) \<Longrightarrow>
    sid \<in> set (routes_of_agent a t) \<longleftrightarrow> tbl_get (routing_entries t) sid = Some a"
  by (force simp: routes_of_agent_def tbl_in_set_get [symmetric])

definition replayed :: "uuid_lib \<Rightarrow> pg_tables \<Rightarrow> bool" where
  "replayed U t \<longleftrightarrow> tbl_get (routing_entries t) = replay U (notifications t)"

lemma replayed_assign:
  "uuid_text U \<Longrightarrow> replayed U t \<Longrightarrow> replayed U (assign_effect U a sid cpu mem r t)"
  by (simp add: replayed_def replay_def assign_effect_def upsert_reservation_def replay_one_def fun_eq_iff
      uuid_text.payload_insert_parses table_simps)

lemma replayed_release: "uuid_text U \<Longrightarrow> replayed U t \<Longrightarrow> replayed U (release_effect U sid b t)"
  by (simp add: replayed_def replay_def release_effect_def replay_one_def fun_eq_iff
      uuid_text.payload_remove_parses table_simps)

lemma replayed_dead:
  "uuid_text U \<Longrightarrow> tbl_ok (routing_entries t) \<Longrightarrow> replayed U t \<Longrightarrow> replayed U (dead_effect U a r t)"
  by (auto simp: replayed_def replay_def dead_effect_def foldl_removes routes_of_agent_set fun_eq_iff
      tbl.get_retain split: option.splits)

lemma replayed_step:
  "store_step U s s' \<Longrightarrow> uuid_text U \<Longrightarrow> tables_wf (db s) \<Longrightarrow> replayed U (db s) \<Longrightarrow> replayed U (db s')"
proof (induction rule: store_step.induct)
  case (step_register validate aid tok cap s r s')
  from register_db [OF step_register(1)] step_register(7) show ?case
    by (auto simp: replayed_def)
next
  case (step_assign aid sid cpu mem s r1 s')
  then show ?case
    using transaction_db [OF step_assign(1) [unfolded pg_try_assign_sandbox_def]]
    by (auto dest!: try_assign_commit intro: replayed_assign)
next
  case (step_release sid s r2 s')
  then show ?case
    using transaction_db [OF step_release(1) [unfolded pg_release_sandbox_def]]
    by (auto dest!: release_commit intro: replayed_release)
next
  case (step_dead aid s r3 s')
  then show ?case
    using transaction_db [OF step_dead(1) [unfolded pg_mark_agent_dead_atomic_def]]
    by (auto simp: tables_wf_def dest!: mark_dead_commit intro: replayed_dead)
next
  case (step_state sid aid st err s r4 s')
  from sql_db [OF step_state(1) [unfolded pg_save_sandbox_state_def]] step_state(4) show ?case
    by (auto simp: replayed_def Let_def)
next
  case (step_heartbeat aid s r5 s')
  from sql_db [OF step_heartbeat(1) [unfolded pg_record_heartbeat_def]] step_heartbeat(4) show ?case
    by (auto simp: replayed_def split: option.splits)
qed simp

lemma replayed_reachable:
  assumes "(store_step U)\<^sup>*\<^sup>* s s'" "uuid_text U" "db s = empty_db"
  shows "replayed U (db s')"
  using assms
proof (induction rule: rtranclp_induct)
  case base
  then show ?case by (simp add: replayed_def empty_db_def replay_def fun_eq_iff)
next
  case (step y z)
  then have "capacity_inv (db y)"
    using capacity_reachable [OF step(1)] by simp
  with step show ?case by (auto simp: capacity_inv_def intro: replayed_step)
qed

section \<open>A cache fed with the notifications agrees with the table\<close>

definition coherent :: "uuid_lib \<Rightarrow> route_cache \<Rightarrow> routes \<Rightarrow> bool" where
  "coherent U c m \<longleftrightarrow> (\<forall>sd r. cache_lookup c sd = Some r \<longleftrightarrow>
     subdomain U (ca_sandbox_id r) = sd \<and> m (sandbox_uuid (ca_sandbox_id r)) = Some (agent_uuid (ca_agent_id r)))"

fun change_id :: "RoutingChange \<Rightarrow> SandboxId" where
  "change_id (Insert sid aid) = sid"
| "change_id (Remove sid) = sid"

text \<open>The sandboxes a list of payloads speaks of.\<close>

fun mentioned :: "uuid_lib \<Rightarrow> string list \<Rightarrow> SandboxId set" where
  "mentioned U [] = {}"
| "mentioned U (p # ps) = (case routing_change_parse U p of None \<Rightarrow> {} | Some ch \<Rightarrow> {change_id ch}) \<union> mentioned U ps"

lemma coherent_insert:
  assumes "coherent U c m" "inj_on (subdomain U) K" "sid \<in> K" "\<And>u. m u \<noteq> None \<Longrightarrow> SandboxId u \<in> K"
  shows "coherent U (cache_insert U sid aid c) (m(sandbox_uuid sid \<mapsto> agent_uuid aid))"
  unfolding coherent_def
proof (intro allI)
  fix sd and r :: CachedRoute
  have same: "ca_sandbox_id r = sid" if "subdomain U (ca_sandbox_id r) = subdomain U sid" "m (sandbox_uuid (ca_sandbox_id r)) \<noteq> None"
    using assms(2,3) assms(4) [OF that(2)] that(1) by (auto dest: inj_onD simp: uuid_ext)
  have r: "\<lparr>ca_agent_id = aid, ca_sandbox_id = sid\<rparr> = r \<longleftrightarrow> ca_agent_id r = aid \<and> ca_sandbox_id r = sid"
    by (cases r) auto
  show "cache_lookup (cache_insert U sid aid c) sd = Some r \<longleftrightarrow> subdomain U (ca_sandbox_id r) = sd \<and>
      (m(sandbox_uuid sid \<mapsto> agent_uuid aid)) (sandbox_uuid (ca_sandbox_id r)) = Some (agent_uuid (ca_agent_id r))"
    using assms(1) same
    by (auto simp: coherent_def cache_insert_def cache_lookup_def table_simps r)
qed

lemma coherent_remove:
  assumes "coherent U c m" "inj_on (subdomain U) K" "sid \<in> K" "\<And>u. m u \<noteq> None \<Longrightarrow> SandboxId u \<in> K"
  shows "coherent U (cache_remove_by_sandbox_id U sid c) (m(sandbox_uuid sid := None))"
  unfolding coherent_def
proof (intro allI)
  fix sd and r :: CachedRoute
  have same: "ca_sandbox_id r = sid" if "subdomain U (ca_sandbox_id r) = subdomain U sid" "m (sandbox_uuid (ca_sandbox_id r)) \<noteq> None"
    using assms(2,3) assms(4) [OF that(2)] that(1) by (auto dest: inj_onD simp: uuid_ext)
  show "cache_lookup (cache_remove_by_sandbox_id U sid c) sd = Some r \<longleftrightarrow> subdomain U (ca_sandbox_id r) = sd \<and>
      (m(sandbox_uuid sid := None)) (sandbox_uuid (ca_sandbox_id r)) = Some (agent_uuid (ca_agent_id r))"
    using assms(1) same
    by (auto simp: coherent_def cache_remove_by_sandbox_id_def cache_lookup_def table_simps)
qed

lemma coherent_notifications:
  assumes "inj_on (subdomain U) K" "mentioned U ps \<subseteq> K" "coherent U c m" "\<And>u. m u \<noteq> None \<Longrightarrow> SandboxId u \<in> K"
  shows "coherent U (foldl (\<lambda>c p. apply_notification U p c) c ps) (foldl (replay_one U) m ps)"
  using assms(2-4)
proof (induction ps arbitrary: c m)
  case (Cons p ps)
  then have ps: "mentioned U ps \<subseteq> K" by auto
  show ?case
  proof (cases "routing_change_parse U p")
    case None
    with Cons ps show ?thesis by (simp add: apply_notification_def replay_one_def)
  next
    case (Some ch)
    show ?thesis
    proof (cases ch)
      case (Insert sid aid)
      with Some Cons.prems have "sid \<in> K" by auto
      define m' where "m' = m(sandbox_uuid sid \<mapsto> agent_uuid aid)"
      from \<open>sid \<in> K\<close> have "coherent U (cache_insert U sid aid c) m'"
        using coherent_insert [OF Cons.prems(2) assms(1)] Cons.prems(3) unfolding m'_def by blast
      moreover have "\<And>u. m' u \<noteq> None \<Longrightarrow> SandboxId u \<in> K"
        using Cons.prems(3) \<open>sid \<in> K\<close> unfolding m'_def by (auto simp: uuid_ext split: if_splits)
      moreover have "apply_notification U p c = cache_insert U sid aid c"
        "replay_one U m p = m'"
        using Some Insert by (simp_all add: apply_notification_def replay_one_def m'_def)
      ultimately show ?thesis
        using Cons.IH [OF ps, of "cache_insert U sid aid c" "m'"] by simp
    next
      case (Remove sid)
      with Some Cons.prems have "sid \<in> K" by auto
      define m' where "m' = m(sandbox_uuid sid := None)"
      from \<open>sid \<in> K\<close> have "coherent U (cache_remove_by_sandbox_id U sid c) m'"
        using coherent_remove [OF Cons.prems(2) assms(1)] Cons.prems(3) unfolding m'_def by blast
      moreover have "\<And>u. m' u \<noteq> None \<Longrightarrow> SandboxId u \<in> K"
        using Cons.prems(3) unfolding m'_def by (auto split: if_splits)
      moreover have "apply_notification U p c = cache_remove_by_sandbox_id U sid c"
        "replay_one U m p = m'"
        using Some Remove by (simp_all add: apply_notification_def replay_one_def m'_def)
      ultimately show ?thesis
        using Cons.IH [OF ps, of "cache_remove_by_sandbox_id U sid c" "m'"] by simp
    qed
  qed
qed simp

section \<open>Lookups\<close>

lemma find_Some_sat: "find P xs = Some x \<Longrightarrow> x \<in> set xs \<and> P x"
  by (induction xs) (auto split: if_splits)

lemma sql_like_any: "sql_like ''%'' s"
  by (induction s) auto

lemma sql_like_prefix:
  "(\<And>c. c \<in> set p \<Longrightarrow> c \<noteq> CHR ''%'' \<and> c \<noteq> CHR ''_'' \<and> c \<noteq> CHR 0x5C) \<Longrightarrow> sql_like (p @ ''%'') s \<longleftrightarrow> starts_with s p"
proof (induction p arbitrary: s)
  case Nil
  then show ?case using sql_like_any [of s] by (simp add: starts_with_def)
next
  case (Cons c p)
  then show ?case by (cases s) (auto simp: starts_with_def)
qed

lemma hexdigit_plain: "is_ascii_hexdigit c \<Longrightarrow> c \<noteq> CHR ''%'' \<and> c \<noteq> CHR ''_'' \<and> c \<noteq> CHR 0x5C \<and> c \<noteq> CHR '':'' \<and> c \<noteq> CHR ''.''"
  by (auto simp: is_ascii_hexdigit_def is_ascii_digit_def char_code_def)

lemma proxy_sql_Inr: "proxy_sql f s = (Inr a, s') \<Longrightarrow> a = f (db s) \<and> db s' = db s"
  by (auto simp: proxy_sql_def map_err_def split: prod.splits sum.splits dest!: sql_Inr)

context uuid_text
begin

lemma subdomain_match:
  assumes "subdomain_is_valid sd"
  shows "sql_like (sd @ ''%'') (filter (\<lambda>c. c \<noteq> CHR ''-'') (uuid_to_string U u)) \<longleftrightarrow> subdomain U (SandboxId u) = sd"
proof -
  have "sql_like (sd @ ''%'') (uuid_simple U u) \<longleftrightarrow> starts_with (uuid_simple U u) sd"
    using assms by (intro sql_like_prefix) (auto simp: subdomain_is_valid_def dest: hexdigit_plain)
  then show ?thesis
    using assms by (auto simp: simple_of_string [symmetric] starts_with_def subdomain_def subdomain_is_valid_def)
qed

lemma lookup_by_subdomain_Inr:
  assumes "subdomain_is_valid sd" "tbl_ok (routing_entries (db s))" "prs_lookup_by_subdomain U sd s = (Inr res, s')"
  shows "db s' = db s \<and> (case res of
      Some e \<Rightarrow> subdomain U (re_sandbox_id e) = sd \<and>
        tbl_get (routing_entries (db s)) (sandbox_uuid (re_sandbox_id e)) = Some (agent_uuid (re_agent_id e))
    | None \<Rightarrow> \<forall>u a. tbl_get (routing_entries (db s)) u = Some a \<longrightarrow> subdomain U (SandboxId u) \<noteq> sd)"
proof -
  have res: "res = map_option mk_entry (find (\<lambda>(s, _). subdomain U (SandboxId s) = sd) (routing_entries (db s)))" "db s' = db s"
    using proxy_sql_Inr [OF assms(3) [unfolded prs_lookup_by_subdomain_def]] by (simp_all add: subdomain_match [OF assms(1)])
  show ?thesis
  proof (cases "find (\<lambda>(s, _). subdomain U (SandboxId s) = sd) (routing_entries (db s))")
    case None
    then have "\<forall>p \<in> set (routing_entries (db s)). subdomain U (SandboxId (fst p)) \<noteq> sd"
      by (auto simp: find_None_iff)
    with None res tbl_in_set_get [OF assms(2)] show ?thesis by fastforce
  next
    case (Some p)
    then have "p \<in> set (routing_entries (db s))" "subdomain U (SandboxId (fst p)) = sd"
      using find_Some_sat [OF Some] by (auto simp: case_prod_beta)
    with Some res tbl_in_set_get [OF assms(2), of "fst p" "snd p"] show ?thesis
      by (auto simp: mk_entry_def split: prod.splits)
  qed
qed

end

section \<open>Properties\<close>

text \<open>The notifications tell the whole story: from an empty database, after any interleaving of
  the controller's operations with any storage faults, replaying the payloads of all notifications
  with the proxy's parser yields exactly the controller's routing table.\<close>

lemma routing_table_is_replay:
  assumes "uuid_text U" "db s = empty_db" "(store_step U)\<^sup>*\<^sup>* s s'"
  shows "tbl_get (routing_entries (db s')) = replay U (notifications (db s'))"
  using replayed_reachable [OF assms(3,1,2)] by (simp add: replayed_def)

lemma demo_reaches: "(store_step rfc4122)\<^sup>*\<^sup>* demo_start demo_assigned"
proof -
  have "store_step rfc4122 demo_start demo_registered"
    by (rule step_register [OF demo_register]) (simp_all add: unknown_agent_def demo_start_def empty_db_def demo_cap_def)
  moreover have "store_step rfc4122 demo_registered demo_assigned"
    by (rule step_assign [OF demo_assign]) (simp add: demo_registered_def empty_db_def)
  ultimately show ?thesis by auto
qed

lemma demo_empty: "db demo_start = empty_db"
  by (simp add: demo_start_def)

lemma demo_routes: "tbl_get (routing_entries (db demo_assigned)) = [7 \<mapsto> 1]"
  by (simp add: fun_eq_iff demo_assigned_def assign_effect_def upsert_reservation_def demo_registered_def empty_db_def table_simps)

lemma demo_notes: "notifications (db demo_assigned) = [routing_payload rfc4122 ''insert'' 7 (Some 1)]"
  by (simp add: demo_assigned_def assign_effect_def upsert_reservation_def demo_registered_def empty_db_def)

lemma routing_table_is_replay_witness:
  "uuid_text rfc4122 \<and> replay rfc4122 (notifications (db demo_assigned)) 7 = Some 1 \<and>
   length (notifications (db demo_assigned)) = 1"
  using routing_table_is_replay [OF rfc.uuid_text_axioms demo_empty demo_reaches, symmetric] rfc.uuid_text_axioms
  by (simp add: demo_routes) (simp add: demo_notes)

text \<open>C2. The proxy's cache agrees with the controller's table. A cache that starts empty and has
  received the notifications emitted so far answers a subdomain exactly with the live routes of
  the database, provided no two sandboxes the notifications speak of share their 12-digit subdomain.\<close>

theorem proxy_cache_agrees:
  assumes "uuid_text U" "db s = empty_db" "(store_step U)\<^sup>*\<^sup>* s s'"
    "inj_on (subdomain U) (mentioned U (notifications (db s')))"
  shows "cache_lookup (foldl (\<lambda>c p. apply_notification U p c) [] (notifications (db s'))) sd = Some r \<longleftrightarrow>
    subdomain U (ca_sandbox_id r) = sd \<and>
    tbl_get (routing_entries (db s')) (sandbox_uuid (ca_sandbox_id r)) = Some (agent_uuid (ca_agent_id r))"
proof -
  have "coherent U (foldl (\<lambda>c p. apply_notification U p c) [] (notifications (db s'))) (replay U (notifications (db s')))"
    unfolding replay_def
    by (rule coherent_notifications [OF assms(4) order_refl]) (simp_all add: coherent_def cache_lookup_def)
  moreover have "tbl_get (routing_entries (db s')) = replay U (notifications (db s'))"
    using replayed_reachable [OF assms(3,1,2)] by (simp add: replayed_def)
  ultimately show ?thesis
    by (simp add: coherent_def)
qed

theorem proxy_cache_agrees_witness:
  "cache_lookup (foldl (\<lambda>c p. apply_notification rfc4122 p c) [] (notifications (db demo_assigned)))
     (subdomain rfc4122 (SandboxId 7)) = Some \<lparr> ca_agent_id = AgentId 1, ca_sandbox_id = SandboxId 7 \<rparr>"
proof -
  have "inj_on (subdomain rfc4122) (mentioned rfc4122 (notifications (db demo_assigned)))"
    by (simp add: demo_notes rfc.payload_insert_parses)
  from proxy_cache_agrees [OF rfc.uuid_text_axioms demo_empty demo_reaches this] show ?thesis
    by (simp add: demo_routes)
qed

lemma lookup_or_fetch_answers:
  "faults s = [] \<Longrightarrow> \<exists>res s' c'. lookup_or_fetch U (PgRoutingStore U) sd (s, c) = (Inr res, (s', c'))"
  by (simp add: lookup_or_fetch_def PgRoutingStore_def prs_lookup_by_subdomain_def proxy_sql_def sql_def Let_def
      split: option.split)

lemma lookup_or_fetch_live:
  assumes "uuid_text U" "subdomain_is_valid sd" "tbl_ok (routing_entries (db s))"
    "\<forall>d r. cache_lookup c d = Some r \<longrightarrow> subdomain U (ca_sandbox_id r) = d \<and>
       tbl_get (routing_entries (db s)) (sandbox_uuid (ca_sandbox_id r)) = Some (agent_uuid (ca_agent_id r))"
    "lookup_or_fetch U (PgRoutingStore U) sd (s, c) = (Inr res, (s', c'))"
  shows "(case res of
      Some r \<Rightarrow> subdomain U (ca_sandbox_id r) = sd \<and>
        tbl_get (routing_entries (db s)) (sandbox_uuid (ca_sandbox_id r)) = Some (agent_uuid (ca_agent_id r))
    | None \<Rightarrow> \<forall>u a. tbl_get (routing_entries (db s)) u = Some a \<longrightarrow> subdomain U (SandboxId u) \<noteq> sd) \<and>
    db s' = db s \<and>
    (\<forall>d r. cache_lookup c' d = Some r \<longrightarrow> subdomain U (ca_sandbox_id r) = d \<and>
       tbl_get (routing_entries (db s')) (sandbox_uuid (ca_sandbox_id r)) = Some (agent_uuid (ca_agent_id r)))"
proof (cases "cache_lookup c sd")
  case (Some hit)
  with assms(5) have "res = Some hit" "s' = s" "c' = c"
    by (auto simp: lookup_or_fetch_def)
  with assms(4) Some show ?thesis
    by simp
next
  case None
  from assms(5) None obtain e where fetch: "prs_lookup_by_subdomain U sd s = (Inr e, s')"
    and res: "case e of None \<Rightarrow> res = None \<and> c' = c | Some en \<Rightarrow>
      res = Some \<lparr> ca_agent_id = re_agent_id en, ca_sandbox_id = re_sandbox_id en \<rparr> \<and>
      c' = cache_insert U (re_sandbox_id en) (re_agent_id en) c"
    by (auto simp: lookup_or_fetch_def PgRoutingStore_def split: prod.splits sum.splits option.splits)
  from uuid_text.lookup_by_subdomain_Inr [OF assms(1,2,3) fetch] res assms(4) show ?thesis
    by (auto simp: cache_insert_def cache_lookup_def table_simps split: option.splits if_splits)
qed

text \<open>C18. Lookups never misroute. If every entry of the cache is a live route, \<open>lookup_or_fetch\<close> on a
  valid subdomain, when it answers, answers a live route of that subdomain, or answers none and
  then no route of the database has it; the cache it leaves still holds only live routes.\<close>

theorem lookup_or_fetch_correct:
  assumes "uuid_text U" "subdomain_is_valid sd" "tbl_ok (routing_entries (db s))"
    "\<forall>d r. cache_lookup c d = Some r \<longrightarrow> subdomain U (ca_sandbox_id r) = d \<and>
       tbl_get (routing_entries (db s)) (sandbox_uuid (ca_sandbox_id r)) = Some (agent_uuid (ca_agent_id r))"
    "lookup_or_fetch U (PgRoutingStore U) sd (s, c) = (Inr res, (s', c'))"
  shows "(case res of
      Some r \<Rightarrow> subdomain U (ca_sandbox_id r) = sd \<and>
        tbl_get (routing_entries (db s)) (sandbox_uuid (ca_sandbox_id r)) = Some (agent_uuid (ca_agent_id r))
    | None \<Rightarrow> \<forall>u a. tbl_get (routing_entries (db s)) u = Some a \<longrightarrow> subdomain U (SandboxId u) \<noteq> sd) \<and>
    db s' = db s \<and>
    (\<forall>d r. cache_lookup c' d = Some r \<longrightarrow> subdomain U (ca_sandbox_id r) = d \<and>
       tbl_get (routing_entries (db s')) (sandbox_uuid (ca_sandbox_id r)) = Some (agent_uuid (ca_agent_id r)))"
  by (rule lookup_or_fetch_live [OF assms])

theorem lookup_or_fetch_correct_witness:
  "\<exists>s' c'. lookup_or_fetch rfc4122 (PgRoutingStore rfc4122) (subdomain rfc4122 (SandboxId 7)) (demo_assigned, []) =
     (Inr (Some \<lparr> ca_agent_id = AgentId 1, ca_sandbox_id = SandboxId 7 \<rparr>), (s', c'))"
proof -
  let ?sd = "subdomain rfc4122 (SandboxId 7)"
  have ok: "tbl_ok (routing_entries (db demo_assigned))"
    using demo_assigned_wf by (simp add: pg_wf_def tables_wf_def)
  have nohit: "\<forall>d r. cache_lookup [] d = Some r \<longrightarrow> subdomain rfc4122 (ca_sandbox_id r) = d \<and>
       tbl_get (routing_entries (db demo_assigned)) (sandbox_uuid (ca_sandbox_id r)) = Some (agent_uuid (ca_agent_id r))"
    by (simp add: cache_lookup_def)
  have fl: "faults demo_assigned = []" by (simp add: demo_assigned_def demo_start_def)
  obtain res s' c' where run: "lookup_or_fetch rfc4122 (PgRoutingStore rfc4122) ?sd (demo_assigned, []) = (Inr res, (s', c'))"
    using lookup_or_fetch_answers [OF fl] by blast
  note answer = lookup_or_fetch_correct [OF rfc.uuid_text_axioms rfc.subdomain_valid ok nohit run]
  have "tbl_get (routing_entries (db demo_assigned)) 7 = Some 1" by (simp add: demo_routes)
  with answer obtain r where r: "res = Some r" by (cases res) auto
  with answer have "tbl_get (routing_entries (db demo_assigned)) (sandbox_uuid (ca_sandbox_id r)) = Some (agent_uuid (ca_agent_id r))"
    by simp
  then have "sandbox_uuid (ca_sandbox_id r) = 7" "agent_uuid (ca_agent_id r) = 1"
    by (simp_all add: demo_routes split: if_splits)
  then have "r = \<lparr> ca_agent_id = AgentId 1, ca_sandbox_id = SandboxId 7 \<rparr>"
    by (cases r) (metis AgentId.exhaust_sel CachedRoute.select_convs SandboxId.exhaust_sel)
  with run r show ?thesis by blast
qed

lemma hd_split_char: "hd (split_char d s) = takeWhile (\<lambda>c. c \<noteq> d) s"
  by (induction s) (auto simp: Let_def split: list.splits)

lemma lowercase_hexdigit: "is_ascii_hexdigit (ascii_lower_char c) \<Longrightarrow> is_ascii_hexdigit c"
proof (cases "is_ascii_uppercase c")
  case True
  then have "char_code (ascii_lower_char c) = char_code c + 32"
    by (simp add: ascii_lower_char_def is_ascii_uppercase_def char_code_def)
  then show "is_ascii_hexdigit (ascii_lower_char c) \<Longrightarrow> is_ascii_hexdigit c"
    using True by (auto simp: is_ascii_hexdigit_def is_ascii_digit_def is_ascii_uppercase_def)
qed (simp add: ascii_lower_char_def)

lemma lower_hex_lowercase: "(\<And>c. c \<in> set s \<Longrightarrow> is_lower_hex c) \<Longrightarrow> to_ascii_lowercase s = s"
  unfolding to_ascii_lowercase_def
  by (rule map_idI) (fastforce simp: ascii_lower_char_def is_lower_hex_def is_ascii_uppercase_def is_ascii_digit_def)

lemma extract_label:
  assumes "uuid_text U" "to_ascii_lowercase h = subdomain U sid"
  shows "extract_sandbox_id (h @ ''.'' @ domain) = Some (subdomain U sid)"
proof -
  have valid: "subdomain_is_valid (subdomain U sid)"
    by (rule uuid_text.subdomain_valid [OF assms(1)])
  have "is_ascii_hexdigit c" if "c \<in> set h" for c
    using that valid assms(2) [symmetric]
    by (auto simp: subdomain_is_valid_def to_ascii_lowercase_def intro: lowercase_hexdigit)
  then have plain: "CHR '':'' \<notin> set h" "CHR ''.'' \<notin> set h"
    using hexdigit_plain by blast+
  then have "takeWhile (\<lambda>c. c \<noteq> CHR '':'') (h @ ''.'' @ domain) = h @ CHR ''.'' # takeWhile (\<lambda>c. c \<noteq> CHR '':'') domain"
    by (auto simp: takeWhile_append)
  then show ?thesis
    using valid plain(2) assms(2)
    by (auto simp: extract_sandbox_id_def hd_split_char find_char_append Let_def split: option.splits if_splits)
qed

lemma extract_valid: "extract_sandbox_id host = Some sd \<Longrightarrow> subdomain_is_valid sd"
  by (auto simp: extract_sandbox_id_def Let_def split: option.splits if_splits)

text \<open>The host name a sandbox is published under routes back to it: whatever the case of the
  label, the parent domain and the port, \<open>extract_sandbox_id\<close> gives the sandbox's subdomain; and
  every label it accepts is a valid subdomain.\<close>

lemma host_names_route_back:
  assumes "uuid_text U" "to_ascii_lowercase h = subdomain U sid"
  shows "extract_sandbox_id (h @ ''.'' @ domain) = Some (subdomain U sid) \<and>
    (extract_sandbox_id host = Some sd \<longrightarrow> subdomain_is_valid sd)"
  using extract_label [OF assms] extract_valid by blast

lemma host_names_route_back_witness:
  "extract_sandbox_id (subdomain rfc4122 (SandboxId 0) @ ''.'' @ ''sandbox.example:8443'') =
     Some (subdomain rfc4122 (SandboxId 0))"
  using host_names_route_back [OF rfc.uuid_text_axioms, of "subdomain rfc4122 (SandboxId 0)" "SandboxId 0"]
  by (simp add: lower_hex_lowercase rfc.subdomain_hex)

end
