(* ===== verification/Wire_Frames.thy ===== *)
theory Wire_Frames
  imports Contracts
begin

text \<open>
  The messages of the proxy protocol (\<open>src/proto/proxy.proto\<close>): the tunnel between proxy and agent,
  and the frames of an I/O session between gateway, proxy and agent. A \<open>oneof\<close> is an option of a
  datatype, since a peer may leave it unset; \<open>map\<close> fields are tables.
\<close>

section \<open>HTTP over the tunnel\<close>

record HttpRequest =
  hq_method :: string
  hq_uri :: string
  hq_headers :: "(string, string) tbl"
  hq_body :: bytes
  hq_sandbox_id :: string

record HttpResponse =
  hs_status_code :: u32
  hs_headers :: "(string, string) tbl"
  hs_body :: bytes

section \<open>I/O session frames\<close>

datatype IoParams =
    Exec "string list" string "(string, string) tbl"
  | ReadFile string string
  | WriteFile string string string bool
  | WriteFilesTargz string
  | ListDir string string
  | WaitPortListening u32 u32
  | DeleteFile string string bool

record IoStart =
  st_sandbox_id :: string
  st_params :: "IoParams option"

datatype IoClientPayload =
    CStart IoStart
  | CStdin bytes
  | CSignal u32
  | CClose (stdin_eof: bool)

record IoClientFrame =
  cf_stream_id :: string
  cf_payload :: "IoClientPayload option"

datatype ListDirEntryType = EntryUnspecified | EntryFile | EntryDir | EntrySymlink | EntryOther

record ListDirEntry =
  de_name :: string
  de_type :: ListDirEntryType
  de_size :: u64
  de_revision :: string
  de_mode :: string
  de_target :: string

record ListDirResult =
  ld_path :: string
  ld_entries :: "ListDirEntry list"
  ld_truncated :: bool
  ld_total_entries :: u64

datatype IoServerPayload =
    Started string i32
  | Stdout bytes
  | Stderr bytes
  | Exited (exit_code: i32) (command_not_found: bool)
  | IoError string string
  | ListDirRes ListDirResult
  | WaitPortRes bool u32
  | FileMeta string u64

record IoServerFrame =
  sf_stream_id :: string
  sf_payload :: "IoServerPayload option"

fun is_terminal_frame :: "IoServerPayload \<Rightarrow> bool" where
  "is_terminal_frame (Exited _ _) = True"
| "is_terminal_frame (IoError _ _) = True"
| "is_terminal_frame _ = False"

section \<open>The tunnel envelope\<close>

datatype TunnelRequestPayload =
    TQHttpRequest HttpRequest
  | TQData bytes bool
  | TQClose string
  | TQIoClient IoClientFrame

record TunnelRequest =
  tq_stream_id :: string
  tq_payload :: "TunnelRequestPayload option"

datatype TunnelResponsePayload =
    TRHttpResponse HttpResponse
  | TRData bytes bool
  | TRClose string
  | TRReady string
  | TRIoServer IoServerFrame

record TunnelResponse =
  tr_stream_id :: string
  tr_payload :: "TunnelResponsePayload option"

end
