(* ===== verification/Channels.thy ===== *)
theory Channels
  imports Prelude
begin

text \<open>
  Bounded channels as the sources use them (\<open>tokio::sync::mpsc\<close>). A channel is a number; the record
  keeps, for every channel, what it has taken in order, how much of it the receiver has read and
  whether the receiver is gone, and the tasks that wait in an awaited \<open>send\<close>. An awaited \<open>send\<close> fails
  exactly when the receiver is gone; a \<open>try_send\<close> also fails when the buffer is full.
\<close>

section \<open>State and operations\<close>

record 'a chans =
  accepted :: "nat \<Rightarrow> 'a list"
  taken :: "nat \<Rightarrow> nat"
  rx_gone :: "nat \<Rightarrow> bool"
  parked :: "(nat \<times> 'a) list"

datatype try_result = TrySent | TryFull | TryClosed

definition buffered :: "nat \<Rightarrow> 'a chans \<Rightarrow> nat" where
  "buffered ch cs = length (accepted cs ch) - taken cs ch"

definition push_item :: "nat \<Rightarrow> 'a \<Rightarrow> 'a chans \<Rightarrow> 'a chans" where
  "push_item ch x cs = cs\<lparr>accepted := (accepted cs)(ch := accepted cs ch @ [x])\<rparr>"

definition try_send :: "nat \<Rightarrow> nat \<Rightarrow> 'a \<Rightarrow> 'a chans \<Rightarrow> try_result \<times> 'a chans" where
  "try_send cap ch x cs =
    (if rx_gone cs ch then (TryClosed, cs)
     else if cap \<le> buffered ch cs then (TryFull, cs)
     else (TrySent, push_item ch x cs))"

definition send_item :: "nat \<Rightarrow> 'a \<Rightarrow> 'a chans \<Rightarrow> bool \<times> 'a chans" where
  "send_item ch x cs = (if rx_gone cs ch then (False, cs) else (True, push_item ch x cs))"

definition park_item :: "nat \<Rightarrow> 'a \<Rightarrow> 'a chans \<Rightarrow> 'a chans" where
  "park_item ch x cs = cs\<lparr>parked := parked cs @ [(ch, x)]\<rparr>"

text \<open>A waiting task runs: it delivers its item when there is room, gives up when the receiver is gone.\<close>

definition unpark :: "nat \<Rightarrow> nat \<Rightarrow> 'a chans \<Rightarrow> 'a chans" where
  "unpark cap i cs =
    (if i < length (parked cs) then
       (case parked cs ! i of (ch, x) \<Rightarrow>
          let rest = cs\<lparr>parked := take i (parked cs) @ drop (Suc i) (parked cs)\<rparr> in
          if rx_gone cs ch then rest
          else if cap \<le> buffered ch cs then cs
          else push_item ch x rest)
     else cs)"

text \<open>What a channel has been given, delivered or still waiting.\<close>

definition reaches :: "nat \<Rightarrow> 'a \<Rightarrow> 'a chans \<Rightarrow> bool" where
  "reaches ch x cs \<longleftrightarrow> rx_gone cs ch \<or> x \<in> set (accepted cs ch) \<or> (ch, x) \<in> set (parked cs)"

section \<open>Lemmas\<close>

named_theorems chan_simps

lemma push_item_sel [chan_simps]:
  "accepted (push_item ch x cs) = (accepted cs)(ch := accepted cs ch @ [x])"
  "taken (push_item ch x cs) = taken cs" "rx_gone (push_item ch x cs) = rx_gone cs"
  "parked (push_item ch x cs) = parked cs"
  by (simp_all add: push_item_def)

lemma park_item_sel [chan_simps]:
  "accepted (park_item ch x cs) = accepted cs" "taken (park_item ch x cs) = taken cs"
  "rx_gone (park_item ch x cs) = rx_gone cs" "parked (park_item ch x cs) = parked cs @ [(ch, x)]"
  by (simp_all add: park_item_def)

lemma try_send_frame: "try_send cap ch x cs = (r, cs') \<Longrightarrow>
    rx_gone cs' = rx_gone cs \<and> parked cs' = parked cs \<and> (\<forall>d. d \<noteq> ch \<longrightarrow> accepted cs' d = accepted cs d)"
  by (auto simp: try_send_def chan_simps split: if_splits)

lemma send_item_frame: "send_item ch x cs = (r, cs') \<Longrightarrow>
    rx_gone cs' = rx_gone cs \<and> parked cs' = parked cs \<and> (\<forall>d. d \<noteq> ch \<longrightarrow> accepted cs' d = accepted cs d)"
  by (auto simp: send_item_def chan_simps split: if_splits)

lemma unpark_reaches: "reaches ch x cs \<Longrightarrow> reaches ch x (unpark cap i cs)"
proof -
  assume r: "reaches ch x cs"
  show ?thesis
  proof (cases "i < length (parked cs)")
    case True
    then have "set (parked cs) = insert (parked cs ! i) (set (take i (parked cs)) \<union> set (drop (Suc i) (parked cs)))"
      by (metis id_take_nth_drop list.simps(15) set_append Un_insert_right)
    with r True show ?thesis
      by (auto simp: unpark_def reaches_def Let_def chan_simps split: prod.splits)
  qed (use r in \<open>simp add: unpark_def\<close>)
qed

end
