(* ===== verification/Proxy_Tunnel.thy ===== *)
theory Proxy_Tunnel
  imports Proxy_Routing Wire_Frames Channels
begin

text \<open>
  The proxy's connection state (\<open>src/crates/proxy/src/tunnel_pool.rs\<close>, \<open>stream_mux.rs\<close>,
  \<open>io_sessions.rs\<close>): the tunnels of the agents, each with a generation; the HTTP requests that wait for
  an answer; the I/O sessions. Each \<open>Mutex\<close>-protected table is a table, each \<open>AtomicU64\<close> a 64-bit word
  whose \<open>fetch_add\<close> wraps, each operation a function of the whole critical section.

  The interface \<open>generation_scoped\<close> states what the waiting requests and the sessions both promise
  about cancelling the streams of one tunnel generation; it is interpreted on both.
\<close>

section \<open>The tunnel pool (tunnel\_pool.rs)\<close>

record AgentTunnel =
  at_request_tx :: nat
  at_generation :: u64

record TunnelPool =
  tunnels :: "(AgentId, AgentTunnel) tbl"
  next_generation :: u64

definition pool_new :: TunnelPool where
  "pool_new = \<lparr> tunnels = [], next_generation = 1 \<rparr>"

definition pool_register :: "AgentId \<Rightarrow> nat \<Rightarrow> TunnelPool \<Rightarrow> u64 \<times> TunnelPool" where
  "pool_register a tx p =
    (let generation = next_generation p in
     (generation, p\<lparr>tunnels := tbl_put a \<lparr> at_request_tx = tx, at_generation = generation \<rparr> (tunnels p),
                    next_generation := generation + 1\<rparr>))"

definition pool_remove :: "AgentId \<Rightarrow> TunnelPool \<Rightarrow> TunnelPool" where
  "pool_remove a p = p\<lparr>tunnels := tbl_del a (tunnels p)\<rparr>"

definition remove_if_current :: "AgentId \<Rightarrow> u64 \<Rightarrow> TunnelPool \<Rightarrow> bool \<times> TunnelPool" where
  "remove_if_current a generation p = (case tbl_get (tunnels p) a of
      Some t \<Rightarrow> if at_generation t = generation then (True, p\<lparr>tunnels := tbl_del a (tunnels p)\<rparr>) else (False, p)
    | None \<Rightarrow> (False, p))"

definition get_sender :: "AgentId \<Rightarrow> TunnelPool \<Rightarrow> nat option" where
  "get_sender a p = map_option at_request_tx (tbl_get (tunnels p) a)"

definition get_sender_with_generation :: "AgentId \<Rightarrow> TunnelPool \<Rightarrow> (nat \<times> u64) option" where
  "get_sender_with_generation a p = map_option (\<lambda>t. (at_request_tx t, at_generation t)) (tbl_get (tunnels p) a)"

definition active_count :: "TunnelPool \<Rightarrow> nat" where
  "active_count p = length (tunnels p)"

definition pool_contains :: "AgentId \<Rightarrow> TunnelPool \<Rightarrow> bool" where
  "pool_contains a p \<longleftrightarrow> tbl_get (tunnels p) a \<noteq> None"

section \<open>Requests waiting for an answer (stream\_mux.rs)\<close>

text \<open>A one-shot channel: its value, once sent; the sender may be dropped unsent.\<close>

datatype oneshot = Waiting | Sent "ProxyError + HttpResponse" | SenderDropped

record PendingStream =
  ps_response_tx :: nat
  ps_agent_id :: AgentId
  ps_generation :: u64

record StreamMux =
  pending :: "(string, PendingStream) tbl"
  stream_counter :: u64
  oneshots :: "nat \<Rightarrow> oneshot"
  oneshot_rx_gone :: "nat \<Rightarrow> bool"
  next_oneshot :: nat

definition mux_new :: StreamMux where
  "mux_new = \<lparr> pending = [], stream_counter = 0, oneshots = (\<lambda>_. Waiting), oneshot_rx_gone = (\<lambda>_. False), next_oneshot = 0 \<rparr>"

definition mux_next_stream_id :: "StreamMux \<Rightarrow> string \<times> StreamMux" where
  "mux_next_stream_id m = (''s-'' @ show_nat (unat (stream_counter m)), m\<lparr>stream_counter := stream_counter m + 1\<rparr>)"

text \<open>Dropping a pending stream drops its unsent sender.\<close>

definition drop_sender :: "PendingStream \<Rightarrow> StreamMux \<Rightarrow> StreamMux" where
  "drop_sender ps m = (case oneshots m (ps_response_tx ps) of
      Waiting \<Rightarrow> m\<lparr>oneshots := (oneshots m)(ps_response_tx ps := SenderDropped)\<rparr> | _ \<Rightarrow> m)"

definition oneshot_send :: "nat \<Rightarrow> ProxyError + HttpResponse \<Rightarrow> StreamMux \<Rightarrow> bool \<times> StreamMux" where
  "oneshot_send tx v m =
    (if oneshot_rx_gone m tx then (False, m\<lparr>oneshots := (oneshots m)(tx := SenderDropped)\<rparr>)
     else (True, m\<lparr>oneshots := (oneshots m)(tx := Sent v)\<rparr>))"

definition cancel_stream :: "string \<Rightarrow> StreamMux \<Rightarrow> StreamMux" where
  "cancel_stream sid m = (case tbl_get (pending m) sid of
      None \<Rightarrow> m
    | Some ps \<Rightarrow> drop_sender ps (m\<lparr>pending := tbl_del sid (pending m)\<rparr>))"

text \<open>\<open>send_request\<close> up to the point where it waits: the stream and the one-shot it waits on.\<close>

definition send_request_open ::
    "uuid_lib \<Rightarrow> TunnelPool \<Rightarrow> AgentId \<Rightarrow> HttpRequest \<Rightarrow> StreamMux \<times> TunnelRequest chans \<Rightarrow>
     (ProxyError + string \<times> nat) \<times> (StreamMux \<times> TunnelRequest chans)" where
  "send_request_open U p a req = (\<lambda>(m, cs).
    (case get_sender_with_generation a p of
       None \<Rightarrow> (Inl (TunnelUnavailable (AgentId_to_string U a)), (m, cs))
     | Some (sender, generation) \<Rightarrow>
         (let (stream_id, m1) = mux_next_stream_id m;
              tx = next_oneshot m1;
              m2 = m1\<lparr>pending := tbl_put stream_id
                        \<lparr> ps_response_tx = tx, ps_agent_id = a, ps_generation = generation \<rparr> (pending m1),
                      oneshots := (oneshots m1)(tx := Waiting),
                      oneshot_rx_gone := (oneshot_rx_gone m1)(tx := False),
                      next_oneshot := Suc tx\<rparr>;
              (ok, cs') = send_item sender \<lparr> tq_stream_id = stream_id, tq_payload = Some (TQHttpRequest req) \<rparr> cs
          in if ok then (Inr (stream_id, tx), (m2, cs'))
             else (Inl (TunnelUnavailable (AgentId_to_string U a)), (cancel_stream stream_id m2, cs')))))"

text \<open>One look at the timed wait: the answer, if there is one; \<open>elapsed\<close> says that thirty seconds are
  over. \<open>None\<close>: the request goes on waiting.\<close>

definition send_request_poll ::
    "uuid_lib \<Rightarrow> AgentId \<Rightarrow> string \<Rightarrow> string \<times> nat \<Rightarrow> bool \<Rightarrow> StreamMux \<Rightarrow>
     (ProxyError + HttpResponse) option \<times> StreamMux" where
  "send_request_poll U a sandbox_id w elapsed m = (case w of (stream_id, tx) \<Rightarrow>
    (case oneshots m tx of
       Sent result \<Rightarrow> (Some result, m\<lparr>oneshot_rx_gone := (oneshot_rx_gone m)(tx := True)\<rparr>)
     | SenderDropped \<Rightarrow>
         (Some (Inl (TunnelUnavailable (AgentId_to_string U a))), m\<lparr>oneshot_rx_gone := (oneshot_rx_gone m)(tx := True)\<rparr>)
     | Waiting \<Rightarrow>
         if elapsed then
           (Some (Inl (UpstreamTimeout sandbox_id (of_nat (dur_as_millis UPSTREAM_TIMEOUT)))),
            cancel_stream stream_id (m\<lparr>oneshot_rx_gone := (oneshot_rx_gone m)(tx := True)\<rparr>))
         else (None, m)))"

definition deliver_response :: "string \<Rightarrow> AgentId \<Rightarrow> HttpResponse \<Rightarrow> StreamMux \<Rightarrow> bool \<times> StreamMux" where
  "deliver_response sid from_agent response m = (case tbl_get (pending m) sid of
      Some ps \<Rightarrow>
        if ps_agent_id ps = from_agent
        then oneshot_send (ps_response_tx ps) (Inr response) (m\<lparr>pending := tbl_del sid (pending m)\<rparr>)
        else (False, m)
    | None \<Rightarrow> (False, m))"

definition mux_fail_stream :: "string \<Rightarrow> AgentId \<Rightarrow> string \<Rightarrow> StreamMux \<Rightarrow> StreamMux" where
  "mux_fail_stream sid from_agent reason m = (case tbl_get (pending m) sid of
      Some ps \<Rightarrow>
        if ps_agent_id ps = from_agent
        then snd (oneshot_send (ps_response_tx ps) (Inl (UpstreamRejected sid reason)) (m\<lparr>pending := tbl_del sid (pending m)\<rparr>))
        else m
    | None \<Rightarrow> m)"

definition mux_cancel_at_generation :: "AgentId \<Rightarrow> u64 \<Rightarrow> StreamMux \<Rightarrow> StreamMux" where
  "mux_cancel_at_generation a generation m =
    (let doomed = (\<lambda>ps. ps_agent_id ps = a \<and> ps_generation ps = generation);
         m' = m\<lparr>pending := tbl_retain (\<lambda>_ ps. \<not> doomed ps) (pending m)\<rparr>
     in fold drop_sender (filter doomed (map snd (pending m))) m')"

definition pending_count :: "StreamMux \<Rightarrow> nat" where
  "pending_count m = length (pending m)"

section \<open>I/O sessions (io\_sessions.rs)\<close>

type_synonym io_item = "Status + IoServerFrame"

record IoSessionRecord =
  is_agent_id :: AgentId
  is_server_tx :: nat
  is_generation :: u64

record IoSessions =
  io_inner :: "(string, IoSessionRecord) tbl"
  io_counter :: u64

type_synonym io_state = "IoSessions \<times> io_item chans"

definition sessions_new :: IoSessions where
  "sessions_new = \<lparr> io_inner = [], io_counter = 0 \<rparr>"

definition IO_SESSION_BUFFER :: nat where "IO_SESSION_BUFFER = 256"

definition io_next_stream_id :: "IoSessions \<Rightarrow> string \<times> IoSessions" where
  "io_next_stream_id s = (''io-'' @ show_nat (unat (io_counter s)), s\<lparr>io_counter := io_counter s + 1\<rparr>)"

definition io_insert :: "string \<Rightarrow> IoSessionRecord \<Rightarrow> IoSessions \<Rightarrow> IoSessions" where
  "io_insert sid r s = s\<lparr>io_inner := tbl_put sid r (io_inner s)\<rparr>"

definition io_remove :: "string \<Rightarrow> IoSessions \<Rightarrow> IoSessionRecord option \<times> IoSessions" where
  "io_remove sid s = (tbl_get (io_inner s) sid, s\<lparr>io_inner := tbl_del sid (io_inner s)\<rparr>)"

definition send_or_spawn :: "nat \<Rightarrow> io_item \<Rightarrow> io_item chans \<Rightarrow> io_item chans" where
  "send_or_spawn tx frame cs = (case try_send IO_SESSION_BUFFER tx frame cs of
      (TrySent, cs') \<Rightarrow> cs'
    | (TryFull, cs') \<Rightarrow> park_item tx frame cs'
    | (TryClosed, cs') \<Rightarrow> cs')"

definition deliver_server_frame :: "string \<Rightarrow> AgentId \<Rightarrow> IoServerFrame \<Rightarrow> io_state \<Rightarrow> bool \<times> io_state" where
  "deliver_server_frame sid from_agent frame = (\<lambda>(s, cs). (case tbl_get (io_inner s) sid of
      Some r \<Rightarrow>
        if is_agent_id r = from_agent
        then (case try_send IO_SESSION_BUFFER (is_server_tx r) (Inr frame) cs of (res, cs') \<Rightarrow> (res = TrySent, (s, cs')))
        else (False, (s, cs))
    | None \<Rightarrow> (False, (s, cs))))"

definition io_fail_stream :: "string \<Rightarrow> Status \<Rightarrow> io_state \<Rightarrow> io_state" where
  "io_fail_stream sid st = (\<lambda>(s, cs). (case io_remove sid s of
      (Some rec, s') \<Rightarrow> (s', send_or_spawn (is_server_tx rec) (Inl st) cs)
    | (None, s') \<Rightarrow> (s', cs)))"

definition agent_disconnected :: "uuid_lib \<Rightarrow> AgentId \<Rightarrow> Status" where
  "agent_disconnected U a = status Code_Unavailable (''agent '' @ AgentId_to_string U a @ '' disconnected'')"

definition io_cancel_at_generation :: "uuid_lib \<Rightarrow> AgentId \<Rightarrow> u64 \<Rightarrow> io_state \<Rightarrow> io_state" where
  "io_cancel_at_generation U a generation = (\<lambda>(s, cs).
    (let stream_ids = map fst (filter (\<lambda>(_, r). is_agent_id r = a \<and> is_generation r = generation) (io_inner s))
     in fold (\<lambda>sid. io_fail_stream sid (agent_disconnected U a)) stream_ids (s, cs)))"

definition io_len :: "IoSessions \<Rightarrow> nat" where
  "io_len s = length (io_inner s)"

definition fail_all_remaining :: "Status \<Rightarrow> io_state \<Rightarrow> nat \<times> io_state" where
  "fail_all_remaining st = (\<lambda>(s, cs).
    (length (io_inner s),
     (s\<lparr>io_inner := []\<rparr>, fold (\<lambda>(_, rec). send_or_spawn (is_server_tx rec) (Inl st)) (io_inner s) cs)))"

section \<open>Cancelling one generation\<close>

locale generation_scoped =
  fixes owner :: "'s \<Rightarrow> string \<Rightarrow> (AgentId \<times> u64) option"
    and cancel :: "AgentId \<Rightarrow> u64 \<Rightarrow> 's \<Rightarrow> 's"
    and ok :: "'s \<Rightarrow> bool"
  assumes ok_cancel: "ok s \<Longrightarrow> ok (cancel a g s)"
    and owner_cancel: "ok s \<Longrightarrow> owner (cancel a g s) k = (if owner s k = Some (a, g) then None else owner s k)"
begin

lemma cancel_keeps: "ok s \<Longrightarrow> owner s k = Some (b, h) \<Longrightarrow> (b, h) \<noteq> (a, g) \<Longrightarrow> owner (cancel a g s) k = Some (b, h)"
  by (simp add: owner_cancel)

lemma cancel_clears: "ok s \<Longrightarrow> owner (cancel a g s) k \<noteq> Some (a, g)"
  by (simp add: owner_cancel)

lemma cancel_only_removes: "ok s \<Longrightarrow> owner (cancel a g s) k = Some v \<Longrightarrow> owner s k = Some v"
  by (simp add: owner_cancel split: if_splits)

lemma cancel_commute: "ok s \<Longrightarrow> owner (cancel a g (cancel b h s)) = owner (cancel b h (cancel a g s))"
  by (rule ext) (simp add: owner_cancel ok_cancel)

lemma cancel_idem: "ok s \<Longrightarrow> owner (cancel a g (cancel a g s)) = owner (cancel a g s)"
  by (rule ext) (simp add: owner_cancel ok_cancel)

end

definition mux_owner :: "StreamMux \<Rightarrow> string \<Rightarrow> (AgentId \<times> u64) option" where
  "mux_owner m k = map_option (\<lambda>ps. (ps_agent_id ps, ps_generation ps)) (tbl_get (pending m) k)"

definition io_owner :: "io_state \<Rightarrow> string \<Rightarrow> (AgentId \<times> u64) option" where
  "io_owner = (\<lambda>(s, cs) k. map_option (\<lambda>r. (is_agent_id r, is_generation r)) (tbl_get (io_inner s) k))"

lemma drop_sender_pending [simp]: "pending (drop_sender ps m) = pending m"
  by (simp add: drop_sender_def split: oneshot.splits)

lemma fold_drop_sender_pending [simp]: "pending (fold drop_sender xs m) = pending m"
  by (induction xs arbitrary: m) auto

interpretation muxc: generation_scoped mux_owner mux_cancel_at_generation "\<lambda>m. tbl_ok (pending m)"
  by unfold_locales (auto simp: mux_owner_def mux_cancel_at_generation_def Let_def table_simps split: option.splits)

lemma io_fail_stream_inner: "io_inner (fst (io_fail_stream sid st x)) = tbl_del sid (io_inner (fst x))"
  by (cases x) (simp add: io_fail_stream_def io_remove_def split: option.splits)

lemma fold_io_fail_ok: "tbl_ok (io_inner (fst x)) \<Longrightarrow> tbl_ok (io_inner (fst (fold (\<lambda>sid. io_fail_stream sid st) sids x)))"
  by (induction sids arbitrary: x) (auto simp: io_fail_stream_inner table_simps)

lemma fold_io_fail_get: "tbl_get (io_inner (fst (fold (\<lambda>sid. io_fail_stream sid st) sids x))) k =
    (if k \<in> set sids then None else tbl_get (io_inner (fst x)) k)"
  by (induction sids arbitrary: x) (auto simp: io_fail_stream_inner table_simps)

lemma doomed_sids:
  "tbl_ok t \<Longrightarrow> k \<in> set (map fst (filter (\<lambda>(_, r). P r) t)) \<longleftrightarrow> (\<exists>r. tbl_get t k = Some r \<and> P r)"
  by (force simp: tbl_in_set_get [symmetric])

interpretation ioc: generation_scoped io_owner "io_cancel_at_generation U" "\<lambda>x. tbl_ok (io_inner (fst x))"
proof unfold_locales
  fix x :: io_state and a g k
  assume ok: "tbl_ok (io_inner (fst x))"
  obtain s cs where x: "x = (s, cs)" by (cases x)
  let ?sids = "map fst (filter (\<lambda>(_, r). is_agent_id r = a \<and> is_generation r = g) (io_inner s))"
  have eq: "io_cancel_at_generation U a g x = fold (\<lambda>sid. io_fail_stream sid (agent_disconnected U a)) ?sids x"
    by (simp add: x io_cancel_at_generation_def)
  show "tbl_ok (io_inner (fst (io_cancel_at_generation U a g x)))"
    unfolding eq by (rule fold_io_fail_ok [OF ok])
  have "io_owner y k = map_option (\<lambda>r. (is_agent_id r, is_generation r)) (tbl_get (io_inner (fst y)) k)" for y
    by (simp add: io_owner_def case_prod_beta)
  then show "io_owner (io_cancel_at_generation U a g x) k = (if io_owner x k = Some (a, g) then None else io_owner x k)"
    unfolding eq using doomed_sids [of "io_inner s" k "\<lambda>r. is_agent_id r = a \<and> is_generation r = g"] ok
    by (auto simp: fold_io_fail_get x)
qed

section \<open>No session ends silently\<close>

lemma send_or_spawn_reaches: "reaches tx frame (send_or_spawn tx frame cs)"
  by (auto simp: send_or_spawn_def try_send_def reaches_def chan_simps)

lemma send_or_spawn_mono: "reaches ch x cs \<Longrightarrow> reaches ch x (send_or_spawn tx frame cs)"
  by (auto simp: send_or_spawn_def try_send_def reaches_def chan_simps)

lemma io_fail_mono: "reaches ch x (snd y) \<Longrightarrow> reaches ch x (snd (io_fail_stream sid st y))"
  by (cases y) (auto simp: io_fail_stream_def io_remove_def intro: send_or_spawn_mono split: option.splits)

lemma fold_io_fail_mono: "reaches ch x (snd y) \<Longrightarrow> reaches ch x (snd (fold (\<lambda>sid. io_fail_stream sid st) sids y))"
  by (induction sids arbitrary: y) (simp_all add: io_fail_mono)

lemma fold_io_fail_reaches:
  "sid \<in> set sids \<Longrightarrow> tbl_get (io_inner (fst y)) sid = Some r \<Longrightarrow>
   reaches (is_server_tx r) (Inl st) (snd (fold (\<lambda>sid. io_fail_stream sid st) sids y))"
proof (induction sids arbitrary: y)
  case (Cons d sids)
  show ?case
  proof (cases "d = sid")
    case True
    then have "reaches (is_server_tx r) (Inl st) (snd (io_fail_stream d st y))"
      using Cons.prems(2) by (cases y) (simp add: io_fail_stream_def io_remove_def send_or_spawn_reaches)
    then show ?thesis by (simp add: fold_io_fail_mono)
  next
    case False
    with Cons show ?thesis by (simp add: io_fail_stream_inner table_simps)
  qed
qed simp

lemma io_cancel_reaches:
  assumes "tbl_ok (io_inner s)" "tbl_get (io_inner s) sid = Some r" "is_agent_id r = a" "is_generation r = g"
  shows "reaches (is_server_tx r) (Inl (agent_disconnected U a)) (snd (io_cancel_at_generation U a g (s, cs)))"
proof -
  have "sid \<in> set (map fst (filter (\<lambda>(_, r). is_agent_id r = a \<and> is_generation r = g) (io_inner s)))"
    unfolding doomed_sids [OF assms(1)] using assms(2-4) by blast
  then show ?thesis
    unfolding io_cancel_at_generation_def Let_def prod.case
    by (rule fold_io_fail_reaches) (simp add: assms(2))
qed

lemma fold_spawn_mono: "reaches ch x cs \<Longrightarrow> reaches ch x (fold (\<lambda>(_, r). send_or_spawn (is_server_tx r) f) xs cs)"
  by (induction xs arbitrary: cs) (auto intro: send_or_spawn_mono)

lemma fold_spawn_reaches:
  "(k, r) \<in> set xs \<Longrightarrow> reaches (is_server_tx r) f (fold (\<lambda>(_, r). send_or_spawn (is_server_tx r) f) xs cs)"
  by (induction xs arbitrary: cs) (auto intro: fold_spawn_mono send_or_spawn_reaches)

end
