(* ===== verification/Proxy_Grpc.thy ===== *)
theory Proxy_Grpc
  imports Proxy_Tunnel
begin

text \<open>
  The proxy's handlers (\<open>src/crates/proxy/src/grpc.rs\<close>, \<open>router.rs\<close>, \<open>http_server.rs\<close>) and the part of
  \<open>src/crates/cli/src/run.rs\<close> that starts and drains it. The record \<open>proxy\<close> is the state the handlers
  share. A handler that runs as a task is cut at the points where it waits: \<open>tunnel_msg\<close> is one turn of
  the loop of \<open>open_tunnel\<close>, \<open>tunnel_end\<close> its cleanup, \<open>dispatch_start\<close> the part of \<open>dispatch_io_stream\<close>
  before its pump, \<open>pump_inbound\<close> the pump, \<open>dispatch_finish\<close> what follows the close of the response.
  The relation \<open>proxy_step\<close> interleaves them.
\<close>

section \<open>State\<close>

datatype ProxyRole = RolePublic | RoleInternal | RoleCombined

definition accepts_open_tunnel :: "ProxyRole \<Rightarrow> bool" where
  "accepts_open_tunnel r \<longleftrightarrow> r = RolePublic \<or> r = RoleCombined"

definition accepts_open_io_stream :: "ProxyRole \<Rightarrow> bool" where
  "accepts_open_io_stream r \<longleftrightarrow> r = RoleInternal \<or> r = RoleCombined"

record proxy =
  px_pool :: TunnelPool
  px_mux :: StreamMux
  px_sessions :: IoSessions
  px_tun :: "TunnelRequest chans"
  px_io :: "io_item chans"
  px_cache :: route_cache
  px_draining :: bool

section \<open>Who may call (open\_tunnel, open\_io\_stream)\<close>

text \<open>The bearer token of a call; \<open>to_str\<close> is the conversion of a metadata value to text.\<close>

definition bearer_token :: "(string \<Rightarrow> string option) \<Rightarrow> string option \<Rightarrow> string option" where
  "bearer_token to_str authorization = Option.bind (Option.bind authorization to_str) (\<lambda>s. strip_prefix s ''Bearer '')"

definition open_tunnel_gate ::
    "(string \<Rightarrow> string option) \<Rightarrow> ProxyRole \<Rightarrow> string option \<Rightarrow> string option \<Rightarrow> bool \<Rightarrow> Status + unit" where
  "open_tunnel_gate to_str role tunnel_token authorization draining =
    (if \<not> accepts_open_tunnel role then
       Inl (status Code_Unimplemented
         ''OpenTunnel is not served on this proxy listener; agents must dial the public listener'')
     else if tunnel_token \<noteq> None \<and> bearer_token to_str authorization \<noteq> tunnel_token then
       Inl (status Code_Unauthenticated ''missing or invalid tunnel-join token'')
     else if draining then Inl (status Code_Unavailable ''proxy is shutting down; reconnect'')
     else Inr ())"

definition open_io_stream_gate ::
    "(string \<Rightarrow> string option) \<Rightarrow> ProxyRole \<Rightarrow> string option \<Rightarrow> string option \<Rightarrow> bool \<Rightarrow> Status + unit" where
  "open_io_stream_gate to_str role internal_token authorization draining =
    (if \<not> accepts_open_io_stream role then
       Inl (status Code_Unimplemented
         ''OpenIoStream is not served on this proxy listener; the api gateway must dial the internal listener'')
     else if internal_token \<noteq> None \<and> bearer_token to_str authorization \<noteq> internal_token then
       Inl (status Code_Unauthenticated ''missing or invalid internal authorization'')
     else if draining then Inl (status Code_Unavailable ''proxy is shutting down; retry'')
     else Inr ())"

text \<open>What \<open>run_proxy\<close> refuses to start with, and the roles of its two listeners.\<close>

definition proxy_roles ::
    "u16 \<Rightarrow> u16 \<Rightarrow> string option \<Rightarrow> string option \<Rightarrow> string + (ProxyRole \<times> ProxyRole)" where
  "proxy_roles grpc_port internal_grpc_port internal_token tunnel_token =
    (let split_listeners = (grpc_port \<noteq> internal_grpc_port) in
     if \<not> split_listeners \<and> internal_token = None then
       Inl (''OPEN_SANDBOX_INTERNAL_TOKEN must be set when running the proxy in Combined mode '' @
            ''(grpc_port == internal_grpc_port); without it OpenIoStream has '' @
            ''zero authentication and any caller on the listener can execute '' @ ''commands in any sandbox'')
     else if tunnel_token = None then
       Inl (''TUNNEL_JOIN_TOKEN must be set so agents calling OpenTunnel '' @
            ''are authenticated; without it any network-reachable caller '' @
            ''can register as any agent_id and hijack routing for that '' @ ''agent's sandboxes'')
     else if split_listeners then Inr (RolePublic, RoleInternal)
     else Inr (RoleCombined, RoleCombined))"

section \<open>An agent's tunnel (open\_tunnel)\<close>

type_synonym tunnel_local = "AgentId option \<times> u64 option"

definition on_io :: "(io_state \<Rightarrow> 'a \<times> io_state) \<Rightarrow> proxy \<Rightarrow> 'a \<times> proxy" where
  "on_io f p = (case f (px_sessions p, px_io p) of (r, (s, cs)) \<Rightarrow> (r, p\<lparr>px_sessions := s, px_io := cs\<rparr>))"

definition tunnel_msg ::
    "uuid_lib \<Rightarrow> nat \<Rightarrow> TunnelResponse \<Rightarrow> tunnel_local \<Rightarrow> proxy \<Rightarrow> bool \<times> tunnel_local \<times> proxy" where
  "tunnel_msg U request_tx msg l p = (case l of (registered, generation) \<Rightarrow>
    (case tr_payload msg of
       None \<Rightarrow> (True, l, p)
     | Some (TRReady agent_id_str) \<Rightarrow> (case uuid_parse_str U agent_id_str of
           None \<Rightarrow> (False, l, p)
         | Some u \<Rightarrow> (case pool_register (AgentId u) request_tx (px_pool p) of
             (g, pool') \<Rightarrow> (True, (Some (AgentId u), Some g), p\<lparr>px_pool := pool'\<rparr>)))
     | Some (TRHttpResponse resp) \<Rightarrow> (case registered of
           None \<Rightarrow> (True, l, p)
         | Some a \<Rightarrow> (True, l, p\<lparr>px_mux := snd (deliver_response (tr_stream_id msg) a resp (px_mux p))\<rparr>))
     | Some (TRClose reason) \<Rightarrow> (case registered of
           None \<Rightarrow> (True, l, p)
         | Some a \<Rightarrow> (True, l, p\<lparr>px_mux := mux_fail_stream (tr_stream_id msg) a reason (px_mux p)\<rparr>))
     | Some (TRData _ _) \<Rightarrow> (True, l, p)
     | Some (TRIoServer frame) \<Rightarrow> (case registered of
           None \<Rightarrow> (True, l, p)
         | Some a \<Rightarrow> (True, l, snd (on_io (deliver_server_frame (tr_stream_id msg) a frame) p)))))"

definition tunnel_end :: "uuid_lib \<Rightarrow> tunnel_local \<Rightarrow> proxy \<Rightarrow> proxy" where
  "tunnel_end U l p = (case l of
      (Some a, Some g) \<Rightarrow>
        (let p1 = p\<lparr>px_mux := mux_cancel_at_generation a g (px_mux p)\<rparr>;
             p2 = snd (on_io (\<lambda>x. ((), io_cancel_at_generation U a g x)) p1);
             (was_current, pool') = remove_if_current a g (px_pool p2);
             p3 = p2\<lparr>px_pool := pool'\<rparr>
         in if was_current then p3\<lparr>px_cache := cache_remove_for_agent a (px_cache p3)\<rparr> else p3)
    | _ \<Rightarrow> p)"

fun tunnel_task :: "uuid_lib \<Rightarrow> nat \<Rightarrow> TunnelResponse list \<Rightarrow> tunnel_local \<Rightarrow> proxy \<Rightarrow> proxy" where
  "tunnel_task U tx [] l p = tunnel_end U l p"
| "tunnel_task U tx (msg # msgs) l p = (case tunnel_msg U tx msg l p of
      (True, l', p') \<Rightarrow> tunnel_task U tx msgs l' p'
    | (False, l', p') \<Rightarrow> tunnel_end U l' p')"

section \<open>An I/O session (dispatch\_io\_stream)\<close>

text \<open>\<open>server_tx.send(Err(status)).await\<close>, its outcome ignored.\<close>

definition send_status :: "nat \<Rightarrow> Status \<Rightarrow> proxy \<Rightarrow> proxy" where
  "send_status tx st p = p\<lparr>px_io := snd (send_item tx (Inl st) (px_io p))\<rparr>"

definition io_request :: "string \<Rightarrow> IoClientPayload option \<Rightarrow> TunnelRequest" where
  "io_request sid payload =
    \<lparr> tq_stream_id = sid, tq_payload = Some (TQIoClient \<lparr> cf_stream_id = sid, cf_payload = payload \<rparr>) \<rparr>"

text \<open>From the pool lookup to the start frame: the session's stream, or none when it was refused.\<close>

definition open_session :: "uuid_lib \<Rightarrow> AgentId \<Rightarrow> IoStart \<Rightarrow> nat \<Rightarrow> proxy \<Rightarrow> string option \<times> proxy" where
  "open_session U a start server_tx p = (case get_sender_with_generation a (px_pool p) of
      None \<Rightarrow> (None, send_status server_tx (status Code_Unavailable (''agent '' @ AgentId_to_string U a @ '' not connected'')) p)
    | Some (agent_sender, generation) \<Rightarrow>
        (let (stream_id, s1) = io_next_stream_id (px_sessions p);
             s2 = io_insert stream_id \<lparr> is_agent_id = a, is_server_tx = server_tx, is_generation = generation \<rparr> s1;
             p2 = p\<lparr>px_sessions := s2\<rparr>
         in if px_draining p2 then
              (None, send_status server_tx (status Code_Unavailable ''proxy shutting down'')
                       (p2\<lparr>px_sessions := snd (io_remove stream_id s2)\<rparr>))
            else (case send_item agent_sender (io_request stream_id (Some (CStart start))) (px_tun p2) of
                (True, cs) \<Rightarrow> (Some stream_id, p2\<lparr>px_tun := cs\<rparr>)
              | (False, cs) \<Rightarrow>
                  (None, send_status server_tx (status Code_Unavailable ''agent tunnel dropped'')
                           (p2\<lparr>px_tun := cs, px_sessions := snd (io_remove stream_id s2)\<rparr>)))))"

definition cached_lookup ::
    "uuid_lib \<Rightarrow> 'r RoutingStore \<Rightarrow> string \<Rightarrow> 'r \<times> proxy \<Rightarrow> (ProxyError + CachedRoute option) \<times> ('r \<times> proxy)" where
  "cached_lookup U S sd = (\<lambda>(r, p). (case lookup_or_fetch U S sd (r, px_cache p) of
      (res, (r', c')) \<Rightarrow> (res, (r', p\<lparr>px_cache := c'\<rparr>))))"

definition dispatch_start ::
    "uuid_lib \<Rightarrow> 'r RoutingStore \<Rightarrow> string + IoClientFrame option \<Rightarrow> nat \<Rightarrow> 'r \<times> proxy \<Rightarrow>
     (AgentId \<times> string) option \<times> ('r \<times> proxy)" where
  "dispatch_start U S first server_tx = (\<lambda>(r, p). (case first of
      Inl e \<Rightarrow> (None, (r, send_status server_tx (status Code_Internal e) p))
    | Inr None \<Rightarrow> (None, (r, send_status server_tx (status Code_InvalidArgument ''OpenIoStream closed before first frame'') p))
    | Inr (Some f) \<Rightarrow> (case cf_payload f of
        Some (CStart start) \<Rightarrow> (case uuid_parse_str U (st_sandbox_id start) of
            None \<Rightarrow> (None, (r, send_status server_tx (status Code_InvalidArgument ''invalid sandbox_id'') p))
          | Some u \<Rightarrow> (case cached_lookup U S (subdomain U (SandboxId u)) (r, p) of
              (Inl e, (r', p')) \<Rightarrow>
                (None, (r', send_status server_tx (status Code_Internal (''routing lookup failed: '' @ ProxyError_to_string e)) p'))
            | (Inr None, (r', p')) \<Rightarrow>
                (None, (r', send_status server_tx (status Code_NotFound
                   (''sandbox '' @ SandboxId_to_string U (SandboxId u) @ '' not in routing table'')) p'))
            | (Inr (Some route), (r', p')) \<Rightarrow>
                (case open_session U (ca_agent_id route) start server_tx p' of
                   (sid, p'') \<Rightarrow> (map_option (\<lambda>s. (ca_agent_id route, s)) sid, (r', p'')))))
      | _ \<Rightarrow> (None, (r, send_status server_tx (status Code_InvalidArgument ''first frame must be IoStart'') p)))))"

text \<open>The pump: \<open>Some saw_explicit_close\<close> when the gateway's stream ended, \<open>None\<close> when the tunnel was lost.\<close>

definition is_full_close :: "IoClientPayload option \<Rightarrow> bool" where
  "is_full_close pl = (case pl of Some (CClose eof) \<Rightarrow> \<not> eof | _ \<Rightarrow> False)"

fun pump_frames :: "AgentId \<Rightarrow> string \<Rightarrow> IoClientFrame list \<Rightarrow> bool \<Rightarrow> proxy \<Rightarrow> bool option \<times> proxy" where
  "pump_frames a sid [] saw p = (Some saw, p)"
| "pump_frames a sid (f # fs) saw p =
    (let saw' = (saw \<or> is_full_close (cf_payload f)) in
     case get_sender a (px_pool p) of
       None \<Rightarrow> (None, p)
     | Some sender \<Rightarrow> (case send_item sender (io_request sid (cf_payload f)) (px_tun p) of
         (True, cs) \<Rightarrow> pump_frames a sid fs saw' (p\<lparr>px_tun := cs\<rparr>)
       | (False, cs) \<Rightarrow> (None, p\<lparr>px_tun := cs\<rparr>)))"

definition pump_inbound :: "AgentId \<Rightarrow> string \<Rightarrow> IoClientFrame list \<Rightarrow> proxy \<Rightarrow> proxy" where
  "pump_inbound a sid fs p = (case pump_frames a sid fs False p of
      (None, p') \<Rightarrow> p'
    | (Some saw_explicit_close, p') \<Rightarrow>
        if saw_explicit_close then p'
        else (case get_sender a (px_pool p') of
            None \<Rightarrow> p'
          | Some sender \<Rightarrow> p'\<lparr>px_tun := snd (send_item sender (io_request sid (Some (CClose False))) (px_tun p'))\<rparr>))"

definition dispatch_finish :: "string \<Rightarrow> proxy \<Rightarrow> proxy" where
  "dispatch_finish sid p = p\<lparr>px_sessions := snd (io_remove sid (px_sessions p))\<rparr>"

section \<open>HTTP requests (router.rs, http\_server.rs)\<close>

text \<open>\<open>route_request\<close> up to its wait: the agent, the sandbox and the stream to wait on.\<close>

definition route_request_open ::
    "uuid_lib \<Rightarrow> 'r RoutingStore \<Rightarrow> string \<Rightarrow> HttpRequest \<Rightarrow> 'r \<times> proxy \<Rightarrow>
     (ProxyError + AgentId \<times> string \<times> (string \<times> nat)) \<times> ('r \<times> proxy)" where
  "route_request_open U S host req x = (case extract_sandbox_id host of
      None \<Rightarrow> (Inl (RoutingMiss host), x)
    | Some sd \<Rightarrow> (case cached_lookup U S sd x of
        (Inl e, x') \<Rightarrow> (Inl e, x')
      | (Inr None, x') \<Rightarrow> (Inl (RoutingMiss sd), x')
      | (Inr (Some route), (r', p')) \<Rightarrow>
          (let sandbox_id = SandboxId_to_string U (ca_sandbox_id route) in
           case send_request_open U (px_pool p') (ca_agent_id route) (req\<lparr>hq_sandbox_id := sandbox_id\<rparr>) (px_mux p', px_tun p') of
             (Inl e, (m, cs)) \<Rightarrow> (Inl e, (r', p'\<lparr>px_mux := m, px_tun := cs\<rparr>))
           | (Inr w, (m, cs)) \<Rightarrow> (Inr (ca_agent_id route, sandbox_id, w), (r', p'\<lparr>px_mux := m, px_tun := cs\<rparr>)))))"

definition MAX_REQUEST_BODY_BYTES :: nat where "MAX_REQUEST_BODY_BYTES = 50 * 1024 * 1024"

definition HOP_BY_HOP_HEADERS :: "string list" where
  "HOP_BY_HOP_HEADERS = [''connection'', ''keep-alive'', ''proxy-authenticate'', ''proxy-authorization'',
     ''te'', ''trailer'', ''transfer-encoding'', ''upgrade'']"

definition header_get :: "(string \<times> string) list \<Rightarrow> string \<Rightarrow> string option" where
  "header_get hs n = map_option snd (find (\<lambda>(k, _). eq_ignore_ascii_case k n) hs)"

definition connection_headers :: "(string \<Rightarrow> string option) \<Rightarrow> (string \<times> string) list \<Rightarrow> string list" where
  "connection_headers to_str hs = (case Option.bind (header_get hs ''connection'') to_str of
      None \<Rightarrow> []
    | Some v \<Rightarrow> map (\<lambda>s. to_ascii_lowercase (str_trim s)) (split_char (CHR '','') v))"

definition forwarded_headers :: "(string \<Rightarrow> string option) \<Rightarrow> (string \<times> string) list \<Rightarrow> (string, string) tbl" where
  "forwarded_headers to_str hs =
    foldl (\<lambda>acc (name, value).
      let lower = to_ascii_lowercase name in
      if lower \<in> set HOP_BY_HOP_HEADERS then acc
      else if lower \<in> set (connection_headers to_str hs) then acc
      else (case to_str value of Some v \<Rightarrow> tbl_put name v acc | None \<Rightarrow> acc)) [] hs"

record http_in =
  hi_method :: string
  hi_path_and_query :: "string option"
  hi_headers :: "(string \<times> string) list"
  hi_body :: bytes

text \<open>\<open>collect limit body\<close> is the limited body reader of \<open>http_body_util\<close>: none when the limit is exceeded
  or the body breaks off. The answer is a status code, or the request to wait on.\<close>

definition http_handle_open ::
    "uuid_lib \<Rightarrow> 'r RoutingStore \<Rightarrow> (string \<Rightarrow> string option) \<Rightarrow> (nat \<Rightarrow> bytes \<Rightarrow> bytes option) \<Rightarrow> http_in \<Rightarrow>
     'r \<times> proxy \<Rightarrow> (ProxyError option + AgentId \<times> string \<times> (string \<times> nat)) \<times> ('r \<times> proxy)" where
  "http_handle_open U S to_str collect req x =
    (let host = (case Option.bind (header_get (hi_headers req) ''host'') to_str of Some h \<Rightarrow> h | None \<Rightarrow> []);
         uri = (case hi_path_and_query req of None \<Rightarrow> ''/'' | Some pq \<Rightarrow> pq);
         headers = forwarded_headers to_str (hi_headers req)
     in case collect MAX_REQUEST_BODY_BYTES (hi_body req) of
          None \<Rightarrow> (Inl None, x)
        | Some body \<Rightarrow>
            (case route_request_open U S host
                \<lparr> hq_method = hi_method req, hq_uri = uri, hq_headers = headers, hq_body = body, hq_sandbox_id = [] \<rparr> x of
               (Inl e, x') \<Rightarrow> (Inl (Some e), x')
             | (Inr w, x') \<Rightarrow> (Inr w, x')))"

text \<open>The status code of the answer; \<open>from_u16\<close> is the \<open>http\<close> crate's check of a status code.\<close>

fun proxy_error_code :: "ProxyError option \<Rightarrow> u16" where
  "proxy_error_code None = 413"
| "proxy_error_code (Some (RoutingMiss _)) = 404"
| "proxy_error_code (Some (UpstreamTimeout _ _)) = 504"
| "proxy_error_code (Some _) = 502"

definition http_answer_code :: "(u16 \<Rightarrow> bool) \<Rightarrow> ProxyError + HttpResponse \<Rightarrow> u16" where
  "http_answer_code from_u16 r = (case r of
      Inl e \<Rightarrow> proxy_error_code (Some e)
    | Inr resp \<Rightarrow>
        if unat (hs_status_code resp) < 2 ^ 16 \<and> from_u16 (ucast (hs_status_code resp)) then ucast (hs_status_code resp)
        else 500)"

text \<open>The answer itself; \<open>header_ok\<close> is the builder's check of a header. A header it refuses makes the
  \<open>expect\<close> on the built response panic, which is \<open>None\<close>.\<close>

definition http_answer ::
    "(u16 \<Rightarrow> bool) \<Rightarrow> (string \<Rightarrow> string \<Rightarrow> bool) \<Rightarrow> ProxyError + HttpResponse \<Rightarrow>
     (u16 \<times> (string, string) tbl \<times> bytes) option" where
  "http_answer from_u16 header_ok r = (case r of
      Inl _ \<Rightarrow> Some (http_answer_code from_u16 r, [], [])
    | Inr resp \<Rightarrow>
        if list_all (\<lambda>(k, v). header_ok k v) (hs_headers resp)
        then Some (http_answer_code from_u16 r, hs_headers resp, hs_body resp) else None)"

section \<open>Drain (run\_proxy)\<close>

text \<open>The end of the drain loop: on time-out or a second signal the sessions left are failed.\<close>

definition drain_begin :: "proxy \<Rightarrow> proxy" where
  "drain_begin p = p\<lparr>px_draining := True\<rparr>"

definition drain_finish :: "bool \<Rightarrow> proxy \<Rightarrow> proxy" where
  "drain_finish second_signal p =
    (if second_signal then
       snd (on_io (fail_all_remaining (status Code_Unavailable ''proxy shutting down (escalated)'')) p)
     else if io_len (px_sessions p) = 0 then p
     else snd (on_io (fail_all_remaining (status Code_Unavailable ''proxy shutting down (drain timeout)'')) p))"

section \<open>Cleanup and delivery\<close>

lemma remove_if_current_get: "tbl_get (tunnels (snd (remove_if_current a g p))) b =
    (if b = a \<and> fst (remove_if_current a g p) then None else tbl_get (tunnels p) b)"
  by (auto simp: remove_if_current_def table_simps split: option.splits)

lemma remove_if_current_iff: "fst (remove_if_current a g p) \<longleftrightarrow> (\<exists>t. tbl_get (tunnels p) a = Some t \<and> at_generation t = g)"
  by (auto simp: remove_if_current_def split: option.splits)

text \<open>C23. The end of a tunnel cleans up its own generation and nothing else: the requests and
  sessions opened on it are gone, every one of those sessions is told the agent disconnected, and
  requests, sessions, pool entry and cached routes of a newer tunnel of the same agent, or of any
  other agent, stay as they are.\<close>

theorem tunnel_end_scoped:
  assumes "tbl_ok (pending (px_mux p))" "tbl_ok (io_inner (px_sessions p))" "tunnel_end U (Some a, Some g) p = p'"
  shows "mux_owner (px_mux p') k = (if mux_owner (px_mux p) k = Some (a, g) then None else mux_owner (px_mux p) k) \<and>
    io_owner (px_sessions p', px_io p') k =
      (if io_owner (px_sessions p, px_io p) k = Some (a, g) then None else io_owner (px_sessions p, px_io p) k) \<and>
    (\<forall>b. tbl_get (tunnels (px_pool p')) b =
      (if b = a \<and> map_option at_generation (tbl_get (tunnels (px_pool p)) a) = Some g then None
       else tbl_get (tunnels (px_pool p)) b)) \<and>
    (map_option at_generation (tbl_get (tunnels (px_pool p)) a) \<noteq> Some g \<longrightarrow> px_cache p' = px_cache p) \<and>
    (\<forall>r. tbl_get (io_inner (px_sessions p)) k = Some r \<longrightarrow> is_agent_id r = a \<longrightarrow> is_generation r = g \<longrightarrow>
      reaches (is_server_tx r) (Inl (agent_disconnected U a)) (px_io p'))"
proof -
  obtain s' cs' where io: "io_cancel_at_generation U a g (px_sessions p, px_io p) = (s', cs')"
    by (cases "io_cancel_at_generation U a g (px_sessions p, px_io p)")
  have p': "px_mux p' = mux_cancel_at_generation a g (px_mux p)" "px_sessions p' = s'" "px_io p' = cs'"
    "px_pool p' = snd (remove_if_current a g (px_pool p))"
    "\<not> fst (remove_if_current a g (px_pool p)) \<longrightarrow> px_cache p' = px_cache p"
    using assms(3) by (auto simp: tunnel_end_def on_io_def io Let_def split: prod.splits)
  show ?thesis
    using muxc.owner_cancel [OF assms(1), of a g k] ioc.owner_cancel [of "(px_sessions p, px_io p)" U a g k]
      io_cancel_reaches [of "px_sessions p" k _ a g U "px_io p"] assms(2) io p'
    by (auto simp: remove_if_current_get remove_if_current_iff)
qed

definition no_chans :: "'a chans" where
  "no_chans = \<lparr> accepted = (\<lambda>_. []), taken = (\<lambda>_. 0), rx_gone = (\<lambda>_. False), parked = [] \<rparr>"

text \<open>An agent that reconnected: its first tunnel, generation 1, has a request and a session left, its
  second tunnel, generation 2, too.\<close>

definition demo_proxy :: proxy where
  "demo_proxy = \<lparr>
     px_pool = \<lparr> tunnels = [(AgentId 1, \<lparr> at_request_tx = 20, at_generation = 2 \<rparr>)], next_generation = 3 \<rparr>,
     px_mux = mux_new\<lparr>pending :=
       [(''s-0'', \<lparr> ps_response_tx = 0, ps_agent_id = AgentId 1, ps_generation = 1 \<rparr>),
        (''s-1'', \<lparr> ps_response_tx = 1, ps_agent_id = AgentId 1, ps_generation = 2 \<rparr>)], stream_counter := 2, next_oneshot := 2\<rparr>,
     px_sessions = \<lparr> io_inner =
       [(''io-0'', \<lparr> is_agent_id = AgentId 1, is_server_tx = 5, is_generation = 1 \<rparr>),
        (''io-1'', \<lparr> is_agent_id = AgentId 1, is_server_tx = 6, is_generation = 2 \<rparr>)], io_counter = 2 \<rparr>,
     px_tun = no_chans, px_io = no_chans, px_cache = [], px_draining = False \<rparr>"

lemma demo_proxy_ok: "tbl_ok (pending (px_mux demo_proxy))" "tbl_ok (io_inner (px_sessions demo_proxy))"
  by (simp_all add: demo_proxy_def tbl_ok_def)

theorem tunnel_end_scoped_witness:
  "let p' = tunnel_end rfc4122 (Some (AgentId 1), Some 1) demo_proxy in
     mux_owner (px_mux p') ''s-0'' = None \<and> mux_owner (px_mux p') ''s-1'' = Some (AgentId 1, 2) \<and>
     io_owner (px_sessions p', px_io p') ''io-1'' = Some (AgentId 1, 2) \<and> pool_contains (AgentId 1) (px_pool p') \<and>
     reaches 5 (Inl (agent_disconnected rfc4122 (AgentId 1))) (px_io p')"
  using tunnel_end_scoped [OF demo_proxy_ok refl, of rfc4122 "AgentId 1" 1 "''s-0''"]
    tunnel_end_scoped [OF demo_proxy_ok refl, of rfc4122 "AgentId 1" 1 "''s-1''"]
    tunnel_end_scoped [OF demo_proxy_ok refl, of rfc4122 "AgentId 1" 1 "''io-0''"]
    tunnel_end_scoped [OF demo_proxy_ok refl, of rfc4122 "AgentId 1" 1 "''io-1''"]
  by (simp add: Let_def demo_proxy_def mux_owner_def io_owner_def mux_new_def table_simps pool_contains_def)

section \<open>Headers\<close>

lemma forwarded_fold:
  "tbl_get (foldl (\<lambda>acc (name, value).
      let lower = to_ascii_lowercase name in
      if lower \<in> A then acc else if lower \<in> B then acc
      else (case to_str value of Some v \<Rightarrow> tbl_put name v acc | None \<Rightarrow> acc)) acc hs) n = Some v \<Longrightarrow>
   tbl_get acc n = Some v \<or> to_ascii_lowercase n \<notin> A \<and> to_ascii_lowercase n \<notin> B \<and> (\<exists>raw. (n, raw) \<in> set hs \<and> to_str raw = Some v)"
proof (induction hs arbitrary: acc)
  case (Cons h hs)
  obtain nm vl where h: "h = (nm, vl)" by (cases h)
  from Cons.IH [OF Cons.prems [unfolded foldl_Cons]] show ?case
    by (auto simp: h Let_def table_simps split: if_splits option.splits)
qed simp

lemma forwarded_fold_complete:
  "(n, raw) \<in> set hs \<or> tbl_get acc n \<noteq> None \<Longrightarrow> to_ascii_lowercase n \<notin> A \<Longrightarrow> to_ascii_lowercase n \<notin> B \<Longrightarrow> to_str raw \<noteq> None \<Longrightarrow>
   tbl_get (foldl (\<lambda>acc (name, value).
      let lower = to_ascii_lowercase name in
      if lower \<in> A then acc else if lower \<in> B then acc
      else (case to_str value of Some v \<Rightarrow> tbl_put name v acc | None \<Rightarrow> acc)) acc hs) n \<noteq> None"
proof (induction hs arbitrary: acc)
  case (Cons h hs)
  obtain nm vl where h: "h = (nm, vl)" by (cases h)
  from Cons.prems show ?case unfolding foldl_Cons
    by (intro Cons.IH) (auto simp: h Let_def table_simps split: option.splits)
qed simp

text \<open>Hop-by-hop headers stop at the proxy. A forwarded header has a name that, in lower case, is
  neither one of the eight hop-by-hop names nor named by the request's (first) Connection header,
  and a value the request had under that name; and every other header whose value is text is forwarded.\<close>

lemma hop_by_hop_stripped:
  "(tbl_get (forwarded_headers to_str hs) n = Some v \<longrightarrow>
     to_ascii_lowercase n \<notin> set HOP_BY_HOP_HEADERS \<and> to_ascii_lowercase n \<notin> set (connection_headers to_str hs) \<and>
     (\<exists>raw. (n, raw) \<in> set hs \<and> to_str raw = Some v)) \<and>
   ((n, raw) \<in> set hs \<and> to_str raw \<noteq> None \<and> to_ascii_lowercase n \<notin> set HOP_BY_HOP_HEADERS \<and>
     to_ascii_lowercase n \<notin> set (connection_headers to_str hs) \<longrightarrow> tbl_get (forwarded_headers to_str hs) n \<noteq> None)"
proof (intro conjI impI)
  show "tbl_get (forwarded_headers to_str hs) n = Some v \<Longrightarrow> to_ascii_lowercase n \<notin> set HOP_BY_HOP_HEADERS"
    "tbl_get (forwarded_headers to_str hs) n = Some v \<Longrightarrow> to_ascii_lowercase n \<notin> set (connection_headers to_str hs)"
    "tbl_get (forwarded_headers to_str hs) n = Some v \<Longrightarrow> \<exists>raw. (n, raw) \<in> set hs \<and> to_str raw = Some v"
    unfolding forwarded_headers_def by (drule forwarded_fold, simp)+
  show "tbl_get (forwarded_headers to_str hs) n \<noteq> None" if "(n, raw) \<in> set hs \<and> to_str raw \<noteq> None \<and>
     to_ascii_lowercase n \<notin> set HOP_BY_HOP_HEADERS \<and> to_ascii_lowercase n \<notin> set (connection_headers to_str hs)"
    using that unfolding forwarded_headers_def by (intro forwarded_fold_complete [of n raw]) auto
qed

lemma hop_by_hop_stripped_witness:
  "let hs = [(''Host'', ''a.b''), (''Connection'', ''close, X-Hop''), (''x-hop'', ''1''), (''TE'', ''gzip'')]
   in tbl_get (forwarded_headers Some hs) ''x-hop'' = None \<and> tbl_get (forwarded_headers Some hs) ''TE'' = None \<and>
      tbl_get (forwarded_headers Some hs) ''Host'' \<noteq> None"
proof -
  define hs where "hs = [(''Host'', ''a.b''), (''Connection'', ''close, X-Hop''), (''x-hop'', ''1''), (''TE'', ''gzip'')]"
  have "''x-hop'' \<in> set (connection_headers Some hs)" "''host'' \<notin> set (connection_headers Some hs)"
    "to_ascii_lowercase ''x-hop'' = ''x-hop''" "to_ascii_lowercase ''TE'' = ''te''" "to_ascii_lowercase ''Host'' = ''host''"
    unfolding hs_def by code_simp+
  moreover have "(''Host'', ''a.b'') \<in> set hs" by (simp add: hs_def)
  ultimately show ?thesis
    using hop_by_hop_stripped [of Some hs "''x-hop''"] hop_by_hop_stripped [of Some hs "''TE''"]
      hop_by_hop_stripped [of Some hs "''Host''" _ "''a.b''"]
    unfolding hs_def [symmetric] Let_def by (auto simp: HOP_BY_HOP_HEADERS_def)
qed

end
