(* ===== verification/Proxy_Runs.thy ===== *)
theory Proxy_Runs
  imports Proxy_Grpc
begin

text \<open>
  What the proxy's handlers guarantee one by one: who gets through the gates, what a draining proxy does,
  what the pump sends to the agent, and where an HTTP request goes. Their interleavings are the subject of
  \<open>Proxy_Reach\<close>.
\<close>

section \<open>Gates\<close>

text \<open>C27. A started proxy authenticates before it answers anything else. With the roles \<open>run_proxy\<close>
  chose, a tunnel is opened only with the join token while not draining; on a combined listener an
  I/O stream only with the internal token; on split listeners each listener refuses the other's call;
  and a call with a wrong token gets the same answer whether the proxy drains or not.\<close>

theorem proxy_gates:
  assumes "proxy_roles gp ip it tt = Inr (pub, intern)"
  shows "(open_tunnel_gate to_str pub tt hdr d = Inr () \<longleftrightarrow> bearer_token to_str hdr = tt \<and> \<not> d) \<and>
    (bearer_token to_str hdr \<noteq> tt \<longrightarrow> open_tunnel_gate to_str pub tt hdr d = open_tunnel_gate to_str pub tt hdr (\<not> d)) \<and>
    (gp = ip \<longrightarrow> (open_io_stream_gate to_str pub it hdr d = Inr () \<longleftrightarrow> it \<noteq> None \<and> bearer_token to_str hdr = it \<and> \<not> d)) \<and>
    (gp \<noteq> ip \<longrightarrow> open_io_stream_gate to_str pub it hdr d \<noteq> Inr () \<and> open_tunnel_gate to_str intern None hdr d \<noteq> Inr () \<and>
       (open_io_stream_gate to_str intern it hdr d = Inr () \<longleftrightarrow> (it = None \<or> bearer_token to_str hdr = it) \<and> \<not> d)) \<and>
    (it \<noteq> None \<longrightarrow> bearer_token to_str hdr \<noteq> it \<longrightarrow>
       open_io_stream_gate to_str intern it hdr d = open_io_stream_gate to_str intern it hdr (\<not> d))"
  using assms
  by (auto simp: proxy_roles_def Let_def open_tunnel_gate_def open_io_stream_gate_def accepts_open_tunnel_def
      accepts_open_io_stream_def split: if_splits)

theorem proxy_gates_witness:
  "open_tunnel_gate Some RolePublic (Some ''t'') (Some ''Bearer t'') False = Inr () \<and>
   open_tunnel_gate Some RolePublic (Some ''t'') (Some ''Bearer u'') False \<noteq> Inr () \<and>
   open_tunnel_gate Some RoleInternal None None False \<noteq> Inr ()"
proof -
  have r: "proxy_roles 7000 7001 None (Some ''t'') = Inr (RolePublic, RoleInternal)"
    by (simp add: proxy_roles_def)
  have "bearer_token Some (Some ''Bearer t'') = Some ''t''" "bearer_token Some (Some ''Bearer u'') = Some ''u''"
    by (simp_all add: bearer_token_def strip_prefix_def starts_with_def)
  then have "open_tunnel_gate Some RolePublic (Some ''t'') (Some ''Bearer t'') False = Inr ()"
    "open_tunnel_gate Some RolePublic (Some ''t'') (Some ''Bearer u'') False \<noteq> Inr ()"
    using conjunct1 [OF proxy_gates [OF r, of Some "Some ''Bearer t''" False]]
      conjunct1 [OF proxy_gates [OF r, of Some "Some ''Bearer u''" False]] by simp_all
  then show ?thesis
    using proxy_gates [OF r, of Some None False] by simp
qed

section \<open>Drain\<close>

lemma send_status_sel [simp]:
  "px_sessions (send_status tx st p) = px_sessions p" "px_pool (send_status tx st p) = px_pool p"
  "px_mux (send_status tx st p) = px_mux p" "px_tun (send_status tx st p) = px_tun p"
  "px_draining (send_status tx st p) = px_draining p" "px_cache (send_status tx st p) = px_cache p"
  by (simp_all add: send_status_def)

lemma send_status_reaches: "reaches tx (Inl st) (px_io (send_status tx st p))"
  by (auto simp: send_status_def send_item_def reaches_def chan_simps)

lemma drain_finish_eq: "drain_finish b p = (if b \<or> io_inner (px_sessions p) \<noteq> [] then snd (on_io (fail_all_remaining
    (status Code_Unavailable (if b then ''proxy shutting down (escalated)'' else ''proxy shutting down (drain timeout)''))) p) else p)"
  by (simp add: drain_finish_def io_len_def)

text \<open>C28. Draining loses no session silently. While the proxy drains, a session that still tries to
  open is refused with a status on its channel and leaves no entry in the session table; and when
  the drain ends no session is left and each one that was still open has been sent \<open>Unavailable\<close>.\<close>

theorem drain_is_clean:
  "(px_draining p \<longrightarrow> (case open_session U a start tx p of (res, p') \<Rightarrow>
      res = None \<and> (\<exists>m. reaches tx (Inl (status Code_Unavailable m)) (px_io p')) \<and>
      (\<forall>k. tbl_get (io_inner (px_sessions p')) k \<noteq> None \<longrightarrow>
         tbl_get (io_inner (px_sessions p')) k = tbl_get (io_inner (px_sessions p)) k))) \<and>
   io_inner (px_sessions (drain_finish b p)) = [] \<and>
   (\<forall>k r. tbl_get (io_inner (px_sessions p)) k = Some r \<longrightarrow>
      (\<exists>m. reaches (is_server_tx r) (Inl (status Code_Unavailable m)) (px_io (drain_finish b p))))"
proof (intro conjI impI allI)
  assume d: "px_draining p"
  show "case open_session U a start tx p of (res, p') \<Rightarrow>
      res = None \<and> (\<exists>m. reaches tx (Inl (status Code_Unavailable m)) (px_io p')) \<and>
      (\<forall>k. tbl_get (io_inner (px_sessions p')) k \<noteq> None \<longrightarrow>
         tbl_get (io_inner (px_sessions p')) k = tbl_get (io_inner (px_sessions p)) k)"
    using d send_status_reaches [of tx]
    by (auto simp: open_session_def io_next_stream_id_def io_insert_def io_remove_def table_simps Let_def
        split: option.splits)
next
  show "io_inner (px_sessions (drain_finish b p)) = []"
    by (simp add: drain_finish_eq on_io_def fail_all_remaining_def)
next
  fix k r assume "tbl_get (io_inner (px_sessions p)) k = Some r"
  then have "(k, r) \<in> set (io_inner (px_sessions p))" by (rule tbl_get_in_set)
  then show "\<exists>m. reaches (is_server_tx r) (Inl (status Code_Unavailable m)) (px_io (drain_finish b p))"
    using fold_spawn_reaches by (fastforce simp: drain_finish_eq on_io_def fail_all_remaining_def)
qed

definition demo_start_frame :: IoStart where
  "demo_start_frame = \<lparr> st_sandbox_id = uuid_to_string rfc4122 7, st_params = Some (ReadFile ''a'' []) \<rparr>"

theorem drain_is_clean_witness:
  "fst (open_session rfc4122 (AgentId 1) demo_start_frame 9 (drain_begin demo_proxy)) = None \<and>
   io_inner (px_sessions (drain_finish False demo_proxy)) = [] \<and>
   (\<exists>m. reaches 6 (Inl (status Code_Unavailable m)) (px_io (drain_finish False demo_proxy)))"
proof -
  have "tbl_get (io_inner (px_sessions demo_proxy)) ''io-1'' =
      Some \<lparr> is_agent_id = AgentId 1, is_server_tx = 6, is_generation = 2 \<rparr>"
    by (simp add: demo_proxy_def table_simps)
  then show ?thesis
    using drain_is_clean [where p = demo_proxy and b = False]
      drain_is_clean [where p = "drain_begin demo_proxy" and U = rfc4122 and a = "AgentId 1" and start = demo_start_frame and tx = 9]
    by (fastforce simp: drain_begin_def split: prod.splits)
qed

section \<open>The pump\<close>

lemma pump_frames_open:
  assumes "get_sender a (px_pool p) = Some ch" "\<not> rx_gone (px_tun p) ch"
  shows "\<exists>cs. pump_frames a sid fs saw p = (Some (saw \<or> (\<exists>f \<in> set fs. is_full_close (cf_payload f))), p\<lparr>px_tun := cs\<rparr>) \<and>
    rx_gone cs = rx_gone (px_tun p) \<and>
    accepted cs = (accepted (px_tun p))(ch := accepted (px_tun p) ch @ map (\<lambda>f. io_request sid (cf_payload f)) fs)"
  using assms
proof (induction fs arbitrary: saw p)
  case Nil
  then show ?case by (intro exI [of _ "px_tun p"]) simp
next
  case (Cons f fs)
  let ?cs = "push_item ch (io_request sid (cf_payload f)) (px_tun p)"
  have send: "send_item ch (io_request sid (cf_payload f)) (px_tun p) = (True, ?cs)"
    using Cons.prems by (simp add: send_item_def)
  from Cons.IH [of "p\<lparr>px_tun := ?cs\<rparr>" "saw \<or> is_full_close (cf_payload f)"] Cons.prems obtain cs where
    "pump_frames a sid fs (saw \<or> is_full_close (cf_payload f)) (p\<lparr>px_tun := ?cs\<rparr>) =
      (Some (saw \<or> (\<exists>f \<in> set (f # fs). is_full_close (cf_payload f))), p\<lparr>px_tun := cs\<rparr>)"
    "rx_gone cs = rx_gone (px_tun p)"
    "accepted cs = (accepted (px_tun p))(ch := accepted (px_tun p) ch @ map (\<lambda>f. io_request sid (cf_payload f)) (f # fs))"
    by (auto simp: chan_simps fun_eq_iff)
  with Cons.prems show ?case
    by (intro exI [of _ cs]) (simp add: send Let_def)
qed

text \<open>The agent learns that a session is over. While its tunnel stays up, the pump sends the agent
  the gateway's frames in order, each under the session's stream, and then, unless one of them was
  a full close, a full close of its own; a half-close of standard input does not count as one.\<close>

lemma pump_closes_session:
  assumes "get_sender a (px_pool p) = Some ch" "\<not> rx_gone (px_tun p) ch"
  shows "accepted (px_tun (pump_inbound a sid fs p)) =
    (accepted (px_tun p))(ch := accepted (px_tun p) ch @ map (\<lambda>f. io_request sid (cf_payload f)) fs @
      (if \<exists>f \<in> set fs. cf_payload f = Some (CClose False) then [] else [io_request sid (Some (CClose False))]))"
proof -
  have close: "is_full_close pl \<longleftrightarrow> pl = Some (CClose False)" for pl
    by (auto simp: is_full_close_def split: option.splits IoClientPayload.splits)
  from pump_frames_open [OF assms, of sid fs False] assms show ?thesis
    by (auto simp: pump_inbound_def send_item_def chan_simps close)
qed

lemma pump_closes_session_witness:
  "accepted (px_tun (pump_inbound (AgentId 1) ''io-1'' [\<lparr> cf_stream_id = [], cf_payload = Some (CClose True) \<rparr>] demo_proxy)) 20 =
     [io_request ''io-1'' (Some (CClose True)), io_request ''io-1'' (Some (CClose False))]"
proof -
  have "get_sender (AgentId 1) (px_pool demo_proxy) = Some 20" "\<not> rx_gone (px_tun demo_proxy) 20"
    by (simp_all add: demo_proxy_def get_sender_def table_simps no_chans_def)
  from pump_closes_session [OF this] show ?thesis
    by (simp add: demo_proxy_def no_chans_def)
qed

section \<open>Requests\<close>

lemma cached_lookup_frame:
  "cached_lookup U S sd (r, p) = (res, (r', p')) \<Longrightarrow> \<exists>c'. lookup_or_fetch U S sd (r, px_cache p) = (res, (r', c')) \<and> p' = p\<lparr>px_cache := c'\<rparr>"
  by (auto simp: cached_lookup_def split: prod.splits)

lemma send_request_open_Inr:
  assumes "send_request_open U pl a req (m, cs) = (Inr w, (m', cs'))"
  shows "\<exists>ch g. get_sender_with_generation a pl = Some (ch, g) \<and> \<not> rx_gone cs ch \<and>
    cs' = push_item ch \<lparr> tq_stream_id = fst w, tq_payload = Some (TQHttpRequest req) \<rparr> cs \<and>
    w = (fst (mux_next_stream_id m), next_oneshot m) \<and>
    tbl_get (pending m') (fst w) = Some \<lparr> ps_response_tx = snd w, ps_agent_id = a, ps_generation = g \<rparr> \<and>
    oneshots m' (snd w) = Waiting \<and> \<not> oneshot_rx_gone m' (snd w)"
  using assms
  by (auto simp: send_request_open_def mux_next_stream_id_def send_item_def Let_def table_simps
      split: option.splits if_splits prod.splits)



end
