(* ===== verification/Proxy_Reach.thy ===== *)
theory Proxy_Reach
  imports Proxy_Runs
begin

text \<open>
  The proxy as a transition system: \<open>proxy_step\<close> interleaves the turns of the tunnel tasks, HTTP
  requests, I/O sessions, cache updates and drain on the shared state; what receivers do to the
  channels is arbitrary. The reachable states keep \<open>proxy_inv\<close>: a generation belongs to one agent,
  stream numbers in use are below their counters, waiting requests have distinct one-shots.
\<close>

section \<open>Steps\<close>

type_synonym proxy_sys = "proxy \<times> (nat \<Rightarrow> tunnel_local)"

inductive proxy_step :: "uuid_lib \<Rightarrow> proxy_sys \<Rightarrow> proxy_sys \<Rightarrow> bool" for U where
  step_msg: "tunnel_msg U tx msg (T tx) p = (True, l, p') \<Longrightarrow> proxy_step U (p, T) (p', T(tx := l))"
| step_end: "proxy_step U (p, T) (tunnel_end U (T tx) p, T(tx := (None, None)))"
| step_request: "send_request_open U (px_pool p) a req (px_mux p, px_tun p) = (r, (m, cs)) \<Longrightarrow>
    proxy_step U (p, T) (p\<lparr>px_mux := m, px_tun := cs\<rparr>, T)"
| step_poll: "send_request_poll U a sb w elapsed (px_mux p) = (r, m) \<Longrightarrow> proxy_step U (p, T) (p\<lparr>px_mux := m\<rparr>, T)"
| step_open: "open_session U a start tx p = (r, p') \<Longrightarrow> proxy_step U (p, T) (p', T)"
| step_pump: "proxy_step U (p, T) (pump_inbound a sid fs p, T)"
| step_finish: "proxy_step U (p, T) (dispatch_finish sid p, T)"
| step_cache: "proxy_step U (p, T) (p\<lparr>px_cache := c\<rparr>, T)"
| step_drain: "proxy_step U (p, T) (drain_begin p, T)"
| step_drained: "proxy_step U (p, T) (drain_finish b p, T)"
| step_receivers: "proxy_step U (p, T) (p\<lparr>px_tun := t, px_io := i\<rparr>, T)"

definition proxy_start :: "proxy \<Rightarrow> bool" where
  "proxy_start p \<longleftrightarrow> px_pool p = pool_new \<and> px_mux p = mux_new \<and> px_sessions p = sessions_new"

definition no_tunnels :: "nat \<Rightarrow> tunnel_local" where
  "no_tunnels = (\<lambda>_. (None, None))"

section \<open>The invariant\<close>

text \<open>The pairs of agent and generation that occur anywhere in the state.\<close>

definition stamps :: "proxy_sys \<Rightarrow> (AgentId \<times> u64) set" where
  "stamps = (\<lambda>(p, T).
     {(a, at_generation t) |a t. tbl_get (tunnels (px_pool p)) a = Some t} \<union>
     {(ps_agent_id ps, ps_generation ps) |k ps. tbl_get (pending (px_mux p)) k = Some ps} \<union>
     {(is_agent_id r, is_generation r) |k r. tbl_get (io_inner (px_sessions p)) k = Some r} \<union>
     {(a, g) |tx a g. T tx = (Some a, Some g)})"

definition mux_inv :: "StreamMux \<Rightarrow> bool" where
  "mux_inv m \<longleftrightarrow> tbl_ok (pending m) \<and>
    (\<forall>k ps. tbl_get (pending m) k = Some ps \<longrightarrow>
       ps_response_tx ps < next_oneshot m \<and> (\<exists>i < unat (stream_counter m). k = ''s-'' @ show_nat i)) \<and>
    (\<forall>k k' ps ps'. tbl_get (pending m) k = Some ps \<longrightarrow> tbl_get (pending m) k' = Some ps' \<longrightarrow>
       ps_response_tx ps = ps_response_tx ps' \<longrightarrow> k = k')"

definition io_inv :: "IoSessions \<Rightarrow> bool" where
  "io_inv s \<longleftrightarrow> tbl_ok (io_inner s) \<and>
    (\<forall>k r. tbl_get (io_inner s) k = Some r \<longrightarrow> (\<exists>i < unat (io_counter s). k = ''io-'' @ show_nat i))"

definition stamps_inv :: "proxy_sys \<Rightarrow> bool" where
  "stamps_inv x \<longleftrightarrow> (\<forall>(a, g) \<in> stamps x. g < next_generation (px_pool (fst x))) \<and>
    (\<forall>(a, g) \<in> stamps x. \<forall>(b, h) \<in> stamps x. g = h \<longrightarrow> a = b)"

text \<open>No counter has moved further than the number of steps, so none has wrapped.\<close>

definition counters_within :: "nat \<Rightarrow> proxy \<Rightarrow> bool" where
  "counters_within n p \<longleftrightarrow> unat (next_generation (px_pool p)) \<le> Suc n \<and> unat (stream_counter (px_mux p)) \<le> n \<and>
     unat (io_counter (px_sessions p)) \<le> n"

definition proxy_inv :: "nat \<Rightarrow> proxy_sys \<Rightarrow> bool" where
  "proxy_inv n x \<longleftrightarrow> mux_inv (px_mux (fst x)) \<and> io_inv (px_sessions (fst x)) \<and> stamps_inv x \<and> counters_within n (fst x)"

section \<open>Operations that only remove\<close>

definition mux_shrinks :: "StreamMux \<Rightarrow> StreamMux \<Rightarrow> bool" where
  "mux_shrinks m m' \<longleftrightarrow> (\<forall>k ps. tbl_get (pending m') k = Some ps \<longrightarrow> tbl_get (pending m) k = Some ps) \<and>
     tbl_ok (pending m') \<and> stream_counter m' = stream_counter m \<and> next_oneshot m' = next_oneshot m"

definition io_shrinks :: "IoSessions \<Rightarrow> IoSessions \<Rightarrow> bool" where
  "io_shrinks s s' \<longleftrightarrow> (\<forall>k r. tbl_get (io_inner s') k = Some r \<longrightarrow> tbl_get (io_inner s) k = Some r) \<and>
     tbl_ok (io_inner s') \<and> io_counter s' = io_counter s"

lemma mux_shrinks_inv: "mux_shrinks m m' \<Longrightarrow> mux_inv m \<Longrightarrow> mux_inv m'"
  unfolding mux_shrinks_def mux_inv_def by (simp; blast)

lemma io_shrinks_inv: "io_shrinks s s' \<Longrightarrow> io_inv s \<Longrightarrow> io_inv s'"
  unfolding io_shrinks_def io_inv_def by (simp; blast)

lemma drop_sender_sel [simp]:
  "stream_counter (drop_sender ps m) = stream_counter m" "next_oneshot (drop_sender ps m) = next_oneshot m"
  by (simp_all add: drop_sender_def split: oneshot.splits)

lemma fold_drop_sender_sel [simp]:
  "stream_counter (fold drop_sender xs m) = stream_counter m" "next_oneshot (fold drop_sender xs m) = next_oneshot m"
  by (induction xs arbitrary: m) auto

lemma shrink_refl: "mux_inv m \<Longrightarrow> mux_shrinks m m" "io_inv s \<Longrightarrow> io_shrinks s s"
  by (simp_all add: mux_shrinks_def io_shrinks_def mux_inv_def io_inv_def)

lemma deliver_shrinks: "mux_inv m \<Longrightarrow> mux_shrinks m (snd (deliver_response sid a resp m))"
  by (auto simp: mux_shrinks_def deliver_response_def oneshot_send_def mux_inv_def table_simps split: option.splits if_splits)

lemma mux_fail_shrinks: "mux_inv m \<Longrightarrow> mux_shrinks m (mux_fail_stream sid a reason m)"
  by (auto simp: mux_shrinks_def mux_fail_stream_def oneshot_send_def mux_inv_def table_simps split: option.splits if_splits)

lemma cancel_shrinks: "mux_inv m \<Longrightarrow> mux_shrinks m (cancel_stream sid m)"
  by (auto simp: mux_shrinks_def cancel_stream_def mux_inv_def table_simps split: option.splits if_splits)

lemma mux_cancel_shrinks: "mux_inv m \<Longrightarrow> mux_shrinks m (mux_cancel_at_generation a g m)"
  by (auto simp: mux_shrinks_def mux_cancel_at_generation_def Let_def mux_inv_def table_simps split: option.splits if_splits)

lemma poll_shrinks: "mux_inv m \<Longrightarrow> send_request_poll U a sb w el m = (r, m') \<Longrightarrow> mux_shrinks m m'"
  by (cases w)
    (auto simp: mux_shrinks_def send_request_poll_def cancel_stream_def mux_inv_def table_simps
      split: oneshot.splits option.splits if_splits)

lemma io_cancel_shrinks: "io_inv s \<Longrightarrow> io_shrinks s (fst (io_cancel_at_generation U a g (s, cs)))"
proof -
  assume inv: "io_inv s"
  then have ok: "tbl_ok (io_inner (fst (s, cs)))" by (simp add: io_inv_def)
  have cnt: "io_counter (fst (fold (\<lambda>sid. io_fail_stream sid st) sids y)) = io_counter (fst y)" for st sids y
    by (induction sids arbitrary: y) (auto simp: io_fail_stream_def io_remove_def split: option.splits)
  show ?thesis
    using ok by (auto simp: io_shrinks_def io_cancel_at_generation_def Let_def cnt fold_io_fail_get fold_io_fail_ok split: if_splits)
qed

lemma io_remove_shrinks: "io_inv s \<Longrightarrow> io_shrinks s (snd (io_remove sid s))"
  by (auto simp: io_shrinks_def io_remove_def io_inv_def table_simps split: if_splits)

lemma io_clear_shrinks: "io_shrinks s (s\<lparr>io_inner := []\<rparr>)"
  by (simp add: io_shrinks_def)

section \<open>Every step keeps the invariant\<close>

lemma stampsI:
  "tbl_get (tunnels (px_pool p)) a = Some t \<Longrightarrow> (a, at_generation t) \<in> stamps (p, T)"
  "tbl_get (pending (px_mux p)) k = Some ps \<Longrightarrow> (ps_agent_id ps, ps_generation ps) \<in> stamps (p, T)"
  "tbl_get (io_inner (px_sessions p)) k = Some r \<Longrightarrow> (is_agent_id r, is_generation r) \<in> stamps (p, T)"
  "T tx = (Some a, Some g) \<Longrightarrow> (a, g) \<in> stamps (p, T)"
  unfolding stamps_def by blast+

lemma stamps_subI:
  assumes "\<And>a t. tbl_get (tunnels (px_pool p')) a = Some t \<Longrightarrow> (a, at_generation t) \<in> X"
    "\<And>k ps. tbl_get (pending (px_mux p')) k = Some ps \<Longrightarrow> (ps_agent_id ps, ps_generation ps) \<in> X"
    "\<And>k r. tbl_get (io_inner (px_sessions p')) k = Some r \<Longrightarrow> (is_agent_id r, is_generation r) \<in> X"
    "\<And>tx a g. T' tx = (Some a, Some g) \<Longrightarrow> (a, g) \<in> X"
  shows "stamps (p', T') \<subseteq> X"
  using assms unfolding stamps_def prod.case by blast

lemma stamps_inv_mono:
  "stamps x' \<subseteq> stamps x \<Longrightarrow> next_generation (px_pool (fst x')) = next_generation (px_pool (fst x)) \<Longrightarrow> stamps_inv x \<Longrightarrow> stamps_inv x'"
  unfolding stamps_inv_def by (simp; blast)

lemma counters_within_mono: "counters_within n p \<Longrightarrow> counters_within (Suc n) p"
  by (simp add: counters_within_def)

lemma shrink_step:
  assumes "proxy_inv n (p, T)" "mux_shrinks (px_mux p) (px_mux p')" "io_shrinks (px_sessions p) (px_sessions p')"
    "\<And>a t. tbl_get (tunnels (px_pool p')) a = Some t \<Longrightarrow> tbl_get (tunnels (px_pool p)) a = Some t"
    "next_generation (px_pool p') = next_generation (px_pool p)"
    "\<And>tx a g. T' tx = (Some a, Some g) \<Longrightarrow> T tx = (Some a, Some g)"
  shows "proxy_inv (Suc n) (p', T')"
proof -
  have "stamps (p', T') \<subseteq> stamps (p, T)"
    using assms(2-4,6) unfolding mux_shrinks_def io_shrinks_def by (intro stamps_subI) (blast intro: stampsI)+
  with assms show ?thesis
    using mux_shrinks_inv [OF assms(2)] io_shrinks_inv [OF assms(3)] stamps_inv_mono [of "(p', T')" "(p, T)"]
    by (simp add: proxy_inv_def counters_within_def mux_shrinks_def io_shrinks_def)
qed

lemma same_step:
  assumes "proxy_inv n (p, T)" "px_mux p' = px_mux p" "px_sessions p' = px_sessions p" "px_pool p' = px_pool p"
  shows "proxy_inv (Suc n) (p', T)"
  using assms by (intro shrink_step [OF assms(1)]) (simp_all add: proxy_inv_def shrink_refl)

lemma word_Suc: "unat (w :: u64) < 2 ^ 64 - 1 \<Longrightarrow> unat (w + 1) = Suc (unat w)"
  by (subst unat_plus_simple [THEN iffD1]) (auto simp: word_le_nat_alt unat_word_ariths)

lemma register_step:
  assumes inv: "proxy_inv n (p, T)" and n: "Suc n < 2 ^ 64 - 1" and reg: "pool_register a tx (px_pool p) = (g, pool')"
  shows "proxy_inv (Suc n) (p\<lparr>px_pool := pool'\<rparr>, T(tx' := (Some a, Some g)))"
proof -
  let ?x = "(p\<lparr>px_pool := pool'\<rparr>, T(tx' := (Some a, Some g)))"
  have g: "g = next_generation (px_pool p)" "next_generation pool' = g + 1"
    using reg by (auto simp: pool_register_def Let_def)
  have wrap: "unat (g + 1) = Suc (unat g)"
    using inv n g by (intro word_Suc) (simp add: proxy_inv_def counters_within_def)
  have sub: "stamps ?x \<subseteq> insert (a, g) (stamps (p, T))"
    using reg unfolding stamps_def pool_register_def by (auto simp: Let_def table_simps split: if_splits)
  have old: "\<forall>(b, h) \<in> stamps (p, T). h < g" "\<forall>(b, h) \<in> stamps (p, T). \<forall>(b', h') \<in> stamps (p, T). h = h' \<longrightarrow> b = b'"
    using inv g by (auto simp: proxy_inv_def stamps_inv_def)
  have "stamps_inv ?x"
    unfolding stamps_inv_def
  proof (intro conjI)
    have less: "g < g + 1" "\<And>h. h < g \<Longrightarrow> h < g + 1"
      using wrap by (simp_all add: word_less_nat_alt)
    have split: "(b, h) = (a, g) \<or> (b, h) \<in> stamps (p, T)" if "(b, h) \<in> stamps ?x" for b h
      using sub that by blast
    show "\<forall>(b, h) \<in> stamps ?x. h < next_generation (px_pool (fst ?x))"
      using split old(1) less g(2) by (auto dest!: split)
    show "\<forall>(b, h) \<in> stamps ?x. \<forall>(b', h') \<in> stamps ?x. h = h' \<longrightarrow> b = b'"
    proof (clarify)
      fix b b' h assume "(b, h) \<in> stamps ?x" "(b', h) \<in> stamps ?x"
      then show "b = b'" using split [of b h] split [of b' h] old by blast
    qed
  qed
  with inv g wrap show ?thesis
    by (simp add: proxy_inv_def counters_within_def)
qed

lemma mux_inv_add:
  assumes "mux_inv m" "pending m' = tbl_put (''s-'' @ show_nat (unat (stream_counter m)))
      \<lparr> ps_response_tx = next_oneshot m, ps_agent_id = a, ps_generation = g \<rparr> (pending m)"
    "next_oneshot m' = Suc (next_oneshot m)" "unat (stream_counter m') = Suc (unat (stream_counter m))"
  shows "mux_inv m'"
proof -
  let ?sid = "''s-'' @ show_nat (unat (stream_counter m))"
  have old: "ps_response_tx ps < next_oneshot m \<and> (\<exists>i < unat (stream_counter m). k = ''s-'' @ show_nat i)"
    if "tbl_get (pending m) k = Some ps" for k ps
    using assms(1) that unfolding mux_inv_def by blast
  have fresh: "tbl_get (pending m) k = Some ps \<Longrightarrow> ps_response_tx ps \<noteq> next_oneshot m" for k ps
    using old by fastforce
  have inj: "tbl_get (pending m) k = Some ps \<Longrightarrow> tbl_get (pending m) k' = Some ps' \<Longrightarrow>
      ps_response_tx ps = ps_response_tx ps' \<Longrightarrow> k = k'" for k k' ps ps'
    using assms(1) unfolding mux_inv_def by blast
  have get: "tbl_get (pending m') k = (if k = ?sid then
      Some \<lparr> ps_response_tx = next_oneshot m, ps_agent_id = a, ps_generation = g \<rparr> else tbl_get (pending m) k)" for k
    by (simp add: assms(2) table_simps)
  have "tbl_ok (pending m')"
    using assms(1,2) by (simp add: mux_inv_def table_simps)
  moreover have "ps_response_tx ps < next_oneshot m' \<and> (\<exists>i < unat (stream_counter m'). k = ''s-'' @ show_nat i)"
    if "tbl_get (pending m') k = Some ps" for k ps
    using that old [of k ps] assms(3,4) by (auto simp: get less_Suc_eq split: if_splits)
  moreover have "k = k'" if "tbl_get (pending m') k = Some ps" "tbl_get (pending m') k' = Some ps'"
    "ps_response_tx ps = ps_response_tx ps'" for k k' ps ps'
    using that fresh [of k ps] fresh [of k' ps'] inj [of k ps k' ps'] by (auto simp: get split: if_splits)
  ultimately show ?thesis unfolding mux_inv_def by blast
qed

lemma io_inv_add:
  assumes "io_inv s" "io_inner s' = tbl_put (''io-'' @ show_nat (unat (io_counter s))) r (io_inner s)"
    "unat (io_counter s') = Suc (unat (io_counter s))"
  shows "io_inv s'"
  using assms unfolding io_inv_def by (auto simp: table_simps less_Suc_eq split: if_splits)

lemma request_open_step:
  assumes inv: "proxy_inv n (p, T)" and n: "Suc n < 2 ^ 64 - 1"
    and run: "send_request_open U (px_pool p) a req (px_mux p, px_tun p) = (r, (m, cs))"
  shows "proxy_inv (Suc n) (p\<lparr>px_mux := m, px_tun := cs\<rparr>, T)"
proof (cases "get_sender_with_generation a (px_pool p)")
  case None
  with run have "m = px_mux p" by (simp add: send_request_open_def)
  then show ?thesis by (intro same_step [OF inv]) simp_all
next
  case (Some x)
  then obtain ch g where sender: "get_sender_with_generation a (px_pool p) = Some (ch, g)" by (cases x) auto
  then have tun: "\<exists>t. tbl_get (tunnels (px_pool p)) a = Some t \<and> at_generation t = g"
    by (auto simp: get_sender_with_generation_def)
  let ?m0 = "px_mux p" and ?tx = "next_oneshot (px_mux p)"
  let ?sid = "''s-'' @ show_nat (unat (stream_counter ?m0))"
  let ?m2 = "?m0\<lparr>stream_counter := stream_counter ?m0 + 1,
      pending := tbl_put ?sid \<lparr> ps_response_tx = ?tx, ps_agent_id = a, ps_generation = g \<rparr> (pending ?m0), oneshots := (oneshots ?m0)(?tx := Waiting),
      oneshot_rx_gone := (oneshot_rx_gone ?m0)(?tx := False), next_oneshot := Suc ?tx\<rparr>"
  have wrap: "unat (stream_counter ?m0 + 1) = Suc (unat (stream_counter ?m0))"
    using inv n by (intro word_Suc) (simp add: proxy_inv_def counters_within_def)
  have inv2: "mux_inv ?m2"
  proof (rule mux_inv_add)
    show "mux_inv ?m0" using inv by (simp add: proxy_inv_def)
    show "unat (stream_counter ?m2) = Suc (unat (stream_counter ?m0))" using wrap by simp
  qed simp_all
  have m: "m = ?m2 \<or> m = cancel_stream ?sid ?m2"
    using run sender by (auto simp: send_request_open_def mux_next_stream_id_def Let_def split: prod.splits if_splits)
  have shr: "mux_shrinks ?m2 m"
    using m shrink_refl(1) [OF inv2] cancel_shrinks [OF inv2, of ?sid] by (elim disjE) simp_all
  have "tbl_get (pending m) k = Some ps \<Longrightarrow> tbl_get (pending ?m0) k = Some ps \<or>
      ps = \<lparr> ps_response_tx = ?tx, ps_agent_id = a, ps_generation = g \<rparr>" for k ps
    using shr unfolding mux_shrinks_def by (auto simp: table_simps split: if_splits)
  then have "stamps (p\<lparr>px_mux := m, px_tun := cs\<rparr>, T) \<subseteq> stamps (p, T)"
    using tun by (intro stamps_subI) (fastforce intro: stampsI)+
  moreover have "mux_inv m" by (rule mux_shrinks_inv [OF shr inv2])
  moreover have "stream_counter m = stream_counter ?m0 + 1" using shr by (simp add: mux_shrinks_def)
  ultimately show ?thesis
    using inv wrap stamps_inv_mono [of "(p\<lparr>px_mux := m, px_tun := cs\<rparr>, T)" "(p, T)"]
    by (simp add: proxy_inv_def counters_within_def)
qed

definition session_added :: "AgentId \<Rightarrow> nat \<Rightarrow> u64 \<Rightarrow> IoSessions \<Rightarrow> IoSessions" where
  "session_added a tx g s = io_insert (fst (io_next_stream_id s))
     \<lparr> is_agent_id = a, is_server_tx = tx, is_generation = g \<rparr> (snd (io_next_stream_id s))"

lemma open_session_cases:
  assumes "open_session U a start tx p = (r, p')"
  shows "px_mux p' = px_mux p \<and> px_pool p' = px_pool p \<and> (px_sessions p' = px_sessions p \<or>
    (\<exists>t. tbl_get (tunnels (px_pool p)) a = Some t \<and>
       (px_sessions p' = session_added a tx (at_generation t) (px_sessions p) \<or>
        px_sessions p' = snd (io_remove (fst (io_next_stream_id (px_sessions p))) (session_added a tx (at_generation t) (px_sessions p))))))"
proof (cases "tbl_get (tunnels (px_pool p)) a")
  case None
  with assms show ?thesis by (auto simp: open_session_def get_sender_with_generation_def)
next
  case (Some t)
  then have sender: "get_sender_with_generation a (px_pool p) = Some (at_request_tx t, at_generation t)"
    by (simp add: get_sender_with_generation_def)
  obtain sid s1 where id: "io_next_stream_id (px_sessions p) = (sid, s1)" by (cases "io_next_stream_id (px_sessions p)")
  obtain ok cs where send: "send_item (at_request_tx t) (io_request sid (Some (CStart start))) (px_tun p) = (ok, cs)"
    by (cases "send_item (at_request_tx t) (io_request sid (Some (CStart start))) (px_tun p)")
  have s: "session_added a tx (at_generation t) (px_sessions p) =
      io_insert sid \<lparr> is_agent_id = a, is_server_tx = tx, is_generation = at_generation t \<rparr> s1"
    by (simp add: session_added_def id)
  show ?thesis
    using assms sender id send Some by (cases ok; cases "px_draining p") (auto simp: open_session_def Let_def s)
qed

lemma open_step:
  assumes inv: "proxy_inv n (p, T)" and n: "Suc n < 2 ^ 64 - 1" and run: "open_session U a start tx p = (r, p')"
  shows "proxy_inv (Suc n) (p', T)"
proof (cases "px_sessions p' = px_sessions p")
  case True
  with open_session_cases [OF run] show ?thesis by (intro same_step [OF inv]) simp_all
next
  case False
  let ?old = "px_sessions p"
  from False open_session_cases [OF run] obtain t where
    t: "tbl_get (tunnels (px_pool p)) a = Some t" and same: "px_mux p' = px_mux p" "px_pool p' = px_pool p"
    and s': "px_sessions p' = session_added a tx (at_generation t) ?old \<or>
      px_sessions p' = snd (io_remove (fst (io_next_stream_id ?old)) (session_added a tx (at_generation t) ?old))"
    by blast
  let ?s = "session_added a tx (at_generation t) ?old"
  have s: "io_inner ?s = tbl_put (''io-'' @ show_nat (unat (io_counter ?old)))
      \<lparr> is_agent_id = a, is_server_tx = tx, is_generation = at_generation t \<rparr> (io_inner ?old)" "io_counter ?s = io_counter ?old + 1"
    by (simp_all add: session_added_def io_next_stream_id_def io_insert_def)
  have wrap: "unat (io_counter ?old + 1) = Suc (unat (io_counter ?old))"
    using inv n by (intro word_Suc) (simp add: proxy_inv_def counters_within_def)
  have inv2: "io_inv ?s"
  proof (rule io_inv_add [OF _ s(1)])
    show "io_inv ?old" using inv by (simp add: proxy_inv_def)
  qed (simp only: s(2) wrap)
  have shr: "io_shrinks ?s (px_sessions p')"
    using s' shrink_refl(2) [OF inv2] io_remove_shrinks [OF inv2] by (elim disjE) simp_all
  have "tbl_get (io_inner (px_sessions p')) k = Some r \<Longrightarrow> tbl_get (io_inner ?old) k = Some r \<or>
      r = \<lparr> is_agent_id = a, is_server_tx = tx, is_generation = at_generation t \<rparr>" for k r
    using shr unfolding io_shrinks_def by (auto simp: s table_simps split: if_splits)
  then have "stamps (p', T) \<subseteq> stamps (p, T)"
    using t same by (intro stamps_subI) (fastforce intro: stampsI)+
  moreover have "io_inv (px_sessions p')" by (rule io_shrinks_inv [OF shr inv2])
  moreover have "io_counter (px_sessions p') = io_counter ?old + 1" using shr s by (simp add: io_shrinks_def)
  ultimately show ?thesis
    using inv wrap same stamps_inv_mono [of "(p', T)" "(p, T)"]
    by (simp add: proxy_inv_def counters_within_def)
qed

lemma tunnel_msg_step:
  assumes inv: "proxy_inv n (p, T)" and n: "Suc n < 2 ^ 64 - 1" and run: "tunnel_msg U tx msg (T tx) p = (True, l, p')"
  shows "proxy_inv (Suc n) (p', T(tx := l))"
proof (cases "\<exists>s. tr_payload msg = Some (TRReady s)")
  case True
  with run obtain a g pool' where "pool_register a tx (px_pool p) = (g, pool')" "l = (Some a, Some g)" "p' = p\<lparr>px_pool := pool'\<rparr>"
    by (auto simp: tunnel_msg_def split: prod.splits option.splits)
  then show ?thesis by (simp only:) (rule register_step [OF inv n])
next
  case False
  have mi: "mux_inv (px_mux p)" "io_inv (px_sessions p)" using inv by (simp_all add: proxy_inv_def)
  have io: "px_sessions (snd (on_io (deliver_server_frame sid a f) p)) = px_sessions p"
    "px_mux (snd (on_io (deliver_server_frame sid a f) p)) = px_mux p"
    "px_pool (snd (on_io (deliver_server_frame sid a f) p)) = px_pool p" for sid a f
    by (auto simp: on_io_def deliver_server_frame_def split: prod.splits option.splits if_splits)
  have "l = T tx \<and> px_pool p' = px_pool p \<and> px_sessions p' = px_sessions p \<and> mux_shrinks (px_mux p) (px_mux p')"
    using run False shrink_refl(1) [OF mi(1)] deliver_shrinks [OF mi(1)] mux_fail_shrinks [OF mi(1)]
    by (auto simp: tunnel_msg_def io split: prod.splits option.splits TunnelResponsePayload.splits)
  then show ?thesis
    using shrink_refl(2) [OF mi(2)] by (intro shrink_step [OF inv]) (simp_all split: if_splits)
qed

lemma tunnel_end_step:
  assumes inv: "proxy_inv n (p, T)"
  shows "proxy_inv (Suc n) (tunnel_end U (T tx) p, T(tx := (None, None)))"
proof (cases "\<exists>a g. T tx = (Some a, Some g)")
  case True
  then obtain a g where l: "T tx = (Some a, Some g)" by blast
  have mi: "mux_inv (px_mux p)" "io_inv (px_sessions p)" using inv by (simp_all add: proxy_inv_def)
  have rem: "tbl_get (tunnels (snd (remove_if_current a g q))) b = Some t \<Longrightarrow> tbl_get (tunnels q) b = Some t"
    "next_generation (snd (remove_if_current a g q)) = next_generation q" for q b t
    by (auto simp: remove_if_current_def table_simps split: option.splits if_splits)
  obtain s' cs' where io: "io_cancel_at_generation U a g (px_sessions p, px_io p) = (s', cs')"
    by (cases "io_cancel_at_generation U a g (px_sessions p, px_io p)")
  have e: "px_mux (tunnel_end U (T tx) p) = mux_cancel_at_generation a g (px_mux p)" "px_sessions (tunnel_end U (T tx) p) = s'"
    "px_pool (tunnel_end U (T tx) p) = snd (remove_if_current a g (px_pool p))"
    by (simp_all add: l tunnel_end_def on_io_def io Let_def split: prod.splits)
  show ?thesis
  proof (rule shrink_step [OF inv])
    show "io_shrinks (px_sessions p) (px_sessions (tunnel_end U (T tx) p))"
      using io_cancel_shrinks [OF mi(2), of U a g "px_io p"] by (simp add: e io)
    show "tbl_get (tunnels (px_pool (tunnel_end U (T tx) p))) b = Some t \<Longrightarrow> tbl_get (tunnels (px_pool p)) b = Some t" for b t
      unfolding e by (rule rem(1))
  qed (simp_all add: e rem(2) mux_cancel_shrinks [OF mi(1)] split: if_splits)
next
  case False
  then have "tunnel_end U (T tx) p = p"
    by (auto simp: tunnel_end_def split: prod.splits option.splits)
  with inv show ?thesis
    by (intro shrink_step [OF inv]) (auto simp: proxy_inv_def shrink_refl split: if_splits)
qed

lemma pump_frames_frame: "pump_frames a sid fs saw p = (r, p') \<Longrightarrow>
    px_mux p' = px_mux p \<and> px_sessions p' = px_sessions p \<and> px_pool p' = px_pool p"
proof (induction fs arbitrary: saw p)
  case (Cons f fs)
  then show ?case
    by (fastforce simp: Let_def split: option.splits prod.splits bool.splits)
qed simp

lemma pump_inbound_frame:
  "px_mux (pump_inbound a sid fs p) = px_mux p \<and> px_sessions (pump_inbound a sid fs p) = px_sessions p \<and>
   px_pool (pump_inbound a sid fs p) = px_pool p"
proof (cases "pump_frames a sid fs False p")
  case (Pair r p')
  then show ?thesis
    using pump_frames_frame [OF Pair] by (simp add: pump_inbound_def split: option.splits)
qed

lemma proxy_invD: "proxy_inv n (p, T) \<Longrightarrow> mux_shrinks (px_mux p) (px_mux p)"
  "proxy_inv n (p, T) \<Longrightarrow> io_shrinks (px_sessions p) (px_sessions p)"
  "proxy_inv n (p, T) \<Longrightarrow> mux_inv (px_mux p)" "proxy_inv n (p, T) \<Longrightarrow> io_inv (px_sessions p)"
  by (simp_all add: proxy_inv_def shrink_refl)

lemma drain_finish_frame: "px_mux (drain_finish b p) = px_mux p \<and> px_pool (drain_finish b p) = px_pool p \<and>
    px_sessions (drain_finish b p) = (px_sessions p)\<lparr>io_inner := []\<rparr>"
  by (cases "px_sessions p") (simp add: drain_finish_eq on_io_def fail_all_remaining_def)

lemma drained_step: "proxy_inv n (p, T) \<Longrightarrow> proxy_inv (Suc n) (drain_finish b p, T)"
  by (rule shrink_step, assumption) (simp_all add: drain_finish_frame proxy_invD(1) io_clear_shrinks)

lemma finish_step: "proxy_inv n (p, T) \<Longrightarrow> proxy_inv (Suc n) (dispatch_finish sid p, T)"
  by (rule shrink_step, assumption) (simp_all add: dispatch_finish_def proxy_invD io_remove_shrinks)

lemma poll_step: "proxy_inv n (p, T) \<Longrightarrow> send_request_poll U a sb w el (px_mux p) = (r, m) \<Longrightarrow> proxy_inv (Suc n) (p\<lparr>px_mux := m\<rparr>, T)"
  by (rule shrink_step, assumption) (simp_all add: proxy_invD poll_shrinks)

lemma proxy_inv_step: "proxy_step U x x' \<Longrightarrow> proxy_inv n x \<Longrightarrow> Suc n < 2 ^ 64 - 1 \<Longrightarrow> proxy_inv (Suc n) x'"
proof (induction rule: proxy_step.induct)
  case (step_pump p T a sid fs)
  then show ?case using pump_inbound_frame by (intro same_step) blast+
next
  case (step_cache p T c)
  then show ?case by (elim same_step) simp_all
next
  case (step_drain p T)
  then show ?case by (elim same_step) (simp_all add: drain_begin_def)
next
  case (step_receivers p T t i)
  then show ?case by (elim same_step) simp_all
qed (erule tunnel_msg_step tunnel_end_step request_open_step poll_step open_step finish_step drained_step; assumption)+

lemma proxy_inv_start: "proxy_start p \<Longrightarrow> proxy_inv 0 (p, no_tunnels)"
  by (auto simp: proxy_start_def proxy_inv_def mux_inv_def io_inv_def stamps_inv_def stamps_def counters_within_def
      no_tunnels_def pool_new_def mux_new_def sessions_new_def)

lemma proxy_inv_reachable:
  assumes "(proxy_step U ^^ n) (p, no_tunnels) x" "proxy_start p" "n < 2 ^ 64 - 1"
  shows "proxy_inv n x"
  using assms
proof (induction n arbitrary: x)
  case 0
  then have "x = (p, no_tunnels)" by simp
  with 0 show ?case by (simp add: proxy_inv_start)
next
  case (Suc n)
  then obtain y where y: "(proxy_step U ^^ n) (p, no_tunnels) y" "proxy_step U y x" by auto
  with Suc have "proxy_inv n y" by simp
  from proxy_inv_step [OF y(2) this] Suc.prems(3) show ?case by simp
qed

section \<open>Properties\<close>

lemma next_id_fresh:
  "mux_inv m \<Longrightarrow> tbl_get (pending m) (fst (mux_next_stream_id m)) = None"
  "io_inv s \<Longrightarrow> tbl_get (io_inner s) (fst (io_next_stream_id s)) = None"
  by (rule ccontr, force simp: mux_inv_def io_inv_def mux_next_stream_id_def io_next_stream_id_def show_nat_inj)+

text \<open>Identifiers are never reused. From a fresh proxy, after any interleaving of fewer than
  \<open>2 ^ 64 - 1\<close> steps, the next stream number is not that of a waiting request or an open session, the
  next generation is above every generation in the state, and no generation occurs with two agents:
  so a cleanup scoped to a generation can never hit the streams of another tunnel.\<close>

lemma proxy_ids_fresh:
  assumes "proxy_start p" "(proxy_step U ^^ n) (p, no_tunnels) (p', T)" "n < 2 ^ 64 - 1"
  shows "tbl_get (pending (px_mux p')) (fst (mux_next_stream_id (px_mux p'))) = None \<and>
    tbl_get (io_inner (px_sessions p')) (fst (io_next_stream_id (px_sessions p'))) = None \<and>
    (\<forall>a g. (a, g) \<in> stamps (p', T) \<longrightarrow> g < next_generation (px_pool p') \<and>
      (\<forall>b. (b, g) \<in> stamps (p', T) \<longrightarrow> b = a))"
proof -
  have inv: "proxy_inv n (p', T)" by (rule proxy_inv_reachable [OF assms(2,1,3)])
  then show ?thesis
    unfolding proxy_inv_def stamps_inv_def by (auto simp: next_id_fresh)
qed

definition demo_idle :: proxy where
  "demo_idle = \<lparr> px_pool = pool_new, px_mux = mux_new, px_sessions = sessions_new, px_tun = no_chans, px_io = no_chans,
     px_cache = [], px_draining = False \<rparr>"

definition demo_ready :: TunnelResponse where
  "demo_ready = \<lparr> tr_stream_id = [], tr_payload = Some (TRReady (uuid_to_string rfc4122 1)) \<rparr>"

definition demo_up :: proxy where
  "demo_up = demo_idle\<lparr>px_pool := \<lparr> tunnels = [(AgentId 1, \<lparr> at_request_tx = 20, at_generation = 1 \<rparr>)], next_generation = 2 \<rparr>\<rparr>"

definition demo_waiting :: proxy where
  "demo_waiting = (case send_request_open rfc4122 (px_pool demo_up) (AgentId 1)
       \<lparr> hq_method = [], hq_uri = [], hq_headers = [], hq_body = [], hq_sandbox_id = [] \<rparr> (px_mux demo_up, px_tun demo_up) of
     (_, (m, cs)) \<Rightarrow> demo_up\<lparr>px_mux := m, px_tun := cs\<rparr>)"

lemma demo_idle_start: "proxy_start demo_idle"
  by (simp add: proxy_start_def demo_idle_def)

lemma demo_run: "(proxy_step rfc4122 ^^ 2) (demo_idle, no_tunnels) (demo_waiting, no_tunnels(20 := (Some (AgentId 1), Some 1)))"
proof -
  have "tunnel_msg rfc4122 20 demo_ready (no_tunnels 20) demo_idle = (True, (Some (AgentId 1), Some 1), demo_up)"
    by (simp add: tunnel_msg_def demo_ready_def no_tunnels_def rfc.parse_to_string pool_register_def demo_idle_def pool_new_def
        demo_up_def tbl_put_def)
  then have 1: "proxy_step rfc4122 (demo_idle, no_tunnels) (demo_up, no_tunnels(20 := (Some (AgentId 1), Some 1)))"
    by (rule step_msg)
  have 2: "proxy_step rfc4122 (demo_up, T) (demo_waiting, T)" for T
    unfolding demo_waiting_def by (auto intro: step_request split: prod.splits)
  from 1 2 show ?thesis
    by (auto simp: numeral_2_eq_2)
qed

lemma show_nat_0: "show_nat 0 = ''0''"
  by code_simp

lemma demo_waiting_pending: "pending (px_mux demo_waiting) = [(''s-0'', \<lparr> ps_response_tx = 0, ps_agent_id = AgentId 1, ps_generation = 1 \<rparr>)]"
  "stream_counter (px_mux demo_waiting) = 1"
  by (simp_all add: demo_waiting_def send_request_open_def demo_up_def demo_idle_def get_sender_with_generation_def table_simps
      mux_next_stream_id_def mux_new_def send_item_def no_chans_def tbl_put_def show_nat_0)

lemma proxy_ids_fresh_witness:
  "tbl_get (pending (px_mux demo_waiting)) ''s-0'' \<noteq> None \<and>
   tbl_get (pending (px_mux demo_waiting)) (fst (mux_next_stream_id (px_mux demo_waiting))) = None"
  using proxy_ids_fresh [OF demo_idle_start demo_run] by (simp add: demo_waiting_pending table_simps)

text \<open>C24. An agent cannot speak for another. In a reachable state, whatever message arrives on a tunnel
  registered as agent \<open>a\<close>, requests waiting on other agents stay waiting with their answers unset,
  the session table stays, and nothing is put on the channel of a session that is not \<open>a\<close>'s; on a
  tunnel that has not registered, nothing but a registration changes the state.\<close>

theorem no_cross_agent_injection:
  assumes "proxy_start p0" "(proxy_step U ^^ n) (p0, no_tunnels) (p, T)" "n < 2 ^ 64 - 1"
    "tunnel_msg U tx msg (T tx) p = (go, l, p')"
  shows "(\<forall>k ps. tbl_get (pending (px_mux p)) k = Some ps \<longrightarrow> fst (T tx) \<noteq> Some (ps_agent_id ps) \<longrightarrow>
      tbl_get (pending (px_mux p')) k = Some ps \<and>
      oneshots (px_mux p') (ps_response_tx ps) = oneshots (px_mux p) (ps_response_tx ps)) \<and>
    px_sessions p' = px_sessions p \<and>
    (\<forall>ch. (\<forall>k r. tbl_get (io_inner (px_sessions p)) k = Some r \<longrightarrow> fst (T tx) = Some (is_agent_id r) \<longrightarrow> is_server_tx r \<noteq> ch) \<longrightarrow>
      accepted (px_io p') ch = accepted (px_io p) ch)"
proof -
  have "proxy_inv n (p, T)" by (rule proxy_inv_reachable [OF assms(2,1,3)])
  then have inj: "k = k'" if "tbl_get (pending (px_mux p)) k = Some ps" "tbl_get (pending (px_mux p)) k' = Some ps'"
      "ps_response_tx ps = ps_response_tx ps'" for k k' ps ps'
    using that unfolding proxy_inv_def mux_inv_def by auto
  obtain reg gen where T: "T tx = (reg, gen)" by (cases "T tx")
  have deliver: "tbl_get (pending (snd (deliver_response k' a resp (px_mux p)))) k = Some ps \<and>
      oneshots (snd (deliver_response k' a resp (px_mux p))) (ps_response_tx ps) = oneshots (px_mux p) (ps_response_tx ps)"
      "tbl_get (pending (mux_fail_stream k' a reason (px_mux p))) k = Some ps \<and>
      oneshots (mux_fail_stream k' a reason (px_mux p)) (ps_response_tx ps) = oneshots (px_mux p) (ps_response_tx ps)"
    if "tbl_get (pending (px_mux p)) k = Some ps" "ps_agent_id ps \<noteq> a" for k k' ps a resp reason
    using that inj [of k ps k']
    by (auto simp: deliver_response_def mux_fail_stream_def oneshot_send_def table_simps split: option.splits)
  have io: "px_sessions (snd (on_io (deliver_server_frame k a f) p)) = px_sessions p"
    "px_mux (snd (on_io (deliver_server_frame k a f) p)) = px_mux p" for k a f
    by (auto simp: on_io_def deliver_server_frame_def split: prod.splits option.splits if_splits)
  have ch: "accepted (px_io (snd (on_io (deliver_server_frame k a f) p))) ch = accepted (px_io p) ch"
    if "\<forall>k r. tbl_get (io_inner (px_sessions p)) k = Some r \<longrightarrow> is_agent_id r = a \<longrightarrow> is_server_tx r \<noteq> ch" for k a f ch
    using that by (fastforce simp: on_io_def deliver_server_frame_def split: prod.splits option.splits if_splits dest!: try_send_frame)
  have "px_mux p' = px_mux p \<and> px_sessions p' = px_sessions p \<and> px_io p' = px_io p \<or>
    (\<exists>a. reg = Some a \<and> ((\<exists>resp. p' = p\<lparr>px_mux := snd (deliver_response (tr_stream_id msg) a resp (px_mux p))\<rparr>) \<or>
      (\<exists>reason. p' = p\<lparr>px_mux := mux_fail_stream (tr_stream_id msg) a reason (px_mux p)\<rparr>) \<or>
      (\<exists>f. p' = snd (on_io (deliver_server_frame (tr_stream_id msg) a f) p))))"
    using assms(4) T by (auto simp: tunnel_msg_def split: option.splits TunnelResponsePayload.splits prod.splits)
  then show ?thesis
    unfolding T fst_conv
    by (elim disjE exE conjE) (auto simp: io deliver ch)
qed

theorem no_cross_agent_injection_witness:
  "tbl_get (pending (px_mux (snd (snd (tunnel_msg rfc4122 21
      \<lparr> tr_stream_id = ''s-0'', tr_payload = Some (TRClose ''x'') \<rparr> (no_tunnels 21) demo_waiting))))) ''s-0'' \<noteq> None"
proof -
  let ?T = "no_tunnels(20 := (Some (AgentId 1), Some 1))"
  obtain go l p' where run: "tunnel_msg rfc4122 21 \<lparr> tr_stream_id = ''s-0'', tr_payload = Some (TRClose ''x'') \<rparr> (?T 21) demo_waiting = (go, l, p')"
    by (metis prod.exhaust)
  from no_cross_agent_injection [OF demo_idle_start demo_run _ run] have
    "tbl_get (pending (px_mux p')) ''s-0'' \<noteq> None"
    by (simp add: demo_waiting_pending table_simps no_tunnels_def)
  with run show ?thesis by simp
qed

text \<open>C26. A request gets one answer and leaves nothing behind. While a request waits, a response or a
  close from its agent becomes its answer and takes it off the table; the end of the tunnel it was
  sent on answers \<open>TunnelUnavailable\<close>; thirty seconds answer \<open>UpstreamTimeout\<close> with 30000 ms and a late
  response is then dropped; until one of these happens it goes on waiting.\<close>

theorem request_answered_once:
  assumes "tbl_ok (pending m)" "tbl_get (pending m) sid = Some \<lparr> ps_response_tx = tx, ps_agent_id = a, ps_generation = g \<rparr>"
    "oneshots m tx = Waiting" "\<not> oneshot_rx_gone m tx"
  shows "(case deliver_response sid a resp m of (ok, m1) \<Rightarrow> ok \<and> tbl_get (pending m1) sid = None \<and>
       fst (send_request_poll U a sb (sid, tx) elapsed m1) = Some (Inr resp)) \<and>
    (let m1 = mux_fail_stream sid a reason m in tbl_get (pending m1) sid = None \<and>
       fst (send_request_poll U a sb (sid, tx) elapsed m1) = Some (Inl (UpstreamRejected sid reason))) \<and>
    (let m1 = mux_cancel_at_generation a g m in tbl_get (pending m1) sid = None \<and>
       fst (send_request_poll U a sb (sid, tx) elapsed m1) = Some (Inl (TunnelUnavailable (AgentId_to_string U a)))) \<and>
    (case send_request_poll U a sb (sid, tx) True m of (r, m1) \<Rightarrow> r = Some (Inl (UpstreamTimeout sb 30000)) \<and>
       tbl_get (pending m1) sid = None \<and> \<not> fst (deliver_response sid b resp m1)) \<and>
    send_request_poll U a sb (sid, tx) False m = (None, m)"
proof -
  have kept: "oneshots m' t = SenderDropped \<Longrightarrow> oneshots (fold drop_sender xs m') t = SenderDropped" for xs m' t
    by (induction xs arbitrary: m') (auto simp: drop_sender_def split: oneshot.splits)
  have dropped: "ps \<in> set xs \<Longrightarrow> oneshots m' (ps_response_tx ps) \<in> {Waiting, SenderDropped} \<Longrightarrow>
      oneshots (fold drop_sender xs m') (ps_response_tx ps) = SenderDropped" for ps xs m'
  proof (induction xs arbitrary: m')
    case (Cons x xs)
    show ?case
    proof (cases "ps_response_tx x = ps_response_tx ps")
      case True
      with Cons.prems(2) have "oneshots (drop_sender x m') (ps_response_tx ps) = SenderDropped"
        by (auto simp: drop_sender_def)
      then show ?thesis by (simp add: kept)
    next
      case False
      then have "oneshots (drop_sender x m') (ps_response_tx ps) = oneshots m' (ps_response_tx ps)"
        by (auto simp: drop_sender_def split: oneshot.splits)
      with Cons False show ?thesis by auto
    qed
  qed simp
  let ?ps = "\<lparr> ps_response_tx = tx, ps_agent_id = a, ps_generation = g \<rparr>"
  have "?ps \<in> set (filter (\<lambda>ps. ps_agent_id ps = a \<and> ps_generation ps = g) (map snd (pending m)))"
    using tbl_get_in_set [OF assms(2)] by force
  from dropped [OF this] assms(3) have
    "oneshots (mux_cancel_at_generation a g m) tx = SenderDropped"
    by (simp add: mux_cancel_at_generation_def Let_def)
  moreover have "tbl_get (pending (mux_cancel_at_generation a g m)) sid = None"
    using assms(1,2) by (simp add: mux_cancel_at_generation_def Let_def table_simps)
  moreover have "of_nat (dur_as_millis UPSTREAM_TIMEOUT) = (30000 :: u64)"
    by (simp add: dur_as_millis_def UPSTREAM_TIMEOUT_def dur_secs_def)
  ultimately show ?thesis
    using assms by (simp add: deliver_response_def mux_fail_stream_def oneshot_send_def send_request_poll_def
        cancel_stream_def drop_sender_def table_simps Let_def)
qed

theorem request_answered_once_witness:
  "fst (send_request_poll rfc4122 (AgentId 1) [] (''s-0'', 0) True (px_mux demo_waiting)) = Some (Inl (UpstreamTimeout [] 30000)) \<and>
   send_request_poll rfc4122 (AgentId 1) [] (''s-0'', 0) False (px_mux demo_waiting) = (None, px_mux demo_waiting)"
proof -
  have "tbl_ok (pending (px_mux demo_waiting))"
    "tbl_get (pending (px_mux demo_waiting)) ''s-0'' = Some \<lparr> ps_response_tx = 0, ps_agent_id = AgentId 1, ps_generation = 1 \<rparr>"
    "oneshots (px_mux demo_waiting) 0 = Waiting" "\<not> oneshot_rx_gone (px_mux demo_waiting) 0"
    by (simp_all add: demo_waiting_pending table_simps tbl_ok_def, simp_all add: demo_waiting_def send_request_open_def demo_up_def
        demo_idle_def get_sender_with_generation_def table_simps mux_next_stream_id_def mux_new_def send_item_def no_chans_def)
  from request_answered_once [OF this, where sb = "[]" and U = rfc4122 and b = "AgentId 1" and elapsed = True and reason = "[]" and
      resp = "\<lparr> hs_status_code = 200, hs_headers = [], hs_body = [] \<rparr>"] show ?thesis
    by (simp add: case_prod_beta)
qed

end
