(* ===== verification/Agent_Runtime.thy ===== *)
theory Agent_Runtime
  imports Wire_Frames Controller_Grpc "HOL-Library.List_Lexorder" "HOL-Library.Char_ord"
begin

text \<open>
  \<open>agent/src/container.rs\<close>: the data of the container runtime, the trait \<open>ContainerRuntime\<close> as a
  record of operations over the runtime's own state \<open>'rt\<close>, the marker by which a process reports
  its in-container pid, and the "command not found" heuristic; and the runtimes of
  \<open>agent/src/testutil.rs\<close>, which are implementations of the trait the repository itself holds.

  What the sessions rely on of a runtime's file operations is the locale \<open>file_runtime\<close>; the
  interpretation is on \<open>mock_runtime\<close>, the model of \<open>MockContainerRuntime\<close>.
\<close>

section \<open>Constants (contracts/src/constants.rs)\<close>

definition SANDBOX_CREATE_DEADLINE :: duration where "SANDBOX_CREATE_DEADLINE = dur_secs 60"
definition EXEC_KILL_GRACE :: duration where "EXEC_KILL_GRACE = dur_secs 5"
definition DEFAULT_WRITE_CWD :: string where "DEFAULT_WRITE_CWD = ''/home''"
definition LIST_DIR_MAX_ENTRIES :: nat where "LIST_DIR_MAX_ENTRIES = 5000"

section \<open>Data (container.rs)\<close>

datatype ContainerId = ContainerId (cid_str: string)

record ContainerConfig =
  cc_sandbox_id :: SandboxId
  cc_image :: string
  cc_cpu_limit_millicores :: u32
  cc_memory_limit_bytes :: u64
  cc_env_vars :: "(string \<times> string) list"
  cc_exposed_port :: u32
  cc_pull_policy :: PullPolicy

datatype ContainerState = CRunning | CPaused | CStopped

record ContainerInfo =
  ci_id :: ContainerId
  ci_sandbox_id :: SandboxId
  ci_host_port :: u16
  ci_state :: ContainerState

record ExecStart =
  es_command :: "string list"
  es_cwd :: string
  es_env :: "(string, string) tbl"

text \<open>
  An \<open>ExecHandle\<close> without its channels: what flows on \<open>stdin\<close>, \<open>stdout\<close>, \<open>stderr\<close> and \<open>exited\<close> is
  the schedule of events a session is run with (\<open>Agent_Io\<close>).
\<close>

record ExecHandle =
  eh_exec_id :: string
  eh_in_container_pid :: i32

record ExecExitInfo =
  ei_exit_code :: i32
  ei_command_not_found :: bool

datatype EntryType = EFile | EDir | ESymlink | EOther

record DirEntry =
  dn_name :: string
  dn_entry_type :: EntryType
  dn_size :: u64
  dn_revision :: string
  dn_mode :: string
  dn_target :: string

record DirListing =
  dl_path :: string
  dl_entries :: "DirEntry list"
  dl_truncated :: bool
  dl_total_entries :: u64

record FileRevision =
  fr_revision :: string
  fr_size :: u64

text \<open>
  The trait. \<open>rt_create_within\<close> is \<open>create_and_start\<close> under a deadline: \<open>None\<close> when the deadline
  passes first, with whatever state the dropped call left behind.
\<close>

record 'rt ContainerRuntime =
  rt_create_within :: "duration \<Rightarrow> ContainerConfig \<Rightarrow> 'rt \<Rightarrow> (AgentError + ContainerInfo) option \<times> 'rt"
  rt_stop_and_remove :: "ContainerId \<Rightarrow> duration \<Rightarrow> ('rt, AgentError, unit) op"
  rt_pause :: "ContainerId \<Rightarrow> ('rt, AgentError, unit) op"
  rt_unpause :: "ContainerId \<Rightarrow> ('rt, AgentError, unit) op"
  rt_list :: "('rt, AgentError, ContainerInfo list) op"
  rt_start_exec :: "ContainerId \<Rightarrow> ExecStart \<Rightarrow> ('rt, AgentError, ExecHandle) op"
  rt_signal_exec :: "ContainerId \<Rightarrow> i32 \<Rightarrow> i32 \<Rightarrow> ('rt, AgentError, unit) op"
  rt_read_file :: "ContainerId \<Rightarrow> string \<Rightarrow> string option \<Rightarrow> ('rt, AgentError, bytes) op"
  rt_write_file :: "ContainerId \<Rightarrow> string \<Rightarrow> string option \<Rightarrow> bytes \<Rightarrow> ('rt, AgentError, unit) op"
  rt_write_files_targz :: "ContainerId \<Rightarrow> string option \<Rightarrow> bytes \<Rightarrow> ('rt, AgentError, unit) op"
  rt_list_dir :: "ContainerId \<Rightarrow> string \<Rightarrow> string option \<Rightarrow> ('rt, AgentError, DirListing) op"
  rt_stat_revision :: "ContainerId \<Rightarrow> string \<Rightarrow> string option \<Rightarrow> ('rt, AgentError, FileRevision) op"
  rt_delete_file :: "ContainerId \<Rightarrow> string \<Rightarrow> string option \<Rightarrow> bool \<Rightarrow> ('rt, AgentError, unit) op"
  rt_wait_port_listening :: "ContainerId \<Rightarrow> u32 \<Rightarrow> duration \<Rightarrow> ('rt, AgentError, bool) op"

section \<open>The pid marker (container.rs)\<close>

definition byte_of_char :: "char \<Rightarrow> u8" where
  "byte_of_char c = of_nat (char_code c)"

definition char_of_byte :: "u8 \<Rightarrow> char" where
  "char_of_byte b = char_of (unat b)"

definition as_bytes :: "string \<Rightarrow> bytes" where
  "as_bytes s = map byte_of_char s"

definition bytes_str :: "bytes \<Rightarrow> string" where
  "bytes_str b = map char_of_byte b"

definition wrap_command_with_inpid_marker :: "string list \<Rightarrow> string list" where
  "wrap_command_with_inpid_marker cmd =
    [''sh'', ''-c'',
     ''printf '' @ [CHR 0x27] @ ''OPENSB_INPID=%s'' @ [CHR 0x5C] @ ''n'' @ [CHR 0x27] @ '' '' @ [CHR 0x22] @ ''$$'' @ [CHR 0x22] @
     '' 1>&2; exec '' @ [CHR 0x22] @ ''$@'' @ [CHR 0x22],
     ''opensb-wrapper''] @ cmd"

definition INPID_MARKER_MAX_BUFFER :: nat where "INPID_MARKER_MAX_BUFFER = 256"

definition INPID_PREFIX :: bytes where "INPID_PREFIX = as_bytes ''OPENSB_INPID=''"

fun position :: "'a \<Rightarrow> 'a list \<Rightarrow> nat option" where
  "position x [] = None"
| "position x (y # ys) = (if y = x then Some 0 else map_option Suc (position x ys))"

text \<open>\<open>str::parse::<i32>\<close>: an optional sign, at least one digit, and the value in range.\<close>

definition parse_i32 :: "string \<Rightarrow> i32 option" where
  "parse_i32 s =
    (let neg = starts_with s ''-'';
         ds = (if starts_with s ''-'' \<or> starts_with s ''+'' then tl s else s);
         v = (if neg then - int (read_nat ds) else int (read_nat ds))
     in if ds \<noteq> [] \<and> list_all is_ascii_digit ds \<and> in_i32 v then Some v else None)"

definition consume_inpid_marker :: "bytes \<Rightarrow> (unit + i32 option) \<times> bytes" where
  "consume_inpid_marker buf =
    (if length buf < length INPID_PREFIX then
       (if take (length buf) INPID_PREFIX \<noteq> buf then (Inl (), buf)
        else if INPID_MARKER_MAX_BUFFER < length buf then (Inl (), buf)
        else (Inr None, buf))
     else if take (length INPID_PREFIX) buf \<noteq> INPID_PREFIX then (Inl (), buf)
     else (case position 10 buf of
         None \<Rightarrow> if INPID_MARKER_MAX_BUFFER < length buf then (Inl (), buf) else (Inr None, buf)
       | Some nl \<Rightarrow>
           (case parse_i32 (bytes_str (take (nl - length INPID_PREFIX) (drop (length INPID_PREFIX) buf))) of
              None \<Rightarrow> (Inl (), buf)
            | Some pid \<Rightarrow> (Inr (Some pid), drop (Suc nl) buf))))"

definition detect_command_not_found :: "bytes \<Rightarrow> bool" where
  "detect_command_not_found text =
    (let lower = to_ascii_lowercase (bytes_str text) in
       contains_str lower ''executable file not found''
     \<or> (contains_str lower ''opensb-wrapper'' \<and> contains_str lower ''not found'')
     \<or> (contains_str lower ''no such file or directory'' \<and>
         (contains_str lower ''exec:'' \<or> contains_str lower ''starting container process'')))"


section \<open>The mock runtime (testutil.rs)\<close>

record SignalRecord =
  sg_container_id :: ContainerId
  sg_pid :: i32
  sg_signum :: i32

record WriteRecord =
  wr_container_id :: ContainerId
  wr_resolved_path :: string
  wr_bytes :: bytes

record mock_state =
  mk_created :: nat
  mk_stopped :: nat
  mk_paused :: nat
  mk_unpaused :: nat
  mk_port_counter :: nat
  mk_existing :: "ContainerInfo list"
  mk_files :: "(string, bytes) tbl"
  mk_signals_received :: "SignalRecord list"
  mk_writes_received :: "WriteRecord list"
  mk_next_pid :: i32
  mk_listening_ports :: "u32 list"

definition mock_new :: mock_state where
  "mock_new = \<lparr> mk_created = 0, mk_stopped = 0, mk_paused = 0, mk_unpaused = 0, mk_port_counter = 9000,
     mk_existing = [], mk_files = [], mk_signals_received = [], mk_writes_received = [],
     mk_next_pid = 1000, mk_listening_ports = [] \<rparr>"

definition trim_end_matches :: "char \<Rightarrow> string \<Rightarrow> string" where
  "trim_end_matches c s = rev (dropWhile (\<lambda>x. x = c) (rev s))"

definition resolve_path :: "string \<Rightarrow> string option \<Rightarrow> string" where
  "resolve_path path cwd =
    (if starts_with path ''/'' then path
     else (let base = (case cwd of None \<Rightarrow> ''/home'' | Some d \<Rightarrow> d)
           in trim_end_matches (CHR ''/'') base @ ''/'' @ path))"

definition mock_create_and_start :: "uuid_lib \<Rightarrow> ContainerConfig \<Rightarrow> (mock_state, AgentError, ContainerInfo) op" where
  "mock_create_and_start U config s =
    (Inr \<lparr> ci_id = ContainerId (''mock-'' @ SandboxId_to_string U (cc_sandbox_id config)),
        ci_sandbox_id = cc_sandbox_id config, ci_host_port = of_nat (mk_port_counter s), ci_state = CRunning \<rparr>,
     s\<lparr>mk_created := mk_created s + 1, mk_port_counter := mk_port_counter s + 1\<rparr>)"

definition mock_start_exec :: "ExecStart \<Rightarrow> (mock_state, AgentError, ExecHandle) op" where
  "mock_start_exec start s =
    (Inr \<lparr> eh_exec_id = ''mock-exec-'' @ show_int (mk_next_pid s), eh_in_container_pid = mk_next_pid s \<rparr>,
     s\<lparr>mk_next_pid := mk_next_pid s + 1\<rparr>)"

definition mock_signal_exec :: "ContainerId \<Rightarrow> i32 \<Rightarrow> i32 \<Rightarrow> (mock_state, AgentError, unit) op" where
  "mock_signal_exec c pid signum s =
    (Inr (), s\<lparr>mk_signals_received := mk_signals_received s @
       [\<lparr> sg_container_id = c, sg_pid = pid, sg_signum = signum \<rparr>]\<rparr>)"

definition no_such_file :: "string \<Rightarrow> AgentError" where
  "no_such_file resolved = Runtime (''No such file: '' @ resolved)"

definition mock_read_file :: "string \<Rightarrow> string option \<Rightarrow> (mock_state, AgentError, bytes) op" where
  "mock_read_file path cwd s =
    (let resolved = resolve_path path cwd
     in (ok_or (tbl_get (mk_files s) resolved) (no_such_file resolved), s))"

definition mock_write_file :: "ContainerId \<Rightarrow> string \<Rightarrow> string option \<Rightarrow> bytes \<Rightarrow> (mock_state, AgentError, unit) op" where
  "mock_write_file c path cwd content s =
    (let resolved = resolve_path path cwd
     in (Inr (), s\<lparr>mk_files := tbl_put resolved content (mk_files s),
           mk_writes_received := mk_writes_received s @
             [\<lparr> wr_container_id = c, wr_resolved_path = resolved, wr_bytes = content \<rparr>]\<rparr>))"

definition mock_write_files_targz :: "ContainerId \<Rightarrow> string option \<Rightarrow> bytes \<Rightarrow> (mock_state, AgentError, unit) op" where
  "mock_write_files_targz c cwd tarball s =
    (Inr (), s\<lparr>mk_writes_received := mk_writes_received s @
       [\<lparr> wr_container_id = c, wr_resolved_path = (case cwd of None \<Rightarrow> ''/home'' | Some d \<Rightarrow> d), wr_bytes = tarball \<rparr>]\<rparr>)"

text \<open>One step of the listing loop: the directories seen so far and the leaves.\<close>

definition split_once :: "char \<Rightarrow> string \<Rightarrow> (string \<times> string) option" where
  "split_once c s = map_option (\<lambda>i. (take i s, drop (Suc i) s)) (find_char s c)"

definition mock_list_step ::
    "string \<Rightarrow> string \<times> bytes \<Rightarrow> string list \<times> DirEntry list \<Rightarrow> string list \<times> DirEntry list" where
  "mock_list_step pfx pb acc =
    (case pb of (p, content) \<Rightarrow> (case acc of (dirs, leaves) \<Rightarrow>
      (case strip_prefix p pfx of
         None \<Rightarrow> (dirs, leaves)
       | Some rest \<Rightarrow>
           (case split_once (CHR ''/'') rest of
              Some (dir_name, _) \<Rightarrow> if dir_name \<noteq> [] then (List.insert dir_name dirs, leaves) else (dirs, leaves)
            | None \<Rightarrow> (dirs, leaves @ [\<lparr> dn_name = rest, dn_entry_type = EFile, dn_size = of_nat (length content),
                 dn_revision = ''mock:'' @ show_nat (length content), dn_mode = ''0644'', dn_target = [] \<rparr>])))))"

definition mock_list_dir :: "string \<Rightarrow> string option \<Rightarrow> (mock_state, AgentError, DirListing) op" where
  "mock_list_dir path cwd s =
    (let resolved = resolve_path path cwd;
         pfx = (if resolved = ''/'' then ''/'' else trim_end_matches (CHR ''/'') resolved @ ''/'');
         (seen_dirs, leaves) = fold (mock_list_step pfx) (mk_files s) ([], []);
         dirs = map (\<lambda>name. \<lparr> dn_name = name, dn_entry_type = EDir, dn_size = 0,
           dn_revision = ''mock-dir:0'', dn_mode = ''0755'', dn_target = [] \<rparr>) (sort seen_dirs);
         entries = sort_key dn_name (dirs @ leaves);
         truncated = LIST_DIR_MAX_ENTRIES < length entries
     in (Inr \<lparr> dl_path = resolved,
           dl_entries = (if truncated then take LIST_DIR_MAX_ENTRIES entries else entries),
           dl_truncated = truncated, dl_total_entries = of_nat (length entries) \<rparr>, s))"

definition mock_stat_revision :: "string \<Rightarrow> string option \<Rightarrow> (mock_state, AgentError, FileRevision) op" where
  "mock_stat_revision path cwd s =
    (let resolved = resolve_path path cwd
     in (case tbl_get (mk_files s) resolved of
           None \<Rightarrow> (Inl (no_such_file resolved), s)
         | Some content \<Rightarrow> (Inr \<lparr> fr_revision = ''mock:'' @ show_nat (length content),
             fr_size = of_nat (length content) \<rparr>, s)))"

definition mock_delete_file :: "string \<Rightarrow> string option \<Rightarrow> bool \<Rightarrow> (mock_state, AgentError, unit) op" where
  "mock_delete_file path cwd recursive s =
    (let resolved = resolve_path path cwd in
     if tbl_get (mk_files s) resolved \<noteq> None
     then (Inr (), s\<lparr>mk_files := tbl_del resolved (mk_files s)\<rparr>)
     else
       (let pfx = trim_end_matches (CHR ''/'') resolved @ ''/'';
            children = filter (\<lambda>k. starts_with k pfx) (map fst (mk_files s))
        in if children = [] then (Inr (), s)
           else if \<not> recursive then
             (Inl (Runtime (''rm: cannot remove '' @ [CHR 0x27] @ resolved @ [CHR 0x27] @ '': Directory not empty'')), s)
           else (Inr (), s\<lparr>mk_files := fold tbl_del children (mk_files s)\<rparr>)))"

definition mock_wait_port_listening :: "u32 \<Rightarrow> (mock_state, AgentError, bool) op" where
  "mock_wait_port_listening port s = (Inr (port \<in> set (mk_listening_ports s)), s)"

text \<open>
  The process the mock runs, for a command and the input it is given: its output on both streams and
  its exit. \<open>slept\<close> tells whether the time of a \<open>sleep\<close> passed before its input did anything.
\<close>

definition not_found_message :: "string \<Rightarrow> string" where
  "not_found_message cmd =
    ''OCI runtime exec failed: exec failed: unable to start container process: exec: '' @ [CHR 0x22] @ cmd @
    [CHR 0x22] @ '': executable file not found in $PATH'' @ [CHR 0x0D, CHR 0x0A]"

fun join_with :: "string \<Rightarrow> string list \<Rightarrow> string" where
  "join_with sep [] = []"
| "join_with sep [x] = x"
| "join_with sep (x # y # ys) = x @ sep @ join_with sep (y # ys)"

definition simulate_exec :: "string list \<Rightarrow> bytes list \<Rightarrow> bool \<Rightarrow> bytes list \<times> bytes list \<times> ExecExitInfo" where
  "simulate_exec cmd stdin slept =
    (let prog = (case cmd of [] \<Rightarrow> None | c # _ \<Rightarrow> Some c) in
     if prog = Some ''echo'' then
       ([as_bytes (join_with '' '' (tl cmd) @ [CHR 0x0A])], [], \<lparr> ei_exit_code = 0, ei_command_not_found = False \<rparr>)
     else if prog = Some ''cat'' then (stdin, [], \<lparr> ei_exit_code = 0, ei_command_not_found = False \<rparr>)
     else if prog = Some ''sleep'' then
       ([], [], \<lparr> ei_exit_code = (if slept then 0 else 143), ei_command_not_found = False \<rparr>)
     else
       (let msg = as_bytes (not_found_message (case prog of None \<Rightarrow> [] | Some c \<Rightarrow> c))
        in ([], [msg], \<lparr> ei_exit_code = 127, ei_command_not_found = detect_command_not_found msg \<rparr>)))"

definition mock_runtime :: "uuid_lib \<Rightarrow> mock_state ContainerRuntime" where
  "mock_runtime U = \<lparr>
     rt_create_within = (\<lambda>_ config s. case mock_create_and_start U config s of (r, s') \<Rightarrow> (Some r, s')),
     rt_stop_and_remove = (\<lambda>_ _ s. (Inr (), s\<lparr>mk_stopped := mk_stopped s + 1\<rparr>)),
     rt_pause = (\<lambda>_ s. (Inr (), s\<lparr>mk_paused := mk_paused s + 1\<rparr>)),
     rt_unpause = (\<lambda>_ s. (Inr (), s\<lparr>mk_unpaused := mk_unpaused s + 1\<rparr>)),
     rt_list = (\<lambda>s. (Inr (mk_existing s), s)),
     rt_start_exec = (\<lambda>_. mock_start_exec),
     rt_signal_exec = mock_signal_exec,
     rt_read_file = (\<lambda>_. mock_read_file),
     rt_write_file = mock_write_file,
     rt_write_files_targz = mock_write_files_targz,
     rt_list_dir = (\<lambda>_. mock_list_dir),
     rt_stat_revision = (\<lambda>_. mock_stat_revision),
     rt_delete_file = (\<lambda>_. mock_delete_file),
     rt_wait_port_listening = (\<lambda>_ port _. mock_wait_port_listening port) \<rparr>"

definition mock_failure :: AgentError where
  "mock_failure = Runtime ''mock runtime failure''"

definition failing_runtime :: "'rt ContainerRuntime" where
  "failing_runtime = \<lparr>
     rt_create_within = (\<lambda>_ _ s. (Some (Inl mock_failure), s)),
     rt_stop_and_remove = (\<lambda>_ _ s. (Inl mock_failure, s)),
     rt_pause = (\<lambda>_ s. (Inl mock_failure, s)),
     rt_unpause = (\<lambda>_ s. (Inl mock_failure, s)),
     rt_list = (\<lambda>s. (Inr [], s)),
     rt_start_exec = (\<lambda>_ _ s. (Inl mock_failure, s)),
     rt_signal_exec = (\<lambda>_ _ _ s. (Inl mock_failure, s)),
     rt_read_file = (\<lambda>_ _ _ s. (Inl mock_failure, s)),
     rt_write_file = (\<lambda>_ _ _ _ s. (Inl mock_failure, s)),
     rt_write_files_targz = (\<lambda>_ _ _ s. (Inl mock_failure, s)),
     rt_list_dir = (\<lambda>_ _ _ s. (Inl mock_failure, s)),
     rt_stat_revision = (\<lambda>_ _ _ s. (Inl mock_failure, s)),
     rt_delete_file = (\<lambda>_ _ _ _ s. (Inl mock_failure, s)),
     rt_wait_port_listening = (\<lambda>_ _ _ s. (Inl mock_failure, s)) \<rparr>"

text \<open>\<open>SlowContainerRuntime\<close>: creation takes \<open>delay\<close>, everything else is immediate.\<close>

definition slow_runtime :: "uuid_lib \<Rightarrow> duration \<Rightarrow> 'rt ContainerRuntime" where
  "slow_runtime U delay = \<lparr>
     rt_create_within = (\<lambda>deadline config s.
       (if delay < deadline then Some (Inr \<lparr> ci_id = ContainerId (''slow-'' @ SandboxId_to_string U (cc_sandbox_id config)),
          ci_sandbox_id = cc_sandbox_id config, ci_host_port = 9000, ci_state = CRunning \<rparr>) else None, s)),
     rt_stop_and_remove = (\<lambda>_ _ s. (Inr (), s)),
     rt_pause = (\<lambda>_ s. (Inr (), s)),
     rt_unpause = (\<lambda>_ s. (Inr (), s)),
     rt_list = (\<lambda>s. (Inr [], s)),
     rt_start_exec = (\<lambda>_ _ s. (Inl (Runtime ''slow runtime mock: start_exec unimplemented''), s)),
     rt_signal_exec = (\<lambda>_ _ _ s. (Inr (), s)),
     rt_read_file = (\<lambda>_ _ _ s. (Inr [], s)),
     rt_write_file = (\<lambda>_ _ _ _ s. (Inr (), s)),
     rt_write_files_targz = (\<lambda>_ _ _ s. (Inr (), s)),
     rt_list_dir = (\<lambda>_ path _ s. (Inr \<lparr> dl_path = path, dl_entries = [], dl_truncated = False, dl_total_entries = 0 \<rparr>, s)),
     rt_stat_revision = (\<lambda>_ _ _ s. (Inr \<lparr> fr_revision = ''slow:0'', fr_size = 0 \<rparr>, s)),
     rt_delete_file = (\<lambda>_ _ _ _ s. (Inr (), s)),
     rt_wait_port_listening = (\<lambda>_ _ _ s. (Inr False, s)) \<rparr>"


section \<open>What a session relies on of a runtime's files\<close>

text \<open>
  The laws of the trait's documentation: reading and stating a file change nothing, a file that was
  written successfully reads back as written, and its revision is then known with its size.
\<close>

locale file_runtime =
  fixes R :: "'rt ContainerRuntime"
  assumes read_pure: "snd (rt_read_file R c p d s) = s"
    and stat_pure: "snd (rt_stat_revision R c p d s) = s"
    and read_written: "rt_write_file R c p d x s = (Inr (), s') \<Longrightarrow> fst (rt_read_file R c p d s') = Inr x"
    and stat_written: "rt_write_file R c p d x s = (Inr (), s') \<Longrightarrow>
      \<exists>r. fst (rt_stat_revision R c p d s') = Inr r \<and> fr_size r = of_nat (length x)"
begin

lemma read_eq: "rt_read_file R c p d s = (r, s') \<Longrightarrow> s' = s"
  using read_pure [of c p d s] by simp

lemma stat_eq: "rt_stat_revision R c p d s = (r, s') \<Longrightarrow> s' = s"
  using stat_pure [of c p d s] by simp

lemma read_written_eq: "rt_write_file R c p d x s = (Inr (), s') \<Longrightarrow> rt_read_file R c p d s' = (Inr x, s')"
  using read_written [of c p d x s s'] read_pure [of c p d s'] by (metis prod.collapse)

lemma stat_written_eq:
  assumes "rt_write_file R c p d x s = (Inr (), s')"
  obtains r where "rt_stat_revision R c p d s' = (Inr r, s')" "fr_size r = of_nat (length x)"
  using stat_written [OF assms] stat_pure [of c p d s'] by (metis prod.collapse)

end

interpretation mockrt: file_runtime "mock_runtime U"
  by unfold_locales
    (auto simp: mock_runtime_def mock_read_file_def mock_stat_revision_def mock_write_file_def Let_def
      table_simps split: option.splits)

section \<open>Lemmas on the marker\<close>

lemma char_byte [simp]: "char_of_byte (byte_of_char c) = c"
proof -
  have "unat (of_nat (char_code c) :: u8) = char_code c"
    using char_code_less [of c] by (simp add: unat_of_nat)
  then show ?thesis
    by (simp add: char_of_byte_def byte_of_char_def char_code_def)
qed

lemma byte_char [simp]: "byte_of_char (char_of_byte b) = b"
proof -
  have "unat b < 256"
    using unsigned_less [where ?'a = nat, of b] by simp
  then show ?thesis
    by (simp add: char_of_byte_def byte_of_char_def char_code_char_of)
qed

lemma bytes_str_as_bytes [simp]: "bytes_str (as_bytes s) = s"
  by (simp add: bytes_str_def as_bytes_def comp_def)

lemma as_bytes_bytes_str [simp]: "as_bytes (bytes_str b) = b"
  by (simp add: bytes_str_def as_bytes_def comp_def)

lemma as_bytes_simps [simp]: "as_bytes (s @ t) = as_bytes s @ as_bytes t" "length (as_bytes s) = length s"
  by (simp_all add: as_bytes_def)

lemma byte_of_char_inj: "byte_of_char c = byte_of_char d \<longleftrightarrow> c = d"
  by (metis char_byte)

lemma position_append: "x \<notin> set a \<Longrightarrow> position x (a @ x # b) = Some (length a)"
  by (induction a) auto

lemma position_None: "position x a = None \<longleftrightarrow> x \<notin> set a"
  by (induction a) auto

lemma newline_not_digit: "is_ascii_digit c \<Longrightarrow> byte_of_char c \<noteq> 10"
proof
  assume c: "is_ascii_digit c" and "byte_of_char c = 10"
  then have "unat (byte_of_char c) = unat (10 :: u8)" by simp
  then have "char_code c = 10"
    using char_code_less [of c] by (simp add: byte_of_char_def unat_of_nat)
  with c show False by (simp add: is_ascii_digit_def)
qed

lemma INPID_PREFIX_len: "length INPID_PREFIX = 13"
  by (simp add: INPID_PREFIX_def)

lemma no_newline_prefix: "10 \<notin> set INPID_PREFIX"
  by code_simp

lemma parse_i32_show: "in_i32 (int n) \<Longrightarrow> parse_i32 (show_nat n) = Some (int n)"
proof -
  assume i: "in_i32 (int n)"
  obtain c r where cr: "show_nat n = c # r"
    by (cases "show_nat n") simp_all
  then have "is_ascii_digit c"
    using show_nat_digits [of c n] by simp
  then have "c \<noteq> CHR ''-''" "c \<noteq> CHR ''+''"
    by (auto simp: is_ascii_digit_def char_code_def)
  moreover have "list_all is_ascii_digit (show_nat n)"
    using show_nat_digits by (auto simp: list_all_iff)
  ultimately show ?thesis
    using i cr read_show_nat [of n] by (simp add: parse_i32_def starts_with_def Let_def)
qed

lemma find_str_append: "find_str s p \<noteq> None \<Longrightarrow> find_str (a @ s) p \<noteq> None"
  by (induction a) auto

lemma find_str_prefix: "find_str (p @ s) p \<noteq> None"
  by (simp add: find_str_head)

lemma unknown_command_detected: "detect_command_not_found (as_bytes (not_found_message cmd))"
proof -
  let ?p = "''executable file not found''"
  have "\<exists>a b. to_ascii_lowercase (not_found_message cmd) = a @ ?p @ b"
    unfolding not_found_message_def to_ascii_lowercase_def
    by (intro exI [of _ "map ascii_lower_char (''OCI runtime exec failed: exec failed: unable to start container process: exec: '' @ [CHR 0x22] @ cmd @ [CHR 0x22] @ '': '')"]
        exI [of _ "map ascii_lower_char ('' in $PATH'' @ [CHR 0x0D, CHR 0x0A])"])
      (simp add: ascii_lower_char_def is_ascii_uppercase_def char_code_def)
  then obtain a b where ab: "to_ascii_lowercase (not_found_message cmd) = a @ ?p @ b"
    by blast
  have "contains_str (to_ascii_lowercase (not_found_message cmd)) ?p"
    unfolding contains_str_def ab by (rule find_str_append [OF find_str_prefix])
  then show ?thesis
    by (simp only: detect_command_not_found_def Let_def bytes_str_as_bytes simp_thms)
qed

text \<open>The mock reports a program it does not know as missing, whatever its name.\<close>

lemma simulate_exec_unknown: "c \<notin> {''echo'', ''cat'', ''sleep''} \<Longrightarrow>
    ei_command_not_found (snd (snd (simulate_exec (c # args) stdin slept)))"
  by (simp add: simulate_exec_def Let_def unknown_command_detected)

definition inpid_line :: "nat \<Rightarrow> bytes" where
  "inpid_line n = INPID_PREFIX @ as_bytes (show_nat n) @ [10]"

lemma newline_notin_digits: "10 \<notin> set (as_bytes (show_nat n))"
  using newline_not_digit show_nat_digits by (force simp: as_bytes_def)

lemma marker_found: "in_i32 (int n) \<Longrightarrow>
    consume_inpid_marker (inpid_line n @ rest) = (Inr (Some (int n)), rest)"
proof -
  assume i: "in_i32 (int n)"
  let ?d = "as_bytes (show_nat n)"
  have pos: "position 10 (INPID_PREFIX @ ?d @ 10 # rest) = Some (13 + length ?d)"
    using position_append [of 10 "INPID_PREFIX @ ?d" rest] newline_notin_digits no_newline_prefix
    by (simp add: INPID_PREFIX_len)
  show ?thesis
    using i by (simp add: consume_inpid_marker_def inpid_line_def pos INPID_PREFIX_len parse_i32_show)
qed

lemma marker_waits:
  assumes "Sublist.strict_prefix b (inpid_line n)" "length (show_nat n) \<le> 200"
  shows "consume_inpid_marker b = (Inr None, b)"
proof -
  from assms(1) obtain x t where line: "inpid_line n = b @ x # t"
    by (metis strict_prefixE')
  then have "length (inpid_line n) = length b + Suc (length t)"
    by simp
  then have bl: "length b \<le> 13 + length (show_nat n)"
    by (simp add: inpid_line_def INPID_PREFIX_len)
  have "butlast (inpid_line n) = b @ butlast (x # t)"
    by (simp only: line butlast_append) simp
  then have "\<exists>e. INPID_PREFIX @ as_bytes (show_nat n) = b @ e"
    by (simp add: inpid_line_def butlast_append exI)
  then obtain e where e: "INPID_PREFIX @ as_bytes (show_nat n) = b @ e" ..
  then have no: "10 \<notin> set b"
    using newline_notin_digits no_newline_prefix by (metis UnE Un_iff set_append)
  show ?thesis
  proof (cases "length b < 13")
    case True
    with e have "take (length b) INPID_PREFIX = b"
      by (metis INPID_PREFIX_len append_eq_append_conv_if less_or_eq_imp_le)
    with True show ?thesis
      by (simp add: consume_inpid_marker_def INPID_PREFIX_len INPID_MARKER_MAX_BUFFER_def)
  next
    case False
    with e have "take 13 b = INPID_PREFIX"
      by (metis INPID_PREFIX_len append_eq_append_conv_if not_less)
    with False bl assms(2) no show ?thesis
      by (simp add: consume_inpid_marker_def INPID_PREFIX_len INPID_MARKER_MAX_BUFFER_def
          position_None [THEN iffD2])
  qed
qed

end
