(* ===== verification/Agent_Sandbox.thy ===== *)
theory Agent_Sandbox
  imports Agent_Runtime
begin

text \<open>
  The agent's control side: \<open>agent/src/sandbox.rs\<close> (the table of sandboxes and the lifecycle
  commands), \<open>agent/src/exec_registry.rs\<close>, \<open>agent/src/reconnect.rs\<close>,
  \<open>agent/src/controller_client.rs\<close> and \<open>agent/src/tunnel.rs\<close>, over any container runtime.

  A lifecycle command holds the sandbox's command lock from its first lookup to its last update, so
  it is one step on the pair of the table and the runtime's state. The text of a \<open>uuid\<close> parse error
  is the parameter \<open>ue\<close>.
\<close>

section \<open>The sandbox table (sandbox.rs)\<close>

definition agent_parse_sandbox_id :: "uuid_lib \<Rightarrow> (string \<Rightarrow> string) \<Rightarrow> string \<Rightarrow> AgentError + SandboxId" where
  "agent_parse_sandbox_id U ue raw =
    ok_or (map_option SandboxId (uuid_parse_str U raw)) (AgentError.Internal (ue raw))"

record SandboxEntry =
  se_sandbox_id :: SandboxId
  se_container_id :: ContainerId
  se_host_port :: u16
  se_state :: SandboxState

record 'rt SandboxManager =
  sm_runtime :: 'rt
  sm_sandboxes :: "(SandboxId, SandboxEntry) tbl"

definition sm_new :: "'rt \<Rightarrow> 'rt SandboxManager" where
  "sm_new rt = \<lparr> sm_runtime = rt, sm_sandboxes = [] \<rparr>"

definition sm_insert :: "SandboxEntry \<Rightarrow> 'rt SandboxManager \<Rightarrow> 'rt SandboxManager" where
  "sm_insert e m = m\<lparr>sm_sandboxes := tbl_put (se_sandbox_id e) e (sm_sandboxes m)\<rparr>"

definition default_config :: ProtoSandboxConfig where
  "default_config = \<lparr> pc_cpu_limit_millicores = 0, pc_memory_limit_bytes = 0, pc_env_vars = [],
     pc_exposed_port = 0, pc_pull_policy = 0 \<rparr>"

definition container_config :: "SandboxId \<Rightarrow> string \<Rightarrow> ProtoSandboxConfig \<Rightarrow> ContainerConfig" where
  "container_config sid img config = \<lparr> cc_sandbox_id = sid, cc_image = img,
     cc_cpu_limit_millicores = pc_cpu_limit_millicores config,
     cc_memory_limit_bytes = pc_memory_limit_bytes config, cc_env_vars = pc_env_vars config,
     cc_exposed_port = pc_exposed_port config, cc_pull_policy = pull_policy_from_i32 (pc_pull_policy config) \<rparr>"

definition start_sandbox ::
    "uuid_lib \<Rightarrow> (string \<Rightarrow> string) \<Rightarrow> 'rt ContainerRuntime \<Rightarrow> string \<Rightarrow> string \<Rightarrow> ProtoSandboxConfig option \<Rightarrow>
     ('rt SandboxManager, AgentError, SandboxState) op" where
  "start_sandbox U ue R raw img config m =
    (case agent_parse_sandbox_id U ue raw of
       Inl e \<Rightarrow> (Inl e, m)
     | Inr sid \<Rightarrow>
         (let cfg = container_config sid img (case config of None \<Rightarrow> default_config | Some c \<Rightarrow> c);
              (timed, rt) = rt_create_within R SANDBOX_CREATE_DEADLINE cfg (sm_runtime m);
              m1 = m\<lparr>sm_runtime := rt\<rparr>;
              runtime_result = (case timed of
                 Some r \<Rightarrow> r
               | None \<Rightarrow> Inl (Runtime (''create_and_start deadline of '' @
                   show_nat (dur_as_secs SANDBOX_CREATE_DEADLINE) @ ''s exceeded for sandbox '' @
                   SandboxId_to_string U sid)))
          in case runtime_result of
               Inr info \<Rightarrow> (Inr Running, sm_insert \<lparr> se_sandbox_id = sid, se_container_id = ci_id info,
                 se_host_port = ci_host_port info, se_state = Running \<rparr> m1)
             | Inl e \<Rightarrow> (Inl e, sm_insert \<lparr> se_sandbox_id = sid, se_container_id = ContainerId [],
                 se_host_port = 0, se_state = Failed \<rparr> m1)))"

definition not_found_locally :: "uuid_lib \<Rightarrow> SandboxId \<Rightarrow> AgentError" where
  "not_found_locally U sid = AgentError.SandboxNotFound (SandboxId_to_string U sid)"

definition set_entry_state :: "SandboxId \<Rightarrow> SandboxState \<Rightarrow> 'rt SandboxManager \<Rightarrow> 'rt SandboxManager" where
  "set_entry_state sid st m = (case tbl_get (sm_sandboxes m) sid of
      None \<Rightarrow> m
    | Some slot \<Rightarrow> m\<lparr>sm_sandboxes := tbl_put sid (slot\<lparr>se_state := st\<rparr>) (sm_sandboxes m)\<rparr>)"

definition pause_sandbox ::
    "uuid_lib \<Rightarrow> (string \<Rightarrow> string) \<Rightarrow> 'rt ContainerRuntime \<Rightarrow> string \<Rightarrow>
     ('rt SandboxManager, AgentError, SandboxState) op" where
  "pause_sandbox U ue R raw m =
    (case agent_parse_sandbox_id U ue raw of
       Inl e \<Rightarrow> (Inl e, m)
     | Inr sid \<Rightarrow>
         (case tbl_get (sm_sandboxes m) sid of
            None \<Rightarrow> (Inl (not_found_locally U sid), m)
          | Some entry \<Rightarrow>
              if se_state entry = Paused then (Inr Paused, m)
              else (case rt_pause R (se_container_id entry) (sm_runtime m) of
                  (Inl e, rt) \<Rightarrow> (Inl e, m\<lparr>sm_runtime := rt\<rparr>)
                | (Inr _, rt) \<Rightarrow> (Inr Paused, set_entry_state sid Paused (m\<lparr>sm_runtime := rt\<rparr>)))))"

definition unpause_sandbox ::
    "uuid_lib \<Rightarrow> (string \<Rightarrow> string) \<Rightarrow> 'rt ContainerRuntime \<Rightarrow> string \<Rightarrow>
     ('rt SandboxManager, AgentError, SandboxState) op" where
  "unpause_sandbox U ue R raw m =
    (case agent_parse_sandbox_id U ue raw of
       Inl e \<Rightarrow> (Inl e, m)
     | Inr sid \<Rightarrow>
         (case tbl_get (sm_sandboxes m) sid of
            None \<Rightarrow> (Inl (not_found_locally U sid), m)
          | Some entry \<Rightarrow>
              if se_state entry = Running then (Inr Running, m)
              else (case rt_unpause R (se_container_id entry) (sm_runtime m) of
                  (Inl e, rt) \<Rightarrow> (Inl e, m\<lparr>sm_runtime := rt\<rparr>)
                | (Inr _, rt) \<Rightarrow> (Inr Running, set_entry_state sid Running (m\<lparr>sm_runtime := rt\<rparr>)))))"

definition stop_sandbox ::
    "uuid_lib \<Rightarrow> (string \<Rightarrow> string) \<Rightarrow> 'rt ContainerRuntime \<Rightarrow> string \<Rightarrow> u32 \<Rightarrow>
     ('rt SandboxManager, AgentError, SandboxState) op" where
  "stop_sandbox U ue R raw timeout_seconds m =
    (case agent_parse_sandbox_id U ue raw of
       Inl e \<Rightarrow> (Inl e, m)
     | Inr sid \<Rightarrow>
         (case tbl_get (sm_sandboxes m) sid of
            None \<Rightarrow> (Inl (not_found_locally U sid), m)
          | Some entry \<Rightarrow>
              (case rt_stop_and_remove R (se_container_id entry) (dur_secs (unat timeout_seconds)) (sm_runtime m) of
                 (Inl e, rt) \<Rightarrow> (Inl e, m\<lparr>sm_runtime := rt\<rparr>)
               | (Inr _, rt) \<Rightarrow>
                   (Inr Stopped, m\<lparr>sm_runtime := rt, sm_sandboxes := tbl_del sid (sm_sandboxes m)\<rparr>))))"

definition sm_get_sandbox :: "SandboxId \<Rightarrow> 'rt SandboxManager \<Rightarrow> SandboxEntry option" where
  "sm_get_sandbox sid m = tbl_get (sm_sandboxes m) sid"

definition sm_list_sandboxes :: "'rt SandboxManager \<Rightarrow> SandboxEntry list" where
  "sm_list_sandboxes m = map snd (sm_sandboxes m)"

definition host_port_for :: "uuid_lib \<Rightarrow> SandboxId \<Rightarrow> 'rt SandboxManager \<Rightarrow> AgentError + u16" where
  "host_port_for U sid m =
    ok_or (map_option se_host_port (tbl_get (sm_sandboxes m) sid)) (not_found_locally U sid)"

definition container_id_for :: "uuid_lib \<Rightarrow> SandboxId \<Rightarrow> 'rt SandboxManager \<Rightarrow> AgentError + ContainerId" where
  "container_id_for U sid m =
    ok_or (map_option se_container_id (tbl_get (sm_sandboxes m) sid)) (not_found_locally U sid)"

definition container_for_io ::
    "uuid_lib \<Rightarrow> SandboxId \<Rightarrow> 'rt SandboxManager \<Rightarrow> AgentError + (ContainerId \<times> SandboxState)" where
  "container_for_io U sid m =
    ok_or (map_option (\<lambda>e. (se_container_id e, se_state e)) (tbl_get (sm_sandboxes m) sid)) (not_found_locally U sid)"

fun container_state_to_sandbox :: "ContainerState \<Rightarrow> SandboxState" where
  "container_state_to_sandbox CRunning = Running"
| "container_state_to_sandbox CPaused = Paused"
| "container_state_to_sandbox CStopped = Stopped"

definition entry_of_info :: "ContainerInfo \<Rightarrow> SandboxEntry" where
  "entry_of_info info = \<lparr> se_sandbox_id = ci_sandbox_id info, se_container_id = ci_id info,
     se_host_port = ci_host_port info, se_state = container_state_to_sandbox (ci_state info) \<rparr>"

definition agent_reconcile ::
    "'rt ContainerRuntime \<Rightarrow> ('rt SandboxManager, AgentError, SandboxEntry list) op" where
  "agent_reconcile R m =
    (case rt_list R (sm_runtime m) of
       (Inl e, rt) \<Rightarrow> (Inl e, m\<lparr>sm_runtime := rt\<rparr>)
     | (Inr containers, rt) \<Rightarrow>
         (let entries = map entry_of_info containers
          in (Inr entries, fold sm_insert entries (m\<lparr>sm_runtime := rt\<rparr>))))"

section \<open>Reconnect backoff (reconnect.rs)\<close>

record ExponentialBackoff =
  eb_base :: duration
  eb_max :: duration
  eb_current :: duration

definition backoff_new :: ExponentialBackoff where
  "backoff_new = \<lparr> eb_base = RECONNECT_BASE_DELAY, eb_max = RECONNECT_MAX_DELAY, eb_current = RECONNECT_BASE_DELAY \<rparr>"

definition next_delay :: "ExponentialBackoff \<Rightarrow> duration \<times> ExponentialBackoff" where
  "next_delay b = (eb_current b, b\<lparr>eb_current := min (eb_current b * 2) (eb_max b)\<rparr>)"

definition backoff_reset :: "ExponentialBackoff \<Rightarrow> ExponentialBackoff" where
  "backoff_reset b = b\<lparr>eb_current := eb_base b\<rparr>"

fun delays :: "nat \<Rightarrow> ExponentialBackoff \<Rightarrow> duration list" where
  "delays 0 b = []"
| "delays (Suc n) b = (let (d, b') = next_delay b in d # delays n b')"

section \<open>Running processes (exec_registry.rs)\<close>

record ExecRecord =
  xr_stream_id :: string
  xr_sandbox_id :: SandboxId
  xr_container_id :: ContainerId
  xr_exec_id :: string
  xr_in_container_pid :: i32

type_synonym ExecRegistry = "(string, ExecRecord) tbl"

definition xr_insert :: "ExecRecord \<Rightarrow> ExecRegistry \<Rightarrow> ExecRegistry" where
  "xr_insert r reg = tbl_put (xr_stream_id r) r reg"

definition xr_remove :: "string \<Rightarrow> ExecRegistry \<Rightarrow> ExecRecord option \<times> ExecRegistry" where
  "xr_remove sid reg = (tbl_get reg sid, tbl_del sid reg)"

definition xr_len :: "ExecRegistry \<Rightarrow> nat" where
  "xr_len reg = length reg"

definition xr_is_empty :: "ExecRegistry \<Rightarrow> bool" where
  "xr_is_empty reg \<longleftrightarrow> reg = []"

definition list_for_sandbox :: "SandboxId \<Rightarrow> ExecRegistry \<Rightarrow> ExecRecord list" where
  "list_for_sandbox sid reg = filter (\<lambda>r. xr_sandbox_id r = sid) (map snd reg)"

definition on_stream_closed ::
    "'rt ContainerRuntime \<Rightarrow> string \<Rightarrow> ExecRegistry \<times> 'rt \<Rightarrow> ExecRegistry \<times> 'rt" where
  "on_stream_closed R sid st =
    (case st of (reg, rt) \<Rightarrow>
      (case xr_remove sid reg of
         (None, reg') \<Rightarrow> (reg', rt)
       | (Some rec, reg') \<Rightarrow>
           (let (_, rt1) = rt_signal_exec R (xr_container_id rec) (xr_in_container_pid rec) 15 rt;
                (_, rt2) = rt_signal_exec R (xr_container_id rec) (xr_in_container_pid rec) 9 rt1
            in (reg', rt2))))"

section \<open>Commands and reports (controller_client.rs)\<close>

fun sandbox_state_as_i32 :: "SandboxState \<Rightarrow> i32" where
  "sandbox_state_as_i32 Unspecified = 0"
| "sandbox_state_as_i32 Creating = 1"
| "sandbox_state_as_i32 Running = 2"
| "sandbox_state_as_i32 Stopping = 3"
| "sandbox_state_as_i32 Stopped = 4"
| "sandbox_state_as_i32 Failed = 5"
| "sandbox_state_as_i32 Pausing = 6"
| "sandbox_state_as_i32 Paused = 7"
| "sandbox_state_as_i32 Unpausing = 8"

text \<open>The status report of a command: its state on success, else the fallback state and the error.\<close>

definition status_report :: "string \<Rightarrow> SandboxState \<Rightarrow> AgentError + SandboxState \<Rightarrow> AgentMessage" where
  "status_report raw fallback r =
    Some (SandboxStatus raw
      (sandbox_state_as_i32 (case r of Inr s \<Rightarrow> s | Inl _ \<Rightarrow> fallback))
      (case r of Inr _ \<Rightarrow> [] | Inl e \<Rightarrow> AgentError_to_string e))"

definition handle_command ::
    "uuid_lib \<Rightarrow> (string \<Rightarrow> string) \<Rightarrow> 'rt ContainerRuntime \<Rightarrow> ControllerCommand \<Rightarrow>
     'rt SandboxManager \<Rightarrow> AgentMessage list \<times> 'rt SandboxManager" where
  "handle_command U ue R cmd m = (case cmd of
      HeartbeatAck _ \<Rightarrow> ([], m)
    | StartSandbox raw img config \<Rightarrow>
        (let (r, m') = start_sandbox U ue R raw img (Some config) m in ([status_report raw Failed r], m'))
    | StopSandbox raw timeout_seconds \<Rightarrow>
        (let (r, m') = stop_sandbox U ue R raw timeout_seconds m in ([status_report raw Failed r], m'))
    | PauseSandbox raw \<Rightarrow>
        (let (r, m') = pause_sandbox U ue R raw m in ([status_report raw Running r], m'))
    | UnpauseSandbox raw \<Rightarrow>
        (let (r, m') = unpause_sandbox U ue R raw m in ([status_report raw Paused r], m'))
    | FetchLogs _ _ _ \<Rightarrow> ([], m)
    | RegisterResponse _ _ _ \<Rightarrow> ([], m))"

definition register_message :: "uuid_lib \<Rightarrow> AgentId \<Rightarrow> string \<Rightarrow> AgentResources \<Rightarrow> AgentMessage" where
  "register_message U agent_id join_token resources =
    Some (Register (AgentId_to_string U agent_id) join_token (Some resources))"

definition heartbeat_message :: "uuid_lib \<Rightarrow> AgentId \<Rightarrow> AgentMessage" where
  "heartbeat_message U agent_id = Some (Heartbeat (AgentId_to_string U agent_id))"

text \<open>The answer to the registration: anything but an accepting response ends the connection.\<close>

definition registration_outcome :: "ControllerCommand option \<Rightarrow> AgentError + unit" where
  "registration_outcome answer = (case answer of
      Some (RegisterResponse accepted reason _) \<Rightarrow>
        if \<not> accepted then Inl (AgentError.Internal reason) else Inr ()
    | _ \<Rightarrow> Inl ControllerDisconnected)"

text \<open>
  The whole connection after it is open: what the agent sends, given the controller's first answer
  and the commands in the order in which their tasks run. It always ends with an error, upon which
  the caller reconnects.
\<close>

fun command_loop ::
    "uuid_lib \<Rightarrow> (string \<Rightarrow> string) \<Rightarrow> 'rt ContainerRuntime \<Rightarrow> ControllerCommand option list \<Rightarrow>
     'rt SandboxManager \<Rightarrow> AgentMessage list \<times> 'rt SandboxManager" where
  "command_loop U ue R [] m = ([], m)"
| "command_loop U ue R (None # cmds) m = command_loop U ue R cmds m"
| "command_loop U ue R (Some cmd # cmds) m =
    (let (out, m1) = handle_command U ue R cmd m; (out', m2) = command_loop U ue R cmds m1 in (out @ out', m2))"

definition controller_run ::
    "uuid_lib \<Rightarrow> (string \<Rightarrow> string) \<Rightarrow> 'rt ContainerRuntime \<Rightarrow> AgentId \<Rightarrow> string \<Rightarrow> AgentResources \<Rightarrow>
     ControllerCommand option \<Rightarrow> ControllerCommand option list \<Rightarrow> 'rt SandboxManager \<Rightarrow>
     AgentError \<times> AgentMessage list \<times> 'rt SandboxManager" where
  "controller_run U ue R agent_id join_token resources answer cmds m =
    (let hello = register_message U agent_id join_token resources in
     case registration_outcome answer of
       Inl e \<Rightarrow> (e, [hello], m)
     | Inr _ \<Rightarrow> (let (out, m') = command_loop U ue R cmds m in (ControllerDisconnected, hello # out, m')))"

section \<open>Forwarding HTTP (tunnel.rs)\<close>

record ForwardRequest =
  fq_method :: string
  fq_uri :: string
  fq_headers :: "(string, string) tbl"
  fq_body :: bytes

record ForwardResponse =
  fp_status_code :: u32
  fp_headers :: "(string, string) tbl"
  fp_body :: bytes

definition forward ::
    "uuid_lib \<Rightarrow> (u16 \<Rightarrow> ForwardRequest \<Rightarrow> AgentError + ForwardResponse) \<Rightarrow> SandboxId \<Rightarrow> ForwardRequest \<Rightarrow>
     'rt SandboxManager \<Rightarrow> AgentError + ForwardResponse" where
  "forward U http_send sid req m =
    (case host_port_for U sid m of Inl e \<Rightarrow> Inl e | Inr port \<Rightarrow> http_send port req)"


section \<open>The contract of a lifecycle command\<close>

definition sm_ok :: "'rt SandboxManager \<Rightarrow> bool" where
  "sm_ok m \<longleftrightarrow> tbl_ok (sm_sandboxes m) \<and>
     (\<forall>k e. tbl_get (sm_sandboxes m) k = Some e \<longrightarrow> se_sandbox_id e = k)"

text \<open>
  What the four commands share: they keep the table well formed, touch only the sandbox they name,
  and a state they answer with is what the table then holds (\<open>Stopped\<close> meaning no entry).
\<close>

locale lifecycle_command =
  fixes U :: uuid_lib and f :: "string \<Rightarrow> ('rt SandboxManager, AgentError, SandboxState) op"
  assumes keeps_ok: "sm_ok m \<Longrightarrow> f raw m = (r, m') \<Longrightarrow> sm_ok m'"
    and isolated: "f raw m = (r, m') \<Longrightarrow> uuid_parse_str U raw \<noteq> Some u \<Longrightarrow>
      tbl_get (sm_sandboxes m') (SandboxId u) = tbl_get (sm_sandboxes m) (SandboxId u)"
    and answered: "f raw m = (Inr st, m') \<Longrightarrow> \<exists>u. uuid_parse_str U raw = Some u \<and>
      map_option se_state (tbl_get (sm_sandboxes m') (SandboxId u)) = (if st = Stopped then None else Some st)"
begin

lemma answered_stopped: "f raw m = (Inr Stopped, m') \<Longrightarrow>
    \<exists>u. uuid_parse_str U raw = Some u \<and> tbl_get (sm_sandboxes m') (SandboxId u) = None"
  using answered [of raw m Stopped m'] by auto

lemma unparsable_error: "uuid_parse_str U raw = None \<Longrightarrow> f raw m = (r, m') \<Longrightarrow> \<exists>e. r = Inl e"
  using answered [of raw m _ m'] by (cases r) auto

end

named_theorems command_defs

lemmas [command_defs] = agent_parse_sandbox_id_def sm_insert_def set_entry_state_def sm_ok_def Let_def

lemma sm_insert_ok: "sm_ok m \<Longrightarrow> sm_ok (sm_insert e m)"
  by (auto simp: command_defs table_simps split: if_splits)

lemma sm_runtime_irrelevant [simp]: "sm_ok (m\<lparr>sm_runtime := rt\<rparr>) = sm_ok m"
  by (simp add: sm_ok_def)

lemma set_entry_state_ok: "sm_ok m \<Longrightarrow> sm_ok (set_entry_state sid st m)"
  by (auto simp: command_defs table_simps split: if_splits option.splits)

lemma set_entry_state_get: "tbl_get (sm_sandboxes (set_entry_state sid st m)) k =
    (if k = sid then map_option (\<lambda>e. e\<lparr>se_state := st\<rparr>) (tbl_get (sm_sandboxes m) sid)
     else tbl_get (sm_sandboxes m) k)"
  by (simp add: set_entry_state_def table_simps split: option.splits)

lemma sm_insert_get: "tbl_get (sm_sandboxes (sm_insert e m)) k =
    (if k = se_sandbox_id e then Some e else tbl_get (sm_sandboxes m) k)"
  by (simp add: sm_insert_def table_simps)

text \<open>The outcomes of a start: nothing for an unparsable id, else one new entry.\<close>

lemma start_sandbox_outcome:
  assumes "start_sandbox U ue R raw img config m = (r, m')"
  obtains (unparsable) e where "uuid_parse_str U raw = None" "r = Inl e" "m' = m"
  | (started) u and info :: ContainerInfo and rt where "uuid_parse_str U raw = Some u" "r = Inr Running"
      "m' = sm_insert \<lparr> se_sandbox_id = SandboxId u, se_container_id = ci_id info,
         se_host_port = ci_host_port info, se_state = Running \<rparr> (m\<lparr>sm_runtime := rt\<rparr>)"
  | (failed) u e rt where "uuid_parse_str U raw = Some u" "r = Inl e"
      "m' = sm_insert \<lparr> se_sandbox_id = SandboxId u, se_container_id = ContainerId [],
         se_host_port = 0, se_state = Failed \<rparr> (m\<lparr>sm_runtime := rt\<rparr>)"
proof (cases "uuid_parse_str U raw")
  case None
  with assms unparsable show thesis
    by (auto simp: start_sandbox_def agent_parse_sandbox_id_def)
next
  case (Some u)
  let ?cfg = "container_config (SandboxId u) img (case config of None \<Rightarrow> default_config | Some c \<Rightarrow> c)"
  obtain timed rt where t: "rt_create_within R SANDBOX_CREATE_DEADLINE ?cfg (sm_runtime m) = (timed, rt)"
    by fastforce
  note run = assms Some t
  show thesis
  proof (cases "\<exists>info. timed = Some (Inr info)")
    case True
    then obtain info where "timed = Some (Inr info)" ..
    with run show thesis
      by (intro started [of u info rt]) (auto simp: start_sandbox_def agent_parse_sandbox_id_def Let_def)
  next
    case False
    then have no: "timed = None \<or> (\<exists>e. timed = Some (Inl e))"
      by (metis sum.exhaust option.exhaust)
    with run obtain e where "r = Inl e"
      by (auto simp: start_sandbox_def agent_parse_sandbox_id_def Let_def)
    with run no show thesis
      by (intro failed [of u e rt]) (auto simp: start_sandbox_def agent_parse_sandbox_id_def Let_def)
  qed
qed

interpretation start_c: lifecycle_command U "\<lambda>raw. start_sandbox U ue R raw img config"
proof unfold_locales
  fix m :: "'a SandboxManager" and raw r m'
  assume "sm_ok m" "start_sandbox U ue R raw img config m = (r, m')"
  then show "sm_ok m'"
    by (elim start_sandbox_outcome [of U]) (auto intro!: sm_insert_ok)
next
  fix m :: "'a SandboxManager" and raw r m' u
  assume "start_sandbox U ue R raw img config m = (r, m')" "uuid_parse_str U raw \<noteq> Some u"
  then show "tbl_get (sm_sandboxes m') (SandboxId u) = tbl_get (sm_sandboxes m) (SandboxId u)"
    by (elim start_sandbox_outcome [of U]) (auto simp: sm_insert_get)
next
  fix m :: "'a SandboxManager" and raw st m'
  assume "start_sandbox U ue R raw img config m = (Inr st, m')"
  then show "\<exists>u. uuid_parse_str U raw = Some u \<and>
      map_option se_state (tbl_get (sm_sandboxes m') (SandboxId u)) = (if st = Stopped then None else Some st)"
    by (elim start_sandbox_outcome [of U]) (auto simp: sm_insert_get)
qed

interpretation pause_c: lifecycle_command U "pause_sandbox U ue R"
  by unfold_locales
    (auto simp: pause_sandbox_def agent_parse_sandbox_id_def set_entry_state_get not_found_locally_def ok_or_def
      intro!: set_entry_state_ok split: option.splits if_splits sum.splits prod.splits)

interpretation unpause_c: lifecycle_command U "unpause_sandbox U ue R"
  by unfold_locales
    (auto simp: unpause_sandbox_def agent_parse_sandbox_id_def set_entry_state_get not_found_locally_def ok_or_def
      intro!: set_entry_state_ok split: option.splits if_splits sum.splits prod.splits)

interpretation stop_c: lifecycle_command U "\<lambda>raw. stop_sandbox U ue R raw t"
  by unfold_locales
    (auto simp: stop_sandbox_def agent_parse_sandbox_id_def not_found_locally_def table_simps sm_ok_def ok_or_def
      split: option.splits if_splits sum.splits prod.splits)

lemma agent_reconcile_ok: "sm_ok m \<Longrightarrow> agent_reconcile R m = (r, m') \<Longrightarrow> sm_ok m'"
proof -
  have "sm_ok m \<Longrightarrow> sm_ok (fold sm_insert es m)" for es and m :: "'a SandboxManager"
    by (induction es arbitrary: m) (simp_all add: sm_insert_ok)
  then show "sm_ok m \<Longrightarrow> agent_reconcile R m = (r, m') \<Longrightarrow> sm_ok m'"
    by (auto simp: agent_reconcile_def Let_def split: prod.splits sum.splits)
qed


section \<open>Properties\<close>

fun command_target :: "ControllerCommand \<Rightarrow> string option" where
  "command_target (StartSandbox raw _ _) = Some raw"
| "command_target (StopSandbox raw _) = Some raw"
| "command_target (PauseSandbox raw) = Some raw"
| "command_target (UnpauseSandbox raw) = Some raw"
| "command_target _ = None"

lemma handle_command_frame:
  assumes "handle_command U ue R cmd m = (out, m')"
  shows "(sm_ok m \<longrightarrow> sm_ok m') \<and>
    length out = (if command_target cmd = None then 0 else 1) \<and>
    (\<forall>u. (\<forall>raw. command_target cmd = Some raw \<longrightarrow> uuid_parse_str U raw \<noteq> Some u) \<longrightarrow>
       tbl_get (sm_sandboxes m') (SandboxId u) = tbl_get (sm_sandboxes m) (SandboxId u))"
  using assms
  by (cases cmd) (auto simp: handle_command_def split: prod.splits
      dest: start_c.keeps_ok stop_c.keeps_ok pause_c.keeps_ok unpause_c.keeps_ok
        start_c.isolated stop_c.isolated pause_c.isolated unpause_c.isolated)

text \<open>C33. The agent keeps its sandboxes apart. Whatever commands the controller sends, in any order and
  with any answers of the runtime, the agent's table stays well formed, it reports once on every
  lifecycle command, and a sandbox no command names keeps its entry.\<close>

theorem agent_commands_isolated:
  assumes "sm_ok m" and "command_loop U ue R cmds m = (out, m')"
  shows "sm_ok m' \<and>
    length out = length (filter (\<lambda>c. c \<noteq> None \<and> command_target (the c) \<noteq> None) cmds) \<and>
    (\<forall>u. (\<forall>cmd raw. Some cmd \<in> set cmds \<longrightarrow> command_target cmd = Some raw \<longrightarrow> uuid_parse_str U raw \<noteq> Some u) \<longrightarrow>
       tbl_get (sm_sandboxes m') (SandboxId u) = tbl_get (sm_sandboxes m) (SandboxId u))"
  using assms
proof (induction U ue R cmds m arbitrary: out m' rule: command_loop.induct)
  case (3 U ue R cmd cmds m)
  obtain o1 m1 where h: "handle_command U ue R cmd m = (o1, m1)" by fastforce
  obtain o2 m2 where l: "command_loop U ue R cmds m1 = (o2, m2)" by fastforce
  from 3(3) h l have out: "out = o1 @ o2" "m' = m2" by simp_all
  note f = handle_command_frame [OF h]
  with 3(1) [OF h [symmetric] refl] 3(2) l show ?case
    unfolding out by (cases "command_target cmd") auto
qed simp_all

definition demo_commands :: "ControllerCommand option list" where
  "demo_commands = [Some (StartSandbox (uuid_to_string rfc4122 7) ''alpine'' default_config), None,
     Some (PauseSandbox (uuid_to_string rfc4122 8)), Some (HeartbeatAck 3)]"

theorem agent_commands_isolated_witness:
  "sm_ok (sm_new mock_new) \<and>
   (\<exists>out m'. command_loop rfc4122 (\<lambda>s. s) (mock_runtime rfc4122) demo_commands (sm_new mock_new) = (out, m') \<and>
      sm_ok m' \<and> length out = 2 \<and> tbl_get (sm_sandboxes m') (SandboxId 9) = None)"
proof -
  have ok: "sm_ok (sm_new mock_new)"
    by (simp add: sm_ok_def sm_new_def)
  obtain out m' where run: "command_loop rfc4122 (\<lambda>s. s) (mock_runtime rfc4122) demo_commands (sm_new mock_new) = (out, m')"
    by fastforce
  have away: "\<forall>cmd raw. Some cmd \<in> set demo_commands \<longrightarrow> command_target cmd = Some raw \<longrightarrow>
      uuid_parse_str rfc4122 raw \<noteq> Some 9"
    by (auto simp: demo_commands_def rfc.parse_to_string)
  have "length (filter (\<lambda>c. c \<noteq> None \<and> command_target (the c) \<noteq> None) demo_commands) = 2"
    by (simp add: demo_commands_def)
  with agent_commands_isolated [OF ok run] away run ok show ?thesis
    by (auto simp: sm_new_def)
qed

lemma AgentError_text [simp]: "AgentError_to_string e \<noteq> []"
  by (cases e) simp_all

lemma sandbox_state_roundtrip [simp]: "sandbox_state_of_i32 (sandbox_state_as_i32 st) = st"
  by (cases st) (simp_all add: sandbox_state_of_i32_def)

lemma failing_command_keeps_table:
  "stop_sandbox U ue R raw t m = (Inl e, m') \<Longrightarrow> sm_sandboxes m' = sm_sandboxes m"
  "pause_sandbox U ue R raw m = (Inl e, m') \<Longrightarrow> sm_sandboxes m' = sm_sandboxes m"
  "unpause_sandbox U ue R raw m = (Inl e, m') \<Longrightarrow> sm_sandboxes m' = sm_sandboxes m"
  by (auto simp: stop_sandbox_def pause_sandbox_def unpause_sandbox_def split: sum.splits option.splits if_splits prod.splits)

text \<open>Reports are true. A status report without an error text states what the table holds after the
  command: no entry for \<open>Stopped\<close>, else an entry in the reported state. A report with an error text
  means that the command left the table as it was, or that it was a start, which then recorded the
  sandbox as failed, without a container, unless its identifier does not parse.\<close>

lemma status_reports_true:
  assumes "handle_command U ue R cmd m = ([Some (SandboxStatus raw st err)], m')"
  shows "command_target cmd = Some raw \<and>
    (if err = [] then \<exists>u. uuid_parse_str U raw = Some u \<and>
       map_option se_state (tbl_get (sm_sandboxes m') (SandboxId u)) =
         (if st = 4 then None else Some (sandbox_state_of_i32 st))
     else sm_sandboxes m' = sm_sandboxes m \<or>
       (st = 5 \<and> (\<exists>img config u e. cmd = StartSandbox raw img config \<and> uuid_parse_str U raw = Some u \<and>
         tbl_get (sm_sandboxes m') (SandboxId u) = Some e \<and> se_state e = Failed \<and> se_container_id e = ContainerId [])))"
proof -
  have st4: "(sandbox_state_as_i32 s = 4) = (s = Stopped)" for s
    by (cases s) simp_all
  show ?thesis
  proof (cases cmd)
    case (StartSandbox x img config)
    with assms obtain r where r: "start_sandbox U ue R x img (Some config) m = (r, m')" and x: "x = raw"
      and rep: "st = sandbox_state_as_i32 (case r of Inr s \<Rightarrow> s | Inl _ \<Rightarrow> Failed)"
        "err = (case r of Inr _ \<Rightarrow> [] | Inl e \<Rightarrow> AgentError_to_string e)"
      by (auto simp: handle_command_def status_report_def split: prod.splits)
    from r show ?thesis
      by (cases rule: start_sandbox_outcome) (use StartSandbox x rep in \<open>auto simp: sm_insert_get sandbox_state_of_i32_def\<close>)
  qed (use assms in \<open>auto simp: handle_command_def status_report_def st4 split: prod.splits sum.splits
      dest: failing_command_keeps_table stop_c.answered pause_c.answered unpause_c.answered\<close>)
qed

lemma status_reports_true_witness:
  "\<exists>m'. handle_command rfc4122 (\<lambda>s. s) failing_runtime (StartSandbox (uuid_to_string rfc4122 7) ''alpine'' default_config)
      (sm_new ()) = ([Some (SandboxStatus (uuid_to_string rfc4122 7) 5 ''container runtime error: mock runtime failure'')], m') \<and>
    (\<exists>e. tbl_get (sm_sandboxes m') (SandboxId 7) = Some e \<and> se_state e = Failed)"
proof -
  obtain m' where run: "handle_command rfc4122 (\<lambda>s. s) failing_runtime
      (StartSandbox (uuid_to_string rfc4122 7) ''alpine'' default_config) (sm_new ()) =
      ([Some (SandboxStatus (uuid_to_string rfc4122 7) 5 ''container runtime error: mock runtime failure'')], m')"
    and ch: "sm_sandboxes m' \<noteq> []"
    by (simp add: handle_command_def start_sandbox_def agent_parse_sandbox_id_def rfc.parse_to_string failing_runtime_def
        mock_failure_def status_report_def Let_def sm_insert_def tbl_put_def sm_new_def)
  from status_reports_true [OF run] ch have "\<exists>e. tbl_get (sm_sandboxes m') (SandboxId 7) = Some e \<and> se_state e = Failed"
    by (auto simp: rfc.parse_to_string sm_new_def)
  with run show ?thesis by blast
qed

lemma min_mult_cap: "1 \<le> p \<Longrightarrow> min (min a y * p) y = min (a * p) (y :: nat)"
proof (cases "a \<le> y")
  case False
  assume p: "1 \<le> p"
  then have y: "y \<le> y * p" by simp
  also have "y * p \<le> a * p" using False by (intro mult_right_mono) simp_all
  finally have "min (a * p) y = y" by simp
  with y False show ?thesis by (simp only: min_absorb2 min.absorb2 nat_le_linear not_le less_imp_le)
qed (simp only: min_absorb1)

lemma delays_closed:
  "0 < eb_current b \<Longrightarrow> eb_current b \<le> eb_max b \<Longrightarrow>
   delays n b = map (\<lambda>i. min (eb_current b * 2 ^ i) (eb_max b)) [0..<n]"
proof (induction n arbitrary: b)
  case (Suc n)
  let ?b = "b\<lparr>eb_current := min (eb_current b * 2) (eb_max b)\<rparr>"
  have "delays n ?b = map (\<lambda>i. min (eb_current ?b * 2 ^ i) (eb_max ?b)) [0..<n]"
    using Suc.prems by (intro Suc.IH) simp_all
  moreover have "min (min (x * 2) y * 2 ^ i) y = min (x * 2 ^ Suc i) y" for x y i :: nat
    using min_mult_cap [of "2 ^ i" "x * 2" y] by (simp add: mult.assoc)
  ultimately show ?case
    using Suc.prems by (simp add: next_delay_def upt_conv_Cons del: upt_Suc)
      (simp add: map_Suc_upt [symmetric] comp_def del: upt_Suc)
qed simp

text \<open>Reconnect delays. From a fresh backoff, or one just reset, the \<open>i\<close>-th delay is the base delay
  doubled \<open>i\<close> times, capped at the maximum: never zero, never above 30 seconds.\<close>

lemma backoff_is_capped_doubling:
  "delays n (backoff_reset (b\<lparr>eb_base := RECONNECT_BASE_DELAY, eb_max := RECONNECT_MAX_DELAY\<rparr>)) = delays n backoff_new \<and>
   delays n backoff_new = map (\<lambda>i. min (RECONNECT_BASE_DELAY * 2 ^ i) RECONNECT_MAX_DELAY) [0..<n]"
  by (simp add: delays_closed backoff_new_def backoff_reset_def RECONNECT_BASE_DELAY_def RECONNECT_MAX_DELAY_def dur_secs_def)

end
