(* ===== verification/Agent_Io.thy ===== *)
theory Agent_Io
  imports Agent_Sandbox
begin

text \<open>
  \<open>agent/src/io_stream.rs\<close>: one I/O session between the proxy and the container runtime.

  A session's state is the runtime's state, the registry of running processes, the frames the
  server channel has accepted, and how many more it accepts before its receiver goes away
  (\<open>None\<close>: it stays). The client's frames are the list the stream yields; its end is the end of
  the list.

  An exec session runs four tasks: the demultiplexer of client frames, two output pumps and the
  control loop. A run of it is a list of \<open>exec_event\<close>s, each one step of one task, in any order; the
  properties hold for every list. Aborting a task takes effect at once. A list that ends before the
  process does is a session that still runs.
\<close>

section \<open>Constants\<close>

definition READ_FILE_CHUNK_BYTES :: nat where "READ_FILE_CHUNK_BYTES = 64 * 1024"
definition MAX_WRITE_BYTES :: nat where "MAX_WRITE_BYTES = 256 * 1024 * 1024"

section \<open>Session state and the server channel\<close>

record 'rt io_sess =
  is_rt :: 'rt
  is_registry :: ExecRegistry
  is_out :: "IoServerFrame list"
  is_left :: "nat option"

type_synonym client_frames = "(AgentError + IoClientFrame) list"

definition emit :: "string \<Rightarrow> IoServerPayload \<Rightarrow> 'rt io_sess \<Rightarrow> bool \<times> 'rt io_sess" where
  "emit sid p s =
    (let s' = s\<lparr>is_out := is_out s @ [\<lparr> sf_stream_id = sid, sf_payload = Some p \<rparr>]\<rparr> in
     case is_left s of
       None \<Rightarrow> (True, s')
     | Some 0 \<Rightarrow> (False, s)
     | Some (Suc n) \<Rightarrow> (True, s'\<lparr>is_left := Some n\<rparr>))"

definition with_rt :: "('rt, AgentError, 'a) op \<Rightarrow> ('rt io_sess, AgentError, 'a) op" where
  "with_rt f s = (case f (is_rt s) of (r, rt) \<Rightarrow> (r, s\<lparr>is_rt := rt\<rparr>))"

definition send_error :: "string \<Rightarrow> string \<Rightarrow> string \<Rightarrow> 'rt io_sess \<Rightarrow> 'rt io_sess" where
  "send_error sid code detail s = snd (emit sid (IoError code detail) s)"

definition send_exited :: "string \<Rightarrow> 'rt io_sess \<Rightarrow> 'rt io_sess" where
  "send_exited sid s = snd (emit sid (Exited 0 False) s)"

definition cwd_opt :: "string \<Rightarrow> string option" where
  "cwd_opt cwd = (if cwd = [] then None else Some cwd)"

definition cleanup :: "'rt ContainerRuntime \<Rightarrow> string \<Rightarrow> 'rt io_sess \<Rightarrow> 'rt io_sess" where
  "cleanup R sid s = (case on_stream_closed R sid (is_registry s, is_rt s) of
     (reg, rt) \<Rightarrow> s\<lparr>is_registry := reg, is_rt := rt\<rparr>)"

definition runtime_detail :: "AgentError \<Rightarrow> string option" where
  "runtime_detail e = (case e of Runtime d \<Rightarrow> Some d | _ \<Rightarrow> None)"

section \<open>Reading and listing\<close>

fun emit_chunks :: "string \<Rightarrow> bytes list \<Rightarrow> 'rt io_sess \<Rightarrow> bool \<times> 'rt io_sess" where
  "emit_chunks sid [] s = (True, s)"
| "emit_chunks sid (b # bs) s = (case emit sid (Stdout b) s of
     (False, s') \<Rightarrow> (False, s')
   | (True, s') \<Rightarrow> emit_chunks sid bs s')"

text \<open>The best-effort \<open>FileMeta\<close> frame; false when the client is gone.\<close>

definition emit_file_meta ::
    "'rt ContainerRuntime \<Rightarrow> string \<Rightarrow> ContainerId \<Rightarrow> string \<Rightarrow> string option \<Rightarrow> 'rt io_sess \<Rightarrow> bool \<times> 'rt io_sess" where
  "emit_file_meta R sid c path cwd s = (case with_rt (rt_stat_revision R c path cwd) s of
      (Inl _, s1) \<Rightarrow> (True, s1)
    | (Inr frev, s1) \<Rightarrow> emit sid (FileMeta (fr_revision frev) (fr_size frev)) s1)"

definition read_error_code :: "AgentError \<Rightarrow> string" where
  "read_error_code e = (case runtime_detail e of
      Some d \<Rightarrow> if contains_str d ''No such file'' then ''FILE_NOT_FOUND'' else ''READ_FAILED''
    | None \<Rightarrow> ''READ_FAILED'')"

definition drive_read_file ::
    "'rt ContainerRuntime \<Rightarrow> string \<Rightarrow> ContainerId \<Rightarrow> string \<Rightarrow> string \<Rightarrow> 'rt io_sess \<Rightarrow> 'rt io_sess" where
  "drive_read_file R sid c path cwd s =
    (case with_rt (rt_read_file R c path (cwd_opt cwd)) s of
       (Inl e, s1) \<Rightarrow> send_error sid (read_error_code e) (AgentError_to_string e) s1
     | (Inr content, s1) \<Rightarrow>
         (case emit_file_meta R sid c path (cwd_opt cwd) s1 of
            (False, s2) \<Rightarrow> s2
          | (True, s2) \<Rightarrow>
              (case emit_chunks sid (chunks READ_FILE_CHUNK_BYTES content) s2 of
                 (False, s3) \<Rightarrow> s3
               | (True, s3) \<Rightarrow> send_exited sid s3)))"

fun entry_type_to_proto :: "EntryType \<Rightarrow> ListDirEntryType" where
  "entry_type_to_proto EFile = EntryFile"
| "entry_type_to_proto EDir = EntryDir"
| "entry_type_to_proto ESymlink = EntrySymlink"
| "entry_type_to_proto EOther = EntryOther"

definition dir_entry_to_proto :: "DirEntry \<Rightarrow> ListDirEntry" where
  "dir_entry_to_proto e = \<lparr> de_name = dn_name e, de_type = entry_type_to_proto (dn_entry_type e),
     de_size = dn_size e, de_revision = dn_revision e, de_mode = dn_mode e, de_target = dn_target e \<rparr>"

definition list_dir_error_code :: "AgentError \<Rightarrow> string" where
  "list_dir_error_code e = (case runtime_detail e of
      Some d \<Rightarrow> if starts_with d ''list_dir not yet implemented'' then ''NOT_IMPLEMENTED''
        else if contains_str d ''No such file'' then ''FILE_NOT_FOUND'' else ''LIST_DIR_FAILED''
    | None \<Rightarrow> ''LIST_DIR_FAILED'')"

definition drive_list_dir ::
    "'rt ContainerRuntime \<Rightarrow> string \<Rightarrow> ContainerId \<Rightarrow> string \<Rightarrow> string \<Rightarrow> 'rt io_sess \<Rightarrow> 'rt io_sess" where
  "drive_list_dir R sid c path cwd s =
    (case with_rt (rt_list_dir R c path (cwd_opt cwd)) s of
       (Inl e, s1) \<Rightarrow> send_error sid (list_dir_error_code e) (AgentError_to_string e) s1
     | (Inr listing, s1) \<Rightarrow>
         (case emit sid (ListDirRes \<lparr> ld_path = dl_path listing, ld_entries = map dir_entry_to_proto (dl_entries listing),
               ld_truncated = dl_truncated listing, ld_total_entries = dl_total_entries listing \<rparr>) s1 of
            (False, s2) \<Rightarrow> s2
          | (True, s2) \<Rightarrow> send_exited sid s2))"

section \<open>Deleting and waiting for a port\<close>

definition delete_error_code :: "string \<Rightarrow> string" where
  "delete_error_code detail =
    (if contains_str detail ''is a directory'' \<or> contains_str detail ''Directory not empty''
     then ''DIRECTORY_NOT_EMPTY'' else ''DELETE_FAILED'')"

definition drive_delete_file ::
    "'rt ContainerRuntime \<Rightarrow> string \<Rightarrow> ContainerId \<Rightarrow> string \<Rightarrow> string \<Rightarrow> bool \<Rightarrow> 'rt io_sess \<Rightarrow> 'rt io_sess" where
  "drive_delete_file R sid c path cwd recursive s =
    (case with_rt (rt_delete_file R c path (cwd_opt cwd) recursive) s of
       (Inr _, s1) \<Rightarrow> send_exited sid s1
     | (Inl e, s1) \<Rightarrow> send_error sid (delete_error_code (AgentError_to_string e)) (AgentError_to_string e) s1)"

text \<open>\<open>elapsed\<close> is the time the probe took, in milliseconds.\<close>

definition drive_wait_port_listening ::
    "'rt ContainerRuntime \<Rightarrow> nat \<Rightarrow> ContainerId \<Rightarrow> string \<Rightarrow> u32 \<Rightarrow> u32 \<Rightarrow> 'rt io_sess \<Rightarrow> 'rt io_sess" where
  "drive_wait_port_listening R elapsed c sid port timeout_ms s =
    (let timeout_ms = min timeout_ms WAIT_PORT_LISTENING_MAX_TIMEOUT_MS in
     case with_rt (rt_wait_port_listening R c port (dur_millis (unat timeout_ms))) s of
       (Inl e, s1) \<Rightarrow>
         (case runtime_detail e of
            Some d \<Rightarrow> if starts_with d ''wait_port_listening not yet implemented''
              then send_error sid ''NOT_IMPLEMENTED'' ''wait_port_listening not yet implemented for this backend'' s1
              else send_error sid ''WAIT_PORT_LISTENING_FAILED'' (AgentError_to_string e) s1
          | None \<Rightarrow> send_error sid ''WAIT_PORT_LISTENING_FAILED'' (AgentError_to_string e) s1)
     | (Inr ready, s1) \<Rightarrow>
         (let raw_elapsed = (if elapsed < 2 ^ 32 then of_nat elapsed else - 1 :: u32);
              elapsed_ms = (if ready then raw_elapsed else min raw_elapsed timeout_ms)
          in case emit sid (WaitPortRes ready elapsed_ms) s1 of
               (False, s2) \<Rightarrow> s2
             | (True, s2) \<Rightarrow> send_exited sid s2))"

section \<open>Writing\<close>

datatype upload = Upload bytes | Refused string string

definition drain_remaining_client_frames :: "client_frames \<Rightarrow> client_frames" where
  "drain_remaining_client_frames fs = []"

fun collect_upload :: "string \<Rightarrow> bytes \<Rightarrow> client_frames \<Rightarrow> upload \<times> client_frames" where
  "collect_upload op content [] = (Upload content, [])"
| "collect_upload op content (Inl _ # fs) = (Upload content, fs)"
| "collect_upload op content (Inr f # fs) = (case cf_payload f of
      None \<Rightarrow> (Upload content, fs)
    | Some (CStdin b) \<Rightarrow>
        if MAX_WRITE_BYTES < length content + length b
        then (Refused ''PAYLOAD_TOO_LARGE'' (op @ '' body exceeds '' @ show_nat MAX_WRITE_BYTES @ ''-byte cap''),
              drain_remaining_client_frames fs)
        else collect_upload op (content @ b) fs
    | Some (CClose _) \<Rightarrow> (Upload content, fs)
    | Some _ \<Rightarrow> (Refused ''INVALID_REQUEST'' (''only Stdin and Close frames are valid in '' @ op @ '' mode''),
              drain_remaining_client_frames fs))"

text \<open>The revision precondition: \<open>None\<close> when the write may go on.\<close>

definition check_revision ::
    "'rt ContainerRuntime \<Rightarrow> ContainerId \<Rightarrow> string \<Rightarrow> string option \<Rightarrow> string \<Rightarrow> bool \<Rightarrow> 'rt io_sess \<Rightarrow>
     (string \<times> string) option \<times> 'rt io_sess" where
  "check_revision R c path cwd expected force s =
    (if expected \<noteq> [] \<and> \<not> force then
       (case with_rt (rt_stat_revision R c path cwd) s of
          (Inr frev, s1) \<Rightarrow>
            if fr_revision frev = expected then (None, s1) else (Some (''REVISION_MISMATCH'', fr_revision frev), s1)
        | (Inl e, s1) \<Rightarrow>
            (case runtime_detail e of
               Some d \<Rightarrow>
                 if starts_with d ''stat_revision not yet implemented'' then
                   (Some (''NOT_IMPLEMENTED'',
                      ''write_file expected_revision precondition requires a runtime that supports stat_revision; '' @
                      ''not yet implemented for this backend. Pass force=true to bypass.''), s1)
                 else if contains_str d ''No such file'' then (Some (''REVISION_MISMATCH'', []), s1)
                 else (Some (''WRITE_FAILED'', AgentError_to_string e), s1)
             | None \<Rightarrow> (Some (''WRITE_FAILED'', AgentError_to_string e), s1)))
     else (None, s))"

definition drive_write_file ::
    "'rt ContainerRuntime \<Rightarrow> string \<Rightarrow> ContainerId \<Rightarrow> string \<Rightarrow> string \<Rightarrow> string \<Rightarrow> bool \<Rightarrow> client_frames \<Rightarrow>
     'rt io_sess \<Rightarrow> client_frames \<times> 'rt io_sess" where
  "drive_write_file R sid c path cwd expected force fs s =
    (case check_revision R c path (cwd_opt cwd) expected force s of
       (Some (code, detail), s1) \<Rightarrow> (drain_remaining_client_frames fs, send_error sid code detail s1)
     | (None, s1) \<Rightarrow>
         (case collect_upload ''write_file'' [] fs of
            (Refused code detail, rest) \<Rightarrow> (rest, send_error sid code detail s1)
          | (Upload content, rest) \<Rightarrow>
              (rest,
               case with_rt (rt_write_file R c path (cwd_opt cwd) content) s1 of
                 (Inl e, s2) \<Rightarrow> send_error sid ''WRITE_FAILED'' (AgentError_to_string e) s2
               | (Inr _, s2) \<Rightarrow>
                   (case emit_file_meta R sid c path (cwd_opt cwd) s2 of
                      (False, s3) \<Rightarrow> s3
                    | (True, s3) \<Rightarrow> send_exited sid s3))))"

definition drive_write_files_targz ::
    "'rt ContainerRuntime \<Rightarrow> string \<Rightarrow> ContainerId \<Rightarrow> string \<Rightarrow> client_frames \<Rightarrow> 'rt io_sess \<Rightarrow>
     client_frames \<times> 'rt io_sess" where
  "drive_write_files_targz R sid c cwd fs s =
    (case collect_upload ''write_files_targz'' [] fs of
       (Refused code detail, rest) \<Rightarrow> (rest, send_error sid code detail s)
     | (Upload tarball, rest) \<Rightarrow>
         (rest,
          case with_rt (rt_write_files_targz R c (cwd_opt cwd) tarball) s of
            (Inl e, s1) \<Rightarrow> send_error sid ''WRITE_FAILED'' (AgentError_to_string e) s1
          | (Inr _, s1) \<Rightarrow> send_exited sid s1))"

section \<open>Exec sessions\<close>

datatype OutputKind = KStdout | KStderr

datatype demux_action = ToStdin bytes | StdinEof | ToSignal u32 | ToClose

text \<open>
  What the demultiplexer does with the client's frames: \<open>stdin_open\<close> tells whether it still holds
  the sender of the process's standard input, \<open>room\<close> how many chunks the process takes before it
  closes its end (\<open>None\<close>: it never does).
\<close>

fun client_frames_demux :: "bool \<Rightarrow> nat option \<Rightarrow> client_frames \<Rightarrow> demux_action list" where
  "client_frames_demux stdin_open room [] = [ToClose]"
| "client_frames_demux stdin_open room (Inl _ # fs) = [ToClose]"
| "client_frames_demux stdin_open room (Inr f # fs) = (case cf_payload f of
      None \<Rightarrow> [ToClose]
    | Some (CStdin b) \<Rightarrow>
        if \<not> stdin_open then client_frames_demux stdin_open room fs
        else (case room of
            None \<Rightarrow> ToStdin b # client_frames_demux stdin_open room fs
          | Some 0 \<Rightarrow> [ToClose]
          | Some (Suc n) \<Rightarrow> ToStdin b # client_frames_demux stdin_open (Some n) fs)
    | Some (CSignal g) \<Rightarrow> ToSignal g # client_frames_demux stdin_open room fs
    | Some (CClose eof) \<Rightarrow> if eof then StdinEof # client_frames_demux False room fs else [ToClose]
    | Some (CStart _) \<Rightarrow> [ToClose])"

text \<open>The tasks of a session: actions the demultiplexer has still to take, its two channels, the
  standard input delivered so far.\<close>

record 'rt exec_st =
  ex_s :: "'rt io_sess"
  ex_acts :: "demux_action list"
  ex_signals :: "u32 list"
  ex_close :: bool
  ex_stdin :: "bytes list"
  ex_stdin_eof :: bool

datatype exec_event = TDemux | TSignal | TClose | TOut OutputKind bytes | TExit "ExecExitInfo option"

datatype exec_outcome = ProcessExited ExecExitInfo | ExitLost | ClientClosed

definition SIGNAL_CHANNEL :: nat where "SIGNAL_CHANNEL = 4"

definition demux_tick :: "'rt exec_st \<Rightarrow> 'rt exec_st" where
  "demux_tick x = (case ex_acts x of
      [] \<Rightarrow> x
    | ToStdin b # as \<Rightarrow> x\<lparr>ex_acts := as, ex_stdin := ex_stdin x @ [b]\<rparr>
    | StdinEof # as \<Rightarrow> x\<lparr>ex_acts := as, ex_stdin_eof := True\<rparr>
    | ToSignal g # as \<Rightarrow>
        if SIGNAL_CHANNEL \<le> length (ex_signals x) then x
        else x\<lparr>ex_acts := as, ex_signals := ex_signals x @ [g]\<rparr>
    | ToClose # as \<Rightarrow> x\<lparr>ex_acts := as, ex_close := True\<rparr>)"

definition signal_tick :: "'rt ContainerRuntime \<Rightarrow> ContainerId \<Rightarrow> i32 \<Rightarrow> 'rt exec_st \<Rightarrow> 'rt exec_st" where
  "signal_tick R c pid x = (case ex_signals x of
      [] \<Rightarrow> x
    | g # gs \<Rightarrow>
        (let x' = x\<lparr>ex_signals := gs\<rparr> in
         case Signum_try_from g of
           Inl _ \<Rightarrow> x'
         | Inr signum \<Rightarrow> x'\<lparr>ex_s := snd (with_rt (rt_signal_exec R c pid (Signum_as_i32 signum)) (ex_s x))\<rparr>))"

definition output_payload :: "OutputKind \<Rightarrow> bytes \<Rightarrow> IoServerPayload" where
  "output_payload k b = (case k of KStdout \<Rightarrow> Stdout b | KStderr \<Rightarrow> Stderr b)"

definition output_pump :: "string \<Rightarrow> OutputKind \<Rightarrow> bytes \<Rightarrow> 'rt io_sess \<Rightarrow> 'rt io_sess" where
  "output_pump sid k b s = snd (emit sid (output_payload k b) s)"

definition exec_tick ::
    "'rt ContainerRuntime \<Rightarrow> string \<Rightarrow> ContainerId \<Rightarrow> i32 \<Rightarrow> exec_event \<Rightarrow> 'rt exec_st \<Rightarrow>
     exec_outcome option \<times> 'rt exec_st" where
  "exec_tick R sid c pid t x = (case t of
      TDemux \<Rightarrow> (None, demux_tick x)
    | TSignal \<Rightarrow> (None, signal_tick R c pid x)
    | TClose \<Rightarrow> (if ex_close x then Some ClientClosed else None, x)
    | TOut k b \<Rightarrow> (None, x\<lparr>ex_s := output_pump sid k b (ex_s x)\<rparr>)
    | TExit info \<Rightarrow> (Some (case info of Some i \<Rightarrow> ProcessExited i | None \<Rightarrow> ExitLost), x))"

fun exec_loop ::
    "'rt ContainerRuntime \<Rightarrow> string \<Rightarrow> ContainerId \<Rightarrow> i32 \<Rightarrow> exec_event list \<Rightarrow> 'rt exec_st \<Rightarrow>
     (exec_outcome \<times> exec_event list) option \<times> 'rt exec_st" where
  "exec_loop R sid c pid [] x = (None, x)"
| "exec_loop R sid c pid (t # ts) x = (case exec_tick R sid c pid t x of
      (Some r, x') \<Rightarrow> (Some (r, ts), x')
    | (None, x') \<Rightarrow> exec_loop R sid c pid ts x')"

text \<open>After a normal exit the pumps run on until the process's output is drained.\<close>

fun drain_output :: "string \<Rightarrow> exec_event list \<Rightarrow> 'rt io_sess \<Rightarrow> 'rt io_sess" where
  "drain_output sid [] s = s"
| "drain_output sid (TOut k b # ts) s = drain_output sid ts (output_pump sid k b s)"
| "drain_output sid (_ # ts) s = drain_output sid ts s"

definition finish_exec ::
    "'rt ContainerRuntime \<Rightarrow> string \<Rightarrow> exec_outcome \<Rightarrow> exec_event list \<Rightarrow> 'rt io_sess \<Rightarrow> 'rt io_sess" where
  "finish_exec R sid r ts s = (case r of
      ProcessExited info \<Rightarrow>
        (let s1 = drain_output sid ts s;
             s2 = snd (emit sid (Exited (ei_exit_code info) (ei_command_not_found info)) s1)
         in s2\<lparr>is_registry := snd (xr_remove sid (is_registry s2))\<rparr>)
    | ExitLost \<Rightarrow> cleanup R sid (send_error sid ''RUNTIME_ERROR'' ''runtime exited without sending exit info'' s)
    | ClientClosed \<Rightarrow> cleanup R sid (send_error sid ''CANCELLED'' ''client-initiated close'' s))"

definition pump_exec_session ::
    "'rt ContainerRuntime \<Rightarrow> string \<Rightarrow> ContainerId \<Rightarrow> i32 \<Rightarrow> nat option \<Rightarrow> client_frames \<Rightarrow> exec_event list \<Rightarrow>
     'rt io_sess \<Rightarrow> bool \<times> 'rt io_sess" where
  "pump_exec_session R sid c pid room fs ts s =
    (case exec_loop R sid c pid ts \<lparr> ex_s = s, ex_acts = client_frames_demux True room fs, ex_signals = [],
          ex_close = False, ex_stdin = [], ex_stdin_eof = False \<rparr> of
       (None, x) \<Rightarrow> (False, ex_s x)
     | (Some (r, ts'), x) \<Rightarrow> (True, finish_exec R sid r ts' (ex_s x)))"

definition drive_exec ::
    "'rt ContainerRuntime \<Rightarrow> string \<Rightarrow> SandboxId \<Rightarrow> ContainerId \<Rightarrow> ExecStart \<Rightarrow> nat option \<Rightarrow> client_frames \<Rightarrow>
     exec_event list \<Rightarrow> 'rt io_sess \<Rightarrow> bool \<times> 'rt io_sess" where
  "drive_exec R sid sandbox c start room fs ts s =
    (case with_rt (rt_start_exec R c start) s of
       (Inl e, s1) \<Rightarrow> (True, send_error sid ''RUNTIME_ERROR'' (AgentError_to_string e) s1)
     | (Inr h, s1) \<Rightarrow>
         (let s2 = s1\<lparr>is_registry := xr_insert \<lparr> xr_stream_id = sid, xr_sandbox_id = sandbox, xr_container_id = c,
                xr_exec_id = eh_exec_id h, xr_in_container_pid = eh_in_container_pid h \<rparr> (is_registry s1)\<rparr>
          in case emit sid (Started (eh_exec_id h) (eh_in_container_pid h)) s2 of
               (False, s3) \<Rightarrow> (True, cleanup R sid s3)
             | (True, s3) \<Rightarrow> pump_exec_session R sid c (eh_in_container_pid h) room fs ts s3))"

section \<open>The session (drive\_io\_session)\<close>

text \<open>What the session meets besides its frames: the time of a port probe, the process's appetite for
  input, and the order in which the tasks of an exec session run.\<close>

record io_env =
  ie_elapsed :: nat
  ie_room :: "nat option"
  ie_ticks :: "exec_event list"

definition drive_params ::
    "'rt ContainerRuntime \<Rightarrow> io_env \<Rightarrow> string \<Rightarrow> SandboxId \<Rightarrow> ContainerId \<Rightarrow> IoParams \<Rightarrow> client_frames \<Rightarrow>
     'rt io_sess \<Rightarrow> bool \<times> 'rt io_sess" where
  "drive_params R E sid sandbox c params fs s = (case params of
      Exec command cwd env \<Rightarrow>
        drive_exec R sid sandbox c \<lparr> es_command = command, es_cwd = cwd, es_env = env \<rparr> (ie_room E) fs (ie_ticks E) s
    | ReadFile path cwd \<Rightarrow> (True, drive_read_file R sid c path cwd s)
    | WriteFile path cwd expected force \<Rightarrow> (True, snd (drive_write_file R sid c path cwd expected force fs s))
    | WriteFilesTargz cwd \<Rightarrow> (True, snd (drive_write_files_targz R sid c cwd fs s))
    | ListDir path cwd \<Rightarrow> (True, drive_list_dir R sid c path cwd s)
    | WaitPortListening port timeout_ms \<Rightarrow> (True, drive_wait_port_listening R (ie_elapsed E) c sid port timeout_ms s)
    | DeleteFile path cwd recursive \<Rightarrow> (True, drive_delete_file R sid c path cwd recursive s))"

definition drive_io_session ::
    "'rt ContainerRuntime \<Rightarrow> io_env \<Rightarrow> string \<Rightarrow> SandboxId \<Rightarrow> ContainerId \<Rightarrow> client_frames \<Rightarrow>
     'rt io_sess \<Rightarrow> bool \<times> 'rt io_sess" where
  "drive_io_session R E sid sandbox c frames s = (case frames of
      [] \<Rightarrow> (True, s)
    | Inl e # _ \<Rightarrow> (True, send_error sid ''IO_STREAM_FAILED'' (AgentError_to_string e) s)
    | Inr f # fs \<Rightarrow>
        (case cf_payload f of
           Some (CStart start) \<Rightarrow>
             (case st_params start of
                Some params \<Rightarrow> drive_params R E sid sandbox c params fs s
              | None \<Rightarrow> (True, send_error sid ''INVALID_REQUEST'' ''IoStart.params must be set'' s))
         | _ \<Rightarrow> (True, send_error sid ''INVALID_REQUEST'' ''first frame must be IoStart'' s)))"


section \<open>The frames of a session\<close>

text \<open>
  \<open>emits sid s s' ps\<close>: from \<open>s\<close> to \<open>s'\<close> the server channel, whose receiver stays, has taken exactly
  the payloads \<open>ps\<close>, labelled with the stream. A session is \<open>completed\<close> when the last of them, and
  no other, is terminal; it is \<open>ongoing\<close> while none is.
\<close>

definition emits :: "string \<Rightarrow> 'rt io_sess \<Rightarrow> 'rt io_sess \<Rightarrow> IoServerPayload list \<Rightarrow> bool" where
  "emits sid s s' ps \<longleftrightarrow> is_left s = None \<and> is_left s' = None \<and>
     is_out s' = is_out s @ map (\<lambda>p. \<lparr> sf_stream_id = sid, sf_payload = Some p \<rparr>) ps"

definition ongoing :: "string \<Rightarrow> 'rt io_sess \<Rightarrow> 'rt io_sess \<Rightarrow> bool" where
  "ongoing sid s s' \<longleftrightarrow> (\<exists>ps. emits sid s s' ps \<and> (\<forall>p\<in>set ps. \<not> is_terminal_frame p))"

definition completed :: "string \<Rightarrow> 'rt io_sess \<Rightarrow> 'rt io_sess \<Rightarrow> bool" where
  "completed sid s s' \<longleftrightarrow>
     (\<exists>ps t. emits sid s s' (ps @ [t]) \<and> (\<forall>p\<in>set ps. \<not> is_terminal_frame p) \<and> is_terminal_frame t)"

lemma emits_trans: "emits sid s s1 ps \<Longrightarrow> emits sid s1 s2 qs \<Longrightarrow> emits sid s s2 (ps @ qs)"
  by (simp add: emits_def)

lemma ongoing_refl: "is_left s = None \<Longrightarrow> ongoing sid s s"
  by (auto simp: ongoing_def emits_def intro: exI [of _ "[]"])

lemma ongoing_trans: "ongoing sid s s1 \<Longrightarrow> ongoing sid s1 s2 \<Longrightarrow> ongoing sid s s2"
  unfolding ongoing_def by (elim exE conjE) (drule (1) emits_trans, force)

lemma ongoing_completed: "ongoing sid s s1 \<Longrightarrow> completed sid s1 s2 \<Longrightarrow> completed sid s s2"
  unfolding ongoing_def completed_def
proof (elim exE conjE)
  fix ps qs t
  assume a: "emits sid s s1 ps" "\<forall>p\<in>set ps. \<not> is_terminal_frame p"
    "emits sid s1 s2 (qs @ [t])" "\<forall>p\<in>set qs. \<not> is_terminal_frame p" "is_terminal_frame t"
  then have "emits sid s s2 ((ps @ qs) @ [t])"
    using emits_trans [OF a(1,3)] by simp
  with a show "\<exists>ps t. emits sid s s2 (ps @ [t]) \<and> (\<forall>p\<in>set ps. \<not> is_terminal_frame p) \<and> is_terminal_frame t"
    by (intro exI [of _ "ps @ qs"] exI [of _ t]) auto
qed

lemma ongoing_left: "ongoing sid s s' \<Longrightarrow> is_left s' = None"
  by (auto simp: ongoing_def emits_def)

lemma completed_left: "completed sid s s' \<Longrightarrow> is_left s' = None"
  by (auto simp: completed_def emits_def)

text \<open>The steps of a session in these terms.\<close>

lemma emit_emits: "is_left s = None \<Longrightarrow> fst (emit sid p s) \<and> emits sid s (snd (emit sid p s)) [p]"
  by (simp add: emit_def emits_def Let_def)

lemma emit_True: "is_left s = None \<Longrightarrow> emit sid p s = (b, s') \<Longrightarrow> b \<and> emits sid s s' [p]"
  using emit_emits [of s sid p] by simp

lemma emit_ongoing: "is_left s = None \<Longrightarrow> \<not> is_terminal_frame p \<Longrightarrow> emit sid p s = (b, s') \<Longrightarrow> b \<and> ongoing sid s s'"
  using emit_True [of s sid p b s'] by (auto simp: ongoing_def intro!: exI [of _ "[p]"])

lemma emit_completed: "is_left s = None \<Longrightarrow> is_terminal_frame p \<Longrightarrow> completed sid s (snd (emit sid p s))"
  using emit_emits [of s sid p] by (auto simp: completed_def intro!: exI [of _ "[]"])

lemma send_error_completed: "is_left s = None \<Longrightarrow> completed sid s (send_error sid code detail s)"
  by (simp add: send_error_def emit_completed)

lemma send_exited_completed: "is_left s = None \<Longrightarrow> completed sid s (send_exited sid s)"
  by (simp add: send_exited_def emit_completed)

lemma same_frames_ongoing: "is_left s = None \<Longrightarrow> is_out s' = is_out s \<Longrightarrow> is_left s' = is_left s \<Longrightarrow> ongoing sid s s'"
  by (auto simp: ongoing_def emits_def intro!: exI [of _ "[]"])

lemma with_rt_frames: "with_rt f s = (r, s') \<Longrightarrow>
    is_out s' = is_out s \<and> is_left s' = is_left s \<and> is_registry s' = is_registry s \<and> f (is_rt s) = (r, is_rt s')"
  by (auto simp: with_rt_def split: prod.splits)

lemma with_rt_ongoing: "is_left s = None \<Longrightarrow> with_rt f s = (r, s') \<Longrightarrow> ongoing sid s s'"
  by (auto dest!: with_rt_frames intro!: same_frames_ongoing)

lemma cleanup_frames [simp]: "is_out (cleanup R sid s) = is_out s" "is_left (cleanup R sid s) = is_left s"
  by (simp_all add: cleanup_def split: prod.splits)

lemma completed_same: "completed sid s s1 \<Longrightarrow> is_out s2 = is_out s1 \<Longrightarrow> is_left s2 = is_left s1 \<Longrightarrow> completed sid s s2"
  by (auto simp: completed_def emits_def)

lemma emit_chunks_emits: "is_left s = None \<Longrightarrow> emit_chunks sid bs s = (b, s') \<Longrightarrow> b \<and> emits sid s s' (map Stdout bs)"
proof (induction bs arbitrary: s)
  case (Cons x bs)
  obtain b1 s1 where e: "emit sid (Stdout x) s = (b1, s1)" by fastforce
  with Cons.prems have e1: "b1" "emits sid s s1 [Stdout x]"
    using emit_True by blast+
  then have "is_left s1 = None" by (simp add: emits_def)
  with Cons.IH [OF this] Cons.prems(2) e e1 emits_trans [OF e1(2)] show ?case
    by fastforce
qed (simp add: emits_def)

lemma emit_chunks_ongoing: "is_left s = None \<Longrightarrow> emit_chunks sid bs s = (b, s') \<Longrightarrow> b \<and> ongoing sid s s'"
  using emit_chunks_emits [of s sid bs b s'] by (auto simp: ongoing_def intro!: exI [of _ "map Stdout bs"])

lemma emit_file_meta_ongoing: "is_left s = None \<Longrightarrow> emit_file_meta R sid c path cwd s = (b, s') \<Longrightarrow> b \<and> ongoing sid s s'"
proof -
  assume l: "is_left s = None" and m: "emit_file_meta R sid c path cwd s = (b, s')"
  obtain r s1 where w: "with_rt (rt_stat_revision R c path cwd) s = (r, s1)" by fastforce
  note o1 = with_rt_ongoing [OF l w, of sid]
  show ?thesis
  proof (cases r)
    case (Inr v)
    with m w have "emit sid (FileMeta (fr_revision v) (fr_size v)) s1 = (b, s')"
      by (simp add: emit_file_meta_def)
    from emit_ongoing [OF ongoing_left [OF o1] _ this] ongoing_trans [OF o1] show ?thesis by simp
  qed (use m w o1 in \<open>simp add: emit_file_meta_def\<close>)
qed

lemma ongoing_thenI: "ongoing sid s s1 \<Longrightarrow> (is_left s1 = None \<Longrightarrow> completed sid s1 s2) \<Longrightarrow> completed sid s s2"
  by (rule ongoing_completed) (simp_all add: ongoing_left)

lemma with_rt_snd_ongoing: "is_left s = None \<Longrightarrow> ongoing sid s (snd (with_rt f s))"
  by (cases "with_rt f s") (simp add: with_rt_ongoing)

text \<open>Rules that walk through a session step by step.\<close>

lemma with_rt_completedI:
  assumes "is_left s = None" and "\<And>r s1. with_rt f s = (r, s1) \<Longrightarrow> is_left s1 = None \<Longrightarrow> completed sid s1 (h r s1)"
  shows "completed sid s (case with_rt f s of (r, s1) \<Rightarrow> h r s1)"
proof -
  obtain r s1 where w: "with_rt f s = (r, s1)" by fastforce
  from with_rt_ongoing [OF assms(1) w, of sid] assms(2) [OF w] w show ?thesis
    by (simp add: ongoing_completed ongoing_left)
qed

lemma emit_completedI:
  assumes "is_left s = None" "\<not> is_terminal_frame p" "\<And>s1. is_left s1 = None \<Longrightarrow> completed sid s1 (h True s1)"
  shows "completed sid s (case emit sid p s of (b, s1) \<Rightarrow> h b s1)"
proof -
  obtain b s1 where e: "emit sid p s = (b, s1)" by fastforce
  from emit_ongoing [OF assms(1,2) e] assms(3) [of s1] e show ?thesis
    by (auto intro: ongoing_thenI)
qed

lemma emit_chunks_completedI:
  assumes "is_left s = None" "\<And>s1. is_left s1 = None \<Longrightarrow> completed sid s1 (h True s1)"
  shows "completed sid s (case emit_chunks sid bs s of (b, s1) \<Rightarrow> h b s1)"
proof -
  obtain b s1 where e: "emit_chunks sid bs s = (b, s1)" by fastforce
  from emit_chunks_ongoing [OF assms(1) e] assms(2) [of s1] e show ?thesis
    by (auto intro: ongoing_thenI)
qed

lemma emit_file_meta_completedI:
  assumes "is_left s = None" "\<And>s1. is_left s1 = None \<Longrightarrow> completed sid s1 (h True s1)"
  shows "completed sid s (case emit_file_meta R sid c path cwd s of (b, s1) \<Rightarrow> h b s1)"
proof -
  obtain b s1 where e: "emit_file_meta R sid c path cwd s = (b, s1)" by fastforce
  from emit_file_meta_ongoing [OF assms(1) e] assms(2) [of s1] e show ?thesis
    by (auto intro: ongoing_thenI)
qed

named_theorems session_intros

lemmas [session_intros] = with_rt_completedI emit_completedI emit_chunks_completedI emit_file_meta_completedI
  send_error_completed send_exited_completed

lemma drive_read_file_completed: "is_left s = None \<Longrightarrow> completed sid s (drive_read_file R sid c path cwd s)"
  unfolding drive_read_file_def by (auto intro!: session_intros split: sum.split)

lemma drive_list_dir_completed: "is_left s = None \<Longrightarrow> completed sid s (drive_list_dir R sid c path cwd s)"
  unfolding drive_list_dir_def by (auto intro!: session_intros split: sum.split)

lemma drive_delete_file_completed: "is_left s = None \<Longrightarrow> completed sid s (drive_delete_file R sid c path cwd rc s)"
  unfolding drive_delete_file_def by (auto intro!: session_intros split: sum.split)

lemma drive_wait_port_completed: "is_left s = None \<Longrightarrow> completed sid s (drive_wait_port_listening R el c sid port t s)"
  unfolding drive_wait_port_listening_def Let_def
  by (auto intro!: session_intros split: sum.split option.split)

lemma check_revision_ongoing: "is_left s = None \<Longrightarrow> check_revision R c path cwd expected force s = (r, s') \<Longrightarrow> ongoing sid s s'"
proof -
  assume l: "is_left s = None" and r: "check_revision R c path cwd expected force s = (r, s')"
  obtain v s1 where w: "with_rt (rt_stat_revision R c path cwd) s = (v, s1)" by fastforce
  with r have "s' = s \<or> s' = s1"
    by (auto simp: check_revision_def split: sum.splits option.splits if_splits)
  with with_rt_ongoing [OF l w] ongoing_refl [OF l] show ?thesis by blast
qed

lemma drive_write_file_completed:
  assumes l: "is_left s = None"
  shows "completed sid s (snd (drive_write_file R sid c path cwd expected force fs s))"
proof -
  obtain r s1 where k: "check_revision R c path (cwd_opt cwd) expected force s = (r, s1)" by fastforce
  obtain up rest where u: "collect_upload ''write_file'' [] fs = (up, rest)" by fastforce
  note o1 = check_revision_ongoing [OF l k]
  note l1 = ongoing_left [OF o1]
  show ?thesis
    by (rule ongoing_completed [OF o1])
      (auto simp: drive_write_file_def k u l1 intro!: session_intros split: option.split upload.split sum.split)
qed

lemma drive_write_files_targz_completed:
  assumes l: "is_left s = None"
  shows "completed sid s (snd (drive_write_files_targz R sid c cwd fs s))"
proof -
  obtain up rest where u: "collect_upload ''write_files_targz'' [] fs = (up, rest)" by fastforce
  show ?thesis
    by (auto simp: drive_write_files_targz_def u l intro!: session_intros split: upload.split sum.split)
qed

section \<open>The frames of an exec session\<close>

lemma output_pump_ongoing: "is_left s = None \<Longrightarrow> ongoing sid s (output_pump sid k b s)"
  using emit_ongoing [of s "output_payload k b" sid] by (cases "emit sid (output_payload k b) s")
    (auto simp: output_pump_def output_payload_def split: OutputKind.splits)

lemma drain_output_ongoing: "is_left s = None \<Longrightarrow> ongoing sid s (drain_output sid ts s)"
proof (induction sid ts s rule: drain_output.induct)
  case (2 sid k b ts s)
  note o1 = output_pump_ongoing [OF 2(2), of sid k b]
  from ongoing_trans [OF o1 2(1) [OF ongoing_left [OF o1]]] show ?case by simp
qed (simp_all add: ongoing_refl)

lemma drain_output_rt [simp]: "is_rt (drain_output sid ts s) = is_rt s" "is_registry (drain_output sid ts s) = is_registry s"
  by (induction sid ts s rule: drain_output.induct)
    (simp_all add: output_pump_def emit_def Let_def split: option.splits nat.splits)

lemma demux_tick_s [simp]: "ex_s (demux_tick x) = ex_s x"
  by (simp add: demux_tick_def split: list.splits demux_action.splits)

lemma signal_tick_ongoing: "is_left (ex_s x) = None \<Longrightarrow> ongoing sid (ex_s x) (ex_s (signal_tick R c pid x))"
  by (auto simp: signal_tick_def Let_def ongoing_refl with_rt_snd_ongoing split: list.splits sum.splits)

lemma exec_tick_ongoing:
  assumes "is_left (ex_s x) = None" "exec_tick R sid c pid t x = (r, x')"
  shows "ongoing sid (ex_s x) (ex_s x')"
  using assms signal_tick_ongoing [OF assms(1)] output_pump_ongoing [OF assms(1)] ongoing_refl [OF assms(1)]
  by (cases t) (auto simp: exec_tick_def)

lemma exec_loop_ongoing:
  "is_left (ex_s x) = None \<Longrightarrow> exec_loop R sid c pid ts x = (r, x') \<Longrightarrow> ongoing sid (ex_s x) (ex_s x')"
proof (induction ts arbitrary: x)
  case (Cons t ts)
  obtain r1 x1 where t: "exec_tick R sid c pid t x = (r1, x1)" by fastforce
  note o1 = exec_tick_ongoing [OF Cons.prems(1) t]
  from Cons.IH [OF ongoing_left [OF o1]] Cons.prems(2) t o1 show ?case
    by (cases r1) (auto intro: ongoing_trans)
qed (simp add: ongoing_refl)

lemma finish_exec_completed: "is_left s = None \<Longrightarrow> completed sid s (finish_exec R sid r ts s)"
proof (cases r)
  case (ProcessExited info)
  assume l: "is_left s = None"
  note o1 = drain_output_ongoing [OF l, of sid ts]
  have "completed sid (drain_output sid ts s)
      (snd (emit sid (Exited (ei_exit_code info) (ei_command_not_found info)) (drain_output sid ts s)))"
    using ongoing_left [OF o1] by (simp add: emit_completed)
  from completed_same [OF ongoing_completed [OF o1 this]] ProcessExited show ?thesis
    by (simp add: finish_exec_def Let_def)
qed (auto simp: finish_exec_def intro: completed_same [OF send_error_completed])

lemma pump_exec_frames:
  assumes "is_left s = None" "pump_exec_session R sid c pid room fs ts s = (fin, s')"
  shows "if fin then completed sid s s' else ongoing sid s s'"
proof -
  let ?x = "\<lparr> ex_s = s, ex_acts = client_frames_demux True room fs, ex_signals = [], ex_close = False,
    ex_stdin = [], ex_stdin_eof = False \<rparr>"
  obtain r x where l: "exec_loop R sid c pid ts ?x = (r, x)" by fastforce
  from exec_loop_ongoing [OF _ l] assms(1) have o: "ongoing sid s (ex_s x)" by simp
  from assms(2) l o show ?thesis
    by (auto simp: pump_exec_session_def split: option.splits
        intro: ongoing_completed finish_exec_completed ongoing_left)
qed

lemma drive_exec_frames:
  assumes l: "is_left s = None" and d: "drive_exec R sid sandbox c start room fs ts s = (fin, s')"
  shows "if fin then completed sid s s' else ongoing sid s s'"
proof -
  obtain v s1 where w: "with_rt (rt_start_exec R c start) s = (v, s1)" by fastforce
  note o1 = with_rt_ongoing [OF l w, of sid]
  note l1 = ongoing_left [OF o1]
  show ?thesis
  proof (cases v)
    case (Inl e)
    with d w l1 o1 show ?thesis
      by (auto simp: drive_exec_def intro: ongoing_completed send_error_completed)
  next
    case (Inr h)
    let ?s2 = "s1\<lparr>is_registry := xr_insert \<lparr> xr_stream_id = sid, xr_sandbox_id = sandbox, xr_container_id = c,
      xr_exec_id = eh_exec_id h, xr_in_container_pid = eh_in_container_pid h \<rparr> (is_registry s1)\<rparr>"
    obtain b s3 where e: "emit sid (Started (eh_exec_id h) (eh_in_container_pid h)) ?s2 = (b, s3)" by fastforce
    have "ongoing sid s1 ?s2" using l1 by (auto intro: same_frames_ongoing)
    with emit_ongoing [OF _ _ e] l1 o1 have o3: "b" "ongoing sid s s3"
      by (auto intro: ongoing_trans)
    with d w Inr e have "pump_exec_session R sid c (eh_in_container_pid h) room fs ts s3 = (fin, s')"
      by (simp add: drive_exec_def Let_def)
    from pump_exec_frames [OF ongoing_left [OF o3(2)] this] o3(2) show ?thesis
      by (auto intro: ongoing_completed ongoing_trans split: if_splits)
  qed
qed


section \<open>Properties\<close>

definition fresh_sess :: "'rt \<Rightarrow> 'rt io_sess" where
  "fresh_sess rt = \<lparr> is_rt = rt, is_registry = [], is_out = [], is_left = None \<rparr>"

definition session_start_frame :: "string \<Rightarrow> IoParams \<Rightarrow> AgentError + IoClientFrame" where
  "session_start_frame sid p = Inr \<lparr> cf_stream_id = sid, cf_payload = Some (CStart \<lparr> st_sandbox_id = [], st_params = Some p \<rparr>) \<rparr>"

definition client_frame :: "string \<Rightarrow> IoClientPayload \<Rightarrow> AgentError + IoClientFrame" where
  "client_frame sid p = Inr \<lparr> cf_stream_id = sid, cf_payload = Some p \<rparr>"

text \<open>C29. One terminal frame. While the proxy listens, a session that has received anything and has ended
  has answered, under its own stream, with non-terminal frames followed by exactly one terminal
  frame (an exit or an error), whatever the client sends, the runtime answers, and the order in which
  the tasks of an exec session run; a session still running has sent no terminal frame.\<close>

theorem session_one_terminal_frame:
  assumes "is_left s = None" and "frames \<noteq> []"
    and "drive_io_session R E sid sandbox c frames s = (fin, s')"
  shows "if fin then completed sid s s' else ongoing sid s s'"
proof -
  note fins = drive_read_file_completed drive_list_dir_completed drive_delete_file_completed
    drive_wait_port_completed drive_write_file_completed drive_write_files_targz_completed
  have params: "if fin then completed sid s s' else ongoing sid s s'"
    if "drive_params R E sid sandbox c params fs s = (fin, s')" for params fs
    using that assms(1) by (cases params) (auto simp: drive_params_def fins dest: drive_exec_frames [rotated])
  show ?thesis
    using assms params send_error_completed [OF assms(1)]
    by (auto simp: drive_io_session_def split: list.splits sum.splits option.splits IoClientPayload.splits)
qed

theorem session_one_terminal_frame_witness:
  "\<exists>s'. drive_io_session (mock_runtime rfc4122) \<lparr> ie_elapsed = 0, ie_room = None, ie_ticks = [TDemux, TOut KStdout [104, 105], TClose] \<rparr>
      ''io-1'' (SandboxId 7) (ContainerId ''c'') [session_start_frame ''io-1'' (Exec [''cat''] [] []), client_frame ''io-1'' (CClose False)]
      (fresh_sess mock_new) = (True, s') \<and> completed ''io-1'' (fresh_sess mock_new) s'"
proof -
  let ?E = "\<lparr> ie_elapsed = 0, ie_room = None, ie_ticks = [TDemux, TOut KStdout [104, 105], TClose] \<rparr>"
  let ?f = "[session_start_frame ''io-1'' (Exec [''cat''] [] []), client_frame ''io-1'' (CClose False)]"
  obtain b s' where run: "drive_io_session (mock_runtime rfc4122) ?E ''io-1'' (SandboxId 7) (ContainerId ''c'') ?f
      (fresh_sess mock_new) = (b, s')" by fastforce
  then have "b"
    by (auto simp: drive_io_session_def session_start_frame_def client_frame_def drive_params_def drive_exec_def with_rt_def
        mock_runtime_def mock_start_exec_def fresh_sess_def emit_def Let_def pump_exec_session_def exec_tick_def demux_tick_def)
  with session_one_terminal_frame [OF _ _ run] run show ?thesis
    by (auto simp: fresh_sess_def)
qed

subsection \<open>A client that goes away ends its exec session\<close>

lemma demux_ends: "\<exists>as. client_frames_demux so room fs = as @ [ToClose] \<and> length as \<le> length fs"
proof (induction fs arbitrary: so room)
  case (Cons x fs)
  have wrap: "\<exists>as. a # xs = as @ [ToClose] \<and> length as \<le> Suc (length fs)"
    if "\<exists>as. xs = as @ [ToClose] \<and> length as \<le> length fs" for a xs
    using that by (metis append_Cons length_Cons Suc_le_mono)
  have keep: "\<exists>as. client_frames_demux so room fs = as @ [ToClose] \<and> length as \<le> Suc (length fs)"
    using Cons.IH [of so room] by (meson le_SucI)
  show ?case
  proof (cases x)
    case (Inr f)
    with Cons.IH wrap keep show ?thesis
      by (auto split: option.split IoClientPayload.split nat.split)
  qed simp
qed simp

text \<open>The close is either delivered to the control loop or still ahead in the demultiplexer.\<close>

definition close_ahead :: "nat \<Rightarrow> 'rt exec_st \<Rightarrow> bool" where
  "close_ahead n x \<longleftrightarrow> length (ex_signals x) \<le> SIGNAL_CHANNEL \<and> length (ex_acts x) \<le> n \<and>
     (ex_close x \<or> (\<exists>as. ex_acts x = as @ [ToClose]))"

lemma close_ahead_s [simp]: "close_ahead n (x\<lparr>ex_s := s\<rparr>) = close_ahead n x"
  by (simp add: close_ahead_def)

lemma demux_tick_close_ahead: "close_ahead n x \<Longrightarrow> close_ahead n (demux_tick x)"
  by (auto simp: close_ahead_def demux_tick_def Cons_eq_append_conv split: list.splits demux_action.splits)

lemma signal_tick_close_ahead: "close_ahead n x \<Longrightarrow> close_ahead n (signal_tick R c pid x)"
  by (auto simp: close_ahead_def signal_tick_def Let_def split: list.splits sum.splits)

lemma exec_tick_close_ahead: "close_ahead n x \<Longrightarrow> exec_tick R sid c pid t x = (None, x') \<Longrightarrow> close_ahead n x'"
  by (cases t) (auto simp: exec_tick_def demux_tick_close_ahead signal_tick_close_ahead split: if_splits)

lemma signal_tick_room: "close_ahead n x \<Longrightarrow> length (ex_signals (signal_tick R c pid x)) < SIGNAL_CHANNEL \<and>
    ex_acts (signal_tick R c pid x) = ex_acts x"
  by (auto simp: close_ahead_def signal_tick_def Let_def SIGNAL_CHANNEL_def split: list.splits sum.splits)

lemma demux_tick_progress:
  "close_ahead (Suc n) x \<Longrightarrow> length (ex_signals x) < SIGNAL_CHANNEL \<Longrightarrow> close_ahead n (demux_tick x)"
  by (auto simp: close_ahead_def demux_tick_def Cons_eq_append_conv split: list.splits demux_action.splits)

definition fair_round :: "exec_event list" where
  "fair_round = [TSignal, TDemux, TClose]"

lemma fair_rounds_end:
  "close_ahead n x \<Longrightarrow> fst (exec_loop R sid c pid (concat (replicate (Suc n) fair_round) @ ts) x) \<noteq> None"
proof (induction n arbitrary: x)
  case 0
  let ?y = "demux_tick (signal_tick R c pid x)"
  have "close_ahead 0 ?y"
    using 0 by (simp add: demux_tick_close_ahead signal_tick_close_ahead)
  then have "ex_close ?y" by (auto simp: close_ahead_def)
  then show ?case by (simp add: fair_round_def exec_tick_def)
next
  case (Suc n)
  let ?y = "demux_tick (signal_tick R c pid x)"
  have "close_ahead n ?y"
    using Suc.prems signal_tick_room [OF Suc.prems] by (simp add: demux_tick_progress signal_tick_close_ahead)
  from Suc.IH [OF this] show ?case
    by (simp add: fair_round_def exec_tick_def)
qed

lemma exec_loop_prefix:
  "close_ahead n x \<Longrightarrow> fst (exec_loop R sid c pid (pre @ concat (replicate (Suc n) fair_round) @ ts) x) \<noteq> None"
proof (induction pre arbitrary: x)
  case (Cons t pre)
  obtain r x' where t: "exec_tick R sid c pid t x = (r, x')" by fastforce
  show ?case
  proof (cases r)
    case None
    with Cons.IH exec_tick_close_ahead [OF Cons.prems] t show ?thesis by simp
  qed (use t in simp)
qed (simp add: fair_rounds_end del: replicate_Suc)



subsection \<open>Signals\<close>

text \<open>
  \<open>traced R\<close> is the runtime \<open>R\<close> with a log of the signals it was asked to deliver; it answers
  as \<open>R\<close> does.
\<close>

type_synonym signal_log = "(ContainerId \<times> i32 \<times> i32) list"

definition lift_log :: "('rt, AgentError, 'a) op \<Rightarrow> ('rt \<times> signal_log, AgentError, 'a) op" where
  "lift_log f sl = (case f (fst sl) of (r, s') \<Rightarrow> (r, (s', snd sl)))"

definition traced :: "'rt ContainerRuntime \<Rightarrow> ('rt \<times> signal_log) ContainerRuntime" where
  "traced R = \<lparr>
     rt_create_within = (\<lambda>d cfg sl. case rt_create_within R d cfg (fst sl) of (r, s') \<Rightarrow> (r, (s', snd sl))),
     rt_stop_and_remove = (\<lambda>c d. lift_log (rt_stop_and_remove R c d)),
     rt_pause = (\<lambda>c. lift_log (rt_pause R c)),
     rt_unpause = (\<lambda>c. lift_log (rt_unpause R c)),
     rt_list = lift_log (rt_list R),
     rt_start_exec = (\<lambda>c e. lift_log (rt_start_exec R c e)),
     rt_signal_exec = (\<lambda>c pid g sl. case rt_signal_exec R c pid g (fst sl) of
        (r, s') \<Rightarrow> (r, (s', snd sl @ [(c, pid, g)]))),
     rt_read_file = (\<lambda>c p d. lift_log (rt_read_file R c p d)),
     rt_write_file = (\<lambda>c p d b. lift_log (rt_write_file R c p d b)),
     rt_write_files_targz = (\<lambda>c d b. lift_log (rt_write_files_targz R c d b)),
     rt_list_dir = (\<lambda>c p d. lift_log (rt_list_dir R c p d)),
     rt_stat_revision = (\<lambda>c p d. lift_log (rt_stat_revision R c p d)),
     rt_delete_file = (\<lambda>c p d rc. lift_log (rt_delete_file R c p d rc)),
     rt_wait_port_listening = (\<lambda>c p d. lift_log (rt_wait_port_listening R c p d)) \<rparr>"

definition valid_signal :: "i32 \<Rightarrow> bool" where
  "valid_signal g \<longleftrightarrow> (1 \<le> g \<and> g \<le> 31) \<or> (34 \<le> g \<and> g \<le> 64)"

lemma Signum_valid: "Signum_try_from v = Inr g \<Longrightarrow> valid_signal (Signum_as_i32 g)"
proof -
  assume v: "Signum_try_from v = Inr g"
  then have u: "unat (Signum_as_u8 g) = unat v"
    using Signum_try_from_ok by blast
  have "1 \<le> unat v \<and> unat v \<le> 31 \<or> 34 \<le> unat v \<and> unat v \<le> 64"
    using v by (auto simp: Signum_try_from_def word_le_nat_alt split: if_splits)
  then show ?thesis
    unfolding valid_signal_def Signum_as_i32_def uint_nat u by linarith
qed

lemma traced_signal: "snd (snd (rt_signal_exec (traced R) c pid g rt)) = snd rt @ [(c, pid, g)]"
  by (simp add: traced_def split: prod.splits)

definition session_log :: "('rt \<times> signal_log) io_sess \<Rightarrow> signal_log" where
  "session_log s = snd (is_rt s)"

text \<open>Client signals pass the gate and go to the session's own process.\<close>

definition relayed :: "ContainerId \<Rightarrow> i32 \<Rightarrow> ('rt \<times> signal_log) io_sess \<Rightarrow> ('rt \<times> signal_log) io_sess \<Rightarrow> bool" where
  "relayed c pid s s' \<longleftrightarrow> is_registry s' = is_registry s \<and>
     (\<exists>gs. session_log s' = session_log s @ map (\<lambda>g. (c, pid, g)) gs \<and> (\<forall>g\<in>set gs. valid_signal g))"

lemma relayed_same: "is_rt s' = is_rt s \<Longrightarrow> is_registry s' = is_registry s \<Longrightarrow> relayed c pid s s'"
  by (auto simp: relayed_def session_log_def)

lemma relayed_trans: "relayed c pid s s1 \<Longrightarrow> relayed c pid s1 s2 \<Longrightarrow> relayed c pid s s2"
  by (fastforce simp: relayed_def simp flip: map_append)

lemma emit_rt [simp]: "is_rt (snd (emit sid p s)) = is_rt s" "is_registry (snd (emit sid p s)) = is_registry s"
  by (simp_all add: emit_def Let_def split: option.splits nat.splits)

lemma emit_rt_eq: "emit sid p s = (b, s') \<Longrightarrow> is_rt s' = is_rt s \<and> is_registry s' = is_registry s"
  using emit_rt [of sid p s] by simp

lemma signal_tick_relayed: "relayed c pid (ex_s x) (ex_s (signal_tick (traced R) c pid x))"
proof -
  have "relayed c pid s (snd (with_rt (rt_signal_exec (traced R) c pid g) s))" if "valid_signal g" for s g
    using traced_signal [of R c pid g "is_rt s"] that
    by (auto simp: relayed_def session_log_def with_rt_def split: prod.splits intro!: exI [of _ "[g]"])
  then show ?thesis
    by (auto simp: signal_tick_def Let_def relayed_same Signum_valid split: list.splits sum.splits)
qed

lemma exec_loop_relayed:
  "exec_loop (traced R) sid c pid ts x = (r, x') \<Longrightarrow> relayed c pid (ex_s x) (ex_s x')"
proof (induction ts arbitrary: x)
  case (Cons t ts)
  obtain r1 x1 where t: "exec_tick (traced R) sid c pid t x = (r1, x1)" by fastforce
  then have "relayed c pid (ex_s x) (ex_s x1)"
    using signal_tick_relayed [of c pid x R]
    by (cases t) (auto simp: exec_tick_def output_pump_def relayed_same)
  with Cons.IH [of x1] Cons.prems t show ?case
    by (cases r1) (auto intro: relayed_trans)
qed (simp add: relayed_same)

lemma cleanup_kills:
  assumes "tbl_get (is_registry s) sid = Some r" "xr_container_id r = c" "xr_in_container_pid r = pid"
  shows "session_log (cleanup (traced R) sid s) = session_log s @ [(c, pid, 15), (c, pid, 9)] \<and>
    is_registry (cleanup (traced R) sid s) = tbl_del sid (is_registry s)"
  using assms by (simp add: cleanup_def on_stream_closed_def xr_remove_def session_log_def traced_def split: prod.splits)

definition ends_killed :: "('rt \<times> signal_log) io_sess \<Rightarrow> bool" where
  "ends_killed s \<longleftrightarrow> (case sf_payload (last (is_out s)) of Some (Exited _ _) \<Rightarrow> False | _ \<Rightarrow> True)"

lemma finish_exec_signals:
  assumes r: "tbl_get (is_registry s) sid = Some r" "xr_container_id r = c" "xr_in_container_pid r = pid"
    and l: "is_left s = None" and f: "finish_exec (traced R) sid oc ts s = s'"
  shows "session_log s' = session_log s @ (if ends_killed s' then [(c, pid, 15), (c, pid, 9)] else []) \<and>
    is_registry s' = tbl_del sid (is_registry s)"
proof (cases oc)
  case (ProcessExited info)
  have "is_left (drain_output sid ts s) = None"
    using ongoing_left [OF drain_output_ongoing [OF l]] .
  with ProcessExited f show ?thesis
    by (auto simp: finish_exec_def Let_def session_log_def xr_remove_def ends_killed_def emit_def)
next
  case ExitLost
  with f cleanup_kills [of "send_error sid ''RUNTIME_ERROR'' ''runtime exited without sending exit info'' s" sid r c pid R] r l
  show ?thesis
    by (auto simp: finish_exec_def send_error_def session_log_def ends_killed_def emit_def)
next
  case ClientClosed
  with f cleanup_kills [of "send_error sid ''CANCELLED'' ''client-initiated close'' s" sid r c pid R] r l
  show ?thesis
    by (auto simp: finish_exec_def send_error_def session_log_def ends_killed_def emit_def)
qed

text \<open>C31. Signals of an exec session. While the proxy listens, every signal a session asks the runtime to
  deliver goes to the session's own process: first the client's, each a valid signal number (1-31 or
  34-64, never 0), then, exactly when the session ends other than by the process's exit, \<open>SIGTERM\<close>
  followed by \<open>SIGKILL\<close>. When the session has ended its record is gone from the registry, and the
  records of other sessions are never touched.\<close>

theorem exec_signals_scoped:
  assumes "is_left s = None" and "rt_start_exec R c start (fst (is_rt s)) = (Inr h, rt')"
    and "drive_exec (traced R) sid sandbox c start room fs ts s = (fin, s')"
  shows "\<exists>gs. (\<forall>g\<in>set gs. valid_signal g) \<and>
    session_log s' = session_log s @ map (\<lambda>g. (c, eh_in_container_pid h, g)) gs @
      (if fin \<and> ends_killed s' then [(c, eh_in_container_pid h, 15), (c, eh_in_container_pid h, 9)] else []) \<and>
    (\<forall>k. tbl_get (is_registry s') k = (if k = sid then (if fin then None else tbl_get (is_registry s') sid)
       else tbl_get (is_registry s) k))"
proof -
  let ?pid = "eh_in_container_pid h"
  let ?rec = "\<lparr> xr_stream_id = sid, xr_sandbox_id = sandbox, xr_container_id = c,
      xr_exec_id = eh_exec_id h, xr_in_container_pid = ?pid \<rparr>"
  let ?s2 = "s\<lparr>is_rt := (rt', snd (is_rt s)), is_registry := xr_insert ?rec (is_registry s)\<rparr>"
  have start: "with_rt (rt_start_exec (traced R) c start) s = (Inr h, s\<lparr>is_rt := (rt', snd (is_rt s))\<rparr>)"
    using assms(2) by (simp add: with_rt_def traced_def lift_log_def)
  obtain b s3 where e: "emit sid (Started (eh_exec_id h) ?pid) ?s2 = (b, s3)" by fastforce
  with assms(1) have b: "b" and o3: "is_left s3 = None"
    using emit_ongoing [OF _ _ e] ongoing_left by auto
  note e' = emit_rt_eq [OF e]
  let ?x = "\<lparr> ex_s = s3, ex_acts = client_frames_demux True room fs, ex_signals = [], ex_close = False,
    ex_stdin = [], ex_stdin_eof = False \<rparr>"
  obtain oc x where l: "exec_loop (traced R) sid c ?pid ts ?x = (oc, x)" by fastforce
  from exec_loop_relayed [OF l] obtain gs where reg: "is_registry (ex_s x) = is_registry s3"
    and gs: "session_log (ex_s x) = session_log s3 @ map (\<lambda>g. (c, ?pid, g)) gs" "\<forall>g\<in>set gs. valid_signal g"
    by (auto simp: relayed_def)
  have get: "tbl_get (is_registry (ex_s x)) sid = Some ?rec"
    using e' reg by (simp add: xr_insert_def table_simps)
  have left: "is_left (ex_s x) = None"
    using exec_loop_ongoing [OF _ l] o3 ongoing_left by simp blast
  have log3: "session_log s3 = session_log s" using e' by (simp add: session_log_def)
  show ?thesis
  proof (cases oc)
    case None
    with assms(3) start e b l have "\<not> fin" "s' = ex_s x"
      by (simp_all add: drive_exec_def Let_def pump_exec_session_def)
    with gs log3 reg e' show ?thesis
      by (intro exI [of _ gs]) (auto simp: xr_insert_def table_simps)
  next
    case (Some rt)
    then obtain oc' ts' where Some': "oc = Some (oc', ts')" by (cases rt) simp
    with assms(3) start e b l have "fin" "finish_exec (traced R) sid oc' ts' (ex_s x) = s'"
      by (simp_all add: drive_exec_def Let_def pump_exec_session_def)
    with finish_exec_signals [OF get _ _ left this(2), of c ?pid] gs log3 reg e' show ?thesis
      by (intro exI [of _ gs]) (auto simp: xr_insert_def table_simps)
  qed
qed


definition demo_start :: ExecStart where
  "demo_start = \<lparr> es_command = [''sleep'', ''60''], es_cwd = [], es_env = [] \<rparr>"

definition demo_frames :: client_frames where
  "demo_frames = [client_frame ''io-1'' (CSignal 2), client_frame ''io-1'' (CSignal 0), client_frame ''io-1'' (CClose False)]"

definition demo_run :: "bool \<times> (mock_state \<times> signal_log) io_sess" where
  "demo_run = drive_exec (traced (mock_runtime rfc4122)) ''io-1'' (SandboxId 7) (ContainerId ''c'') demo_start None demo_frames
     [TDemux, TDemux, TSignal, TSignal, TDemux, TClose] (fresh_sess (mock_new, []))"

lemmas demo_run_eval = demo_run_def drive_exec_def with_rt_def mock_runtime_def traced_def lift_log_def
  mock_start_exec_def fresh_sess_def emit_def Let_def pump_exec_session_def exec_tick_def demux_tick_def
  demo_frames_def client_frame_def signal_tick_def Signum_try_from_def mock_signal_exec_def Signum_as_i32_def
  mock_new_def SIGNAL_CHANNEL_def finish_exec_def send_error_def cleanup_def on_stream_closed_def xr_remove_def
  xr_insert_def table_simps

theorem exec_signals_scoped_witness:
  "fst demo_run \<and> (\<exists>gs. (\<forall>g\<in>set gs. valid_signal g) \<and>
     session_log (snd demo_run) = map (\<lambda>g. (ContainerId ''c'', 1000, g)) gs @
       (if ends_killed (snd demo_run) then [(ContainerId ''c'', 1000, 15), (ContainerId ''c'', 1000, 9)] else []))"
proof -
  let ?s = "fresh_sess (mock_new, [])"
  have l: "is_left ?s = None" by (simp add: fresh_sess_def)
  have st: "rt_start_exec (mock_runtime rfc4122) (ContainerId ''c'') demo_start (fst (is_rt ?s)) =
      (Inr \<lparr> eh_exec_id = ''mock-exec-'' @ show_int 1000, eh_in_container_pid = 1000 \<rparr>, mock_new\<lparr>mk_next_pid := 1001\<rparr>)"
    by (simp add: mock_runtime_def mock_start_exec_def fresh_sess_def mock_new_def)
  obtain b s' where r: "demo_run = (b, s')" by fastforce
  then have b: "b" by (auto simp: demo_run_eval)
  from exec_signals_scoped [OF l st r [unfolded demo_run_def]] show ?thesis
    by (auto simp: r b fresh_sess_def session_log_def)
qed

subsection \<open>Files\<close>

text \<open>The bytes a sequence of payloads carries on standard output.\<close>

fun stdout_bytes :: "IoServerPayload list \<Rightarrow> bytes" where
  "stdout_bytes [] = []"
| "stdout_bytes (Stdout b # ps) = b @ stdout_bytes ps"
| "stdout_bytes (_ # ps) = stdout_bytes ps"

lemma stdout_bytes_append [simp]: "stdout_bytes (ps @ qs) = stdout_bytes ps @ stdout_bytes qs"
  by (induction ps rule: stdout_bytes.induct) simp_all

lemma stdout_bytes_chunks [simp]: "stdout_bytes (map Stdout bs) = concat bs"
  by (induction bs) simp_all

lemma emit_file_meta_emits: "is_left s = None \<Longrightarrow> emit_file_meta R sid c path cwd s = (b, s') \<Longrightarrow>
    b \<and> (\<exists>ps. emits sid s s' ps \<and> stdout_bytes ps = [])"
proof -
  assume l: "is_left s = None" and m: "emit_file_meta R sid c path cwd s = (b, s')"
  obtain r s1 where w: "with_rt (rt_stat_revision R c path cwd) s = (r, s1)" by fastforce
  note w' = with_rt_frames [OF w]
  show ?thesis
  proof (cases r)
    case (Inl e)
    with m w w' l show ?thesis
      by (auto simp: emit_file_meta_def emits_def intro!: exI [of _ "[]"])
  next
    case (Inr v)
    with m w have e: "emit sid (FileMeta (fr_revision v) (fr_size v)) s1 = (b, s')"
      by (simp add: emit_file_meta_def)
    with emit_True [OF _ e] w' l show ?thesis
      by (auto simp: emits_def intro!: exI [of _ "[FileMeta (fr_revision v) (fr_size v)]"])
  qed
qed

lemma READ_FILE_CHUNK_pos: "0 < READ_FILE_CHUNK_BYTES"
  by (simp add: READ_FILE_CHUNK_BYTES_def)

lemma read_session_bytes:
  assumes l: "is_left s = None" and r: "fst (rt_read_file R c path (cwd_opt cwd) (is_rt s)) = Inr content"
  shows "\<exists>ps. emits sid s (drive_read_file R sid c path cwd s) (ps @ [Exited 0 False]) \<and> stdout_bytes ps = content"
proof -
  obtain v s1 where w: "with_rt (rt_read_file R c path (cwd_opt cwd)) s = (v, s1)" by fastforce
  with r have v: "v = Inr content" by (auto simp: with_rt_def split: prod.splits)
  note w' = with_rt_frames [OF w]
  obtain b2 s2 where m: "emit_file_meta R sid c path (cwd_opt cwd) s1 = (b2, s2)" by fastforce
  from emit_file_meta_emits [OF _ m] w' l obtain ps where ps: "b2" "emits sid s1 s2 ps" "stdout_bytes ps = []" by auto
  obtain b3 s3 where k: "emit_chunks sid (chunks READ_FILE_CHUNK_BYTES content) s2 = (b3, s3)" by fastforce
  from ps have l2: "is_left s2 = None" by (simp add: emits_def)
  note k' = emit_chunks_emits [OF l2 k]
  then have l3: "is_left s3 = None" by (simp add: emits_def)
  have run: "drive_read_file R sid c path cwd s = send_exited sid s3"
    using w v m ps(1) k k' by (simp add: drive_read_file_def)
  have "emits sid s s1 []" using w' l by (simp add: emits_def)
  from emits_trans [OF this emits_trans [OF ps(2) emits_trans [OF conjunct2 [OF k'] conjunct2 [OF emit_emits [OF l3]]]]]
  show ?thesis
    using ps(3) concat_chunks [OF READ_FILE_CHUNK_pos, of content]
    by (intro exI [of _ "ps @ map Stdout (chunks READ_FILE_CHUNK_BYTES content)"])
      (simp add: run send_exited_def)
qed

text \<open>How an upload's frames may end: by a close of either kind, a frame error, an empty frame, or the
  end of the client's stream.\<close>

definition upload_end :: "client_frames \<Rightarrow> bool" where
  "upload_end fs \<longleftrightarrow> (case fs of [] \<Rightarrow> True | Inl _ # _ \<Rightarrow> True
     | Inr f # _ \<Rightarrow> (case cf_payload f of None \<Rightarrow> True | Some (CClose _) \<Rightarrow> True | _ \<Rightarrow> False))"

lemma collect_upload_all:
  "upload_end fs \<Longrightarrow> length content + length (concat bs) \<le> MAX_WRITE_BYTES \<Longrightarrow>
   fst (collect_upload op content (map (\<lambda>b. client_frame sid (CStdin b)) bs @ fs)) = Upload (content @ concat bs)"
proof (induction bs arbitrary: content)
  case Nil
  then show ?case
    by (auto simp: upload_end_def split: list.splits sum.splits option.splits IoClientPayload.splits)
next
  case (Cons b bs)
  then show ?case
    by (simp add: client_frame_def not_less add.assoc)
qed

lemma collect_upload_cap: "length content \<le> MAX_WRITE_BYTES \<Longrightarrow>
    collect_upload op content fs = (Upload b, rest) \<Longrightarrow> length b \<le> MAX_WRITE_BYTES"
  by (induction op content fs rule: collect_upload.induct)
    (auto split: option.splits IoClientPayload.splits if_splits)

lemma collect_upload_refused_drains: "collect_upload op content fs = (Refused code d, rest) \<Longrightarrow> rest = []"
  by (induction op content fs rule: collect_upload.induct)
    (auto simp: drain_remaining_client_frames_def split: option.splits IoClientPayload.splits if_splits)

context file_runtime
begin

lemma meta_keeps_rt: "emit_file_meta R sid c path cwd s = (b, s') \<Longrightarrow> is_rt s' = is_rt s"
  by (auto simp: emit_file_meta_def with_rt_def split: prod.splits sum.splits dest!: stat_eq emit_rt_eq)

lemma check_keeps_rt: "check_revision R c path cwd expected force s = (r, s') \<Longrightarrow> is_rt s' = is_rt s \<and> is_left s' = is_left s"
  by (auto simp: check_revision_def with_rt_def split: prod.splits sum.splits option.splits if_splits dest!: stat_eq)

lemma written_state:
  assumes "is_left s = None" and "rt_write_file R c path (cwd_opt cwd) content (is_rt s) = (Inr (), rt')"
    and "fst (collect_upload ''write_file'' [] fs) = Upload content"
    and "drive_write_file R sid c path cwd [] force fs s = (rest, s')"
  shows "is_rt s' = rt' \<and> is_left s' = None"
proof -
  obtain rest' where u: "collect_upload ''write_file'' [] fs = (Upload content, rest')"
    using assms(3) by (cases "collect_upload ''write_file'' [] fs") simp
  let ?s2 = "s\<lparr>is_rt := rt'\<rparr>"
  obtain b s3 where m: "emit_file_meta R sid c path (cwd_opt cwd) ?s2 = (b, s3)" by fastforce
  from emit_file_meta_ongoing [OF _ m] assms(1) have b: "b" and o: "is_left s3 = None"
    by (auto dest: ongoing_left)
  have "s' = send_exited sid s3"
    using assms(2,4) u m b by (simp add: drive_write_file_def check_revision_def with_rt_def)
  with meta_keeps_rt [OF m] o show ?thesis
    using completed_left [OF send_exited_completed [OF o]] by (simp add: send_exited_def)
qed

lemma upload_then_read:
  assumes "is_left s = None" and "rt_write_file R c path (cwd_opt cwd) content (is_rt s) = (Inr (), rt')"
    and "fst (collect_upload ''write_file'' [] fs) = Upload content"
    and "drive_write_file R sid c path cwd [] force fs s = (rest, s')"
  shows "\<exists>ps. emits rsid s' (drive_read_file R rsid c path cwd s') (ps @ [Exited 0 False]) \<and> stdout_bytes ps = content"
proof -
  note w = written_state [OF assms]
  show ?thesis
    using w read_written [OF assms(2)] by (intro read_session_bytes) simp_all
qed

lemma refused_write:
  assumes l: "is_left s = None" and d: "drive_write_file R sid c path cwd expected force fs s = (rest, s')"
    and w: "(expected \<noteq> [] \<and> \<not> force \<and>
         (\<forall>v. fst (rt_stat_revision R c path (cwd_opt cwd) (is_rt s)) = Inr v \<longrightarrow> fr_revision v \<noteq> expected)) \<or>
       (\<exists>code det. fst (collect_upload ''write_file'' [] fs) = Refused code det)"
  shows "is_rt s' = is_rt s \<and> rest = [] \<and> (\<exists>code det. emits sid s s' [IoError code det])"
proof -
  obtain r s1 where k: "check_revision R c path (cwd_opt cwd) expected force s = (r, s1)" by fastforce
  note k' = check_keeps_rt [OF k]
  have out: "is_out s1 = is_out s"
    using k by (auto simp: check_revision_def with_rt_def split: prod.splits sum.splits option.splits if_splits)
  have err: "emits sid s (send_error sid code det s1) [IoError code det]" for code det
    using emit_emits [of s1 sid "IoError code det"] k' l out by (simp add: send_error_def emits_def)
  show ?thesis
  proof (cases r)
    case (Some cd)
    with d k err k' show ?thesis
      by (cases cd) (auto simp: drive_write_file_def drain_remaining_client_frames_def send_error_def)
  next
    case None
    with k w have "\<exists>code det. fst (collect_upload ''write_file'' [] fs) = Refused code det"
      by (auto simp: check_revision_def with_rt_def split: prod.splits sum.splits option.splits if_splits)
    then obtain code det rest' where u: "collect_upload ''write_file'' [] fs = (Refused code det, rest')"
      by (metis prod.collapse)
    with d k None err k' collect_upload_refused_drains [OF u] show ?thesis
      by (auto simp: drive_write_file_def send_error_def)
  qed
qed

end

text \<open>An uploaded file reads back. With any runtime that keeps the trait's file laws, when the
  client's chunks, at most 256 MiB in all, are followed by the end of the upload and the runtime
  accepts the write, a read session that follows delivers exactly the concatenation of the chunks and
  then a clean exit. The end of the upload may be a close of either kind, an unreadable frame or
  the loss of the client: all of them commit what has arrived.\<close>

lemma upload_reads_back:
  assumes "file_runtime R" and "is_left s = None" and "length (concat bs) \<le> MAX_WRITE_BYTES" and "upload_end fs"
    and "rt_write_file R c path (cwd_opt cwd) (concat bs) (is_rt s) = (Inr (), rt')"
    and "drive_write_file R sid c path cwd [] force (map (\<lambda>b. client_frame sid (CStdin b)) bs @ fs) s = (rest, s')"
  shows "\<exists>ps. emits rsid s' (drive_read_file R rsid c path cwd s') (ps @ [Exited 0 False]) \<and> stdout_bytes ps = concat bs"
  using file_runtime.upload_then_read [OF assms(1,2,5) _ assms(6)] collect_upload_all [OF assms(4), of "[]" bs] assms(3)
  by simp

lemma upload_reads_back_witness:
  "\<exists>rest s'. drive_write_file (mock_runtime rfc4122) ''io-1'' (ContainerId ''c'') ''a.txt'' ''/w'' [] False
      (map (\<lambda>b. client_frame ''io-1'' (CStdin b)) [[1, 2], [3]] @ []) (fresh_sess mock_new) = (rest, s') \<and>
    (\<exists>ps. emits ''io-2'' s' (drive_read_file (mock_runtime rfc4122) ''io-2'' (ContainerId ''c'') ''a.txt'' ''/w'' s')
       (ps @ [Exited 0 False]) \<and> stdout_bytes ps = [1, 2, 3])"
proof -
  obtain rest s' where run: "drive_write_file (mock_runtime rfc4122) ''io-1'' (ContainerId ''c'') ''a.txt'' ''/w'' [] False
      (map (\<lambda>b. client_frame ''io-1'' (CStdin b)) [[1, 2], [3]] @ []) (fresh_sess mock_new) = (rest, s')"
    by fastforce
  obtain rt' where w: "rt_write_file (mock_runtime rfc4122) (ContainerId ''c'') ''a.txt'' (cwd_opt ''/w'')
      (concat [[1, 2], [3]]) (is_rt (fresh_sess mock_new)) = (Inr (), rt')"
    by (simp add: mock_runtime_def mock_write_file_def Let_def)
  have "file_runtime (mock_runtime rfc4122)"
    by (rule mockrt.file_runtime_axioms)
  from upload_reads_back [OF this _ _ _ w run, of "''io-2''"] run show ?thesis
    by (simp add: fresh_sess_def MAX_WRITE_BYTES_def upload_end_def)
qed

text \<open>A refused write changes nothing. With any runtime that keeps the trait's file laws, a write whose
  expected revision is not the file's current one (and is not forced), or whose upload exceeds the
  256 MiB cap or contains a frame that has no place in an upload, leaves the runtime as it was,
  answers with exactly one error, and consumes the client's remaining frames.\<close>

lemma refused_write_changes_nothing:
  assumes "file_runtime R" and "is_left s = None"
    and "drive_write_file R sid c path cwd expected force fs s = (rest, s')"
    and "(expected \<noteq> [] \<and> \<not> force \<and>
         (\<forall>v. fst (rt_stat_revision R c path (cwd_opt cwd) (is_rt s)) = Inr v \<longrightarrow> fr_revision v \<noteq> expected)) \<or>
       (\<exists>code det. fst (collect_upload ''write_file'' [] fs) = Refused code det)"
  shows "is_rt s' = is_rt s \<and> rest = [] \<and> (\<exists>code det. emits sid s s' [IoError code det])"
  by (rule file_runtime.refused_write [OF assms])

lemma refused_write_changes_nothing_witness:
  "\<exists>rest s'. drive_write_file (mock_runtime rfc4122) ''io-1'' (ContainerId ''c'') ''a.txt'' ''/w'' ''mock:3'' False
      [client_frame ''io-1'' (CStdin [1])] (fresh_sess mock_new) = (rest, s') \<and>
    is_rt s' = mock_new \<and> rest = [] \<and> (\<exists>code det. emits ''io-1'' (fresh_sess mock_new) s' [IoError code det])"
proof -
  obtain rest s' where run: "drive_write_file (mock_runtime rfc4122) ''io-1'' (ContainerId ''c'') ''a.txt'' ''/w'' ''mock:3'' False
      [client_frame ''io-1'' (CStdin [1])] (fresh_sess mock_new) = (rest, s')"
    by fastforce
  have absent: "\<forall>v. fst (rt_stat_revision (mock_runtime rfc4122) (ContainerId ''c'') ''a.txt'' (cwd_opt ''/w'')
      (is_rt (fresh_sess mock_new))) = Inr v \<longrightarrow> fr_revision v \<noteq> ''mock:3''"
    by (simp add: mock_runtime_def mock_stat_revision_def fresh_sess_def mock_new_def Let_def)
  have "file_runtime (mock_runtime rfc4122)"
    by (rule mockrt.file_runtime_axioms)
  from refused_write_changes_nothing [OF this _ run] absent run show ?thesis
    by (simp add: fresh_sess_def)
qed

end
