(* ===== verification/Agent_Tunnel.thy ===== *)
theory Agent_Tunnel
  imports Agent_Io
begin

text \<open>
  \<open>agent/src/proxy_client.rs\<close>: the agent's end of the tunnel. It forwards HTTP requests to the
  sandbox's port, opens an I/O session for every start frame that passes its checks, and hands later
  frames to the session of their stream.

  A session is its stream, sandbox and container, the frames its channel has taken, and whether the
  driver has let go of the channel; what the driver does with the frames is \<open>drive_io_session\<close>. The
  outbound channel takes frames until its receiver is gone.
\<close>

section \<open>State\<close>

record agent_session =
  as_sandbox_id :: SandboxId
  as_container_id :: ContainerId
  as_frames :: "IoClientFrame list"
  as_driver_gone :: bool

record 'rt agent_tunnel =
  at_mgr :: "'rt SandboxManager"
  at_sessions :: "(string, agent_session) tbl"
  at_out :: "TunnelResponse list"
  at_out_gone :: bool

definition out_send :: "TunnelResponse \<Rightarrow> 'rt agent_tunnel \<Rightarrow> bool \<times> 'rt agent_tunnel" where
  "out_send r t = (if at_out_gone t then (False, t) else (True, t\<lparr>at_out := at_out t @ [r]\<rparr>))"

definition io_error_response :: "string \<Rightarrow> string \<Rightarrow> string \<Rightarrow> TunnelResponse" where
  "io_error_response sid code detail = \<lparr> tr_stream_id = sid, tr_payload = Some (TRIoServer
     \<lparr> sf_stream_id = sid, sf_payload = Some (IoError code detail) \<rparr>) \<rparr>"

section \<open>I/O frames (handle\_io\_client\_frame)\<close>

definition open_agent_session ::
    "uuid_lib \<Rightarrow> IoClientFrame \<Rightarrow> IoStart \<Rightarrow> 'rt agent_tunnel \<Rightarrow> 'rt agent_tunnel" where
  "open_agent_session U f start t =
    (let sid = cf_stream_id f in
     case uuid_parse_str U (st_sandbox_id start) of
       None \<Rightarrow> snd (out_send (io_error_response sid ''INVALID_REQUEST'' ''invalid sandbox_id'') t)
     | Some u \<Rightarrow>
         (case container_for_io U (SandboxId u) (at_mgr t) of
            Inl e \<Rightarrow> snd (out_send (io_error_response sid ''SANDBOX_NOT_FOUND'' (AgentError_to_string e)) t)
          | Inr (c, state) \<Rightarrow>
              if state = Paused
              then snd (out_send (io_error_response sid ''SANDBOX_PAUSED''
                ''sandbox is paused; resume it before opening exec or file ops'') t)
              else if tbl_get (at_sessions t) sid \<noteq> None
              then snd (out_send (io_error_response sid ''STREAM_ID_REUSED''
                ''an IoStream with this stream_id is already active'') t)
              else t\<lparr>at_sessions := tbl_put sid \<lparr> as_sandbox_id = SandboxId u, as_container_id = c,
                as_frames = [f], as_driver_gone = False \<rparr> (at_sessions t)\<rparr>))"

definition handle_io_client_frame ::
    "uuid_lib \<Rightarrow> IoClientFrame \<Rightarrow> 'rt agent_tunnel \<Rightarrow> 'rt agent_tunnel" where
  "handle_io_client_frame U f t = (case cf_payload f of
      Some (CStart start) \<Rightarrow> open_agent_session U f start t
    | _ \<Rightarrow>
        (case tbl_get (at_sessions t) (cf_stream_id f) of
           None \<Rightarrow> t
         | Some s \<Rightarrow>
             if as_driver_gone s then t
             else t\<lparr>at_sessions := tbl_put (cf_stream_id f) (s\<lparr>as_frames := as_frames s @ [f]\<rparr>) (at_sessions t)\<rparr>))"

text \<open>The per-session pump: one server frame out, and the removal of the session once they end.\<close>

definition session_out :: "string \<Rightarrow> IoServerFrame \<Rightarrow> 'rt agent_tunnel \<Rightarrow> bool \<times> 'rt agent_tunnel" where
  "session_out sid f t = out_send \<lparr> tr_stream_id = sid, tr_payload = Some (TRIoServer f) \<rparr> t"

definition session_closed :: "string \<Rightarrow> 'rt agent_tunnel \<Rightarrow> 'rt agent_tunnel" where
  "session_closed sid t = t\<lparr>at_sessions := tbl_del sid (at_sessions t)\<rparr>"

fun session_pump :: "string \<Rightarrow> IoServerFrame list \<Rightarrow> 'rt agent_tunnel \<Rightarrow> 'rt agent_tunnel" where
  "session_pump sid [] t = session_closed sid t"
| "session_pump sid (f # fs) t = (case session_out sid f t of
     (False, t') \<Rightarrow> session_closed sid t'
   | (True, t') \<Rightarrow> session_pump sid fs t')"

section \<open>The inbound loop (ProxyConnection::run)\<close>

text \<open>One message: \<open>Inl\<close> ends the whole connection.\<close>

definition agent_tunnel_msg ::
    "uuid_lib \<Rightarrow> (string \<Rightarrow> string) \<Rightarrow> (u16 \<Rightarrow> ForwardRequest \<Rightarrow> AgentError + ForwardResponse) \<Rightarrow>
     TunnelRequest \<Rightarrow> 'rt agent_tunnel \<Rightarrow> (AgentError + unit) \<times> 'rt agent_tunnel" where
  "agent_tunnel_msg U ue http_send req t = (case tq_payload req of
      None \<Rightarrow> (Inr (), t)
    | Some (TQHttpRequest hr) \<Rightarrow>
        (case uuid_parse_str U (hq_sandbox_id hr) of
           None \<Rightarrow> (Inl (AgentError.Internal (ue (hq_sandbox_id hr))), t)
         | Some u \<Rightarrow>
             (let fwd = \<lparr> fq_method = hq_method hr, fq_uri = hq_uri hr, fq_headers = hq_headers hr, fq_body = hq_body hr \<rparr>;
                  resp = (case forward U http_send (SandboxId u) fwd (at_mgr t) of
                    Inr r \<Rightarrow> \<lparr> tr_stream_id = tq_stream_id req, tr_payload = Some (TRHttpResponse
                      \<lparr> hs_status_code = fp_status_code r, hs_headers = fp_headers r, hs_body = fp_body r \<rparr>) \<rparr>
                  | Inl e \<Rightarrow> \<lparr> tr_stream_id = tq_stream_id req, tr_payload = Some (TRClose (AgentError_to_string e)) \<rparr>)
              in (Inr (), snd (out_send resp t))))
    | Some (TQData _ _) \<Rightarrow> (Inr (), t)
    | Some (TQClose _) \<Rightarrow> (Inr (), t)
    | Some (TQIoClient f) \<Rightarrow> (Inr (), handle_io_client_frame U f t))"

definition ready_message :: "uuid_lib \<Rightarrow> AgentId \<Rightarrow> TunnelResponse" where
  "ready_message U agent_id = \<lparr> tr_stream_id = [], tr_payload = Some (TRReady (AgentId_to_string U agent_id)) \<rparr>"

text \<open>The end of the connection aborts every session task.\<close>

definition tunnel_down :: "'rt agent_tunnel \<Rightarrow> 'rt agent_tunnel" where
  "tunnel_down t = t\<lparr>at_sessions := []\<rparr>"

fun agent_tunnel_loop ::
    "uuid_lib \<Rightarrow> (string \<Rightarrow> string) \<Rightarrow> (u16 \<Rightarrow> ForwardRequest \<Rightarrow> AgentError + ForwardResponse) \<Rightarrow>
     TunnelRequest list \<Rightarrow> 'rt agent_tunnel \<Rightarrow> AgentError \<times> 'rt agent_tunnel" where
  "agent_tunnel_loop U ue http_send [] t = (TunnelDisconnected, tunnel_down t)"
| "agent_tunnel_loop U ue http_send (r # rs) t = (case agent_tunnel_msg U ue http_send r t of
     (Inl e, t') \<Rightarrow> (e, tunnel_down t')
   | (Inr _, t') \<Rightarrow> agent_tunnel_loop U ue http_send rs t')"

definition proxy_connection_run ::
    "uuid_lib \<Rightarrow> (string \<Rightarrow> string) \<Rightarrow> (u16 \<Rightarrow> ForwardRequest \<Rightarrow> AgentError + ForwardResponse) \<Rightarrow> AgentId \<Rightarrow>
     TunnelRequest list \<Rightarrow> 'rt agent_tunnel \<Rightarrow> AgentError \<times> 'rt agent_tunnel" where
  "proxy_connection_run U ue http_send agent_id rs t =
    (case out_send (ready_message U agent_id) t of
       (False, t') \<Rightarrow> (TunnelDisconnected, t')
     | (True, t') \<Rightarrow> agent_tunnel_loop U ue http_send rs t')"

section \<open>Sessions are opened on live sandboxes only\<close>

text \<open>Every session's stream carries the frames of that stream only, its first is the start frame, and
  no later one is.\<close>

definition is_start_frame :: "IoClientFrame \<Rightarrow> bool" where
  "is_start_frame f \<longleftrightarrow> (case cf_payload f of Some (CStart _) \<Rightarrow> True | _ \<Rightarrow> False)"

definition session_ok :: "string \<Rightarrow> agent_session \<Rightarrow> bool" where
  "session_ok sid s \<longleftrightarrow> as_frames s \<noteq> [] \<and> is_start_frame (hd (as_frames s)) \<and>
     list_all (\<lambda>g. \<not> is_start_frame g) (tl (as_frames s)) \<and> list_all (\<lambda>g. cf_stream_id g = sid) (as_frames s)"

definition sessions_ok :: "'rt agent_tunnel \<Rightarrow> bool" where
  "sessions_ok t \<longleftrightarrow> (\<forall>sid s. tbl_get (at_sessions t) sid = Some s \<longrightarrow> session_ok sid s)"

lemma out_send_frame: "at_sessions (snd (out_send r t)) = at_sessions t" "at_mgr (snd (out_send r t)) = at_mgr t"
  by (simp_all add: out_send_def)

lemma open_agent_session_effect:
  "at_sessions (open_agent_session U f start t) = at_sessions t \<or>
   (\<exists>u c st. uuid_parse_str U (st_sandbox_id start) = Some u \<and>
      container_for_io U (SandboxId u) (at_mgr t) = Inr (c, st) \<and> st \<noteq> Paused \<and>
      tbl_get (at_sessions t) (cf_stream_id f) = None \<and>
      at_sessions (open_agent_session U f start t) = tbl_put (cf_stream_id f)
        \<lparr> as_sandbox_id = SandboxId u, as_container_id = c, as_frames = [f], as_driver_gone = False \<rparr> (at_sessions t))"
  by (auto simp: open_agent_session_def Let_def out_send_frame split: option.splits sum.splits prod.splits)

lemma session_ok_snoc: "session_ok sid s \<Longrightarrow> cf_stream_id f = sid \<Longrightarrow> \<not> is_start_frame f \<Longrightarrow>
    session_ok sid (s\<lparr>as_frames := as_frames s @ [f]\<rparr>)"
  by (simp add: session_ok_def)

lemma handle_io_client_frame_ok: "sessions_ok t \<Longrightarrow> sessions_ok (handle_io_client_frame U f t)"
proof (cases "is_start_frame f")
  case True
  assume t: "sessions_ok t"
  from True obtain start where p: "cf_payload f = Some (CStart start)"
    by (auto simp: is_start_frame_def split: option.splits IoClientPayload.splits)
  have "session_ok (cf_stream_id f) \<lparr> as_sandbox_id = SandboxId u, as_container_id = c, as_frames = [f], as_driver_gone = False \<rparr>" for u c
    using True by (simp add: session_ok_def)
  with open_agent_session_effect [of U f start t] p t show ?thesis
    by (auto simp: handle_io_client_frame_def sessions_ok_def table_simps split: if_splits)
next
  case False
  assume t: "sessions_ok t"
  have h: "handle_io_client_frame U f t = (case tbl_get (at_sessions t) (cf_stream_id f) of None \<Rightarrow> t
      | Some s \<Rightarrow> if as_driver_gone s then t
        else t\<lparr>at_sessions := tbl_put (cf_stream_id f) (s\<lparr>as_frames := as_frames s @ [f]\<rparr>) (at_sessions t)\<rparr>)"
    using False by (auto simp: handle_io_client_frame_def is_start_frame_def split: option.splits IoClientPayload.splits)
  show ?thesis
    unfolding h using t False session_ok_snoc [of "cf_stream_id f" _ f]
    by (auto simp: sessions_ok_def table_simps split: option.splits if_splits)
qed

lemma handle_io_client_frame_mgr: "at_mgr (handle_io_client_frame U f t) = at_mgr t"
  by (auto simp: handle_io_client_frame_def open_agent_session_def Let_def out_send_frame
      split: option.splits IoClientPayload.splits sum.splits prod.splits)

lemma out_send_ok: "sessions_ok t \<Longrightarrow> sessions_ok (snd (out_send r t))"
  by (simp add: sessions_ok_def out_send_frame)

text \<open>The effect of a message on the sessions: none, or that of an I/O frame.\<close>

lemma agent_tunnel_msg_effect:
  assumes "agent_tunnel_msg U ue h r t = (x, t')"
  shows "(\<exists>f. t' = handle_io_client_frame U f t) \<or> (\<exists>q. t' = snd (out_send q t)) \<or> t' = t"
proof (cases "tq_payload r")
  case (Some p)
  show ?thesis
  proof (cases p)
    case (TQHttpRequest hr)
    with Some assms show ?thesis
      by (cases "uuid_parse_str U (hq_sandbox_id hr)") (auto simp: agent_tunnel_msg_def Let_def)
  qed (use Some assms in \<open>auto simp: agent_tunnel_msg_def\<close>)
qed (use assms in \<open>simp add: agent_tunnel_msg_def\<close>)

lemma agent_tunnel_msg_ok:
  assumes "sessions_ok t" "agent_tunnel_msg U ue h r t = (x, t')"
  shows "sessions_ok t' \<and> at_mgr t' = at_mgr t"
  using agent_tunnel_msg_effect [OF assms(2)] assms(1)
  by (auto simp: handle_io_client_frame_ok handle_io_client_frame_mgr out_send_ok out_send_frame)


lemma container_for_io_Inr: "container_for_io U sid m = Inr (c, st) \<Longrightarrow>
    \<exists>e. tbl_get (sm_sandboxes m) sid = Some e \<and> c = se_container_id e \<and> st = se_state e"
  by (auto simp: container_for_io_def ok_or_def split: option.splits)

lemma same_session: "\<exists>fs. (s :: agent_session) = s\<lparr>as_frames := as_frames s @ fs\<rparr>"
  by (intro exI [of _ "[]"]) simp

lemma handle_io_client_frame_sessions:
  "(\<forall>sid s'. tbl_get (at_sessions (handle_io_client_frame U f t)) sid = Some s' \<longrightarrow> tbl_get (at_sessions t) sid = None \<longrightarrow>
      (\<exists>u e. as_sandbox_id s' = SandboxId u \<and> tbl_get (sm_sandboxes (at_mgr t)) (SandboxId u) = Some e \<and>
         se_state e \<noteq> Paused \<and> as_container_id s' = se_container_id e)) \<and>
   (\<forall>sid s. tbl_get (at_sessions t) sid = Some s \<longrightarrow>
      (\<exists>fs. tbl_get (at_sessions (handle_io_client_frame U f t)) sid = Some (s\<lparr>as_frames := as_frames s @ fs\<rparr>)))"
proof (cases "is_start_frame f")
  case True
  then obtain start where p: "cf_payload f = Some (CStart start)"
    by (auto simp: is_start_frame_def split: option.splits IoClientPayload.splits)
  have "handle_io_client_frame U f t = open_agent_session U f start t"
    by (simp add: handle_io_client_frame_def p)
  with open_agent_session_effect [of U f start t] show ?thesis
    using same_session by (auto simp: table_simps dest!: container_for_io_Inr split: if_splits)
next
  case False
  have h: "handle_io_client_frame U f t = (case tbl_get (at_sessions t) (cf_stream_id f) of None \<Rightarrow> t
      | Some s \<Rightarrow> if as_driver_gone s then t
        else t\<lparr>at_sessions := tbl_put (cf_stream_id f) (s\<lparr>as_frames := as_frames s @ [f]\<rparr>) (at_sessions t)\<rparr>)"
    using False by (auto simp: handle_io_client_frame_def is_start_frame_def split: option.splits IoClientPayload.splits)
  show ?thesis
    unfolding h using same_session by (auto simp: table_simps split: option.splits if_splits)
qed

text \<open>C32. The agent's session gate. A message on the tunnel opens a session only for a sandbox in the
  agent's table that is not paused, on that sandbox's container; sessions that exist keep their
  sandbox and container and only gain frames; and every session holds the frames of its own stream,
  a start frame first and no other.\<close>

theorem agent_session_gate:
  assumes "sessions_ok t" and "agent_tunnel_msg U ue h r t = (x, t')"
  shows "sessions_ok t' \<and>
    (\<forall>sid s'. tbl_get (at_sessions t') sid = Some s' \<longrightarrow> tbl_get (at_sessions t) sid = None \<longrightarrow>
       (\<exists>u e. as_sandbox_id s' = SandboxId u \<and> tbl_get (sm_sandboxes (at_mgr t)) (SandboxId u) = Some e \<and>
          se_state e \<noteq> Paused \<and> as_container_id s' = se_container_id e)) \<and>
    (\<forall>sid s. tbl_get (at_sessions t) sid = Some s \<longrightarrow>
       (\<exists>fs. tbl_get (at_sessions t') sid = Some (s\<lparr>as_frames := as_frames s @ fs\<rparr>)))"
proof -
  from agent_tunnel_msg_effect [OF assms(2)] agent_tunnel_msg_ok [OF assms] show ?thesis
    using handle_io_client_frame_sessions [of U _ t] same_session by (auto simp: out_send_frame)
qed

definition demo_tunnel :: "mock_state agent_tunnel" where
  "demo_tunnel = \<lparr> at_mgr = sm_insert \<lparr> se_sandbox_id = SandboxId 7, se_container_id = ContainerId ''c7'', se_host_port = 9000,
     se_state = Running \<rparr> (sm_new mock_new), at_sessions = [], at_out = [], at_out_gone = False \<rparr>"

definition demo_open :: TunnelRequest where
  "demo_open = \<lparr> tq_stream_id = ''io-1'', tq_payload = Some (TQIoClient \<lparr> cf_stream_id = ''io-1'',
     cf_payload = Some (CStart \<lparr> st_sandbox_id = uuid_to_string rfc4122 7, st_params = None \<rparr>) \<rparr>) \<rparr>"

theorem agent_session_gate_witness:
  "\<exists>t' s. agent_tunnel_msg rfc4122 (\<lambda>s. s) (\<lambda>_ _. Inl TunnelDisconnected) demo_open demo_tunnel = (Inr (), t') \<and>
     tbl_get (at_sessions t') ''io-1'' = Some s \<and> as_container_id s = ContainerId ''c7''"
proof -
  obtain t' s where run: "agent_tunnel_msg rfc4122 (\<lambda>s. s) (\<lambda>_ _. Inl TunnelDisconnected) demo_open demo_tunnel = (Inr (), t')"
    and s: "tbl_get (at_sessions t') ''io-1'' = Some s" "as_sandbox_id s = SandboxId 7"
    by (simp add: agent_tunnel_msg_def demo_open_def demo_tunnel_def handle_io_client_frame_def open_agent_session_def
        container_for_io_def sm_insert_def sm_new_def rfc.parse_to_string table_simps Let_def)
  have "sessions_ok demo_tunnel"
    by (simp add: sessions_ok_def demo_tunnel_def)
  note g = agent_session_gate [OF this run]
  have "tbl_get (at_sessions demo_tunnel) ''io-1'' = None"
    by (simp add: demo_tunnel_def)
  with g s obtain e where "tbl_get (sm_sandboxes (at_mgr demo_tunnel)) (SandboxId 7) = Some e" "as_container_id s = se_container_id e"
    by fastforce
  then have "as_container_id s = ContainerId ''c7''"
    by (auto simp: demo_tunnel_def sm_insert_def sm_new_def table_simps)
  with run s show ?thesis by blast
qed

end
