(* ===== verification/Agent_Docker.thy ===== *)
theory Agent_Docker
  imports Agent_Io
begin

text \<open>
  \<open>agent-docker/src/lib.rs\<close>: the container runtime over a Docker daemon. The daemon (the \<open>bollard\<close>
  client, the kernel's choice of a free port, and the programs run inside containers) is a parameter,
  the record \<open>docker\<close> of the calls the source makes, over a state \<open>'d\<close>; an error is its status code
  and message, or another error, and \<open>dk_error_text\<close> is its \<open>Display\<close>. Program output is taken to be
  valid UTF-8.

  A process run through \<open>start_exec\<close> is what the daemon answers about it (\<open>exec_run\<close>): the outcome of
  creating and starting it, the output chunks in order, and the exit code the daemon then reports.
\<close>

section \<open>The daemon\<close>

datatype docker_error = ServerError nat string | OtherDockerError string

datatype LogOutput = LogStdOut bytes | LogStdErr bytes | LogOther

record docker_config =
  dc_image :: string
  dc_cmd :: "string list"
  dc_labels :: "(string, string) tbl"
  dc_exposed_port :: "string option"
  dc_port_binding :: "(string \<times> string \<times> string) option"
  dc_memory :: i64
  dc_nano_cpus :: i64
  dc_env :: "string list"

record container_summary =
  cs_id :: "string option"
  cs_labels :: "(string, string) tbl"
  cs_state :: "string option"
  cs_public_ports :: "u16 option list"

record exec_run =
  xn_created :: "docker_error + string"
  xn_started :: "docker_error + bool"
  xn_output :: "LogOutput list"
  xn_inspect :: "docker_error + int option"
  xn_marker_in_time :: bool
  xn_stdin_gone :: bool
  xn_exit_lost :: bool

record 'd docker =
  dk_inspect_image :: "string \<Rightarrow> 'd \<Rightarrow> (docker_error + unit) \<times> 'd"
  dk_create_image :: "string \<Rightarrow> 'd \<Rightarrow> (docker_error + unit) \<times> 'd"
  dk_create_container :: "string \<Rightarrow> docker_config \<Rightarrow> 'd \<Rightarrow> (docker_error + string) \<times> 'd"
  dk_start_container :: "string \<Rightarrow> 'd \<Rightarrow> (docker_error + unit) \<times> 'd"
  dk_remove_container :: "string \<Rightarrow> 'd \<Rightarrow> (docker_error + unit) \<times> 'd"
  dk_pause_container :: "string \<Rightarrow> 'd \<Rightarrow> (docker_error + unit) \<times> 'd"
  dk_unpause_container :: "string \<Rightarrow> 'd \<Rightarrow> (docker_error + unit) \<times> 'd"
  dk_stop_container :: "string \<Rightarrow> int \<Rightarrow> 'd \<Rightarrow> (docker_error + unit) \<times> 'd"
  dk_list_containers :: "string \<Rightarrow> 'd \<Rightarrow> (docker_error + container_summary list) \<times> 'd"
  dk_free_port :: "'d \<Rightarrow> (AgentError + u16) \<times> 'd"
  dk_exec :: "string \<Rightarrow> string list \<Rightarrow> string option \<Rightarrow> string list option \<Rightarrow> bytes option \<Rightarrow> 'd \<Rightarrow> exec_run \<times> 'd"
  dk_exec_detached :: "string \<Rightarrow> string list \<Rightarrow> 'd \<Rightarrow> (docker_error + unit) \<times> 'd"
  dk_temp_name :: "'d \<Rightarrow> string \<times> 'd"
  dk_error_text :: "docker_error \<Rightarrow> string"

definition docker_runtime_err :: "'d docker \<Rightarrow> docker_error \<Rightarrow> AgentError" where
  "docker_runtime_err D e = Runtime (dk_error_text D e)"

definition final_attempt_err :: "'d docker \<Rightarrow> string \<Rightarrow> nat \<Rightarrow> docker_error \<Rightarrow> AgentError" where
  "final_attempt_err D kind mx e = Runtime (kind @ '' after '' @ show_nat mx @ '' attempts: '' @ dk_error_text D e)"

definition is_name_conflict_409 :: "docker_error \<Rightarrow> bool" where
  "is_name_conflict_409 e = (case e of
      ServerError code msg \<Rightarrow> code = 409 \<and> contains_str (to_ascii_lowercase msg) ''is already in use''
    | _ \<Rightarrow> False)"

definition is_port_collision :: "docker_error \<Rightarrow> bool" where
  "is_port_collision e = (case e of
      ServerError code msg \<Rightarrow> code = 500 \<and>
        (let m = to_ascii_lowercase msg in
           contains_str m ''bind: address already in use'' \<or> contains_str m ''port is already allocated''
         \<or> (contains_str m ''userland proxy'' \<and> contains_str m ''bind''))
    | _ \<Rightarrow> False)"

definition is_status :: "nat \<Rightarrow> docker_error \<Rightarrow> bool" where
  "is_status code e = (case e of ServerError c _ \<Rightarrow> c = code | _ \<Rightarrow> False)"

section \<open>Creating a container\<close>

definition DEFAULT_SANDBOX_ENTRYPOINT :: "string list" where
  "DEFAULT_SANDBOX_ENTRYPOINT = [''sh'', ''-c'', ''mkdir -p /workspace 2>/dev/null; exec sleep infinity'']"

definition LABEL_MANAGED_BY :: string where "LABEL_MANAGED_BY = ''open-sandbox.managed-by''"
definition LABEL_MANAGED_BY_VALUE :: string where "LABEL_MANAGED_BY_VALUE = ''open-sandbox-agent''"
definition LABEL_SANDBOX_ID :: string where "LABEL_SANDBOX_ID = ''open-sandbox.sandbox-id''"
definition NANOCPUS_PER_MILLICPU :: int where "NANOCPUS_PER_MILLICPU = 1000000"
definition MAX_READ_BYTES :: nat where "MAX_READ_BYTES = 256 * 1024 * 1024"
definition MAX_PULL_ATTEMPTS :: nat where "MAX_PULL_ATTEMPTS = 4"
definition MAX_PORT_RETRY_ATTEMPTS :: nat where "MAX_PORT_RETRY_ATTEMPTS = 3"

datatype Presence = Present | Absent | Unknown

definition build_docker_config :: "ContainerConfig \<Rightarrow> string \<Rightarrow> u16 option \<Rightarrow> docker_config" where
  "build_docker_config config sid host_port =
    (let key = show_nat (unat (cc_exposed_port config)) @ ''/tcp'';
         bound = (if cc_exposed_port config = 0 then None else host_port)
     in \<lparr> dc_image = cc_image config, dc_cmd = DEFAULT_SANDBOX_ENTRYPOINT,
          dc_labels = [(LABEL_MANAGED_BY, LABEL_MANAGED_BY_VALUE), (LABEL_SANDBOX_ID, sid)],
          dc_exposed_port = map_option (\<lambda>_. key) bound,
          dc_port_binding = map_option (\<lambda>hp. (key, ''0.0.0.0'', show_nat (unat hp))) bound,
          dc_memory = as_i64 (cc_memory_limit_bytes config),
          dc_nano_cpus = int (unat (cc_cpu_limit_millicores config)) * NANOCPUS_PER_MILLICPU,
          dc_env = sort (map (\<lambda>(k, v). k @ ''='' @ v) (cc_env_vars config)) \<rparr>)"

text \<open>\<open>pull_image_with_retry\<close>, with the number of attempts left and the last error.\<close>

fun pull_attempts :: "'d docker \<Rightarrow> string \<Rightarrow> nat \<Rightarrow> docker_error \<Rightarrow> 'd \<Rightarrow> (AgentError + unit) \<times> 'd" where
  "pull_attempts D img 0 err d = (Inl (docker_runtime_err D err), d)"
| "pull_attempts D img (Suc n) err d = (case dk_create_image D img d of
      (Inr _, d') \<Rightarrow> (Inr (), d')
    | (Inl e, d') \<Rightarrow> pull_attempts D img n e d')"

definition pull_image_with_retry :: "'d docker \<Rightarrow> string \<Rightarrow> 'd \<Rightarrow> (AgentError + unit) \<times> 'd" where
  "pull_image_with_retry D img d = pull_attempts D img MAX_PULL_ATTEMPTS (OtherDockerError []) d"

definition force_remove :: "'d docker \<Rightarrow> string \<Rightarrow> 'd \<Rightarrow> 'd" where
  "force_remove D target d = snd (dk_remove_container D target d)"

definition image_presence :: "'d docker \<Rightarrow> PullPolicy \<Rightarrow> string \<Rightarrow> 'd \<Rightarrow> Presence \<times> 'd" where
  "image_presence D policy img d = (case policy of
      Always \<Rightarrow> (Unknown, d)
    | _ \<Rightarrow> (case dk_inspect_image D img d of
        (Inr _, d') \<Rightarrow> (Present, d')
      | (Inl e, d') \<Rightarrow> (if is_status 404 e then Absent else Unknown, d')))"

definition pull_per_policy :: "'d docker \<Rightarrow> PullPolicy \<Rightarrow> string \<Rightarrow> 'd \<Rightarrow> (AgentError + unit) \<times> 'd" where
  "pull_per_policy D policy img d =
    (let (presence, d1) = image_presence D policy img d in
     case policy of
       Always \<Rightarrow> pull_image_with_retry D img d1
     | IfNotPresent \<Rightarrow>
         (case presence of Present \<Rightarrow> (Inr (), d1) | _ \<Rightarrow> pull_image_with_retry D img d1)
     | Never \<Rightarrow>
         (case presence of
            Present \<Rightarrow> (Inr (), d1)
          | Absent \<Rightarrow> (Inl (Runtime (''image '' @ img @ '' not present locally and pull_policy=never'')), d1)
          | Unknown \<Rightarrow> (Inl (Runtime (''could not verify image '' @ img @ '' presence and pull_policy=never'')), d1)))"

text \<open>One attempt of the retry loop: it returns, or goes on to the next attempt.\<close>

datatype 'a attempt = Return 'a | NextAttempt

definition create_again :: "'d docker \<Rightarrow> string \<Rightarrow> string \<Rightarrow> docker_config \<Rightarrow> bool \<Rightarrow> 'd \<Rightarrow>
    (AgentError attempt + string) \<times> 'd" where
  "create_again D name kind cfg final d = (case dk_create_container D name cfg d of
      (Inr cid, d') \<Rightarrow> (Inr cid, d')
    | (Inl e, d') \<Rightarrow>
        (Inl (if final then Return (final_attempt_err D kind MAX_PORT_RETRY_ATTEMPTS e) else NextAttempt), d'))"

definition create_step :: "'d docker \<Rightarrow> PullPolicy \<Rightarrow> string \<Rightarrow> string \<Rightarrow> docker_config \<Rightarrow> bool \<Rightarrow> 'd \<Rightarrow>
    (AgentError attempt + string) \<times> 'd" where
  "create_step D policy img name cfg final d = (case dk_create_container D name cfg d of
      (Inr cid, d1) \<Rightarrow> (Inr cid, d1)
    | (Inl e, d1) \<Rightarrow>
        if is_status 404 e \<and> policy \<noteq> Never then
          (case pull_image_with_retry D img d1 of
             (Inr _, d2) \<Rightarrow> create_again D name ''create_container after pull-recovery'' cfg final d2
           | (Inl pe, d2) \<Rightarrow> (Inl (if final then Return pe else NextAttempt), d2))
        else if is_name_conflict_409 e then
          create_again D name ''create_container after 409 force-remove'' cfg final (force_remove D name d1)
        else (Inl (Return (docker_runtime_err D e)), d1))"

definition start_step :: "'d docker \<Rightarrow> SandboxId \<Rightarrow> string \<Rightarrow> u16 option \<Rightarrow> bool \<Rightarrow> 'd \<Rightarrow>
    (AgentError + ContainerInfo) attempt \<times> 'd" where
  "start_step D sandbox cid host_port final d = (case dk_start_container D cid d of
      (Inr _, d1) \<Rightarrow> (Return (Inr \<lparr> ci_id = ContainerId cid, ci_sandbox_id = sandbox,
         ci_host_port = (case host_port of None \<Rightarrow> 0 | Some p \<Rightarrow> p), ci_state = CRunning \<rparr>), d1)
    | (Inl e, d1) \<Rightarrow>
        if is_port_collision e \<and> host_port \<noteq> None \<and> \<not> final then (NextAttempt, force_remove D cid d1)
        else if is_port_collision e \<and> final then
          (Return (Inl (final_attempt_err D ''port-bind collision'' MAX_PORT_RETRY_ATTEMPTS e)), force_remove D cid d1)
        else (Return (Inl (docker_runtime_err D e)), force_remove D cid d1))"

definition host_port_step :: "'d docker \<Rightarrow> ContainerConfig \<Rightarrow> 'd \<Rightarrow> (AgentError + u16 option) \<times> 'd" where
  "host_port_step D config d = (if 0 < cc_exposed_port config
     then (case dk_free_port D d of (Inl e, d') \<Rightarrow> (Inl e, d') | (Inr p, d') \<Rightarrow> (Inr (Some p), d'))
     else (Inr None, d))"

definition create_attempt :: "'d docker \<Rightarrow> ContainerConfig \<Rightarrow> string \<Rightarrow> bool \<Rightarrow> 'd \<Rightarrow>
    (AgentError + ContainerInfo) attempt \<times> 'd" where
  "create_attempt D config sid final d = (case host_port_step D config d of
      (Inl e, d1) \<Rightarrow> (Return (Inl e), d1)
    | (Inr host_port, d1) \<Rightarrow>
        (case create_step D (cc_pull_policy config) (cc_image config) (''sandbox-'' @ sid)
              (build_docker_config config sid host_port) final d1 of
           (Inl (Return e), d2) \<Rightarrow> (Return (Inl e), d2)
         | (Inl NextAttempt, d2) \<Rightarrow> (NextAttempt, d2)
         | (Inr cid, d2) \<Rightarrow> start_step D (cc_sandbox_id config) cid host_port final d2))"

text \<open>The loop; its last attempt always returns (\<open>create_attempt_final\<close>), so the error of the first
  equation is never the answer.\<close>

fun create_attempts :: "'d docker \<Rightarrow> ContainerConfig \<Rightarrow> string \<Rightarrow> nat \<Rightarrow> 'd \<Rightarrow> (AgentError + ContainerInfo) \<times> 'd" where
  "create_attempts D config sid 0 d =
    (Inl (Runtime ''create_and_start retry loop always returns from inside''), d)"
| "create_attempts D config sid (Suc n) d = (case create_attempt D config sid (n = 0) d of
      (Return r, d') \<Rightarrow> (r, d')
    | (NextAttempt, d') \<Rightarrow> create_attempts D config sid n d')"

definition docker_create_and_start :: "uuid_lib \<Rightarrow> 'd docker \<Rightarrow> ContainerConfig \<Rightarrow> ('d, AgentError, ContainerInfo) op" where
  "docker_create_and_start U D config d =
    (case pull_per_policy D (cc_pull_policy config) (cc_image config) d of
       (Inl e, d1) \<Rightarrow> (Inl e, d1)
     | (Inr _, d1) \<Rightarrow> create_attempts D config (SandboxId_to_string U (cc_sandbox_id config)) MAX_PORT_RETRY_ATTEMPTS d1)"

section \<open>Lifecycle\<close>

definition idempotent_answer :: "'d docker \<Rightarrow> ContainerId \<Rightarrow> docker_error + unit \<Rightarrow> AgentError + unit" where
  "idempotent_answer D c r = (case r of
      Inr _ \<Rightarrow> Inr ()
    | Inl e \<Rightarrow> if is_status 409 e then Inr ()
        else if is_status 404 e then Inl (AgentError.SandboxNotFound (cid_str c))
        else Inl (docker_runtime_err D e))"

definition docker_pause :: "'d docker \<Rightarrow> ContainerId \<Rightarrow> ('d, AgentError, unit) op" where
  "docker_pause D c d = (case dk_pause_container D (cid_str c) d of (r, d') \<Rightarrow> (idempotent_answer D c r, d'))"

definition docker_unpause :: "'d docker \<Rightarrow> ContainerId \<Rightarrow> ('d, AgentError, unit) op" where
  "docker_unpause D c d = (case dk_unpause_container D (cid_str c) d of (r, d') \<Rightarrow> (idempotent_answer D c r, d'))"

definition docker_stop_and_remove :: "'d docker \<Rightarrow> ContainerId \<Rightarrow> duration \<Rightarrow> ('d, AgentError, unit) op" where
  "docker_stop_and_remove D c timeout d =
    (let (_, d1) = dk_unpause_container D (cid_str c) d;
         (_, d2) = dk_stop_container D (cid_str c) (int (dur_as_secs timeout)) d1;
         (r, d3) = dk_remove_container D (cid_str c) d2
     in (map_err (docker_runtime_err D) r, d3))"

definition docker_state :: "string option \<Rightarrow> ContainerState" where
  "docker_state s = (if s = Some ''running'' then CRunning else if s = Some ''paused'' then CPaused else CStopped)"

text \<open>\<open>find_map\<close> over the published ports.\<close>

fun first_some :: "'a option list \<Rightarrow> 'a option" where
  "first_some [] = None"
| "first_some (None # xs) = first_some xs"
| "first_some (Some x # xs) = Some x"

fun summaries :: "uuid_lib \<Rightarrow> (string \<Rightarrow> string) \<Rightarrow> container_summary list \<Rightarrow> AgentError + ContainerInfo list" where
  "summaries U ue [] = Inr []"
| "summaries U ue (c # cs) = (case (cs_id c, tbl_get (cs_labels c) LABEL_SANDBOX_ID) of
      (Some cid, Some raw) \<Rightarrow>
        (case uuid_parse_str U raw of
           None \<Rightarrow> Inl (AgentError.Internal (ue raw))
         | Some u \<Rightarrow> (case summaries U ue cs of
             Inl e \<Rightarrow> Inl e
           | Inr rest \<Rightarrow> Inr (\<lparr> ci_id = ContainerId cid, ci_sandbox_id = SandboxId u,
               ci_host_port = (case first_some (cs_public_ports c) of None \<Rightarrow> 0 | Some p \<Rightarrow> p),
               ci_state = docker_state (cs_state c) \<rparr> # rest)))
    | _ \<Rightarrow> summaries U ue cs)"

definition docker_list_sandbox_containers ::
    "uuid_lib \<Rightarrow> (string \<Rightarrow> string) \<Rightarrow> 'd docker \<Rightarrow> ('d, AgentError, ContainerInfo list) op" where
  "docker_list_sandbox_containers U ue D d =
    (case dk_list_containers D (LABEL_MANAGED_BY @ ''='' @ LABEL_MANAGED_BY_VALUE) d of
       (Inl e, d') \<Rightarrow> (Inl (docker_runtime_err D e), d')
     | (Inr cs, d') \<Rightarrow> (summaries U ue cs, d'))"


section \<open>Running a process (start\_exec)\<close>

text \<open>The output pump: it takes the pid marker off standard error and keeps the head of both streams for
  the "command not found" check.\<close>

record pump_st =
  pp_scan :: bytes
  pp_done :: bool
  pp_pid :: "i32 option"
  pp_stdout :: "bytes list"
  pp_stderr :: "bytes list"
  pp_stdout_head :: bytes
  pp_stderr_head :: bytes

definition pump_new :: pump_st where
  "pump_new = \<lparr> pp_scan = [], pp_done = False, pp_pid = None, pp_stdout = [], pp_stderr = [],
     pp_stdout_head = [], pp_stderr_head = [] \<rparr>"

definition pump_err :: "bytes \<Rightarrow> pump_st \<Rightarrow> pump_st" where
  "pump_err m p = p\<lparr>pp_stderr := pp_stderr p @ [m],
     pp_stderr_head := (if length (pp_stderr_head p) < 4096 then pp_stderr_head p @ m else pp_stderr_head p)\<rparr>"

definition pump_chunk :: "LogOutput \<Rightarrow> pump_st \<Rightarrow> pump_st" where
  "pump_chunk chunk p = (case chunk of
      LogStdOut m \<Rightarrow> p\<lparr>pp_stdout := pp_stdout p @ [m],
        pp_stdout_head := (if length (pp_stdout_head p) < 4096 then pp_stdout_head p @ m else pp_stdout_head p)\<rparr>
    | LogStdErr m \<Rightarrow>
        if pp_done p then pump_err m p
        else (case consume_inpid_marker (pp_scan p @ m) of
            (Inr (Some pid), rest) \<Rightarrow>
              (let p' = p\<lparr>pp_pid := Some pid, pp_done := True, pp_scan := []\<rparr>
               in if rest = [] then p' else pump_err rest p')
          | (Inr None, buf) \<Rightarrow> p\<lparr>pp_scan := buf\<rparr>
          | (Inl _, buf) \<Rightarrow> pump_err buf (p\<lparr>pp_done := True, pp_scan := []\<rparr>))
    | LogOther \<Rightarrow> p)"

definition output_pump_docker :: "LogOutput list \<Rightarrow> pump_st" where
  "output_pump_docker cs = fold pump_chunk cs pump_new"

definition docker_exit_info :: "exec_run \<Rightarrow> pump_st \<Rightarrow> ExecExitInfo" where
  "docker_exit_info run p = (case xn_inspect run of
      Inl _ \<Rightarrow> \<lparr> ei_exit_code = - 1, ei_command_not_found = False \<rparr>
    | Inr code \<Rightarrow>
        (let exit_code = as_i32 (word_of_int (case code of None \<Rightarrow> - 1 | Some v \<Rightarrow> v))
         in \<lparr> ei_exit_code = exit_code, ei_command_not_found = (exit_code = 127 \<and>
              (detect_command_not_found (pp_stderr_head p) \<or> detect_command_not_found (pp_stdout_head p))) \<rparr>))"

text \<open>What a caller that drains a process sees: both streams, whether its input was taken, and the exit
  information unless the pump died.\<close>

record exec_result =
  er_handle :: ExecHandle
  er_stdout :: "bytes list"
  er_stderr :: "bytes list"
  er_stdin_gone :: bool
  er_exit :: "ExecExitInfo option"

definition docker_start_exec ::
    "'d docker \<Rightarrow> ContainerId \<Rightarrow> ExecStart \<Rightarrow> bytes option \<Rightarrow> ('d, AgentError, exec_result) op" where
  "docker_start_exec D c start stdin d =
    (let env = map (\<lambda>(k, v). k @ ''='' @ v) (es_env start);
         (run, d') = dk_exec D (cid_str c) (wrap_command_with_inpid_marker (es_command start)) (cwd_opt (es_cwd start))
            (if env = [] then None else Some env) stdin d
     in (case xn_created run of
           Inl e \<Rightarrow> Inl (docker_runtime_err D e)
         | Inr exec_id \<Rightarrow>
             (case xn_started run of
                Inl e \<Rightarrow> Inl (docker_runtime_err D e)
              | Inr attached \<Rightarrow>
                  if \<not> attached then Inl (Runtime ''start_exec returned non-attached result'')
                  else
                    (let p = output_pump_docker (xn_output run) in
                     case (if xn_marker_in_time run then pp_pid p else None) of
                       Some pid \<Rightarrow>
                         if 0 < pid then Inr \<lparr> er_handle = \<lparr> eh_exec_id = exec_id, eh_in_container_pid = pid \<rparr>,
                           er_stdout = pp_stdout p, er_stderr = pp_stderr p, er_stdin_gone = xn_stdin_gone run,
                           er_exit = (if xn_exit_lost run then None else Some (docker_exit_info run p)) \<rparr>
                         else Inl (AgentError.Internal (''OPENSB_INPID wrapper reported invalid pid='' @ show_int pid @
                           ''; refusing to start exec''))
                     | None \<Rightarrow> Inl (AgentError.Internal (''OPENSB_INPID marker not received within 5s; refusing to start exec '' @
                         ''(would break disconnect-driven kill)'')))), d'))"

definition docker_signal_exec :: "'d docker \<Rightarrow> ContainerId \<Rightarrow> i32 \<Rightarrow> i32 \<Rightarrow> ('d, AgentError, unit) op" where
  "docker_signal_exec D c pid signum d =
    (if pid \<le> 0 then (Inr (), d)
     else (case dk_exec_detached D (cid_str c) [''kill'', ''-'' @ show_int signum, show_int pid] d of
       (r, d') \<Rightarrow> (map_err (docker_runtime_err D) r, d')))"

section \<open>File operations\<close>

definition internal_exec ::
    "'d docker \<Rightarrow> ContainerId \<Rightarrow> string list \<Rightarrow> (string, string) tbl \<Rightarrow> bytes option \<Rightarrow> ('d, AgentError, exec_result) op" where
  "internal_exec D c command env stdin d =
    docker_start_exec D c \<lparr> es_command = command, es_cwd = [], es_env = env \<rparr> stdin d"

definition exit_text :: "string \<Rightarrow> i32 \<Rightarrow> bytes \<Rightarrow> string" where
  "exit_text op code stderr = op @ ''exit='' @ show_int code @ '' stderr='' @ str_trim (bytes_str stderr)"

definition drain_to_exit :: "exec_result \<Rightarrow> AgentError + unit" where
  "drain_to_exit r = (case er_exit r of
      None \<Rightarrow> Inl (Runtime ''internal exec terminated without exit info'')
    | Some info \<Rightarrow>
        if ei_exit_code info \<noteq> 0
        then Inl (Runtime (exit_text ''internal exec '' (ei_exit_code info) (concat (er_stderr r)))) else Inr ())"

text \<open>Reading a stream up to a cap: \<open>None\<close> when a chunk would exceed it.\<close>

fun collect_capped :: "nat \<Rightarrow> bytes \<Rightarrow> bytes list \<Rightarrow> bytes option" where
  "collect_capped cap acc [] = Some acc"
| "collect_capped cap acc (b # bs) =
    (if cap < length acc + length b then None else collect_capped cap (acc @ b) bs)"

text \<open>Keeping the chunks that fit under a cap, and keeping them until the first that does not.\<close>

fun keep_fitting :: "nat \<Rightarrow> bytes \<Rightarrow> bytes list \<Rightarrow> bytes" where
  "keep_fitting cap acc [] = acc"
| "keep_fitting cap acc (b # bs) =
    (if cap < length acc + length b then keep_fitting cap acc bs else keep_fitting cap (acc @ b) bs)"

fun keep_until :: "nat \<Rightarrow> bytes \<Rightarrow> bytes list \<Rightarrow> bytes" where
  "keep_until cap acc [] = acc"
| "keep_until cap acc (b # bs) = (if cap < length acc + length b then acc else keep_until cap (acc @ b) bs)"

definition docker_resolve_path :: "string \<Rightarrow> string option \<Rightarrow> string" where
  "docker_resolve_path path cwd =
    (if starts_with path ''/'' then path
     else (let base = (case cwd of None \<Rightarrow> DEFAULT_WRITE_CWD | Some d \<Rightarrow> d)
           in trim_end_matches (CHR ''/'') base @ ''/'' @ path))"

definition docker_read_file :: "'d docker \<Rightarrow> ContainerId \<Rightarrow> string \<Rightarrow> string option \<Rightarrow> ('d, AgentError, bytes) op" where
  "docker_read_file D c path cwd d =
    (let resolved = docker_resolve_path path cwd in
     case internal_exec D c [''cat'', resolved] [] None d of
       (Inl e, d') \<Rightarrow> (Inl e, d')
     | (Inr r, d') \<Rightarrow>
         ((case collect_capped MAX_READ_BYTES [] (er_stdout r) of
             None \<Rightarrow> Inl (Runtime (''read_file output exceeds '' @ show_nat MAX_READ_BYTES @ ''-byte cap''))
           | Some buf \<Rightarrow>
               (case er_exit r of
                  None \<Rightarrow> Inl (Runtime ''read_file exec terminated without exit info'')
                | Some info \<Rightarrow>
                    if ei_exit_code info \<noteq> 0 then
                      (let text = bytes_str (concat (er_stderr r)) in
                       if contains_str text ''No such file'' \<or> contains_str text ''not found''
                       then Inl (no_such_file resolved)
                       else Inl (Runtime (exit_text ''read_file '' (ei_exit_code info) (concat (er_stderr r)))))
                    else Inr buf)), d'))"

definition rfind_char :: "char \<Rightarrow> string \<Rightarrow> nat option" where
  "rfind_char c s = map_option (\<lambda>i. length s - Suc i) (find_char (rev s) c)"

definition parent_dir :: "string \<Rightarrow> string" where
  "parent_dir path = (case rfind_char (CHR ''/'') path of
      None \<Rightarrow> ''.''
    | Some 0 \<Rightarrow> ''/''
    | Some n \<Rightarrow> take n path)"

definition cleanup_tmp_file :: "'d docker \<Rightarrow> ContainerId \<Rightarrow> string \<Rightarrow> 'd \<Rightarrow> 'd" where
  "cleanup_tmp_file D c tmp d = snd (internal_exec D c [''rm'', ''-f'', tmp] [] None d)"

definition docker_write_file ::
    "'d docker \<Rightarrow> ContainerId \<Rightarrow> string \<Rightarrow> string option \<Rightarrow> bytes \<Rightarrow> ('d, AgentError, unit) op" where
  "docker_write_file D c path cwd content d =
    (let resolved = docker_resolve_path path cwd;
         dir = parent_dir resolved;
         (uniq, d0) = dk_temp_name D d;
         temp = dir @ ''/.opensb.'' @ uniq @ ''.tmp''
     in case internal_exec D c [''mkdir'', ''-p'', dir] [] None d0 of
          (Inl e, d1) \<Rightarrow> (Inl e, d1)
        | (Inr mk, d1) \<Rightarrow>
            (case drain_to_exit mk of
               Inl e \<Rightarrow> (Inl e, d1)
             | Inr _ \<Rightarrow>
                 (case internal_exec D c [''tee'', temp] [] (Some content) d1 of
                    (Inl e, d2) \<Rightarrow> (Inl e, d2)
                  | (Inr w, d2) \<Rightarrow>
                      if er_stdin_gone w then
                        (Inl (Runtime ''write_file tee stdin send failed: channel closed''), cleanup_tmp_file D c temp d2)
                      else
                        (case er_exit w of
                           None \<Rightarrow> (Inl (Runtime ''write_file tee exec terminated without exit info''), d2)
                         | Some info \<Rightarrow>
                             if ei_exit_code info \<noteq> 0 then
                               (Inl (Runtime (exit_text ''write_file tee '' (ei_exit_code info) (concat (er_stderr w)))),
                                cleanup_tmp_file D c temp d2)
                             else
                               (case internal_exec D c [''mv'', temp, resolved] [] None d2 of
                                  (Inl e, d3) \<Rightarrow> (Inl e, d3)
                                | (Inr mv, d3) \<Rightarrow>
                                    (case drain_to_exit mv of
                                       Inl e \<Rightarrow> (Inl e, cleanup_tmp_file D c temp d3)
                                     | Inr _ \<Rightarrow> (Inr (), d3)))))))"

definition docker_write_files_targz ::
    "'d docker \<Rightarrow> ContainerId \<Rightarrow> string option \<Rightarrow> bytes \<Rightarrow> ('d, AgentError, unit) op" where
  "docker_write_files_targz D c cwd tarball d =
    (let target = (case cwd of None \<Rightarrow> DEFAULT_WRITE_CWD | Some x \<Rightarrow> x) in
     case internal_exec D c [''mkdir'', ''-p'', target] [] None d of
       (Inl e, d1) \<Rightarrow> (Inl e, d1)
     | (Inr mk, d1) \<Rightarrow>
         (case drain_to_exit mk of
            Inl e \<Rightarrow> (Inl e, d1)
          | Inr _ \<Rightarrow>
              (case internal_exec D c [''tar'', ''xzf'', ''-'', ''-C'', target] [] (Some tarball) d1 of
                 (Inl e, d2) \<Rightarrow> (Inl e, d2)
               | (Inr x, d2) \<Rightarrow>
                   ((if er_stdin_gone x then Inl (Runtime ''write_files_targz tar stdin send failed: channel closed'')
                     else (case er_exit x of
                        None \<Rightarrow> Inl (Runtime ''write_files_targz tar exec terminated without exit info'')
                      | Some info \<Rightarrow>
                          if ei_exit_code info \<noteq> 0
                          then Inl (Runtime (exit_text ''write_files_targz tar '' (ei_exit_code info) (concat (er_stderr x))))
                          else Inr ())), d2))))"

definition docker_delete_file ::
    "'d docker \<Rightarrow> ContainerId \<Rightarrow> string \<Rightarrow> string option \<Rightarrow> bool \<Rightarrow> ('d, AgentError, unit) op" where
  "docker_delete_file D c path cwd recursive d =
    (case internal_exec D c [''rm'', if recursive then ''-rf'' else ''-f'', ''--'', docker_resolve_path path cwd]
          [(''LC_ALL'', ''C''), (''LANG'', ''C'')] None d of
       (Inl e, d') \<Rightarrow> (Inl e, d')
     | (Inr r, d') \<Rightarrow>
         ((case er_exit r of
             None \<Rightarrow> Inl (Runtime ''delete_file exec terminated without exit info'')
           | Some info \<Rightarrow>
               if ei_exit_code info = 0 then Inr ()
               else Inl (Runtime (exit_text ''rm '' (ei_exit_code info) (keep_fitting 4096 [] (er_stderr r))))), d'))"

definition wait_port_script :: "nat \<Rightarrow> u32 \<Rightarrow> string" where
  "wait_port_script iterations port =
    ''i=0; while [ $i -lt '' @ show_nat iterations @ '' ]; do nc -z 127.0.0.1 '' @ show_nat (unat port) @
    '' 2>/dev/null && echo OSB:READY && exit 0; i=$((i+1)); sleep 0.05; done; echo OSB:TIMEOUT; exit 1''"

definition docker_wait_port_listening ::
    "'d docker \<Rightarrow> ContainerId \<Rightarrow> u32 \<Rightarrow> duration \<Rightarrow> ('d, AgentError, bool) op" where
  "docker_wait_port_listening D c port timeout d =
    (let timeout_ms = max (dur_as_millis timeout) 50;
         iterations = max (timeout_ms div 50) 1
     in case internal_exec D c [''sh'', ''-c'', wait_port_script iterations port] [] None d of
          (Inl e, d') \<Rightarrow> (Inl e, d')
        | (Inr r, d') \<Rightarrow>
            (let out = bytes_str (keep_fitting 4096 [] (er_stdout r));
                 err = bytes_str (keep_fitting 4096 [] (er_stderr r))
             in ((case er_exit r of
                    None \<Rightarrow> Inl (Runtime ''wait_port_listening probe terminated without exit info'')
                  | Some info \<Rightarrow>
                      if contains_str out ''OSB:READY'' then Inr True
                      else if contains_str out ''OSB:TIMEOUT'' then Inr False
                      else if ei_command_not_found info then
                        Inl (Runtime (''wait_port_listening requires '' @ [CHR 0x60] @ ''sh'' @ [CHR 0x60] @ '' and '' @
                          [CHR 0x60] @ ''nc'' @ [CHR 0x60] @ '' in the container image''))
                      else if contains_str err ''nc:'' \<or> contains_str err ''nc not found'' then
                        Inl (Runtime (''wait_port_listening requires '' @ [CHR 0x60] @ ''nc'' @ [CHR 0x60] @
                          '' in the container image''))
                      else Inl (Runtime (''wait_port_listening probe exit='' @ show_int (ei_exit_code info) @
                        '' stderr='' @ str_trim err))), d')))"


section \<open>Listing and revisions\<close>

datatype ListExecError = ListNotFound | ListOther string

definition exec_collect_stdout ::
    "'d docker \<Rightarrow> ContainerId \<Rightarrow> string list \<Rightarrow> ('d, ListExecError, bytes) op" where
  "exec_collect_stdout D c command d =
    (let max_stdout_bytes = LIST_DIR_MAX_ENTRIES * 512 in
     case internal_exec D c command [] None d of
       (Inl e, d') \<Rightarrow> (Inl (ListOther (AgentError_to_string e)), d')
     | (Inr r, d') \<Rightarrow>
         ((case collect_capped max_stdout_bytes [] (er_stdout r) of
             None \<Rightarrow> Inl (ListOther (''exec stdout exceeded '' @ show_nat max_stdout_bytes @ ''-byte cap''))
           | Some stdout \<Rightarrow>
               (let err = keep_until (64 * 1024) [] (er_stderr r) in
                case er_exit r of
                  None \<Rightarrow> Inl (ListOther ''internal exec terminated without exit info'')
                | Some info \<Rightarrow>
                    if ei_exit_code info = 0 then Inr stdout
                    else if contains_str (bytes_str err) ''No such file'' \<or> contains_str (bytes_str err) ''cannot access''
                    then Inl ListNotFound
                    else Inl (ListOther (exit_text [] (ei_exit_code info) err)))), d'))"

definition list_exec_error :: "string \<Rightarrow> ListExecError \<Rightarrow> AgentError" where
  "list_exec_error resolved e = (case e of ListNotFound \<Rightarrow> no_such_file resolved | ListOther detail \<Rightarrow> Runtime detail)"

text \<open>\<open>str::splitn\<close>.\<close>

fun splitn :: "nat \<Rightarrow> char \<Rightarrow> string \<Rightarrow> string list" where
  "splitn 0 c s = []"
| "splitn (Suc 0) c s = [s]"
| "splitn (Suc (Suc n)) c s = (case split_once c s of
     None \<Rightarrow> [s]
   | Some (a, b) \<Rightarrow> a # splitn (Suc n) c b)"

definition col :: "nat \<Rightarrow> string \<Rightarrow> string list \<Rightarrow> string" where
  "col i dflt cs = (if i < length cs then cs ! i else dflt)"

definition parse_u64 :: "string \<Rightarrow> u64 option" where
  "parse_u64 s =
    (let ds = (if starts_with s ''+'' then tl s else s)
     in if ds \<noteq> [] \<and> list_all is_ascii_digit ds \<and> read_nat ds < 2 ^ 64 then Some (of_nat (read_nat ds)) else None)"

definition u64_or_zero :: "string \<Rightarrow> u64" where
  "u64_or_zero s = (case parse_u64 s of None \<Rightarrow> 0 | Some v \<Rightarrow> v)"

definition stat_file_type :: "string \<Rightarrow> EntryType" where
  "stat_file_type t = (if t = ''regular file'' \<or> t = ''regular empty file'' then EFile
     else if t = ''directory'' then EDir else if t = ''symbolic link'' then ESymlink else EOther)"

definition revision_of :: "u64 \<Rightarrow> u64 \<Rightarrow> string" where
  "revision_of mtime sz = show_nat (unat mtime) @ '':'' @ show_nat (unat sz)"

definition pad_mode :: "string \<Rightarrow> string" where
  "pad_mode m = (if m = [] then [] else replicate (4 - length m) (CHR ''0'') @ m)"

definition parse_portable_line :: "string \<Rightarrow> DirEntry option" where
  "parse_portable_line raw = (case strip_prefix raw ''OSB:'' of
      None \<Rightarrow> None
    | Some line \<Rightarrow>
        (let cols = splitn 6 (CHR ''|'') line; name = col 0 [] cols in
         if name = [] then None
         else
           (let ty = stat_file_type (col 1 [] cols); sz = u64_or_zero (col 2 ''0'' cols); mtime = u64_or_zero (col 3 ''0'' cols)
            in Some \<lparr> dn_name = name, dn_entry_type = ty, dn_size = sz, dn_revision = revision_of mtime sz,
                 dn_mode = pad_mode (col 4 [] cols), dn_target = (if ty = ESymlink then col 5 [] cols else []) \<rparr>)))"

definition parse_portable_list_output :: "bytes \<Rightarrow> string \<Rightarrow> DirListing" where
  "parse_portable_list_output stdout dir_path =
    (let es = List.map_filter parse_portable_line (str_lines (bytes_str stdout));
         entries = take LIST_DIR_MAX_ENTRIES es
     in \<lparr> dl_path = dir_path, dl_entries = entries, dl_truncated = length entries < length es,
          dl_total_entries = of_nat (length es) \<rparr>)"

definition list_dir_command :: "string \<Rightarrow> string \<Rightarrow> string list" where
  "list_dir_command script resolved = [''sh'', ''-c'', script, ''os-list-dir'', resolved]"

text \<open>\<open>script\<close> is the text of \<open>LIST_DIR_SCRIPT\<close>, which runs in the container.\<close>

definition docker_list_dir ::
    "'d docker \<Rightarrow> string \<Rightarrow> ContainerId \<Rightarrow> string \<Rightarrow> string option \<Rightarrow> ('d, AgentError, DirListing) op" where
  "docker_list_dir D script c path cwd d =
    (let resolved = docker_resolve_path path cwd in
     case exec_collect_stdout D c (list_dir_command script resolved) d of
       (Inl e, d') \<Rightarrow> (Inl (list_exec_error resolved e), d')
     | (Inr stdout, d') \<Rightarrow> (Inr (parse_portable_list_output stdout resolved), d'))"

text \<open>The error text quotes the output with \<open>{:?}\<close>, given by \<open>dbg\<close>.\<close>

definition docker_stat_revision ::
    "'d docker \<Rightarrow> (string \<Rightarrow> string) \<Rightarrow> ContainerId \<Rightarrow> string \<Rightarrow> string option \<Rightarrow> ('d, AgentError, FileRevision) op" where
  "docker_stat_revision D dbg c path cwd d =
    (let resolved = docker_resolve_path path cwd in
     case exec_collect_stdout D c [''stat'', ''-c'', ''%Y %s'', ''--'', resolved] d of
       (Inl e, d') \<Rightarrow> (Inl (list_exec_error resolved e), d')
     | (Inr stdout, d') \<Rightarrow>
         (let trimmed = str_trim (bytes_str stdout);
              parts = split_whitespace trimmed;
              malformed = Runtime (''stat output malformed: '' @ dbg trimmed)
          in ((case (parse_u64 (col 0 [] parts), parse_u64 (col 1 [] parts)) of
                 (Some mtime, Some sz) \<Rightarrow> Inr \<lparr> fr_revision = revision_of mtime sz, fr_size = sz \<rparr>
               | _ \<Rightarrow> Inl malformed), d')))"

section \<open>The runtime\<close>

text \<open>\<open>within t d\<close> tells whether the deadline \<open>t\<close> cuts a creation short, and what it leaves.\<close>

definition docker_runtime ::
    "uuid_lib \<Rightarrow> (string \<Rightarrow> string) \<Rightarrow> (string \<Rightarrow> string) \<Rightarrow> string \<Rightarrow> (duration \<Rightarrow> 'd \<Rightarrow> 'd option) \<Rightarrow> 'd docker \<Rightarrow>
     'd ContainerRuntime" where
  "docker_runtime U ue dbg script within D = \<lparr>
     rt_create_within = (\<lambda>t config d. case within t d of
        Some d' \<Rightarrow> (None, d')
      | None \<Rightarrow> (case docker_create_and_start U D config d of (r, d') \<Rightarrow> (Some r, d'))),
     rt_stop_and_remove = docker_stop_and_remove D,
     rt_pause = docker_pause D,
     rt_unpause = docker_unpause D,
     rt_list = docker_list_sandbox_containers U ue D,
     rt_start_exec = (\<lambda>c start d. case docker_start_exec D c start None d of
        (Inl e, d') \<Rightarrow> (Inl e, d') | (Inr r, d') \<Rightarrow> (Inr (er_handle r), d')),
     rt_signal_exec = docker_signal_exec D,
     rt_read_file = docker_read_file D,
     rt_write_file = docker_write_file D,
     rt_write_files_targz = docker_write_files_targz D,
     rt_list_dir = docker_list_dir D script,
     rt_stat_revision = docker_stat_revision D dbg,
     rt_delete_file = docker_delete_file D,
     rt_wait_port_listening = docker_wait_port_listening D \<rparr>"

section \<open>No orphaned containers\<close>

text \<open>\<open>watched D\<close> is the daemon \<open>D\<close> with a log of the containers it created and of the removals it was
  asked for; it answers as \<open>D\<close> does.\<close>

datatype container_event = Made string | RemovalAsked string

definition watched :: "'d docker \<Rightarrow> ('d \<times> container_event list) docker" where
  "watched D = \<lparr>
     dk_inspect_image = (\<lambda>i dl. case dk_inspect_image D i (fst dl) of (r, d') \<Rightarrow> (r, (d', snd dl))),
     dk_create_image = (\<lambda>i dl. case dk_create_image D i (fst dl) of (r, d') \<Rightarrow> (r, (d', snd dl))),
     dk_create_container = (\<lambda>n cfg dl. case dk_create_container D n cfg (fst dl) of
        (r, d') \<Rightarrow> (r, (d', snd dl @ (case r of Inr cid \<Rightarrow> [Made cid] | Inl _ \<Rightarrow> [])))),
     dk_start_container = (\<lambda>c dl. case dk_start_container D c (fst dl) of (r, d') \<Rightarrow> (r, (d', snd dl))),
     dk_remove_container = (\<lambda>c dl. case dk_remove_container D c (fst dl) of (r, d') \<Rightarrow> (r, (d', snd dl @ [RemovalAsked c]))),
     dk_pause_container = (\<lambda>c dl. case dk_pause_container D c (fst dl) of (r, d') \<Rightarrow> (r, (d', snd dl))),
     dk_unpause_container = (\<lambda>c dl. case dk_unpause_container D c (fst dl) of (r, d') \<Rightarrow> (r, (d', snd dl))),
     dk_stop_container = (\<lambda>c t dl. case dk_stop_container D c t (fst dl) of (r, d') \<Rightarrow> (r, (d', snd dl))),
     dk_list_containers = (\<lambda>f dl. case dk_list_containers D f (fst dl) of (r, d') \<Rightarrow> (r, (d', snd dl))),
     dk_free_port = (\<lambda>dl. case dk_free_port D (fst dl) of (r, d') \<Rightarrow> (r, (d', snd dl))),
     dk_exec = (\<lambda>c cmd w e i dl. case dk_exec D c cmd w e i (fst dl) of (r, d') \<Rightarrow> (r, (d', snd dl))),
     dk_exec_detached = (\<lambda>c cmd dl. case dk_exec_detached D c cmd (fst dl) of (r, d') \<Rightarrow> (r, (d', snd dl))),
     dk_temp_name = (\<lambda>dl. case dk_temp_name D (fst dl) of (r, d') \<Rightarrow> (r, (d', snd dl))),
     dk_error_text = dk_error_text D \<rparr>"

text \<open>
  \<open>adds dl dl' made\<close>: since \<open>dl\<close> the daemon has created containers, and each was followed by a
  request to remove it, except those of \<open>made\<close>. Removals by name may occur in between.
\<close>

fun balanced :: "container_event list \<Rightarrow> string option \<Rightarrow> bool" where
  "balanced [] made \<longleftrightarrow> made = None"
| "balanced (Made c # es) made \<longleftrightarrow>
    (case es of [] \<Rightarrow> made = Some c | RemovalAsked c' # es' \<Rightarrow> c' = c \<and> balanced es' made | _ \<Rightarrow> False)"
| "balanced (RemovalAsked n # es) made \<longleftrightarrow> balanced es made"

definition adds :: "'d \<times> container_event list \<Rightarrow> 'd \<times> container_event list \<Rightarrow> string option \<Rightarrow> bool" where
  "adds dl dl' made \<longleftrightarrow> (\<exists>es. snd dl' = snd dl @ es \<and> balanced es made)"

lemma balanced_append: "balanced es None \<Longrightarrow> balanced (es @ fs) made = balanced fs made"
  by (induction es "None :: string option" rule: balanced.induct) (auto split: list.splits container_event.splits)

lemma balanced_snoc: "balanced es (Some c) \<Longrightarrow> balanced (es @ [RemovalAsked c]) None"
  by (induction es "Some c" rule: balanced.induct) (auto split: list.splits container_event.splits)

lemma adds_refl: "snd dl' = snd dl \<Longrightarrow> adds dl dl' None"
  by (simp add: adds_def)

lemma adds_trans: "adds dl dl1 None \<Longrightarrow> adds dl1 dl2 made \<Longrightarrow> adds dl dl2 made"
  by (auto simp: adds_def balanced_append)

lemma adds_removed: "adds dl dl1 (Some c) \<Longrightarrow> adds dl (force_remove (watched D) c dl1) None"
  by (auto simp: adds_def force_remove_def watched_def balanced_snoc split: prod.splits)

lemma adds_removal: "adds dl (force_remove (watched D) n dl) None"
  by (simp add: adds_def force_remove_def watched_def split: prod.splits)

lemma pull_attempts_log: "pull_attempts (watched D) img n e dl = (r, dl') \<Longrightarrow> snd dl' = snd dl"
proof (induction n arbitrary: e dl)
  case (Suc n)
  obtain x d1 where c: "dk_create_image D img (fst dl) = (x, d1)" by (rule prod.exhaust)
  with Suc show ?case
    by (cases x) (auto simp: watched_def)
qed simp

lemma pull_log: "pull_image_with_retry (watched D) img dl = (r, dl') \<Longrightarrow> snd dl' = snd dl"
  by (simp add: pull_image_with_retry_def pull_attempts_log)

lemma pull_per_policy_log: "pull_per_policy (watched D) pol img dl = (r, dl') \<Longrightarrow> snd dl' = snd dl"
proof -
  assume p: "pull_per_policy (watched D) pol img dl = (r, dl')"
  obtain pr d1 where i: "image_presence (watched D) pol img dl = (pr, d1)" by (rule prod.exhaust)
  then have "snd d1 = snd dl"
    by (cases pol) (auto simp: image_presence_def watched_def split: prod.splits sum.splits)
  with p i show ?thesis
    by (auto simp: pull_per_policy_def split: PullPolicy.splits Presence.splits dest: pull_log)
qed

lemma create_container_log:
  assumes "dk_create_container (watched D) n cfg dl = (r, dl')"
  shows "adds dl dl' (case r of Inr c \<Rightarrow> Some c | Inl _ \<Rightarrow> None)"
  using assms by (cases r) (auto simp: watched_def adds_def split: prod.splits)

lemma create_again_log:
  assumes "create_again (watched D) name kind cfg final dl = (r, dl')"
  shows "adds dl dl' (case r of Inr c \<Rightarrow> Some c | Inl _ \<Rightarrow> None)"
proof -
  obtain x d1 where c: "dk_create_container (watched D) name cfg dl = (x, d1)" by (rule prod.exhaust)
  from create_container_log [OF this] assms c show ?thesis
    by (cases x) (auto simp: create_again_def)
qed

lemma create_step_log:
  assumes "create_step (watched D) pol img name cfg final dl = (r, dl')"
  shows "adds dl dl' (case r of Inr c \<Rightarrow> Some c | Inl _ \<Rightarrow> None)"
proof -
  obtain x d1 where c: "dk_create_container (watched D) name cfg dl = (x, d1)" by (rule prod.exhaust)
  note k = create_container_log [OF c]
  show ?thesis
  proof (cases x)
    case (Inl e)
    with k have k: "adds dl d1 None" by simp
    consider "is_status 404 e \<and> pol \<noteq> Never" | "\<not> (is_status 404 e \<and> pol \<noteq> Never)" "is_name_conflict_409 e"
      | "\<not> (is_status 404 e \<and> pol \<noteq> Never)" "\<not> is_name_conflict_409 e" by blast
    then show ?thesis
    proof cases
      case 1
      obtain y d2 where p: "pull_image_with_retry (watched D) img d1 = (y, d2)" by (rule prod.exhaust)
      have "adds dl d2 None"
        using adds_trans [OF k adds_refl [OF pull_log [OF p]]] .
      with assms c Inl 1 p show ?thesis
        by (cases y) (auto simp: create_step_def intro: adds_trans dest: create_again_log)
    next
      case 2
      with assms c Inl show ?thesis
        by (auto simp: create_step_def dest!: create_again_log intro: adds_trans [OF adds_trans [OF k adds_removal]])
    next
      case 3
      with assms c Inl k show ?thesis
        by (auto simp: create_step_def)
    qed
  qed (use assms c k in \<open>auto simp: create_step_def\<close>)
qed

lemma start_step_log:
  assumes "adds dl d1 (Some c)" and "start_step (watched D) sb c hp final d1 = (r, dl')"
  shows "adds dl dl' (case r of Return (Inr info) \<Rightarrow> Some (cid_str (ci_id info)) | _ \<Rightarrow> None)"
proof -
  obtain x d2 where s: "dk_start_container (watched D) c d1 = (x, d2)" by (rule prod.exhaust)
  then have "snd d2 = snd d1" by (auto simp: watched_def split: prod.splits)
  with assms(1) have k: "adds dl d2 (Some c)" by (simp add: adds_def)
  with assms(2) s adds_removed [OF k] show ?thesis
    by (cases x) (auto simp: start_step_def split: if_splits)
qed

lemma create_attempt_log:
  assumes "create_attempt (watched D) config sid final dl = (r, dl')"
  shows "adds dl dl' (case r of Return (Inr info) \<Rightarrow> Some (cid_str (ci_id info)) | _ \<Rightarrow> None)"
proof -
  obtain h d1 where h: "host_port_step (watched D) config dl = (h, d1)" by (rule prod.exhaust)
  then have s1: "snd d1 = snd dl"
    by (auto simp: host_port_step_def watched_def split: prod.splits sum.splits if_splits)
  show ?thesis
  proof (cases h)
    case (Inr hp)
    let ?cs = "create_step (watched D) (cc_pull_policy config) (cc_image config) (''sandbox-'' @ sid)
        (build_docker_config config sid hp) final d1"
    obtain y d2 where c: "?cs = (y, d2)" by (rule prod.exhaust)
    note k = adds_trans [OF adds_refl [OF s1] create_step_log [OF c]]
    show ?thesis
    proof (cases y)
      case (Inl a)
      with assms h Inr c k show ?thesis
        by (cases a) (auto simp: create_attempt_def)
    next
      case (Inr cid)
      have "start_step (watched D) (cc_sandbox_id config) cid hp final d2 = (r, dl')"
        using assms h \<open>h = Inr hp\<close> c Inr by (simp add: create_attempt_def)
      with k Inr show ?thesis by (auto dest: start_step_log [rotated])
    qed
  qed (use assms h s1 in \<open>auto simp: create_attempt_def intro: adds_refl\<close>)
qed

lemma create_attempts_log:
  "create_attempts (watched D) config sid n dl = (r, dl') \<Longrightarrow>
   adds dl dl' (case r of Inr info \<Rightarrow> Some (cid_str (ci_id info)) | Inl _ \<Rightarrow> None)"
proof (induction n arbitrary: dl)
  case (Suc n)
  obtain a d1 where c: "create_attempt (watched D) config sid (n = 0) dl = (a, d1)" by (rule prod.exhaust)
  note k = create_attempt_log [OF c]
  show ?case
  proof (cases a)
    case (Return x)
    with Suc.prems c k show ?thesis by (cases x) auto
  next
    case NextAttempt
    with k have "adds dl d1 None" by simp
    moreover have "create_attempts (watched D) config sid n d1 = (r, dl')"
      using Suc.prems c NextAttempt by simp
    ultimately show ?thesis using adds_trans Suc.IH by blast
  qed
qed (auto simp: adds_refl)

text \<open>The last attempt always returns.\<close>

lemma create_attempt_final: "\<exists>x d'. create_attempt D config sid True d = (Return x, d')"
  by (auto simp: create_attempt_def start_step_def create_step_def create_again_def
      split: prod.splits sum.splits attempt.splits if_splits)

lemma create_attempts_returns:
  assumes "create_attempts D config sid (Suc n) d = (r, d')"
  shows "\<exists>b d1 d2. create_attempt D config sid b d1 = (Return r, d2) \<and> d' = d2"
  using assms
proof (induction n arbitrary: d)
  case 0
  then show ?case
    using create_attempt_final [of D config sid d] by (auto split: prod.splits attempt.splits)
next
  case (Suc n)
  show ?case
  proof (cases "create_attempt D config sid False d")
    case (Pair a d1)
    with Suc show ?thesis by (cases a) auto
  qed
qed



definition demo_docker :: "nat docker" where
  "demo_docker = \<lparr>
     dk_inspect_image = (\<lambda>_ n. (Inr (), n)),
     dk_create_image = (\<lambda>_ n. (Inr (), n)),
     dk_create_container = (\<lambda>_ _ n. (Inr (''c'' @ show_nat n), Suc n)),
     dk_start_container = (\<lambda>c n. (if n = 1 then Inl (ServerError 500 ''port is already allocated'') else Inr (), n)),
     dk_remove_container = (\<lambda>_ n. (Inr (), n)),
     dk_pause_container = (\<lambda>_ n. (Inr (), n)),
     dk_unpause_container = (\<lambda>_ n. (Inr (), n)),
     dk_stop_container = (\<lambda>_ _ n. (Inr (), n)),
     dk_list_containers = (\<lambda>_ n. (Inr [], n)),
     dk_free_port = (\<lambda>n. (Inr 40000, n)),
     dk_exec = (\<lambda>_ _ _ _ _ n. (\<lparr> xn_created = Inl (OtherDockerError []), xn_started = Inr True, xn_output = [],
        xn_inspect = Inr None, xn_marker_in_time = True, xn_stdin_gone = False, xn_exit_lost = False \<rparr>, n)),
     dk_exec_detached = (\<lambda>_ _ n. (Inr (), n)),
     dk_temp_name = (\<lambda>n. (''t'', n)),
     dk_error_text = (\<lambda>_. ''error'') \<rparr>"

definition demo_container :: ContainerConfig where
  "demo_container = \<lparr> cc_sandbox_id = SandboxId 7, cc_image = ''alpine'', cc_cpu_limit_millicores = 1000,
     cc_memory_limit_bytes = 512, cc_env_vars = [], cc_exposed_port = 8080, cc_pull_policy = IfNotPresent \<rparr>"

definition demo_creation :: "(AgentError + ContainerInfo) \<times> nat \<times> container_event list" where
  "demo_creation = docker_create_and_start rfc4122 (watched demo_docker) demo_container (0, [])"


section \<open>The pid marker survives any chunking\<close>

lemma show_nat_length: "n < 10 ^ Suc k \<Longrightarrow> length (show_nat n) \<le> Suc k"
proof (induction k arbitrary: n)
  case 0
  then show ?case by (simp add: show_nat.simps [of n])
next
  case (Suc k)
  show ?case
  proof (cases "n < 10")
    case False
    have "n div 10 < 10 ^ Suc k"
      using Suc.prems by (simp add: less_mult_imp_div_less)
    with Suc.IH [OF this] False show ?thesis by (simp add: show_nat.simps [of n])
  qed (simp add: show_nat.simps [of n])
qed

fun stderr_of :: "LogOutput list \<Rightarrow> bytes" where
  "stderr_of [] = []"
| "stderr_of (LogStdErr m # os) = m @ stderr_of os"
| "stderr_of (_ # os) = stderr_of os"

fun stdout_of :: "LogOutput list \<Rightarrow> bytes" where
  "stdout_of [] = []"
| "stdout_of (LogStdOut m # os) = m @ stdout_of os"
| "stdout_of (_ # os) = stdout_of os"

text \<open>After the standard error bytes \<open>b\<close> the pump waits for the end of the marker, or has found it and
  forwarded everything behind it.\<close>

definition pump_inv :: "nat \<Rightarrow> bytes \<Rightarrow> pump_st \<Rightarrow> bool" where
  "pump_inv n b p \<longleftrightarrow> (if pp_done p then pp_pid p = Some (int n) \<and> b = inpid_line n @ concat (pp_stderr p)
     else pp_scan p = b \<and> strict_prefix b (inpid_line n) \<and> pp_stderr p = [])"

lemma pump_err_sel [simp]: "pp_done (pump_err m p) = pp_done p" "pp_pid (pump_err m p) = pp_pid p"
  "pp_stderr (pump_err m p) = pp_stderr p @ [m]" "pp_stdout (pump_err m p) = pp_stdout p"
  by (simp_all add: pump_err_def)

lemma prefix_cases: "b @ rest = l @ user \<Longrightarrow> strict_prefix b l \<or> (\<exists>t. b = l @ t)"
  by (metis append_eq_append_conv2 prefixI prefix_order.le_less append_Nil2)

lemma pump_chunk_inv:
  assumes inv: "pump_inv n b p" and i: "in_i32 (int n)" and line: "b @ m @ rest = inpid_line n @ user"
  shows "pump_inv n (b @ m) (pump_chunk (LogStdErr m) p)"
proof (cases "pp_done p")
  case True
  with inv show ?thesis by (simp add: pump_inv_def pump_chunk_def)
next
  case False
  have len: "length (show_nat n) \<le> 200"
    using i show_nat_length [of n 9] by (simp add: in_i32_def)
  from prefix_cases [of "b @ m" rest "inpid_line n" user] line
  consider "strict_prefix (b @ m) (inpid_line n)" | t where "b @ m = inpid_line n @ t" by auto
  then show ?thesis
  proof cases
    case 1
    with False inv marker_waits [OF 1 len] show ?thesis
      by (simp add: pump_inv_def pump_chunk_def)
  next
    case 2
    with False inv marker_found [OF i, of t] show ?thesis
      by (simp add: pump_inv_def pump_chunk_def Let_def)
  qed
qed

lemma pump_other_inv: "pump_inv n b p \<Longrightarrow> pump_inv n b (pump_chunk (LogStdOut m) p)"
  "pump_inv n b p \<Longrightarrow> pump_inv n b (pump_chunk LogOther p)"
  by (simp_all add: pump_inv_def pump_chunk_def)

lemma fold_pump_inv:
  "pump_inv n b p \<Longrightarrow> in_i32 (int n) \<Longrightarrow> b @ stderr_of os @ rest = inpid_line n @ user \<Longrightarrow>
   pump_inv n (b @ stderr_of os) (fold pump_chunk os p)"
proof (induction os arbitrary: b p)
  case (Cons c os)
  show ?case
  proof (cases c)
    case (LogStdErr m)
    with Cons.prems have "pump_inv n (b @ m) (pump_chunk c p)"
      using pump_chunk_inv [of n b p m "stderr_of os @ rest" user] by simp
    from Cons.IH [OF this] Cons.prems LogStdErr show ?thesis by simp
  qed (use Cons pump_other_inv [of n b p] in auto)
qed simp

lemma fold_pump_stdout: "concat (pp_stdout (fold pump_chunk os p)) = concat (pp_stdout p) @ stdout_of os"
proof (induction os arbitrary: p)
  case (Cons c os)
  have "concat (pp_stdout (pump_chunk c p)) = concat (pp_stdout p) @ (case c of LogStdOut m \<Rightarrow> m | _ \<Rightarrow> [])"
    by (auto simp: pump_chunk_def Let_def split: LogOutput.splits prod.splits sum.splits option.splits)
  with Cons show ?case by (cases c) simp_all
qed simp

lemma output_pump_marker:
  assumes "in_i32 (int n)" and "stderr_of os = inpid_line n @ user"
  shows "pp_pid (output_pump_docker os) = Some (int n) \<and> concat (pp_stderr (output_pump_docker os)) = user \<and>
    concat (pp_stdout (output_pump_docker os)) = stdout_of os"
proof -
  have "pump_inv n [] pump_new"
    by (simp add: pump_inv_def pump_new_def inpid_line_def INPID_PREFIX_def as_bytes_def)
  from fold_pump_inv [OF this assms(1), of os "[]" user] assms(2)
  have "pump_inv n (inpid_line n @ user) (output_pump_docker os)"
    by (simp add: output_pump_docker_def)
  moreover have "\<not> strict_prefix (inpid_line n @ user) (inpid_line n)"
    by (meson prefixI prefix_order.le_less_trans prefix_order.less_irrefl)
  ultimately show ?thesis
    using fold_pump_stdout [of os pump_new]
    by (simp add: pump_inv_def output_pump_docker_def pump_new_def split: if_splits)
qed

text \<open>The pid marker survives any chunking. However the daemon cuts and interleaves the two streams, if
  standard error starts with the marker line for a pid then the pump learns exactly that pid and
  forwards exactly the bytes behind the line, and standard output unchanged.\<close>

lemma docker_pid_marker:
  assumes "in_i32 (int n)" and "stderr_of os = inpid_line n @ user"
  shows "pp_pid (output_pump_docker os) = Some (int n) \<and> concat (pp_stderr (output_pump_docker os)) = user \<and>
    concat (pp_stdout (output_pump_docker os)) = stdout_of os"
  by (rule output_pump_marker [OF assms])

lemma docker_pid_marker_witness:
  "pp_pid (output_pump_docker [LogStdErr (take 5 (inpid_line 42)), LogStdOut [1], LogStdErr (drop 5 (inpid_line 42) @ [7])]) = Some 42"
proof -
  have "stderr_of [LogStdErr (take 5 (inpid_line 42)), LogStdOut [1], LogStdErr (drop 5 (inpid_line 42) @ [7])] =
      inpid_line 42 @ [7]"
    by simp
  from docker_pid_marker [OF _ this] show ?thesis
    by (simp add: in_i32_def)
qed

end
