(* ===== verification/Youki_Host.thy ===== *)
theory Youki_Host
  imports Agent_Docker
begin

text \<open>
  What the youki runtime (\<open>agent-youki/src\<close>) is built on, and its smaller parts.

  The operating system, the registry client \<open>oci_client\<close>, the \<open>tar\<close> and \<open>flate2\<close> readers, \<open>libcontainer\<close>
  and the network plugins are one parameter, the record \<open>host\<close> of the calls the source makes, over a
  state \<open>'k\<close>. A call that only looks is a function of that state; a call that can change something
  returns the new state. File calls take the mount namespace they are made in. An operating system
  error is its kind, as far as the source looks at it, and its text.

  The theory then holds \<open>spec.rs\<close> (the OCI specification of a container), \<open>cni.rs\<close> (network set-up by
  plugins) and \<open>dns.rs\<close> (the container's \<open>resolv.conf\<close>). Serialising a map with string keys does not
  fail, and the lock on the container table is never poisoned, as nothing panics while holding it;
  those two error branches are left out. Texts are valid UTF-8.
\<close>

section \<open>Paths\<close>

text \<open>\<open>Path::join\<close>, \<open>components\<close>, \<open>parent\<close>, \<open>file_name\<close> and \<open>starts_with\<close>. The parent of a path is
  given up to repeated separators and \<open>.\<close> components, which name the same file.\<close>

definition path_join :: "string \<Rightarrow> string \<Rightarrow> string" where
  "path_join a b = (if starts_with b ''/'' then b
     else if a = [] \<or> last a = CHR ''/'' then a @ b else a @ ''/'' @ b)"

definition path_comps :: "string \<Rightarrow> string list" where
  "path_comps p = filter (\<lambda>c. c \<noteq> [] \<and> c \<noteq> ''.'') (split_char (CHR ''/'') p)"

definition is_absolute :: "string \<Rightarrow> bool" where
  "is_absolute p = starts_with p ''/''"

definition path_file_name :: "string \<Rightarrow> string option" where
  "path_file_name p = (if path_comps p = [] \<or> last (path_comps p) = ''..'' then None else Some (last (path_comps p)))"

definition path_parent :: "string \<Rightarrow> string option" where
  "path_parent p = (if path_comps p = [] then None
     else Some ((if is_absolute p then ''/'' else []) @ join_with ''/'' (butlast (path_comps p))))"

definition path_starts_with :: "string \<Rightarrow> string \<Rightarrow> bool" where
  "path_starts_with p base \<longleftrightarrow> is_absolute p = is_absolute base \<and>
     take (length (path_comps base)) (path_comps p) = path_comps base"

section \<open>The host\<close>

datatype os_kind = KindNotFound | KindDirectoryNotEmpty | KindOther

record os_error =
  oe_kind :: os_kind
  oe_text :: string

datatype mount_ns = HostNs | PidNs i32

datatype file_kind = RegularFile | Directory | SymbolicLink | SpecialFile

record file_meta =
  fm_kind :: file_kind
  fm_len :: u64
  fm_mtime :: i64
  fm_mode :: u32

text \<open>One item of \<open>read_dir\<close>: its metadata (of the link itself) and, for a link, its target.\<close>

record raw_entry =
  re_name :: string
  re_meta :: "file_meta option"
  re_link :: "string option"

record oci_layer =
  ly_digest :: string
  ly_media :: string

record tar_entry =
  te_path :: "string + string"
  te_raw :: bytes

datatype ContainerStatus = StCreating | StCreated | StRunning | StStopped | StPaused

record lc_container =
  lc_status :: ContainerStatus
  lc_pid :: "i32 option"

datatype cni_run =
    CniSpawnFailed string
  | CniStdinFailed string
  | CniWaitFailed string
  | CniExited bool string bytes bytes

record CniIpResult =
  cip_address :: string
  cip_gateway :: "string option"

record CniResult =
  cnr_version :: string
  cnr_ips :: "CniIpResult list option"

record CniError =
  cne_code :: u32
  cne_msg :: string
  cne_details :: "string option"

text \<open>A process started through \<open>nsenter\<close>: the outcome of spawning it, whether it has a pid and its three
  pipes, what successive reads of its streams return, its exit code (\<open>None\<close> when waiting fails or a
  signal ended it), and whether the pid marker came within a second.\<close>

record nsenter_run =
  nr_spawned :: "string + unit"
  nr_has_pid :: bool
  nr_has_stdin :: bool
  nr_has_stdout :: bool
  nr_has_stderr :: bool
  nr_stdout :: "bytes list"
  nr_stderr :: "bytes list"
  nr_code :: "i32 option"
  nr_marker_in_time :: bool

text \<open>One round of the port probe: the time elapsed at its start, before connecting and after a failed
  connect, and whether the connect succeeded.\<close>

record probe_round =
  pr_elapsed :: duration
  pr_before :: duration
  pr_connects :: bool
  pr_after :: duration

section \<open>Container specifications (spec.rs)\<close>

definition CPU_PERIOD_USEC :: u64 where "CPU_PERIOD_USEC = 100000"
definition PIDS_LIMIT :: i64 where "PIDS_LIMIT = 256"

datatype Capability = AuditWrite | Chown | DacOverride | Fowner | Fsetid | Kill | Mknod | NetBindService | NetRaw
  | Setfcap | Setgid | Setpcap | Setuid | SysChroot

definition docker_default_caps :: "Capability list" where
  "docker_default_caps = [AuditWrite, Chown, DacOverride, Fowner, Fsetid, Kill, Mknod, NetBindService, NetRaw,
     Setfcap, Setgid, Setpcap, Setuid, SysChroot]"

definition default_masked_paths :: "string list" where
  "default_masked_paths = [''/proc/asound'', ''/proc/acpi'', ''/proc/kcore'', ''/proc/keys'', ''/proc/latency_stats'',
     ''/proc/timer_list'', ''/proc/timer_stats'', ''/proc/sched_debug'', ''/proc/scsi'', ''/sys/firmware'']"

definition default_readonly_paths :: "string list" where
  "default_readonly_paths = [''/proc/bus'', ''/proc/fs'', ''/proc/irq'', ''/proc/sys'', ''/proc/sysrq-trigger'']"

datatype LinuxNamespaceType = NsPid | NsNetwork | NsMount | NsIpc | NsUts | NsCgroup

record LinuxCapabilities =
  cap_bounding :: "Capability set"
  cap_effective :: "Capability set"
  cap_permitted :: "Capability set"
  cap_inheritable :: "Capability set"
  cap_ambient :: "Capability set"

record OciSpec =
  oci_version :: string
  oci_root_path :: string
  oci_root_readonly :: bool
  oci_terminal :: bool
  oci_args :: "string list"
  oci_env :: "string list"
  oci_cwd :: string
  oci_capabilities :: LinuxCapabilities
  oci_no_new_privileges :: bool
  oci_cpu_quota :: i64
  oci_cpu_period :: u64
  oci_memory_limit :: i64
  oci_pids_limit :: i64
  oci_namespaces :: "LinuxNamespaceType list"
  oci_masked_paths :: "string list"
  oci_readonly_paths :: "string list"
  oci_cgroups_path :: "string option"

definition spec_err :: "string \<Rightarrow> AgentError" where
  "spec_err e = Runtime (''OCI spec generation failed: '' @ e)"

text \<open>\<open>oci_build\<close> is the error, if any, with which the \<open>oci_spec\<close> builder of a name refuses to build.\<close>

definition oci_builders :: "string list" where
  "oci_builders = [''LinuxCpu'', ''LinuxMemory'', ''LinuxPids'', ''LinuxResources'', ''LinuxNamespace'', ''Linux'',
     ''LinuxCapabilities'', ''Process'', ''Root'', ''Spec'']"

definition generate_full_spec ::
    "(string \<Rightarrow> string option) \<Rightarrow> ContainerConfig \<Rightarrow> string \<Rightarrow> string option \<Rightarrow> AgentError + OciSpec" where
  "generate_full_spec oci_build config rootfs_path cgroup_path =
    (let caps = set docker_default_caps in
     case first_some (map oci_build oci_builders) of
       Some e \<Rightarrow> Inl (spec_err e)
     | None \<Rightarrow> Inr \<lparr> oci_version = ''1.0.2'', oci_root_path = rootfs_path, oci_root_readonly = False, oci_terminal = False,
         oci_args = DEFAULT_SANDBOX_ENTRYPOINT,
         oci_env = [''PATH=/usr/local/sbin:/usr/local/bin:/usr/sbin:/usr/bin:/sbin:/bin'', ''TERM=xterm''] @
           map (\<lambda>(k, v). k @ ''='' @ v) (cc_env_vars config),
         oci_cwd = ''/'',
         oci_capabilities = \<lparr> cap_bounding = caps, cap_effective = caps, cap_permitted = caps, cap_inheritable = caps,
           cap_ambient = caps \<rparr>,
         oci_no_new_privileges = True,
         oci_cpu_quota = int (unat (cc_cpu_limit_millicores config)) * int (unat CPU_PERIOD_USEC) div 1000,
         oci_cpu_period = CPU_PERIOD_USEC,
         oci_memory_limit = as_i64 (cc_memory_limit_bytes config),
         oci_pids_limit = PIDS_LIMIT,
         oci_namespaces = [NsPid, NsNetwork, NsMount, NsIpc, NsUts, NsCgroup],
         oci_masked_paths = default_masked_paths, oci_readonly_paths = default_readonly_paths,
         oci_cgroups_path = cgroup_path \<rparr>)"

definition generate_spec :: "(string \<Rightarrow> string option) \<Rightarrow> ContainerConfig \<Rightarrow> AgentError + OciSpec" where
  "generate_spec oci_build config = generate_full_spec oci_build config ''rootfs'' None"

section \<open>The calls of the runtime\<close>

record 'k host =
  hk_create_dir_all :: "mount_ns \<Rightarrow> string \<Rightarrow> 'k \<Rightarrow> (os_error + unit) \<times> 'k"
  hk_exists :: "string \<Rightarrow> 'k \<Rightarrow> bool"
  hk_read :: "mount_ns \<Rightarrow> string \<Rightarrow> 'k \<Rightarrow> os_error + bytes"
  hk_write :: "mount_ns \<Rightarrow> string \<Rightarrow> bytes \<Rightarrow> 'k \<Rightarrow> (os_error + unit) \<times> 'k"
  hk_rename :: "mount_ns \<Rightarrow> string \<Rightarrow> string \<Rightarrow> 'k \<Rightarrow> (os_error + unit) \<times> 'k"
  hk_remove_file :: "mount_ns \<Rightarrow> string \<Rightarrow> 'k \<Rightarrow> (os_error + unit) \<times> 'k"
  hk_remove_dir :: "mount_ns \<Rightarrow> string \<Rightarrow> 'k \<Rightarrow> (os_error + unit) \<times> 'k"
  hk_remove_dir_all :: "mount_ns \<Rightarrow> string \<Rightarrow> 'k \<Rightarrow> (os_error + unit) \<times> 'k"
  hk_metadata :: "mount_ns \<Rightarrow> string \<Rightarrow> 'k \<Rightarrow> os_error + file_meta"
  hk_symlink_metadata :: "mount_ns \<Rightarrow> string \<Rightarrow> 'k \<Rightarrow> os_error + file_meta"
  hk_read_dir :: "mount_ns \<Rightarrow> string \<Rightarrow> 'k \<Rightarrow> os_error + raw_entry option list"
  hk_canonicalize :: "string \<Rightarrow> 'k \<Rightarrow> string option"
  hk_new_uuid :: "'k \<Rightarrow> uuid \<times> 'k"
  hk_bind :: "'k \<Rightarrow> os_error + (os_error + u16)"
  hk_task_panic :: "'k \<Rightarrow> string option"
  hk_spawn_thread :: "'k \<Rightarrow> os_error + unit"
  hk_open_ns :: "string \<Rightarrow> 'k \<Rightarrow> os_error + unit"
  hk_unshare_fs :: "'k \<Rightarrow> os_error + unit"
  hk_setns :: "string \<Rightarrow> 'k \<Rightarrow> os_error + unit"
  hk_probes :: "i32 \<Rightarrow> u32 \<Rightarrow> duration \<Rightarrow> 'k \<Rightarrow> probe_round list"
  hk_parse_reference :: "string \<Rightarrow> string + string"
  hk_pull_manifest :: "string \<Rightarrow> 'k \<Rightarrow> (string + oci_layer list \<times> string) \<times> 'k"
  hk_pull_blob :: "string \<Rightarrow> oci_layer \<Rightarrow> 'k \<Rightarrow> (string + (string + bytes) list) \<times> 'k"
  hk_tar_entries :: "bytes \<Rightarrow> string + (string + tar_entry) list"
  hk_unpack :: "tar_entry \<Rightarrow> string \<Rightarrow> 'k \<Rightarrow> (string + unit) \<times> 'k"
  hk_unpack_archive :: "mount_ns \<Rightarrow> bytes \<Rightarrow> string \<Rightarrow> 'k \<Rightarrow> (string + unit) \<times> 'k"
  hk_oci_build :: "string \<Rightarrow> string option"
  hk_spec_json :: "OciSpec \<Rightarrow> string + bytes"
  hk_lc_root :: "string \<Rightarrow> 'k \<Rightarrow> string + unit"
  hk_lc_build :: "string \<Rightarrow> string \<Rightarrow> string \<Rightarrow> 'k \<Rightarrow> (string + i32 option) \<times> 'k"
  hk_lc_load :: "string \<Rightarrow> 'k \<Rightarrow> string + lc_container"
  hk_lc_start :: "string \<Rightarrow> 'k \<Rightarrow> (string + unit) \<times> 'k"
  hk_lc_pause :: "string \<Rightarrow> 'k \<Rightarrow> (string + unit) \<times> 'k"
  hk_lc_resume :: "string \<Rightarrow> 'k \<Rightarrow> (string + unit) \<times> 'k"
  hk_lc_kill :: "string \<Rightarrow> 'k \<Rightarrow> (string + unit) \<times> 'k"
  hk_lc_delete :: "string \<Rightarrow> 'k \<Rightarrow> (string + unit) \<times> 'k"
  hk_sleep :: "duration \<Rightarrow> 'k \<Rightarrow> 'k"
  hk_cni :: "string \<Rightarrow> (string, string) tbl \<Rightarrow> (string, json) tbl \<Rightarrow> 'k \<Rightarrow> cni_run \<times> 'k"
  hk_parse_json :: "bytes \<Rightarrow> string + json"
  hk_cni_result :: "json \<Rightarrow> string + CniResult"
  hk_cni_error :: "bytes \<Rightarrow> string + CniError"
  hk_agent_env :: "(string, string) tbl"
  hk_nsenter :: "string list \<Rightarrow> (string, string) tbl \<Rightarrow> 'k \<Rightarrow> nsenter_run \<times> 'k"
  hk_nsenter_wait :: "string list \<Rightarrow> 'k \<Rightarrow> (string + bool) \<times> 'k"

text \<open>A call whose error becomes a \<open>Runtime\<close> error with a text in front, and one that only looks.\<close>

definition os_call :: "string \<Rightarrow> ('k \<Rightarrow> (os_error + 'a) \<times> 'k) \<Rightarrow> ('k, AgentError, 'a) op" where
  "os_call what m k = (case m k of (r, k') \<Rightarrow> (map_err (\<lambda>e. Runtime (what @ oe_text e)) r, k'))"

definition lib_call :: "string \<Rightarrow> ('k \<Rightarrow> (string + 'a) \<times> 'k) \<Rightarrow> ('k, AgentError, 'a) op" where
  "lib_call what m k = (case m k of (r, k') \<Rightarrow> (map_err (\<lambda>e. Runtime (what @ e)) r, k'))"

definition os_look :: "string \<Rightarrow> ('k \<Rightarrow> os_error + 'a) \<Rightarrow> ('k, AgentError, 'a) op" where
  "os_look what m k = (map_err (\<lambda>e. Runtime (what @ oe_text e)) (m k), k)"

definition lib_look :: "string \<Rightarrow> ('k \<Rightarrow> string + 'a) \<Rightarrow> ('k, AgentError, 'a) op" where
  "lib_look what m k = (map_err (\<lambda>e. Runtime (what @ e)) (m k), k)"

text \<open>\<open>let _ = ...\<close>: the outcome is dropped.\<close>

definition drop_result :: "('k \<Rightarrow> 'r \<times> 'k) \<Rightarrow> ('k, AgentError, unit) op" where
  "drop_result m k = (Inr (), snd (m k))"

text \<open>\<open>spawn_blocking\<close>: when the task panics its result is lost.\<close>

definition blocking :: "'k host \<Rightarrow> string \<Rightarrow> ('k, AgentError, 'a) op \<Rightarrow> ('k, AgentError, 'a) op" where
  "blocking H what m k = (case m k of (r, k') \<Rightarrow>
     (case hk_task_panic H k' of None \<Rightarrow> (r, k') | Some e \<Rightarrow> (Inl (Runtime (what @ '' task panicked: '' @ e)), k')))"

section \<open>Network plugins (cni.rs)\<close>

record CniPlugin =
  pl_type :: string
  pl_config :: "(string, json) tbl"

record CniConfList =
  cl_version :: string
  cl_name :: string
  cl_plugins :: "CniPlugin list"

definition generate_conflist :: "string \<Rightarrow> CniConfList" where
  "generate_conflist network_name = \<lparr> cl_version = ''1.0.0'', cl_name = network_name, cl_plugins =
     [\<lparr> pl_type = ''bridge'', pl_config =
          [(''bridge'', JString ''cni0''), (''isGateway'', JBool True), (''ipMasq'', JBool True),
           (''ipam'', JObject [(''type'', JString ''host-local''), (''subnet'', JString ''10.88.0.0/16''),
              (''routes'', JArray [JObject [(''dst'', JString ''0.0.0.0/0'')]])])] \<rparr>,
      \<lparr> pl_type = ''portmap'', pl_config = [(''capabilities'', JObject [(''portMappings'', JBool True)])] \<rparr>] \<rparr>"

definition build_cni_env :: "string \<Rightarrow> string \<Rightarrow> string \<Rightarrow> string \<Rightarrow> string \<Rightarrow> (string, string) tbl" where
  "build_cni_env command container_id netns ifname cni_path =
    [(''CNI_COMMAND'', command), (''CNI_CONTAINERID'', container_id), (''CNI_NETNS'', netns), (''CNI_IFNAME'', ifname),
     (''CNI_PATH'', cni_path)]"

definition allocate_port :: "'k host \<Rightarrow> ('k, AgentError, u16) op" where
  "allocate_port H = bind_op (os_look ''failed to bind for port allocation: '' (hk_bind H))
     (\<lambda>listener. os_look ''failed to get local address: '' (\<lambda>_. listener))"

definition plugin_conf :: "CniConfList \<Rightarrow> json option \<Rightarrow> CniPlugin \<Rightarrow> (string, json) tbl" where
  "plugin_conf cl prev_result plugin =
    (let conf = tbl_put ''name'' (JString (cl_name cl)) (tbl_put ''cniVersion'' (JString (cl_version cl))
           (tbl_put ''type'' (JString (pl_type plugin)) (pl_config plugin)))
     in case prev_result of None \<Rightarrow> conf | Some r \<Rightarrow> tbl_put ''prevResult'' r conf)"

definition parse_cni_error :: "'k host \<Rightarrow> bytes \<Rightarrow> AgentError + CniError" where
  "parse_cni_error H output = map_err (\<lambda>e. Runtime (''failed to parse CNI error: '' @ e)) (hk_cni_error H output)"

fun run_plugins ::
    "'k host \<Rightarrow> (string, string) tbl \<Rightarrow> CniConfList \<Rightarrow> string \<Rightarrow> string \<Rightarrow> json option \<Rightarrow> CniPlugin list \<Rightarrow>
     ('k, AgentError, json option) op" where
  "run_plugins H env cl command cni_path prev_result [] k = (Inr prev_result, k)"
| "run_plugins H env cl command cni_path prev_result (plugin # ps) k =
    (case hk_cni H (path_join cni_path (pl_type plugin)) env (plugin_conf cl prev_result plugin) k of
       (CniSpawnFailed e, k') \<Rightarrow> (Inl (Runtime (''failed to spawn CNI plugin '' @ pl_type plugin @ '': '' @ e)), k')
     | (CniStdinFailed e, k') \<Rightarrow> (Inl (Runtime (''failed to write to CNI plugin stdin: '' @ e)), k')
     | (CniWaitFailed e, k') \<Rightarrow> (Inl (Runtime (''CNI plugin '' @ pl_type plugin @ '' failed: '' @ e)), k')
     | (CniExited success code stdout stderr, k') \<Rightarrow>
         if \<not> success then
           (Inl (Runtime (case parse_cni_error H stdout of
               Inr cni_err \<Rightarrow> ''CNI plugin '' @ pl_type plugin @ '' error: '' @ cne_msg cni_err @ '' ('' @ bytes_str stderr @ '')''
             | Inl _ \<Rightarrow> ''CNI plugin '' @ pl_type plugin @ '' exited with '' @ code @ '': '' @ bytes_str stderr)), k')
         else run_plugins H env cl command cni_path
           (if command = ''ADD'' \<and> stdout \<noteq> [] then (case hk_parse_json H stdout of Inr j \<Rightarrow> Some j | Inl _ \<Rightarrow> None)
            else prev_result) ps k')"

definition invoke_cni ::
    "'k host \<Rightarrow> CniConfList \<Rightarrow> string \<Rightarrow> string \<Rightarrow> string \<Rightarrow> string \<Rightarrow> ('k, AgentError, CniResult) op" where
  "invoke_cni H cl command container_id netns cni_path =
    bind_op (run_plugins H (build_cni_env command container_id netns ''eth0'' cni_path) cl command cni_path None (cl_plugins cl))
      (\<lambda>prev_result. case prev_result of
         Some r \<Rightarrow> lib_look ''failed to parse final CNI result: '' (\<lambda>_. hk_cni_result H r)
       | None \<Rightarrow> ok_op \<lparr> cnr_version = cl_version cl, cnr_ips = None \<rparr>)"

definition port_mapping :: "u16 \<Rightarrow> u16 \<Rightarrow> json" where
  "port_mapping host_port container_port = JObject [(''portMappings'', JArray [JObject
     [(''hostPort'', JNumber (unat host_port)), (''containerPort'', JNumber (unat container_port)), (''protocol'', JString ''tcp'')]])]"

definition inject_port_mappings :: "u16 \<Rightarrow> u16 \<Rightarrow> CniConfList \<Rightarrow> CniConfList" where
  "inject_port_mappings host_port container_port cl = cl\<lparr>cl_plugins := map (\<lambda>plugin.
     if pl_type plugin = ''portmap''
     then plugin\<lparr>pl_config := tbl_put ''runtimeConfig'' (port_mapping host_port container_port) (pl_config plugin)\<rparr>
     else plugin) (cl_plugins cl)\<rparr>"

definition parse_cni_result :: "'k host \<Rightarrow> bytes \<Rightarrow> AgentError + CniResult" where
  "parse_cni_result H output = (case hk_parse_json H output of
      Inl e \<Rightarrow> Inl (Runtime (''failed to parse CNI result: '' @ e))
    | Inr j \<Rightarrow> map_err (\<lambda>e. Runtime (''failed to parse CNI result: '' @ e)) (hk_cni_result H j))"

section \<open>Name resolution (dns.rs)\<close>

definition FALLBACK_RESOLV_CONF :: string where
  "FALLBACK_RESOLV_CONF = ''nameserver 8.8.8.8'' @ [CHR 0x0A] @ ''nameserver 8.8.4.4'' @ [CHR 0x0A]"

definition is_loopback :: "string \<Rightarrow> bool" where
  "is_loopback addr \<longleftrightarrow> starts_with addr ''127.'' \<or> addr = ''::1''"

definition is_nameserver :: "string \<Rightarrow> bool" where
  "is_nameserver line = starts_with (str_trim line) ''nameserver''"

definition keep_line :: "string \<Rightarrow> bool" where
  "keep_line line =
    (let trimmed = str_trim line in
     if \<not> starts_with trimmed ''nameserver'' then trimmed \<noteq> []
     else (case split_whitespace trimmed of
         _ # addr # _ \<Rightarrow> \<not> is_loopback addr
       | _ \<Rightarrow> False))"

definition generate_resolv_conf :: "string \<Rightarrow> string" where
  "generate_resolv_conf host_content =
    (let filtered = filter keep_line (str_lines host_content) in
     if \<not> list_ex is_nameserver filtered then FALLBACK_RESOLV_CONF
     else
       (let result = join_with [CHR 0x0A] filtered
        in if result \<noteq> [] \<and> last result = CHR 0x0A then result else result @ [CHR 0x0A]))"

definition write_resolv_conf :: "'k host \<Rightarrow> string \<Rightarrow> ('k, AgentError, unit) op" where
  "write_resolv_conf H rootfs =
    (let etc_dir = path_join rootfs ''etc'' in
     then_op (os_call (''failed to create '' @ rootfs @ ''/etc: '') (hk_create_dir_all H HostNs etc_dir))
     (\<lambda>k. let content = generate_resolv_conf (case hk_read H HostNs ''/etc/resolv.conf'' k of Inr b \<Rightarrow> bytes_str b | Inl _ \<Rightarrow> [])
           in os_call ''failed to write resolv.conf: ''
                (hk_write H HostNs (path_join etc_dir ''resolv.conf'') (as_bytes content)) k))"

section \<open>Lemmas on paths\<close>

lemma split_char_join: "split_char d (a @ d # b) = split_char d a @ split_char d b"
  by (induction a) (auto split: list.splits)

lemma path_comps_join: "\<not> is_absolute b \<Longrightarrow> path_comps (path_join a b) = path_comps a @ path_comps b"
proof -
  assume rel: "\<not> is_absolute b"
  consider "a = []" | a' where "a = a' @ [CHR ''/'']" | "a \<noteq> []" "last a \<noteq> CHR ''/''"
    by (metis append_butlast_last_id)
  then show ?thesis
  proof cases
    case 2
    then show ?thesis
      using rel split_char_join [of "CHR ''/''" a' b] split_char_join [of "CHR ''/''" a' "[]"]
      by (simp add: path_join_def path_comps_def is_absolute_def)
  next
    case 3
    then show ?thesis
      using rel split_char_join [of "CHR ''/''" a b] by (simp add: path_join_def path_comps_def is_absolute_def)
  qed (use rel in \<open>simp_all add: path_join_def path_comps_def is_absolute_def\<close>)
qed

lemma path_comps_single: "CHR ''/'' \<notin> set c \<Longrightarrow> c \<noteq> [] \<Longrightarrow> c \<noteq> ''.'' \<Longrightarrow> path_comps c = [c]"
  by (simp add: path_comps_def split_char_no_sep)

lemma path_comps_no_sep: "c \<in> set (path_comps p) \<Longrightarrow> CHR ''/'' \<notin> set c \<and> c \<noteq> [] \<and> c \<noteq> ''.''"
  by (auto simp: path_comps_def dest: split_char_pieces)

lemma split_join_with: "cs \<noteq> [] \<Longrightarrow> \<forall>c \<in> set cs. d \<notin> set c \<Longrightarrow> split_char d (join_with [d] cs) = cs"
  by (induction "[d]" cs rule: join_with.induct) (simp_all add: split_char_no_sep split_char_append)

lemma path_comps_join_with: "\<forall>c \<in> set cs. CHR ''/'' \<notin> set c \<and> c \<noteq> [] \<and> c \<noteq> ''.'' \<Longrightarrow> path_comps (join_with ''/'' cs) = cs"
proof (cases "cs = []")
  case False
  assume a: "\<forall>c \<in> set cs. CHR ''/'' \<notin> set c \<and> c \<noteq> [] \<and> c \<noteq> ''.''"
  with False have "split_char (CHR ''/'') (join_with ''/'' cs) = cs"
    by (simp add: split_join_with)
  with a show ?thesis by (simp add: path_comps_def)
qed (simp add: path_comps_def)

lemma path_parent_comps: "path_parent p = Some d \<Longrightarrow> path_comps d = butlast (path_comps p)"
proof -
  assume a: "path_parent p = Some d"
  let ?j = "join_with ''/'' (butlast (path_comps p))"
  have j: "path_comps ?j = butlast (path_comps p)"
    by (rule path_comps_join_with) (auto dest!: in_set_butlastD dest: path_comps_no_sep)
  have "path_comps (''/'' @ ?j) = path_comps ?j"
    by (simp add: path_comps_def)
  with a j show ?thesis by (auto simp: path_parent_def split: if_splits)
qed

section \<open>The container's resolv.conf\<close>

definition names_server :: "string \<Rightarrow> bool" where
  "names_server line \<longleftrightarrow> (\<exists>w addr ws. split_whitespace (str_trim line) = w # addr # ws \<and> \<not> is_loopback addr)"

lemma kept_nameserver: "keep_line l \<Longrightarrow> is_nameserver l \<Longrightarrow> names_server l"
  by (auto simp: keep_line_def is_nameserver_def names_server_def Let_def split: list.splits)

lemma str_trim_snoc: "is_trim_char c \<Longrightarrow> str_trim (s @ [c]) = str_trim s"
proof -
  assume c: "is_trim_char c"
  show ?thesis
  proof (cases "\<exists>x \<in> set s. \<not> is_trim_char x")
    case True
    then have "dropWhile is_trim_char (s @ [c]) = dropWhile is_trim_char s @ [c]"
      by (auto simp: dropWhile_append)
    then show ?thesis using c by (simp add: str_trim_def)
  next
    case False
    then have "dropWhile is_trim_char (s @ [c]) = []" "dropWhile is_trim_char s = []"
      using c by (auto simp only: dropWhile_eq_Nil_conv set_append Un_iff list.set insert_iff empty_iff)
    then show ?thesis by (simp only: str_trim_def)
  qed
qed

text \<open>The carriage return a line may end in plays no role.\<close>

definition strip_cr :: "string \<Rightarrow> string" where
  "strip_cr l = (if l \<noteq> [] \<and> last l = CHR 0x0D then butlast l else l)"

lemma trim_strip_cr: "str_trim (strip_cr l) = str_trim l"
proof (cases "l \<noteq> [] \<and> last l = CHR 0x0D")
  case True
  then have "l = butlast l @ [CHR 0x0D]"
    by (metis append_butlast_last_id)
  then show ?thesis
    using str_trim_snoc [of "CHR 0x0D" "butlast l"] by (simp add: strip_cr_def is_trim_char_def char_code_def)
qed (auto simp: strip_cr_def)

lemma line_kinds_strip_cr: "is_nameserver (strip_cr l) = is_nameserver l" "names_server (strip_cr l) = names_server l"
  by (simp_all add: is_nameserver_def names_server_def trim_strip_cr)

lemma str_lines_eq: "str_lines s = map strip_cr (let ls = split_char (CHR 0x0A) s in if last ls = [] then butlast ls else ls)"
  by (simp add: str_lines_def strip_cr_def Let_def)

lemma str_lines_join:
  assumes "ls \<noteq> []" "\<forall>l \<in> set ls. CHR 0x0A \<notin> set l"
  shows "str_lines (join_with [CHR 0x0A] ls @ [CHR 0x0A]) = map strip_cr ls"
proof -
  have "split_char (CHR 0x0A) (join_with [CHR 0x0A] ls @ [CHR 0x0A]) = ls @ [[]]"
    using split_char_join [of "CHR 0x0A" "join_with [CHR 0x0A] ls" "[]"] split_join_with [OF assms] by simp
  then show ?thesis by (simp add: str_lines_eq)
qed

lemma str_lines_no_newline: "l \<in> set (str_lines s) \<Longrightarrow> CHR 0x0A \<notin> set l"
proof -
  assume "l \<in> set (str_lines s)"
  then obtain l' where l': "l' \<in> set (split_char (CHR 0x0A) s)" "l = strip_cr l'"
    by (auto simp: str_lines_eq Let_def split: if_splits dest: in_set_butlastD)
  then show ?thesis
    using split_char_pieces [OF l'(1)] by (auto simp: strip_cr_def dest: in_set_butlastD)
qed

lemma join_with_no_last: "ls \<noteq> [] \<Longrightarrow> \<forall>l \<in> set ls. l \<noteq> [] \<and> d \<notin> set l \<Longrightarrow> join_with sep ls \<noteq> [] \<and> last (join_with sep ls) \<noteq> d"
  by (induction sep ls rule: join_with.induct) (auto simp: last_append)

lemma kept_lines_text:
  assumes "ls = filter keep_line (str_lines host)" "list_ex is_nameserver ls"
  shows "generate_resolv_conf host = join_with [CHR 0x0A] ls @ [CHR 0x0A]" "ls \<noteq> []" "\<forall>l \<in> set ls. CHR 0x0A \<notin> set l"
proof -
  have blank: "\<not> keep_line []" by code_simp
  have all: "\<forall>l \<in> set ls. l \<noteq> [] \<and> CHR 0x0A \<notin> set l"
    using str_lines_no_newline blank unfolding assms(1) by auto
  show ne: "ls \<noteq> []" using assms(2) by auto
  show "\<forall>l \<in> set ls. CHR 0x0A \<notin> set l" using all by blast
  show "generate_resolv_conf host = join_with [CHR 0x0A] ls @ [CHR 0x0A]"
    using join_with_no_last [OF ne all, of "[CHR 0x0A]"] assms
    by (auto simp: generate_resolv_conf_def Let_def)
qed

lemma fallback_lines: "str_lines FALLBACK_RESOLV_CONF = [''nameserver 8.8.8.8'', ''nameserver 8.8.4.4'']"
  by code_simp

lemma fallback_servers: "is_nameserver ''nameserver 8.8.8.8''" "names_server ''nameserver 8.8.8.8''" "names_server ''nameserver 8.8.4.4''"
proof -
  have "split_whitespace (str_trim ''nameserver 8.8.8.8'') = [''nameserver'', ''8.8.8.8'']"
    "split_whitespace (str_trim ''nameserver 8.8.4.4'') = [''nameserver'', ''8.8.4.4'']"
    by code_simp+
  moreover have "\<not> is_loopback ''8.8.8.8''" "\<not> is_loopback ''8.8.4.4''"
    by code_simp+
  ultimately show "names_server ''nameserver 8.8.8.8''" "names_server ''nameserver 8.8.4.4''"
    by (simp_all add: names_server_def)
  show "is_nameserver ''nameserver 8.8.8.8''" by code_simp
qed

text \<open>
  Whatever the host's file holds, the container's has a name server, and no name server line of it names
  a loopback address or lacks an address.
\<close>

lemma resolv_conf_usable:
  "\<exists>l \<in> set (str_lines (generate_resolv_conf host)). is_nameserver l"
  "l \<in> set (str_lines (generate_resolv_conf host)) \<Longrightarrow> is_nameserver l \<Longrightarrow> names_server l"
proof -
  let ?ls = "filter keep_line (str_lines host)"
  have "(\<exists>l \<in> set (str_lines (generate_resolv_conf host)). is_nameserver l) \<and>
      (\<forall>l \<in> set (str_lines (generate_resolv_conf host)). is_nameserver l \<longrightarrow> names_server l)"
  proof (cases "list_ex is_nameserver ?ls")
    case True
    have "str_lines (generate_resolv_conf host) = map strip_cr ?ls"
      by (simp add: kept_lines_text [OF refl True] str_lines_join)
    then show ?thesis
      using True by (auto simp: list_ex_iff line_kinds_strip_cr intro: kept_nameserver)
  next
    case False
    then have "generate_resolv_conf host = FALLBACK_RESOLV_CONF"
      by (simp add: generate_resolv_conf_def Let_def)
    then show ?thesis using fallback_servers by (simp add: fallback_lines)
  qed
  then show "\<exists>l \<in> set (str_lines (generate_resolv_conf host)). is_nameserver l"
    "l \<in> set (str_lines (generate_resolv_conf host)) \<Longrightarrow> is_nameserver l \<Longrightarrow> names_server l"
    by blast+
qed

end
