(* ===== verification/Youki_Image.thy ===== *)
theory Youki_Image
  imports Youki_Host
begin

text \<open>
  \<open>agent-youki/src/image.rs\<close>: pulling an image and unpacking it into the cache directory of its digest,
  where a \<open>.complete\<close> marker beside the root file system says that it may be used.

  The lemmas show what the unpacking asks of the file system for a hostile layer, and what a pull makes
  of the cache, with the file system and the registry as the parameter \<open>host\<close>.
\<close>

section \<open>Layers (extract\_layer)\<close>

definition traversal_path :: "string \<Rightarrow> bool" where
  "traversal_path p \<longleftrightarrow> is_absolute p \<or> ''..'' \<in> set (path_comps p)"

text \<open>The file a whiteout entry hides.\<close>

definition whiteout_target :: "string \<Rightarrow> string \<Rightarrow> string option" where
  "whiteout_target rootfs path = (case path_file_name path of
      None \<Rightarrow> None
    | Some name \<Rightarrow> map_option
        (path_join (path_join rootfs (case path_parent path of None \<Rightarrow> [] | Some d \<Rightarrow> d))) (strip_prefix name ''.wh.''))"

definition outside :: "'k host \<Rightarrow> string \<Rightarrow> string \<Rightarrow> 'k \<Rightarrow> bool" where
  "outside H rootfs p k = (case hk_canonicalize H p k of None \<Rightarrow> False | Some canonical \<Rightarrow> \<not> path_starts_with canonical rootfs)"

definition extract_entry :: "'k host \<Rightarrow> string \<Rightarrow> tar_entry \<Rightarrow> ('k, AgentError, unit) op" where
  "extract_entry H rootfs entry k = (case te_path entry of
      Inl e \<Rightarrow> (Inl (Runtime (''invalid tar entry path: '' @ e)), k)
    | Inr path \<Rightarrow>
        if traversal_path path then
          (Inl (Runtime (''tar entry rejected (absolute or '' @ [CHR 0x27] @ ''..'' @ [CHR 0x27] @ '' component): '' @ path)), k)
        else (case whiteout_target rootfs path of
            Some target \<Rightarrow>
              if outside H rootfs target k then (Inl (Runtime (''whiteout target escapes rootfs: '' @ target)), k)
              else then_op (drop_result (hk_remove_file H HostNs target)) (drop_result (hk_remove_dir_all H HostNs target)) k
          | None \<Rightarrow>
              (let dest = path_join rootfs path in
               if (case path_parent dest of None \<Rightarrow> False | Some parent \<Rightarrow> outside H rootfs parent k)
               then (Inl (Runtime (''tar entry parent escapes rootfs: '' @ dest)), k)
               else lib_call (''failed to extract '' @ path @ '': '') (hk_unpack H entry dest) k)))"

fun extract_entries :: "'k host \<Rightarrow> string \<Rightarrow> (string + tar_entry) list \<Rightarrow> ('k, AgentError, unit) op" where
  "extract_entries H rootfs [] k = (Inr (), k)"
| "extract_entries H rootfs (Inl e # es) k = (Inl (Runtime (''failed to read tar entry: '' @ e)), k)"
| "extract_entries H rootfs (Inr entry # es) k = then_op (extract_entry H rootfs entry) (extract_entries H rootfs es) k"

definition extract_layer :: "'k host \<Rightarrow> bytes \<Rightarrow> string \<Rightarrow> ('k, AgentError, unit) op" where
  "extract_layer H data rootfs = blocking H ''layer extraction''
     (bind_op (lib_look ''failed to read tar entries: '' (\<lambda>_. hk_tar_entries H data)) (extract_entries H rootfs))"

section \<open>Pulling (ImageManager)\<close>

fun collect_layer :: "string \<Rightarrow> bytes \<Rightarrow> (string + bytes) list \<Rightarrow> AgentError + bytes" where
  "collect_layer digest acc [] = Inr acc"
| "collect_layer digest acc (Inl e # cs) = Inl (Runtime (''failed to read layer '' @ digest @ '' data: '' @ e))"
| "collect_layer digest acc (Inr b # cs) = collect_layer digest (acc @ b) cs"

definition pull_layer :: "'k host \<Rightarrow> string \<Rightarrow> string \<Rightarrow> oci_layer \<Rightarrow> ('k, AgentError, unit) op" where
  "pull_layer H reference dir layer =
    bind_op (lib_call (''failed to start pulling layer '' @ ly_digest layer @ '': '') (hk_pull_blob H reference layer))
      (\<lambda>stream k. case collect_layer (ly_digest layer) [] stream of
          Inl e \<Rightarrow> (Inl e, k)
        | Inr data \<Rightarrow> extract_layer H data dir k)"

definition safe_digest :: "string \<Rightarrow> string" where
  "safe_digest digest = map (\<lambda>c. if c = CHR '':'' then CHR ''_'' else c) digest"

definition image_dir :: "string \<Rightarrow> string \<Rightarrow> string" where
  "image_dir root digest = path_join (path_join root ''images'') (safe_digest digest)"

definition image_rootfs :: "string \<Rightarrow> string \<Rightarrow> string" where
  "image_rootfs root digest = path_join (image_dir root digest) ''rootfs''"

definition image_marker :: "string \<Rightarrow> string \<Rightarrow> string" where
  "image_marker root digest = path_join (image_dir root digest) ''.complete''"

definition image_tmp :: "uuid_lib \<Rightarrow> string \<Rightarrow> string \<Rightarrow> uuid \<Rightarrow> string" where
  "image_tmp U root digest u = path_join (image_dir root digest) (''rootfs.tmp.'' @ uuid_simple U u)"

text \<open>The swap after a successful extraction.\<close>

definition install_rootfs :: "'k host \<Rightarrow> bool \<Rightarrow> string \<Rightarrow> string \<Rightarrow> string \<Rightarrow> ('k, AgentError, unit) op" where
  "install_rootfs H force tmp_dir rootfs_dir marker =
    (if force then
       then_op (drop_result (hk_remove_file H HostNs marker))
       (then_op (\<lambda>k. if hk_exists H rootfs_dir k
           then os_call (''force-refresh: failed to remove cached rootfs at '' @ rootfs_dir @ '': '')
             (hk_remove_dir_all H HostNs rootfs_dir) k
           else (Inr (), k))
         (os_call ''force-refresh: failed to atomically install rootfs: '' (hk_rename H HostNs tmp_dir rootfs_dir)))
     else (\<lambda>k. if hk_exists H rootfs_dir k then drop_result (hk_remove_dir_all H HostNs tmp_dir) k
        else os_call ''failed to atomically install rootfs: '' (hk_rename H HostNs tmp_dir rootfs_dir) k))"

definition extract_image :: "'k host \<Rightarrow> string \<Rightarrow> oci_layer list \<Rightarrow> string \<Rightarrow> ('k, AgentError, unit) op" where
  "extract_image H reference layers tmp_dir k = (case each_op (pull_layer H reference tmp_dir) layers k of
      (Inr _, k') \<Rightarrow> (Inr (), k')
    | (Inl e, k') \<Rightarrow> (Inl e, snd (hk_remove_dir_all H HostNs tmp_dir k')))"

definition pull_and_unpack_with :: "uuid_lib \<Rightarrow> 'k host \<Rightarrow> string \<Rightarrow> string \<Rightarrow> bool \<Rightarrow> ('k, AgentError, string) op" where
  "pull_and_unpack_with U H root image_ref force =
    bind_op (lib_look (''invalid image reference '' @ [CHR 0x27] @ image_ref @ [CHR 0x27] @ '': '')
        (\<lambda>_. hk_parse_reference H image_ref)) (\<lambda>reference.
    bind_op (lib_call (''failed to pull manifest for '' @ [CHR 0x27] @ image_ref @ [CHR 0x27] @ '': '')
        (hk_pull_manifest H reference)) (\<lambda>(layers, digest) k.
      let rootfs_dir = image_rootfs root digest; marker = image_marker root digest in
      if \<not> force \<and> hk_exists H marker k then (Inr rootfs_dir, k)
      else
        (let (u, k1) = hk_new_uuid H k;
             tmp_dir = image_tmp U root digest u
         in then_op (os_call ''failed to create image directory: '' (hk_create_dir_all H HostNs (image_dir root digest)))
            (then_op (os_call ''failed to create rootfs tmp directory: '' (hk_create_dir_all H HostNs tmp_dir))
            (then_op (extract_image H reference layers tmp_dir)
            (then_op (install_rootfs H force tmp_dir rootfs_dir marker)
            (then_op (os_call ''failed to write image marker: '' (hk_write H HostNs marker []))
            (ok_op rootfs_dir))))) k1)))"

definition pull_and_unpack :: "uuid_lib \<Rightarrow> 'k host \<Rightarrow> string \<Rightarrow> string \<Rightarrow> ('k, AgentError, string) op" where
  "pull_and_unpack U H root image_ref = pull_and_unpack_with U H root image_ref False"

section \<open>What unpacking a layer does\<close>

text \<open>
  A path below the directory being unpacked into, with no way up in it; and the steps an unpacking may
  take: unpack an entry below the directory when the place it goes to does not resolve outside it, and
  remove a name in a directory below it when that does not resolve outside it.
\<close>

definition below :: "string \<Rightarrow> string \<Rightarrow> bool" where
  "below root p \<longleftrightarrow> (\<exists>rest. path_comps p = path_comps root @ rest \<and> ''..'' \<notin> set rest)"

inductive confined :: "'k host \<Rightarrow> string \<Rightarrow> 'k \<Rightarrow> 'k \<Rightarrow> bool" for H root where
  finished: "confined H root k k"
| unpacked: "below root dest \<Longrightarrow> path_parent dest = Some parent \<Longrightarrow> \<not> outside H root parent k \<Longrightarrow>
    confined H root (snd (hk_unpack H entry dest k)) k' \<Longrightarrow> confined H root k k'"
| removed: "below root dir \<Longrightarrow> CHR ''/'' \<notin> set name \<Longrightarrow> target = path_join dir name \<Longrightarrow> \<not> outside H root target k \<Longrightarrow>
    k1 = snd (hk_remove_file H HostNs target k) \<Longrightarrow>
    confined H root (snd (hk_remove_dir_all H HostNs target k1)) k' \<Longrightarrow> confined H root k k'"

lemma confined_trans: "confined H root k k1 \<Longrightarrow> confined H root k1 k2 \<Longrightarrow> confined H root k k2"
proof (induction rule: confined.induct)
  case (unpacked dest parent k entry k')
  then show ?case using confined.unpacked by metis
next
  case (removed dir name target k k1 k')
  then show ?case using confined.removed by metis
qed

lemma not_traversal: "\<not> traversal_path p \<Longrightarrow> \<not> is_absolute p \<and> ''..'' \<notin> set (path_comps p)"
  by (simp add: traversal_path_def)

lemma dest_below: "\<not> traversal_path p \<Longrightarrow> below root (path_join root p)"
  by (auto simp: below_def path_comps_join dest: not_traversal)

lemma relative_pieces: "\<forall>c \<in> set cs. CHR ''/'' \<notin> set c \<and> c \<noteq> [] \<Longrightarrow> \<not> is_absolute (join_with ''/'' cs)"
  by (cases cs; cases "tl cs"; cases "hd cs") (auto simp: is_absolute_def starts_with_def)

lemma file_name_no_sep: "path_file_name p = Some name \<Longrightarrow> CHR ''/'' \<notin> set name"
  using path_comps_no_sep [of "last (path_comps p)" p] by (auto simp: path_file_name_def split: if_splits)

lemma whiteout_confined:
  assumes "\<not> traversal_path p" "whiteout_target root p = Some target"
  shows "\<exists>dir name. below root dir \<and> CHR ''/'' \<notin> set name \<and> target = path_join dir name"
proof -
  from assms(2) obtain nm t where nm: "path_file_name p = Some nm" "nm = ''.wh.'' @ t"
    and target: "target = path_join (path_join root (case path_parent p of None \<Rightarrow> [] | Some d \<Rightarrow> d)) t"
    by (auto simp: whiteout_target_def strip_prefix_Some split: option.splits)
  from nm(1) have "path_comps p \<noteq> []" by (auto simp: path_file_name_def split: if_splits)
  then obtain d where d: "path_parent p = Some d" by (auto simp: path_parent_def)
  have up: "''..'' \<notin> set (butlast (path_comps p))"
    using not_traversal [OF assms(1)] by (auto dest: in_set_butlastD)
  have "\<not> is_absolute (join_with ''/'' (butlast (path_comps p)))"
    by (rule relative_pieces) (auto dest!: in_set_butlastD dest: path_comps_no_sep)
  then have "\<not> is_absolute d"
    using d not_traversal [OF assms(1)] by (auto simp: path_parent_def split: if_splits)
  then have "below root (path_join root d)"
    using up path_parent_comps [OF d] by (simp add: below_def path_comps_join)
  moreover have "CHR ''/'' \<notin> set t"
    using file_name_no_sep [OF nm(1)] nm(2) by simp
  ultimately show ?thesis using target d by auto
qed

lemma path_parent_Some: "path_comps p \<noteq> [] \<Longrightarrow> \<exists>d. path_parent p = Some d"
  by (simp add: path_parent_def)

lemma extract_entry_confined:
  assumes "path_comps root \<noteq> []" "extract_entry H root entry k = (r, k')"
  shows "confined H root k k'"
proof (cases "te_path entry")
  case (Inr p)
  show ?thesis
  proof (cases "traversal_path p")
    case ok: False
    show ?thesis
    proof (cases "whiteout_target root p")
      case None
      let ?dest = "path_join root p"
      have "path_comps ?dest \<noteq> []"
        using assms(1) ok by (simp add: path_comps_join not_traversal)
      then obtain parent where parent: "path_parent ?dest = Some parent"
        using path_parent_Some by blast
      show ?thesis
      proof (cases "outside H root parent k")
        case False
        with assms(2) Inr ok None parent have "k' = snd (hk_unpack H entry ?dest k)"
          by (auto simp: extract_entry_def lib_call_def Let_def split: prod.splits)
        with confined.unpacked [OF dest_below [OF ok] parent False confined.finished] show ?thesis by simp
      qed (use assms(2) Inr ok None parent in \<open>auto simp: extract_entry_def Let_def intro: confined.finished\<close>)
    next
      case (Some target)
      from whiteout_confined [OF ok this] obtain dir name where
        t: "below root dir" "CHR ''/'' \<notin> set name" "target = path_join dir name" by blast
      show ?thesis
      proof (cases "outside H root target k")
        case False
        with assms(2) Inr ok Some have
          "k' = snd (hk_remove_dir_all H HostNs target (snd (hk_remove_file H HostNs target k)))"
          by (auto simp: extract_entry_def then_op_def bind_op_def drop_result_def)
        with confined.removed [OF t False refl confined.finished] show ?thesis by simp
      qed (use assms(2) Inr ok Some in \<open>auto simp: extract_entry_def intro: confined.finished\<close>)
    qed
  qed (use assms(2) Inr in \<open>auto simp: extract_entry_def intro: confined.finished\<close>)
qed (use assms(2) in \<open>auto simp: extract_entry_def intro: confined.finished\<close>)

lemma extract_entries_confined:
  "path_comps root \<noteq> [] \<Longrightarrow> extract_entries H root es k = (r, k') \<Longrightarrow> confined H root k k'"
proof (induction H root es k rule: extract_entries.induct)
  case (3 H root entry es k)
  obtain x k1 where e: "extract_entry H root entry k = (x, k1)" by (rule prod.exhaust)
  note first = extract_entry_confined [OF 3(2) e]
  show ?case
  proof (cases x)
    case (Inr u)
    with 3(3) e have "extract_entries H root es k1 = (r, k')"
      by (simp add: then_op_def bind_op_def)
    with 3(1,2) first show ?thesis by (blast intro: confined_trans)
  qed (use 3(3) e first in \<open>simp add: then_op_def bind_op_def\<close>)
qed (auto intro: confined.finished)

lemma extract_layer_confined:
  assumes "path_comps root \<noteq> []" "extract_layer H data root k = (r, k')"
  shows "confined H root k k'"
proof (cases "hk_tar_entries H data")
  case (Inr es)
  obtain x k1 where e: "extract_entries H root es k = (x, k1)" by (rule prod.exhaust)
  with assms(2) Inr have "k' = k1"
    by (auto simp: extract_layer_def blocking_def bind_op_def lib_look_def map_err_def split: option.splits)
  with extract_entries_confined [OF assms(1) e] show ?thesis by simp
qed (use assms(2) in \<open>auto simp: extract_layer_def blocking_def bind_op_def lib_look_def map_err_def intro: confined.finished split: option.splits\<close>)

section \<open>The cache\<close>

text \<open>
  What the cache relies on of the file system, for one in which distinct paths without \<open>..\<close> name distinct
  files: \<open>tree p k\<close> is what is at the path \<open>p\<close>, if anything. A call leaves alone what is apart from its
  operands; a name that does not resolve outside a directory is removed within it; writing and moving a
  file put it in place, and a failed move moves nothing.
\<close>

definition plain :: "string \<Rightarrow> bool" where
  "plain p \<longleftrightarrow> ''..'' \<notin> set (path_comps p)"

definition apart :: "string \<Rightarrow> string \<Rightarrow> bool" where
  "apart p q \<longleftrightarrow> plain p \<and> plain q \<and> \<not> prefix (path_comps p) (path_comps q) \<and> \<not> prefix (path_comps q) (path_comps p)"

lemma plain_sub: "plain d \<Longrightarrow> c \<noteq> ''..'' \<Longrightarrow> CHR ''/'' \<notin> set c \<Longrightarrow> c \<noteq> [] \<Longrightarrow> c \<noteq> ''.'' \<Longrightarrow>
    path_comps (path_join d c) = path_comps d @ [c] \<and> plain (path_join d c)"
  by (cases c) (auto simp: path_comps_join is_absolute_def starts_with_def path_comps_single plain_def)

lemma image_tmp_path:
  assumes "uuid_text U" "plain (image_dir root digest)"
  shows "path_comps (image_tmp U root digest u) = path_comps (image_dir root digest) @ [''rootfs.tmp.'' @ uuid_simple U u] \<and>
      plain (image_tmp U root digest u)"
proof -
  have "CHR ''/'' \<notin> set (uuid_simple U u)"
    using uuid_text.simple_hex [OF assms(1), of "CHR ''/''" u] by (auto simp: is_lower_hex_def is_ascii_digit_def char_code_def)
  then show ?thesis
    unfolding image_tmp_def by (intro plain_sub [OF assms(2)]) auto
qed

lemma image_paths:
  assumes "plain (image_dir root digest)"
  shows "path_comps (image_rootfs root digest) = path_comps (image_dir root digest) @ [''rootfs''] \<and> plain (image_rootfs root digest)"
    "path_comps (image_marker root digest) = path_comps (image_dir root digest) @ [''.complete''] \<and> plain (image_marker root digest)"
  unfolding image_rootfs_def image_marker_def by (intro plain_sub [OF assms]; simp)+

lemma image_apart:
  assumes "plain (image_dir root digest)"
  shows "apart (image_rootfs root digest) (image_marker root digest)" "apart (image_marker root digest) (image_rootfs root digest)"
  using image_paths [OF assms] by (auto simp: apart_def)

lemma image_tmp_apart:
  assumes "uuid_text U" "plain (image_dir root digest)"
  shows "apart (image_tmp U root digest u) (image_rootfs root digest)" "apart (image_tmp U root digest u) (image_marker root digest)"
  using image_paths [OF assms(2)] image_tmp_path [OF assms, of u] by (auto simp: apart_def)

text \<open>The marker says that there is a root file system.\<close>

definition cache_sound :: "(string \<Rightarrow> 'k \<Rightarrow> 't option) \<Rightarrow> string \<Rightarrow> string \<Rightarrow> 'k \<Rightarrow> bool" where
  "cache_sound tree root digest k \<longleftrightarrow>
    (tree (image_marker root digest) k \<noteq> None \<longrightarrow> tree (image_rootfs root digest) k \<noteq> None)"

locale plain_files =
  fixes H :: "'k host" and tree :: "string \<Rightarrow> 'k \<Rightarrow> 't option"
  assumes exists_iff: "hk_exists H p k \<longleftrightarrow> tree p k \<noteq> None"
    and mkdir_frame: "plain p \<Longrightarrow> plain q \<Longrightarrow> \<not> prefix (path_comps q) (path_comps p) \<Longrightarrow>
      tree q (snd (hk_create_dir_all H HostNs p k)) = tree q k"
    and write_frame: "apart p q \<Longrightarrow> tree q (snd (hk_write H HostNs p content k)) = tree q k"
    and write_ok: "hk_write H HostNs p content k = (Inr (), k') \<Longrightarrow> tree p k' \<noteq> None"
    and rename_frame: "apart a q \<Longrightarrow> apart b q \<Longrightarrow> tree q (snd (hk_rename H HostNs a b k)) = tree q k"
    and rename_ok: "hk_rename H HostNs a b k = (Inr (), k') \<Longrightarrow> tree b k' = tree a k \<and> tree a k \<noteq> None"
    and rename_err: "hk_rename H HostNs a b k = (Inl e, k') \<Longrightarrow> tree q k' = tree q k"
    and unlink_frame: "apart p q \<Longrightarrow> tree q (snd (hk_remove_file H HostNs p k)) = tree q k"
    and unlink_ok: "hk_remove_file H HostNs p k = (Inr (), k') \<Longrightarrow> tree p k' = None"
    and unlink_err: "hk_remove_file H HostNs p k = (Inl e, k') \<Longrightarrow> tree p k' = tree p k"
    and rmtree_frame: "apart p q \<Longrightarrow> tree q (snd (hk_remove_dir_all H HostNs p k)) = tree q k"
    and unlink_inside: "prefix (path_comps root) (path_comps p) \<Longrightarrow> \<not> outside H root p k \<Longrightarrow> apart root q \<Longrightarrow>
      tree q (snd (hk_remove_file H HostNs p k)) = tree q k"
    and unlink_stays: "prefix (path_comps root) (path_comps p) \<Longrightarrow> plain root \<Longrightarrow> \<not> outside H root p k \<Longrightarrow>
      \<not> outside H root p (snd (hk_remove_file H HostNs p k))"
    and rmtree_inside: "prefix (path_comps root) (path_comps p) \<Longrightarrow> \<not> outside H root p k \<Longrightarrow> apart root q \<Longrightarrow>
      tree q (snd (hk_remove_dir_all H HostNs p k)) = tree q k"
    and unpack_frame: "apart p q \<Longrightarrow> tree q (snd (hk_unpack H entry p k)) = tree q k"
    and manifest_frame: "tree q (snd (hk_pull_manifest H reference k)) = tree q k"
    and blob_frame: "tree q (snd (hk_pull_blob H reference layer k)) = tree q k"
    and uuid_frame: "tree q (snd (hk_new_uuid H k)) = tree q k"
begin

lemma below_apart: "below root p \<Longrightarrow> apart root q \<Longrightarrow> apart p q"
  by (auto simp: below_def apart_def plain_def prefix_def append_eq_append_conv2) metis

lemma confined_frame: "confined H root k k' \<Longrightarrow> apart root q \<Longrightarrow> tree q k' = tree q k"
proof (induction rule: confined.induct)
  case (unpacked dest parent k entry k')
  then show ?case by (simp add: unpack_frame below_apart)
next
  case (removed dir name target k k1 k')
  have "\<not> is_absolute name"
    using removed(2) by (cases name) (auto simp: is_absolute_def starts_with_def)
  then have inside: "prefix (path_comps root) (path_comps target)"
    using removed(1,3) by (auto simp: below_def path_comps_join)
  have "tree q k1 = tree q k"
    using unlink_inside [OF inside removed(4,8)] removed(5) by simp
  moreover have "\<not> outside H root target k1"
    using unlink_stays [OF inside _ removed(4)] removed(5,8) by (simp add: apart_def)
  ultimately show ?case
    using removed(7) removed(8) rmtree_inside [OF inside _ removed(8)] by simp
qed simp

lemma pull_layer_frame:
  assumes "path_comps dir \<noteq> []" "apart dir q"
  shows "tree q (snd (pull_layer H reference dir layer k)) = tree q k"
proof -
  obtain r k1 where b: "hk_pull_blob H reference layer k = (r, k1)" by (rule prod.exhaust)
  then have t: "tree q k1 = tree q k" using blob_frame [of q reference layer k] by simp
  show ?thesis
  proof (cases r)
    case (Inr stream)
    show ?thesis
    proof (cases "collect_layer (ly_digest layer) [] stream")
      case (Inr data)
      obtain x k2 where e: "extract_layer H data dir k1 = (x, k2)" by (rule prod.exhaust)
      with b Inr \<open>r = Inr stream\<close> t confined_frame [OF extract_layer_confined [OF assms(1) e] assms(2)] show ?thesis
        by (simp add: pull_layer_def bind_op_def lib_call_def map_err_def)
    qed (use b Inr t in \<open>simp add: pull_layer_def bind_op_def lib_call_def map_err_def\<close>)
  qed (use b t in \<open>simp add: pull_layer_def bind_op_def lib_call_def map_err_def\<close>)
qed

lemma pull_layers_frame:
  assumes "path_comps dir \<noteq> []" "apart dir q"
  shows "tree q (snd (each_op (pull_layer H reference dir) layers k)) = tree q k"
proof (induction layers arbitrary: k)
  case (Cons l ls)
  obtain x k1 where e: "pull_layer H reference dir l k = (x, k1)" by (rule prod.exhaust)
  with Cons [of k1] pull_layer_frame [OF assms, of reference l k] show ?case
    by (cases x) (simp_all add: then_op_def bind_op_def)
qed (simp add: ok_op_def)

lemma extract_image_frame:
  assumes "path_comps dir \<noteq> []" "apart dir q"
  shows "tree q (snd (extract_image H reference layers dir k)) = tree q k"
proof -
  obtain x k1 where e: "each_op (pull_layer H reference dir) layers k = (x, k1)" by (rule prod.exhaust)
  with pull_layers_frame [OF assms, of reference layers k] rmtree_frame [OF assms(2), of k1] show ?thesis
    by (cases x) (simp_all add: extract_image_def)
qed

lemma install_effect:
  assumes U: "uuid_text U" "plain (image_dir root digest)"
    and removable: "force \<Longrightarrow> tree (image_marker root digest) k \<noteq> None \<Longrightarrow> is_ok (fst (hk_remove_file H HostNs (image_marker root digest) k))"
    and run: "install_rootfs H force (image_tmp U root digest u) (image_rootfs root digest) (image_marker root digest) k = (x, k')"
  shows "is_ok x \<Longrightarrow> tree (image_rootfs root digest) k' \<noteq> None"
    and "\<not> force \<Longrightarrow> tree (image_marker root digest) k' = tree (image_marker root digest) k"
    and "\<not> force \<Longrightarrow> tree (image_rootfs root digest) k \<noteq> None \<or> \<not> is_ok x \<Longrightarrow> tree (image_rootfs root digest) k' = tree (image_rootfs root digest) k"
    and "force \<Longrightarrow> tree (image_marker root digest) k' = None"
proof -
  let ?t = "image_tmp U root digest u" and ?r = "image_rootfs root digest" and ?m = "image_marker root digest"
  note ap = image_tmp_apart [OF U, of u] image_apart [OF U(2)]
  have plain_run: "is_ok x \<longrightarrow> tree ?r k' \<noteq> None" "tree ?m k' = tree ?m k"
    "tree ?r k \<noteq> None \<or> \<not> is_ok x \<longrightarrow> tree ?r k' = tree ?r k" if nf: "\<not> force"
  proof -
    have "(is_ok x \<longrightarrow> tree ?r k' \<noteq> None) \<and> tree ?m k' = tree ?m k \<and> (tree ?r k \<noteq> None \<or> \<not> is_ok x \<longrightarrow> tree ?r k' = tree ?r k)"
    proof (cases "hk_exists H ?r k")
      case True
      with run nf have "x = Inr ()" "k' = snd (hk_remove_dir_all H HostNs ?t k)"
        by (auto simp: install_rootfs_def drop_result_def)
      with True show ?thesis
        using rmtree_frame [OF ap(1)] rmtree_frame [OF ap(2)] exists_iff by auto
    next
      case False
      obtain y k1 where rn: "hk_rename H HostNs ?t ?r k = (y, k1)" by (rule prod.exhaust)
      with run nf False have "k' = k1" "is_ok x = is_ok y"
        by (auto simp: install_rootfs_def os_call_def map_err_def is_ok_def split: sum.splits)
      then show ?thesis
        using False rn rename_ok [of ?t ?r k] rename_err [of ?t ?r k] rename_frame [OF ap(2,3), of k] exists_iff [of ?r k]
        by (cases y) (auto simp: is_ok_def)
    qed
    then show "is_ok x \<longrightarrow> tree ?r k' \<noteq> None" "tree ?m k' = tree ?m k"
      "tree ?r k \<noteq> None \<or> \<not> is_ok x \<longrightarrow> tree ?r k' = tree ?r k" by blast+
  qed
  have force_run: "(is_ok x \<longrightarrow> tree ?r k' \<noteq> None) \<and> tree ?m k' = None" if f: "force"
  proof -
    obtain y k1 where un: "hk_remove_file H HostNs ?m k = (y, k1)" by (rule prod.exhaust)
    have m1: "tree ?m k1 = None"
      using un removable f unlink_ok [of ?m k] unlink_err [of ?m k]
      by (cases y; cases "tree ?m k") (auto simp: is_ok_def)
    define ev where "ev = (if hk_exists H ?r k1 then hk_remove_dir_all H HostNs ?r k1 else (Inr (), k1))"
    obtain z k2 where ev: "ev = (z, k2)" by (rule prod.exhaust)
    have m2: "tree ?m k2 = None"
      using ev m1 rmtree_frame [OF ap(3), of k1] unfolding ev_def by (auto split: if_splits)
    obtain w k3 where rn: "hk_rename H HostNs ?t ?r k2 = (w, k3)" by (rule prod.exhaust)
    have m3: "tree ?m k3 = None" "is_ok w \<Longrightarrow> tree ?r k3 \<noteq> None"
      using rn m2 rename_ok [of ?t ?r k2] rename_frame [OF ap(2,3), of k2] by (cases w; auto simp: is_ok_def)+
    show ?thesis
      using run f un ev rn m2 m3 unfolding ev_def
      by (cases z; cases w) (auto simp: install_rootfs_def then_op_def bind_op_def drop_result_def os_call_def map_err_def is_ok_def split: if_splits)
  qed
  show "is_ok x \<Longrightarrow> tree ?r k' \<noteq> None" using plain_run(1) force_run by blast
  show "\<not> force \<Longrightarrow> tree ?m k' = tree ?m k" by (rule plain_run(2))
  show "\<not> force \<Longrightarrow> tree ?r k \<noteq> None \<or> \<not> is_ok x \<Longrightarrow> tree ?r k' = tree ?r k" using plain_run(3) by blast
  show "force \<Longrightarrow> tree ?m k' = None" using force_run by blast
qed

text \<open>A pull that knows the digest ends in one of three ways: it uses the cache, it fails before the
  swap, or it goes through the swap and the marker from a state with the cache as it was.\<close>

lemma pull_run:
  assumes U: "uuid_text U" "plain (image_dir root digest)"
    and man: "hk_parse_reference H img = Inr reference" "hk_pull_manifest H reference k = (Inr (layers, digest), k1)"
    and run: "pull_and_unpack_with U H root img force k = (res, k')"
  shows "(\<not> force \<and> tree (image_marker root digest) k \<noteq> None \<and> res = Inr (image_rootfs root digest) \<and> (\<forall>q. tree q k' = tree q k)) \<or>
    (\<not> is_ok res \<and> tree (image_marker root digest) k' = tree (image_marker root digest) k \<and>
       tree (image_rootfs root digest) k' = tree (image_rootfs root digest) k) \<or>
    (\<exists>u k2. \<not> (\<not> force \<and> tree (image_marker root digest) k \<noteq> None) \<and>
       tree (image_marker root digest) k2 = tree (image_marker root digest) k \<and>
       tree (image_rootfs root digest) k2 = tree (image_rootfs root digest) k \<and>
       then_op (install_rootfs H force (image_tmp U root digest u) (image_rootfs root digest) (image_marker root digest))
         (then_op (os_call ''failed to write image marker: '' (hk_write H HostNs (image_marker root digest) []))
           (ok_op (image_rootfs root digest))) k2 = (res, k'))"
    (is "?cached \<or> ?early \<or> ?swap")
proof -
  let ?r = "image_rootfs root digest" and ?m = "image_marker root digest" and ?d = "image_dir root digest"
  have t1: "tree q k1 = tree q k" for q
    using manifest_frame [of q reference k] man(2) by simp
  note start = run [unfolded pull_and_unpack_with_def]
  show ?thesis
  proof (cases "\<not> force \<and> hk_exists H ?m k1")
    case True
    with start man have "res = Inr ?r" "k' = k1"
      by (auto simp: bind_op_def lib_look_def lib_call_def map_err_def)
    then have ?cached using True t1 exists_iff by auto
    then show ?thesis ..
  next
    case miss: False
    obtain u k2 where u: "hk_new_uuid H k1 = (u, k2)" by (rule prod.exhaust)
    let ?t = "image_tmp U root digest u"
    note paths = image_paths [OF U(2)] image_tmp_path [OF U, of u]
    note ap = image_tmp_apart [OF U, of u]
    obtain x3 k3 where d: "hk_create_dir_all H HostNs ?d k2 = (x3, k3)" by (rule prod.exhaust)
    obtain x4 k4 where t: "hk_create_dir_all H HostNs ?t k3 = (x4, k4)" by (rule prod.exhaust)
    obtain x5 k5 where e: "extract_image H reference layers ?t k4 = (x5, k5)" by (rule prod.exhaust)
    have same: "tree q k3 = tree q k \<and> tree q k4 = tree q k \<and> tree q k5 = tree q k" if q: "q = ?r \<or> q = ?m" for q
    proof -
      have "tree q k2 = tree q k" using t1 uuid_frame [of q k1] u by simp
      moreover have "tree q k3 = tree q k2" using mkdir_frame [of ?d q k2] d paths U(2) q by auto
      moreover have "tree q k4 = tree q k3" using mkdir_frame [of ?t q k3] t paths q by auto
      moreover have "tree q k5 = tree q k4"
        using extract_image_frame [of ?t q reference layers k4] e ap q paths by auto
      ultimately show ?thesis by simp
    qed
    have rest: "then_op (os_call ''failed to create image directory: '' (hk_create_dir_all H HostNs ?d))
            (then_op (os_call ''failed to create rootfs tmp directory: '' (hk_create_dir_all H HostNs ?t))
            (then_op (extract_image H reference layers ?t)
            (then_op (install_rootfs H force ?t ?r ?m)
            (then_op (os_call ''failed to write image marker: '' (hk_write H HostNs ?m []))
            (ok_op ?r))))) k2 = (res, k')"
      using start man miss u by (auto simp: bind_op_def lib_look_def lib_call_def map_err_def image_tmp_def Let_def)
    show ?thesis
    proof (cases "is_ok x3 \<and> is_ok x4 \<and> is_ok x5")
      case True
      with rest d t e have "then_op (install_rootfs H force ?t ?r ?m)
          (then_op (os_call ''failed to write image marker: '' (hk_write H HostNs ?m [])) (ok_op ?r)) k5 = (res, k')"
        by (cases x3; cases x4; cases x5) (simp_all add: then_op_def bind_op_def os_call_def map_err_def is_ok_def)
      moreover have "\<not> (\<not> force \<and> tree ?m k \<noteq> None)"
        using miss t1 exists_iff by auto
      ultimately have ?swap using same by blast
      then show ?thesis by blast
    next
      case False
      with rest d t e have "\<not> is_ok res \<and> (k' = k3 \<or> k' = k4 \<or> k' = k5)"
        by (cases x3; cases x4; cases x5) (auto simp: then_op_def bind_op_def os_call_def map_err_def is_ok_def)
      then have ?early using same by auto
      then show ?thesis by blast
    qed
  qed
qed

lemma pull_cache:
  assumes U: "uuid_text U" "plain (image_dir root digest)"
    and removable: "\<And>k'. force \<Longrightarrow> tree (image_marker root digest) k' = tree (image_marker root digest) k \<Longrightarrow>
      tree (image_marker root digest) k \<noteq> None \<Longrightarrow> is_ok (fst (hk_remove_file H HostNs (image_marker root digest) k'))"
    and man: "hk_parse_reference H img = Inr reference" "hk_pull_manifest H reference k = (Inr (layers, digest), k1)"
    and run: "pull_and_unpack_with U H root img force k = (res, k')"
  shows "cache_sound tree root digest k \<Longrightarrow> cache_sound tree root digest k'"
    and "\<not> force \<Longrightarrow> tree (image_rootfs root digest) k \<noteq> None \<Longrightarrow> tree (image_rootfs root digest) k' = tree (image_rootfs root digest) k"
    and "res = Inr p \<Longrightarrow> p = image_rootfs root digest \<and> tree (image_marker root digest) k' \<noteq> None"
proof -
  let ?r = "image_rootfs root digest" and ?m = "image_marker root digest"
  have "(cache_sound tree root digest k \<longrightarrow> cache_sound tree root digest k') \<and>
     (\<not> force \<longrightarrow> tree ?r k \<noteq> None \<longrightarrow> tree ?r k' = tree ?r k) \<and> (res = Inr p \<longrightarrow> p = ?r \<and> tree ?m k' \<noteq> None)"
    using pull_run [OF U man run]
  proof (elim disjE exE conjE)
    fix u k2
    assume pre: "\<not> (\<not> force \<and> tree ?m k \<noteq> None)" "tree ?m k2 = tree ?m k" "tree ?r k2 = tree ?r k"
      and sw: "then_op (install_rootfs H force (image_tmp U root digest u) ?r ?m)
         (then_op (os_call ''failed to write image marker: '' (hk_write H HostNs ?m [])) (ok_op ?r)) k2 = (res, k')"
    obtain x k3 where i: "install_rootfs H force (image_tmp U root digest u) ?r ?m k2 = (x, k3)" by (rule prod.exhaust)
    have rem: "force \<Longrightarrow> tree ?m k2 \<noteq> None \<Longrightarrow> is_ok (fst (hk_remove_file H HostNs ?m k2))"
      using removable [of k2] pre(2) by simp
    note eff = install_effect [OF U rem i]
    show ?thesis
    proof (cases x)
      case (Inl e)
      with sw i have "res = Inl e" "k' = k3" by (simp_all add: then_op_def bind_op_def)
      with Inl eff pre show ?thesis by (cases force) (auto simp: cache_sound_def is_ok_def)
    next
      case (Inr v)
      obtain y k4 where w: "hk_write H HostNs ?m [] k3 = (y, k4)" by (rule prod.exhaust)
      have r4: "tree ?r k4 = tree ?r k3"
        using write_frame [OF image_apart(2) [OF U(2)], of "[]" k3] w by simp
      have "k' = k4 \<and> (res = Inr p \<longrightarrow> p = ?r \<and> y = Inr ())"
        using sw i Inr w by (cases y) (auto simp: then_op_def bind_op_def os_call_def map_err_def ok_op_def)
      with Inr eff pre r4 w write_ok [of ?m "[]" k3 k4] show ?thesis
        by (auto simp: cache_sound_def is_ok_def)
    qed
  qed (auto simp: cache_sound_def is_ok_def)
  then show "cache_sound tree root digest k \<Longrightarrow> cache_sound tree root digest k'"
    "\<not> force \<Longrightarrow> tree ?r k \<noteq> None \<Longrightarrow> tree ?r k' = tree ?r k"
    "res = Inr p \<Longrightarrow> p = ?r \<and> tree ?m k' \<noteq> None"
    by blast+
qed

end

end
