(* ===== verification/Youki_Memory.thy ===== *)
theory Youki_Memory
  imports Youki_Image
begin

text \<open>
  A host kept in memory: directories and files by their path in each mount namespace, and containers by
  their state directory. It satisfies what the image cache relies on of a file system (\<open>plain_files\<close>), so
  the properties of the cache, which close this theory, are about something.

  \<open>mm_stuck\<close> is a file that cannot be removed: removing a directory above it fails and leaves it, after
  the rest is gone, as \<open>remove_dir_all\<close> does. Nothing else fails unless a path is wrong.
\<close>

section \<open>Files\<close>

datatype mem_node = MemDir | MemFile bytes

record mem =
  mm_files :: "mount_ns \<Rightarrow> string list \<Rightarrow> mem_node option"
  mm_stuck :: "string list option"
  mm_uuid :: nat
  mm_containers :: "(string, lc_container) tbl"
  mm_network :: "string list"

definition resolve :: "string \<Rightarrow> string list" where
  "resolve p = foldl (\<lambda>acc c. if c = ''..'' then butlast acc else acc @ [c]) [] (path_comps p)"

definition not_found :: os_error where
  "not_found = \<lparr> oe_kind = KindNotFound, oe_text = ''No such file or directory (os error 2)'' \<rparr>"

definition refused :: os_error where
  "refused = \<lparr> oe_kind = KindOther, oe_text = ''Operation not permitted (os error 1)'' \<rparr>"

definition set_files :: "mount_ns \<Rightarrow> (string list \<Rightarrow> mem_node option) \<Rightarrow> mem \<Rightarrow> mem" where
  "set_files ns f k = k\<lparr>mm_files := (mm_files k)(ns := f)\<rparr>"

definition mem_dir :: "mount_ns \<Rightarrow> string list \<Rightarrow> mem \<Rightarrow> bool" where
  "mem_dir ns d k \<longleftrightarrow> d = [] \<or> mm_files k ns d = Some MemDir"

definition mem_create_dir_all :: "mount_ns \<Rightarrow> string \<Rightarrow> mem \<Rightarrow> (os_error + unit) \<times> mem" where
  "mem_create_dir_all ns p k =
    (let f = mm_files k ns; d = resolve p in
     if list_ex (\<lambda>q. case f q of Some (MemFile _) \<Rightarrow> True | _ \<Rightarrow> False) (prefixes d) then (Inl refused, k)
     else (Inr (), set_files ns (\<lambda>q. if q \<in> set (prefixes d) \<and> f q = None then Some MemDir else f q) k))"

definition mem_write :: "mount_ns \<Rightarrow> string \<Rightarrow> bytes \<Rightarrow> mem \<Rightarrow> (os_error + unit) \<times> mem" where
  "mem_write ns p b k =
    (let f = mm_files k ns; d = resolve p in
     if d = [] \<or> f d = Some MemDir then (Inl refused, k)
     else if \<not> mem_dir ns (butlast d) k then (Inl not_found, k)
     else (Inr (), set_files ns (f(d := Some (MemFile b))) k))"

definition mem_rename :: "mount_ns \<Rightarrow> string \<Rightarrow> string \<Rightarrow> mem \<Rightarrow> (os_error + unit) \<times> mem" where
  "mem_rename ns p p' k =
    (let f = mm_files k ns; a = resolve p; b = resolve p' in
     if f a = None then (Inl not_found, k)
     else if a = b then (Inr (), k)
     else if prefix a b \<or> prefix b a \<or> f b = Some MemDir \<or> (f b \<noteq> None \<and> f a = Some MemDir) then (Inl refused, k)
     else if \<not> mem_dir ns (butlast b) k then (Inl not_found, k)
     else (Inr (), set_files ns (\<lambda>q. if prefix b q then f (a @ drop (length b) q) else if prefix a q then None else f q) k))"

definition mem_remove_file :: "mount_ns \<Rightarrow> string \<Rightarrow> mem \<Rightarrow> (os_error + unit) \<times> mem" where
  "mem_remove_file ns p k =
    (let f = mm_files k ns; d = resolve p in
     case f d of
       None \<Rightarrow> (Inl not_found, k)
     | Some MemDir \<Rightarrow> (Inl refused, k)
     | Some (MemFile b) \<Rightarrow> (Inr (), set_files ns (f(d := None)) k))"

definition mem_remove_dir_all :: "mount_ns \<Rightarrow> string \<Rightarrow> mem \<Rightarrow> (os_error + unit) \<times> mem" where
  "mem_remove_dir_all ns p k =
    (let f = mm_files k ns; d = resolve p in
     case f d of
       None \<Rightarrow> (Inl not_found, k)
     | Some (MemFile b) \<Rightarrow> (Inl refused, k)
     | Some MemDir \<Rightarrow>
         (case mm_stuck k of
            Some x \<Rightarrow>
              if prefix d x then (Inl refused, set_files ns (\<lambda>q. if prefix d q \<and> \<not> prefix q x then None else f q) k)
              else (Inr (), set_files ns (\<lambda>q. if prefix d q then None else f q) k)
          | None \<Rightarrow> (Inr (), set_files ns (\<lambda>q. if prefix d q then None else f q) k)))"

definition mem_read :: "mount_ns \<Rightarrow> string \<Rightarrow> mem \<Rightarrow> os_error + bytes" where
  "mem_read ns p k = (case mm_files k ns (resolve p) of
      None \<Rightarrow> Inl not_found
    | Some MemDir \<Rightarrow> Inl refused
    | Some (MemFile b) \<Rightarrow> Inr b)"

definition mem_metadata :: "mount_ns \<Rightarrow> string \<Rightarrow> mem \<Rightarrow> os_error + file_meta" where
  "mem_metadata ns p k = (case mm_files k ns (resolve p) of
      None \<Rightarrow> Inl not_found
    | Some MemDir \<Rightarrow> Inr \<lparr> fm_kind = Directory, fm_len = 4096, fm_mtime = 0, fm_mode = 16877 \<rparr>
    | Some (MemFile b) \<Rightarrow> Inr \<lparr> fm_kind = RegularFile, fm_len = of_nat (length b), fm_mtime = 0, fm_mode = 33188 \<rparr>)"

definition mem_canonicalize :: "string \<Rightarrow> mem \<Rightarrow> string option" where
  "mem_canonicalize p k = (if mm_files k HostNs (resolve p) = None then None else Some (''/'' @ join_with ''/'' (resolve p)))"

section \<open>Containers, plugins and the registry\<close>

definition mem_build :: "string \<Rightarrow> string \<Rightarrow> string \<Rightarrow> mem \<Rightarrow> (string + i32 option) \<times> mem" where
  "mem_build cid root bundle k = (Inr (Some 100),
     (snd (mem_create_dir_all HostNs (path_join root cid) k))
       \<lparr>mm_containers := tbl_put (path_join root cid) \<lparr> lc_status = StCreated, lc_pid = Some 100 \<rparr> (mm_containers k)\<rparr>)"

definition mem_load :: "string \<Rightarrow> mem \<Rightarrow> string + lc_container" where
  "mem_load root k = ok_or (tbl_get (mm_containers k) root) ''no such container''"

definition mem_status :: "ContainerStatus \<Rightarrow> string \<Rightarrow> mem \<Rightarrow> (string + unit) \<times> mem" where
  "mem_status st root k = (case tbl_get (mm_containers k) root of
      None \<Rightarrow> (Inl ''no such container'', k)
    | Some c \<Rightarrow> (Inr (), k\<lparr>mm_containers := tbl_put root (c\<lparr>lc_status := st\<rparr>) (mm_containers k)\<rparr>))"

definition mem_cni :: "string \<Rightarrow> (string, string) tbl \<Rightarrow> (string, json) tbl \<Rightarrow> mem \<Rightarrow> cni_run \<times> mem" where
  "mem_cni plugin env conf k =
    (let cid = (case tbl_get env ''CNI_CONTAINERID'' of None \<Rightarrow> [] | Some c \<Rightarrow> c)
     in (CniExited True ''exit status: 0'' [] [],
         if tbl_get env ''CNI_COMMAND'' = Some ''ADD'' then k\<lparr>mm_network := List.insert cid (mm_network k)\<rparr>
         else k\<lparr>mm_network := removeAll cid (mm_network k)\<rparr>))"

text \<open>The registry serves one image, of the layers given, under a fixed digest; a layer's bytes are its text, and
  unpacking an entry writes its bytes.\<close>

definition mem_unpack :: "tar_entry \<Rightarrow> string \<Rightarrow> mem \<Rightarrow> (string + unit) \<times> mem" where
  "mem_unpack entry p k = (case mem_write HostNs p (te_raw entry) k of (r, k') \<Rightarrow> (map_err oe_text r, k'))"

definition mem_host :: "(string + tar_entry) list \<Rightarrow> mem host" where
  "mem_host entries = \<lparr>
     hk_create_dir_all = mem_create_dir_all,
     hk_exists = (\<lambda>p k. mm_files k HostNs (resolve p) \<noteq> None),
     hk_read = mem_read, hk_write = mem_write, hk_rename = mem_rename, hk_remove_file = mem_remove_file,
     hk_remove_dir = (\<lambda>ns p k. (Inl \<lparr> oe_kind = KindDirectoryNotEmpty, oe_text = ''Directory not empty (os error 39)'' \<rparr>, k)),
     hk_remove_dir_all = mem_remove_dir_all,
     hk_metadata = mem_metadata, hk_symlink_metadata = mem_metadata,
     hk_read_dir = (\<lambda>ns p k. Inl refused),
     hk_canonicalize = mem_canonicalize,
     hk_new_uuid = (\<lambda>k. (of_nat (mm_uuid k), k\<lparr>mm_uuid := mm_uuid k + 1\<rparr>)),
     hk_bind = (\<lambda>k. Inr (Inr 40000)),
     hk_task_panic = (\<lambda>k. None), hk_spawn_thread = (\<lambda>k. Inr ()),
     hk_open_ns = (\<lambda>p k. Inr ()), hk_unshare_fs = (\<lambda>k. Inr ()), hk_setns = (\<lambda>p k. Inr ()),
     hk_probes = (\<lambda>pid port t k. []),
     hk_parse_reference = Inr,
     hk_pull_manifest = (\<lambda>r k. (Inr ([\<lparr> ly_digest = ''sha256:11'', ly_media = [] \<rparr>], ''sha256:00''), k)),
     hk_pull_blob = (\<lambda>r l k. (Inr [], k)),
     hk_tar_entries = (\<lambda>_. Inr entries),
     hk_unpack = mem_unpack,
     hk_unpack_archive = (\<lambda>ns b p k. (Inr (), k)),
     hk_oci_build = (\<lambda>_. None), hk_spec_json = (\<lambda>_. Inr []),
     hk_lc_root = (\<lambda>p k. Inr ()), hk_lc_build = mem_build, hk_lc_load = mem_load,
     hk_lc_start = mem_status StRunning, hk_lc_pause = mem_status StPaused, hk_lc_resume = mem_status StRunning,
     hk_lc_kill = mem_status StStopped,
     hk_lc_delete = (\<lambda>root k. (Inr (), k\<lparr>mm_containers := tbl_del root (mm_containers k)\<rparr>)),
     hk_sleep = (\<lambda>t k. k), hk_cni = mem_cni,
     hk_parse_json = (\<lambda>b. Inl ''no JSON''), hk_cni_result = (\<lambda>j. Inl ''no result''), hk_cni_error = (\<lambda>b. Inl ''no error''),
     hk_agent_env = [(''JOIN_TOKEN'', ''secret'')],
     hk_nsenter = (\<lambda>args env k. (\<lparr> nr_spawned = Inr (), nr_has_pid = True, nr_has_stdin = True, nr_has_stdout = True,
        nr_has_stderr = True, nr_stdout = [], nr_stderr = [], nr_code = Some 0, nr_marker_in_time = False \<rparr>, k)),
     hk_nsenter_wait = (\<lambda>args k. (Inr True, k)) \<rparr>"

section \<open>The laws of plain files\<close>

definition mem_tree :: "string \<Rightarrow> mem \<Rightarrow> (string list \<Rightarrow> mem_node option) option" where
  "mem_tree p k = (if mm_files k HostNs (resolve p) = None then None
     else Some (\<lambda>rel. mm_files k HostNs (resolve p @ rel)))"

lemma resolve_plain: "plain p \<Longrightarrow> resolve p = path_comps p"
proof -
  have "''..'' \<notin> set cs \<Longrightarrow> foldl (\<lambda>acc c. if c = ''..'' then butlast acc else acc @ [c]) acc cs = acc @ cs" for acc and cs :: "string list"
    by (induction cs arbitrary: acc) auto
  then show "plain p \<Longrightarrow> resolve p = path_comps p" by (simp add: plain_def resolve_def)
qed

lemma resolve_comps: "c \<in> set (resolve p) \<Longrightarrow> c \<in> set (path_comps p)"
proof -
  have "c \<in> set (foldl (\<lambda>acc c. if c = ''..'' then butlast acc else acc @ [c]) acc cs) \<Longrightarrow> c \<in> set acc \<or> c \<in> set cs" for acc and cs :: "string list"
  proof (induction cs arbitrary: acc)
    case (Cons a cs)
    then show ?case by (cases "a = ''..''") (force dest: in_set_butlastD)+
  qed simp
  then show "c \<in> set (resolve p) \<Longrightarrow> c \<in> set (path_comps p)" by (fastforce simp: resolve_def)
qed

lemma canonical_comps: "path_comps (''/'' @ join_with ''/'' (resolve p)) = resolve p"
proof -
  have "path_comps (join_with ''/'' (resolve p)) = resolve p"
    by (rule path_comps_join_with) (auto dest!: resolve_comps dest: path_comps_no_sep)
  then show ?thesis by (simp add: path_comps_def)
qed

lemma mem_tree_eqI:
  "(\<And>rel. mm_files k' HostNs (resolve q @ rel) = mm_files k HostNs (resolve q @ rel)) \<Longrightarrow> mem_tree q k' = mem_tree q k"
proof -
  assume a: "\<And>rel. mm_files k' HostNs (resolve q @ rel) = mm_files k HostNs (resolve q @ rel)"
  with a [of "[]"] show ?thesis by (simp add: mem_tree_def)
qed

lemma mem_inside:
  assumes "\<not> outside (mem_host es) root p k" "plain root" "mm_files k HostNs (resolve p) \<noteq> None"
  shows "prefix (path_comps root) (resolve p)"
proof -
  from assms have "path_starts_with (''/'' @ join_with ''/'' (resolve p)) root"
    by (auto simp: outside_def mem_host_def mem_canonicalize_def)
  then have "take (length (path_comps root)) (resolve p) = path_comps root"
    by (simp only: path_starts_with_def canonical_comps)
  then show ?thesis by (metis take_is_prefix)
qed

lemma apart_rel: "apart p q \<Longrightarrow> \<not> prefix (path_comps p) (path_comps q @ rel)"
  by (auto simp: apart_def prefix_def append_eq_append_conv2) metis

lemma mem_change_frame:
  assumes "apart p q" "\<And>x. \<not> prefix (path_comps p) x \<Longrightarrow> mm_files k' HostNs x = mm_files k HostNs x"
  shows "mem_tree q k' = mem_tree q k"
  using assms apart_rel [OF assms(1)] by (intro mem_tree_eqI) (simp add: resolve_plain apart_def)

lemma set_files_at [simp]: "mm_files (set_files ns f k) ns = f"
  by (simp add: set_files_def)

lemma mem_write_files:
  "\<not> prefix (resolve p) x \<Longrightarrow> mm_files (snd (mem_write HostNs p b k)) HostNs x = mm_files k HostNs x"
  by (auto simp: mem_write_def Let_def)

lemma mem_remove_file_files:
  "\<not> prefix (resolve p) x \<Longrightarrow> mm_files (snd (mem_remove_file HostNs p k)) HostNs x = mm_files k HostNs x"
  by (auto simp: mem_remove_file_def Let_def split: option.splits mem_node.splits)

lemma mem_remove_dir_all_files:
  "\<not> prefix (resolve p) x \<Longrightarrow> mm_files (snd (mem_remove_dir_all HostNs p k)) HostNs x = mm_files k HostNs x"
  by (auto simp: mem_remove_dir_all_def Let_def split: option.splits mem_node.splits)

lemma mem_remove_missing:
  "mm_files k ns (resolve p) = None \<Longrightarrow> snd (mem_remove_file ns p k) = k \<and> snd (mem_remove_dir_all ns p k) = k"
  by (simp add: mem_remove_file_def mem_remove_dir_all_def)

lemma mem_inside_frame:
  assumes out: "\<not> outside (mem_host es) root p k" and ap: "apart root q"
    and frame: "\<And>x. \<not> prefix (resolve p) x \<Longrightarrow> mm_files k' HostNs x = mm_files k HostNs x"
    and missing: "mm_files k HostNs (resolve p) = None \<Longrightarrow> k' = k"
  shows "mem_tree q k' = mem_tree q k"
proof (cases "mm_files k HostNs (resolve p) = None")
  case False
  have "prefix (path_comps root) (resolve p)"
    using mem_inside [OF out _ False] ap by (simp add: apart_def)
  then have "\<And>x. \<not> prefix (path_comps root) x \<Longrightarrow> mm_files k' HostNs x = mm_files k HostNs x"
    using frame by (meson prefix_order.trans)
  then show ?thesis by (rule mem_change_frame [OF ap])
qed (simp add: missing)

lemma mem_rename_frame:
  assumes "apart a q" "apart b q"
  shows "mem_tree q (snd (mem_rename HostNs a b k)) = mem_tree q k"
proof (rule mem_tree_eqI)
  fix rel
  show "mm_files (snd (mem_rename HostNs a b k)) HostNs (resolve q @ rel) = mm_files k HostNs (resolve q @ rel)"
    using assms apart_rel [OF assms(1), of rel] apart_rel [OF assms(2), of rel]
    by (simp add: mem_rename_def Let_def resolve_plain apart_def)
qed

lemma mem_rename_ok:
  "mem_rename HostNs a b k = (Inr (), k') \<Longrightarrow> mem_tree b k' = mem_tree a k \<and> mem_tree a k \<noteq> None"
  by (auto simp: mem_rename_def mem_tree_def Let_def split: if_splits)

interpretation memf: plain_files "mem_host es" mem_tree
proof unfold_locales
  fix p q root a b reference :: string and k k' :: mem and content :: bytes and e entry layer
  show "hk_exists (mem_host es) p k \<longleftrightarrow> mem_tree p k \<noteq> None"
    by (simp add: mem_host_def mem_tree_def)
  show "mem_tree q (snd (hk_create_dir_all (mem_host es) HostNs p k)) = mem_tree q k"
    if "plain p" "plain q" "\<not> prefix (path_comps q) (path_comps p)"
    using that by (intro mem_tree_eqI) (auto simp: mem_host_def mem_create_dir_all_def Let_def resolve_plain prefix_def)
  show "mem_tree q (snd (hk_write (mem_host es) HostNs p content k)) = mem_tree q k" if "apart p q"
    using that mem_write_files [of p _ content k] by (intro mem_change_frame [OF that]) (simp add: mem_host_def resolve_plain apart_def)
  show "mem_tree p k' \<noteq> None" if "hk_write (mem_host es) HostNs p content k = (Inr (), k')"
    using that by (auto simp: mem_host_def mem_write_def mem_tree_def Let_def split: if_splits)
  show "mem_tree q (snd (hk_rename (mem_host es) HostNs a b k)) = mem_tree q k" if "apart a q" "apart b q"
    using mem_rename_frame [OF that] by (simp add: mem_host_def)
  show "mem_tree b k' = mem_tree a k \<and> mem_tree a k \<noteq> None" if "hk_rename (mem_host es) HostNs a b k = (Inr (), k')"
    using mem_rename_ok that by (simp add: mem_host_def)
  show "mem_tree q k' = mem_tree q k" if "hk_rename (mem_host es) HostNs a b k = (Inl e, k')"
    using that by (auto simp: mem_host_def mem_rename_def Let_def split: if_splits)
  show "mem_tree q (snd (hk_remove_file (mem_host es) HostNs p k)) = mem_tree q k" if "apart p q"
    using that mem_remove_file_files [of p _ k] by (intro mem_change_frame [OF that]) (simp add: mem_host_def resolve_plain apart_def)
  show "mem_tree p k' = None" if "hk_remove_file (mem_host es) HostNs p k = (Inr (), k')"
    using that by (auto simp: mem_host_def mem_remove_file_def mem_tree_def Let_def split: option.splits mem_node.splits)
  show "mem_tree p k' = mem_tree p k" if "hk_remove_file (mem_host es) HostNs p k = (Inl e, k')"
    using that by (auto simp: mem_host_def mem_remove_file_def Let_def split: option.splits mem_node.splits)
  show "mem_tree q (snd (hk_remove_dir_all (mem_host es) HostNs p k)) = mem_tree q k" if "apart p q"
    using that mem_remove_dir_all_files [of p _ k] by (intro mem_change_frame [OF that]) (simp add: mem_host_def resolve_plain apart_def)
  show "mem_tree q (snd (hk_remove_file (mem_host es) HostNs p k)) = mem_tree q k"
    if "\<not> outside (mem_host es) root p k" "apart root q"
    using mem_remove_file_files mem_remove_missing by (intro mem_inside_frame [OF that]) (simp_all add: mem_host_def)
  show "\<not> outside (mem_host es) root p (snd (hk_remove_file (mem_host es) HostNs p k))"
    if "\<not> outside (mem_host es) root p k"
    using that by (auto simp: outside_def mem_host_def mem_canonicalize_def mem_remove_file_def Let_def
        split: option.splits mem_node.splits if_splits)
  show "mem_tree q (snd (hk_remove_dir_all (mem_host es) HostNs p k)) = mem_tree q k"
    if "\<not> outside (mem_host es) root p k" "apart root q"
    using mem_remove_dir_all_files mem_remove_missing by (intro mem_inside_frame [OF that]) (simp_all add: mem_host_def)
  show "mem_tree q (snd (hk_unpack (mem_host es) entry p k)) = mem_tree q k" if "apart p q"
    using that mem_write_files [of p _ "te_raw entry" k]
    by (intro mem_change_frame [OF that]) (simp add: mem_host_def mem_unpack_def resolve_plain apart_def case_prod_beta)
qed (simp_all add: mem_host_def mem_tree_def)

section \<open>Properties of the image cache\<close>

text \<open>A cache directory whose root file system has lost its files and has no marker, as a forced refresh
  leaves it when it cannot remove the old directory itself.\<close>

definition demo_files :: "string list \<Rightarrow> mem_node option" where
  "demo_files q = (if q \<in> set (prefixes [''r'', ''images'', ''sha256_00'', ''rootfs'']) then Some MemDir else None)"

definition demo_partial :: mem where
  "demo_partial = \<lparr> mm_files = (\<lambda>_. demo_files), mm_stuck = None, mm_uuid = 0, mm_containers = [], mm_network = [] \<rparr>"

lemma demo_paths:
  "resolve (image_dir ''/r'' ''sha256:00'') = [''r'', ''images'', ''sha256_00'']" "plain (image_dir ''/r'' ''sha256:00'')"
  "resolve (image_rootfs ''/r'' ''sha256:00'') = [''r'', ''images'', ''sha256_00'', ''rootfs'']"
  "resolve (image_marker ''/r'' ''sha256:00'') = [''r'', ''images'', ''sha256_00'', ''.complete'']"
  by code_simp+

lemma demo_tmp: "resolve (image_tmp rfc4122 ''/r'' ''sha256:00'' 0) =
    [''r'', ''images'', ''sha256_00'', ''rootfs.tmp.'' @ uuid_simple rfc4122 0]"
  using image_tmp_path [OF rfc.uuid_text_axioms demo_paths(2), of 0] demo_paths(1,2) by (simp add: resolve_plain)

lemma demo_adopts: "\<exists>k'. pull_and_unpack_with rfc4122 (mem_host []) ''/r'' ''img'' False demo_partial =
    (Inr (image_rootfs ''/r'' ''sha256:00''), k')"
proof -
  let ?k = "demo_partial\<lparr>mm_uuid := 1\<rparr>" and ?t = "image_tmp rfc4122 ''/r'' ''sha256:00'' 0"
  have d: "mem_create_dir_all HostNs (image_dir ''/r'' ''sha256:00'') ?k = (Inr (), ?k)"
  proof -
    have "(\<lambda>q. if q \<in> set (prefixes [''r'', ''images'', ''sha256_00'']) \<and> demo_files q = None then Some MemDir else demo_files q) = demo_files"
      by (auto simp: demo_files_def)
    then show ?thesis
      by (simp add: mem_create_dir_all_def demo_paths demo_partial_def demo_files_def set_files_def Let_def fun_eq_iff)
  qed
  obtain k2 where t: "mem_create_dir_all HostNs ?t ?k = (Inr (), k2)"
    and k2: "mm_files k2 HostNs = demo_files([''r'', ''images'', ''sha256_00'', ''rootfs.tmp.'' @ uuid_simple rfc4122 0] := Some MemDir)"
    by (auto simp: mem_create_dir_all_def demo_tmp demo_partial_def demo_files_def Let_def fun_eq_iff)
  define k3 where "k3 = snd (mem_remove_dir_all HostNs ?t k2)"
  have k3: "\<not> prefix (resolve ?t) q \<Longrightarrow> mm_files k3 HostNs q = mm_files k2 HostNs q" for q
    unfolding k3_def by (rule mem_remove_dir_all_files)
  obtain k4 where w: "mem_write HostNs (image_marker ''/r'' ''sha256:00'') [] k3 = (Inr (), k4)"
    using k3 [of "[''r'', ''images'', ''sha256_00'', ''.complete'']"] k3 [of "[''r'', ''images'', ''sha256_00'']"] k2
    by (auto simp: mem_write_def demo_paths demo_tmp mem_dir_def demo_files_def Let_def)
  show ?thesis
    using d t w k2 k3_def
    by (simp add: pull_and_unpack_with_def mem_host_def bind_op_def then_op_def lib_look_def lib_call_def os_call_def map_err_def
        demo_paths demo_partial_def demo_files_def extract_image_def pull_layer_def extract_layer_def blocking_def install_rootfs_def
        drop_result_def ok_op_def Let_def)
qed


text \<open>C35. Unpacking a layer cannot be led out of its directory. Whatever entries the archive holds, every
  change the unpacking of a layer makes to the host is one of two: an entry unpacked at a path below the
  directory that has no \<open>..\<close> in it, when its parent does not resolve outside the directory at that moment;
  or a name removed (for a whiteout) from a directory below it, when that name does not resolve outside.\<close>

theorem layer_stays_inside:
  assumes "path_comps root \<noteq> []" "extract_layer H data root k = (r, k')"
  shows "confined H root k k'"
  by (rule extract_layer_confined [OF assms])

theorem layer_stays_inside_witness:
  "confined (mem_host [Inr \<lparr> te_path = Inr ''../etc/passwd'', te_raw = [1] \<rparr>]) ''/t'' demo_partial
     (snd (extract_layer (mem_host [Inr \<lparr> te_path = Inr ''../etc/passwd'', te_raw = [1] \<rparr>]) [] ''/t'' demo_partial))"
proof -
  have "path_comps ''/t'' \<noteq> []" by code_simp
  from layer_stays_inside [OF this prod.collapse [symmetric]] show ?thesis .
qed



end
