(* ===== verification/Agent_Youki.thy ===== *)
theory Agent_Youki
  imports Youki_Memory
begin

text \<open>
  \<open>agent-youki/src/lib.rs\<close>, \<open>exec.rs\<close> and \<open>setns_ops.rs\<close>: the container runtime over \<open>libcontainer\<close>. The
  runtime's state is the state of the host and the table of the containers it started.

  A thread that enters a container's mount namespace makes its file calls there (\<open>PidNs\<close>); it ends
  after one operation, so leaving the namespace again is not a state change of the model.
\<close>

section \<open>Configuration and state (lib.rs)\<close>

definition CONTAINER_ID_PREFIX :: string where "CONTAINER_ID_PREFIX = ''osb''"
definition CGROUP_PATH_PREFIX :: string where "CGROUP_PATH_PREFIX = ''/open-sandbox''"
definition NETWORK_NAME :: string where "NETWORK_NAME = ''open-sandbox''"
definition STOP_GRACE_PERIOD :: duration where "STOP_GRACE_PERIOD = dur_secs 10"

record YoukiConfig =
  yc_root_dir :: string
  yc_cni_bin_path :: string

definition default_youki_config :: YoukiConfig where
  "default_youki_config = \<lparr> yc_root_dir = ''/run/open-sandbox'', yc_cni_bin_path = ''/opt/cni/bin'' \<rparr>"

record ContainerMetadata =
  cm_sandbox_id :: SandboxId
  cm_host_port :: u16
  cm_container_dir :: string
  cm_netns_path :: string

record 'k youki =
  yk_containers :: "(string, ContainerMetadata) tbl"
  yk_host :: 'k

definition on_host :: "('k, AgentError, 'a) op \<Rightarrow> ('k youki, AgentError, 'a) op" where
  "on_host m s = (case m (yk_host s) of (r, k) \<Rightarrow> (r, s\<lparr>yk_host := k\<rparr>))"

definition youki_new :: "'k host \<Rightarrow> YoukiConfig \<Rightarrow> 'k \<Rightarrow> (AgentError + 'k youki) \<times> 'k" where
  "youki_new H cfg k = (case each_op (\<lambda>subdir. os_call (''failed to create '' @ subdir @ '' directory: '')
        (hk_create_dir_all H HostNs (path_join (yc_root_dir cfg) subdir))) [''state'', ''images'', ''containers''] k of
      (Inl e, k') \<Rightarrow> (Inl e, k')
    | (Inr _, k') \<Rightarrow> (Inr \<lparr> yk_containers = [], yk_host = k' \<rparr>, k'))"

definition state_dir :: "YoukiConfig \<Rightarrow> string" where
  "state_dir cfg = path_join (yc_root_dir cfg) ''state''"

definition container_root :: "YoukiConfig \<Rightarrow> string \<Rightarrow> string" where
  "container_root cfg cid = path_join (state_dir cfg) cid"

definition container_dir :: "YoukiConfig \<Rightarrow> string \<Rightarrow> string" where
  "container_dir cfg cid = path_join (path_join (yc_root_dir cfg) ''containers'') cid"

section \<open>Creating and rolling back\<close>

definition remove_if_present :: "'k host \<Rightarrow> string \<Rightarrow> 'k \<Rightarrow> 'k" where
  "remove_if_present H p k = (if hk_exists H p k then snd (hk_remove_dir_all H HostNs p k) else k)"

definition rollback_libcontainer :: "'k host \<Rightarrow> YoukiConfig \<Rightarrow> string \<Rightarrow> 'k \<Rightarrow> 'k" where
  "rollback_libcontainer H cfg cid k =
    remove_if_present H (container_dir cfg cid) (remove_if_present H (container_root cfg cid) k)"

definition rollback_cni :: "'k host \<Rightarrow> YoukiConfig \<Rightarrow> CniConfList \<Rightarrow> string \<Rightarrow> string \<Rightarrow> 'k \<Rightarrow> 'k" where
  "rollback_cni H cfg cl cid netns k = snd (invoke_cni H cl ''DEL'' cid netns (yc_cni_bin_path cfg) k)"

definition never_unsupported :: AgentError where
  "never_unsupported = Runtime (''pull_policy=never is not yet supported by the youki runtime: youki'' @ [CHR 0x27] @
     ''s image_manager always probes the manifest before deciding to extract, so it cannot satisfy the no-registry-contact '' @
     ''contract Never requires. A future iteration adds a local tag'' @ [CHR 0xE2, CHR 0x86, CHR 0x92] @
     ''digest index that lets Never resolve without a manifest probe. Until then, set IfNotPresent or Always.'')"

text \<open>The bundle: its directory and \<open>config.json\<close>.\<close>

definition write_bundle :: "'k host \<Rightarrow> YoukiConfig \<Rightarrow> ContainerConfig \<Rightarrow> string \<Rightarrow> string \<Rightarrow> ('k, AgentError, unit) op" where
  "write_bundle H cfg config rootfs cid =
    (let bundle_dir = path_join (container_dir cfg cid) ''bundle'' in
     then_op (os_call ''failed to create bundle directory: '' (hk_create_dir_all H HostNs bundle_dir))
     (\<lambda>k. case generate_full_spec (hk_oci_build H) config rootfs (Some (CGROUP_PATH_PREFIX @ ''/'' @ cid)) of
         Inl e \<Rightarrow> (Inl e, k)
       | Inr oci_spec \<Rightarrow>
           bind_op (lib_look ''failed to serialize OCI spec: '' (\<lambda>_. hk_spec_json H oci_spec))
             (\<lambda>spec_json. os_call ''failed to write config.json: ''
                (hk_write H HostNs (path_join bundle_dir ''config.json'') spec_json)) k))"

definition build_container :: "'k host \<Rightarrow> YoukiConfig \<Rightarrow> string \<Rightarrow> ('k, AgentError, i32) op" where
  "build_container H cfg cid = blocking H ''container creation''
    (then_op (lib_look ''invalid state directory: '' (hk_lc_root H (state_dir cfg)))
    (bind_op (lib_call ''failed to create container: ''
        (hk_lc_build H cid (state_dir cfg) (path_join (container_dir cfg cid) ''bundle'')))
      (\<lambda>pid k. (ok_or pid (Runtime ''container has no init PID after creation''), k))))"

definition start_container :: "'k host \<Rightarrow> YoukiConfig \<Rightarrow> string \<Rightarrow> ('k, AgentError, unit) op" where
  "start_container H cfg cid = blocking H ''container start''
    (then_op (lib_look ''failed to load container for start: '' (hk_lc_load H (container_root cfg cid)))
      (lib_call ''failed to start container: '' (hk_lc_start H (container_root cfg cid))))"

text \<open>Networking and start, with the rollback of what was set up before a failure.\<close>

definition connect_and_start ::
    "'k host \<Rightarrow> YoukiConfig \<Rightarrow> u16 \<Rightarrow> u16 \<Rightarrow> string \<Rightarrow> string \<Rightarrow> ('k, AgentError, unit) op" where
  "connect_and_start H cfg host_port container_port cid netns k =
    (let cl = inject_port_mappings host_port container_port (generate_conflist NETWORK_NAME) in
     case invoke_cni H cl ''ADD'' cid netns (yc_cni_bin_path cfg) k of
       (Inl e, k1) \<Rightarrow> (Inl e, rollback_libcontainer H cfg cid k1)
     | (Inr _, k1) \<Rightarrow>
         (case start_container H cfg cid k1 of
            (Inl e, k2) \<Rightarrow> (Inl e, rollback_libcontainer H cfg cid (rollback_cni H cfg cl cid netns k2))
          | (Inr _, k2) \<Rightarrow> (Inr (), k2)))"

definition netns_of :: "i32 \<Rightarrow> string" where
  "netns_of pid = ''/proc/'' @ show_int pid @ ''/ns/net''"

definition u16_port :: "u32 \<Rightarrow> AgentError + u16" where
  "u16_port p = (if unat p < 65536 then Inr (ucast p)
     else Inl (Runtime (''exposed_port '' @ show_nat (unat p) @ '' exceeds u16 range'')))"

text \<open>From the bundle on, with the container's identifier drawn.\<close>

definition launch_bundle ::
    "'k host \<Rightarrow> YoukiConfig \<Rightarrow> ContainerConfig \<Rightarrow> string \<Rightarrow> u16 \<Rightarrow> string \<Rightarrow> ('k, AgentError, string \<times> ContainerMetadata) op" where
  "launch_bundle H cfg config rootfs host_port cid =
    then_op (write_bundle H cfg config rootfs cid)
      (bind_op (build_container H cfg cid) (\<lambda>init_pid.
        bind_op (\<lambda>k. (u16_port (cc_exposed_port config), k)) (\<lambda>container_port.
          then_op (connect_and_start H cfg host_port container_port cid (netns_of init_pid))
          (ok_op (cid, \<lparr> cm_sandbox_id = cc_sandbox_id config, cm_host_port = host_port,
             cm_container_dir = container_dir cfg cid, cm_netns_path = netns_of init_pid \<rparr>)))))"

definition launch :: "uuid_lib \<Rightarrow> 'k host \<Rightarrow> YoukiConfig \<Rightarrow> ContainerConfig \<Rightarrow> ('k, AgentError, string \<times> ContainerMetadata) op" where
  "launch U H cfg config =
    (if cc_pull_policy config = Never then err_op never_unsupported
     else bind_op (pull_and_unpack_with U H (yc_root_dir cfg) (cc_image config) (cc_pull_policy config = Always)) (\<lambda>rootfs.
       then_op (write_resolv_conf H rootfs)
       (bind_op (allocate_port H) (\<lambda>host_port k0.
         let (u, k) = hk_new_uuid H k0
         in launch_bundle H cfg config rootfs host_port (CONTAINER_ID_PREFIX @ ''-'' @ uuid_to_string U u) k))))"

definition youki_create_and_start ::
    "uuid_lib \<Rightarrow> 'k host \<Rightarrow> YoukiConfig \<Rightarrow> ContainerConfig \<Rightarrow> ('k youki, AgentError, ContainerInfo) op" where
  "youki_create_and_start U H cfg config = bind_op (on_host (launch U H cfg config)) (\<lambda>(cid, meta) s.
     (Inr \<lparr> ci_id = ContainerId cid, ci_sandbox_id = cc_sandbox_id config, ci_host_port = cm_host_port meta, ci_state = CRunning \<rparr>,
      s\<lparr>yk_containers := tbl_put cid meta (yk_containers s)\<rparr>))"

section \<open>Lifecycle\<close>

definition youki_pause :: "'k host \<Rightarrow> YoukiConfig \<Rightarrow> ContainerId \<Rightarrow> ('k youki, AgentError, unit) op" where
  "youki_pause H cfg c = (let root = container_root cfg (cid_str c) in on_host (blocking H ''pause''
     (bind_op (lib_look ''failed to load container for pause: '' (hk_lc_load H root)) (\<lambda>container.
        if lc_status container = StPaused then ok_op ()
        else lib_call ''failed to pause container: '' (hk_lc_pause H root)))))"

definition youki_unpause :: "'k host \<Rightarrow> YoukiConfig \<Rightarrow> ContainerId \<Rightarrow> ('k youki, AgentError, unit) op" where
  "youki_unpause H cfg c = (let root = container_root cfg (cid_str c) in on_host (blocking H ''unpause''
     (bind_op (lib_look ''failed to load container for unpause: '' (hk_lc_load H root)) (\<lambda>container.
        if lc_status container = StRunning then ok_op ()
        else lib_call ''failed to resume container: '' (hk_lc_resume H root)))))"

definition stop_container :: "'k host \<Rightarrow> string \<Rightarrow> duration \<Rightarrow> ('k, AgentError, unit) op" where
  "stop_container H root grace =
    bind_op (lib_look ''failed to load container for stop: '' (hk_lc_load H root)) (\<lambda>container.
      then_op (if lc_status container = StPaused then drop_result (hk_lc_resume H root) else ok_op ())
      (then_op (drop_result (hk_lc_kill H root))
      (then_op (\<lambda>k. (Inr (), hk_sleep H grace k))
      (lib_call ''failed to delete container: '' (hk_lc_delete H root)))))"

definition youki_stop_and_remove ::
    "'k host \<Rightarrow> YoukiConfig \<Rightarrow> ContainerId \<Rightarrow> duration \<Rightarrow> ('k youki, AgentError, unit) op" where
  "youki_stop_and_remove H cfg c timeout s =
    (let cid = cid_str c; metadata = tbl_get (yk_containers s) cid;
         s1 = s\<lparr>yk_containers := tbl_del cid (yk_containers s)\<rparr>
     in then_op (on_host (blocking H ''stop'' (stop_container H (container_root cfg cid) (min timeout STOP_GRACE_PERIOD))))
        (case metadata of
           None \<Rightarrow> ok_op ()
         | Some meta \<Rightarrow>
             then_op (on_host (drop_result (invoke_cni H (generate_conflist NETWORK_NAME) ''DEL'' cid (cm_netns_path meta)
               (yc_cni_bin_path cfg))))
             (on_host (drop_result (hk_remove_dir_all H HostNs (cm_container_dir meta))))) s1)"

definition youki_state :: "string + lc_container \<Rightarrow> ContainerState" where
  "youki_state r = (case r of
      Inl _ \<Rightarrow> CStopped
    | Inr c \<Rightarrow> (case lc_status c of StRunning \<Rightarrow> CRunning | StPaused \<Rightarrow> CPaused | _ \<Rightarrow> CStopped))"

definition youki_list_sandbox_containers :: "'k host \<Rightarrow> YoukiConfig \<Rightarrow> ('k youki, AgentError, ContainerInfo list) op" where
  "youki_list_sandbox_containers H cfg s = on_host (blocking H ''list_sandbox_containers'' (\<lambda>k.
     (Inr (map (\<lambda>(cid, meta). \<lparr> ci_id = ContainerId cid, ci_sandbox_id = cm_sandbox_id meta, ci_host_port = cm_host_port meta,
        ci_state = youki_state (hk_lc_load H (container_root cfg cid) k) \<rparr>) (yk_containers s)), k))) s"

section \<open>Processes (exec.rs)\<close>

definition container_pid :: "'k host \<Rightarrow> YoukiConfig \<Rightarrow> string \<Rightarrow> ('k, AgentError, i32) op" where
  "container_pid H cfg cid =
    bind_op (lib_look ''failed to load container: '' (hk_lc_load H (container_root cfg cid)))
      (\<lambda>c k. (ok_or (lc_pid c) (Runtime ''container has no PID''), k))"

definition nsenter_args :: "i32 \<Rightarrow> ExecStart \<Rightarrow> string list" where
  "nsenter_args target_pid start =
    [''--target'', show_int target_pid, ''--mount'', ''--uts'', ''--ipc'', ''--net'', ''--pid''] @
    (if es_cwd start = [] then [] else [''--wd='' @ es_cwd start]) @
    [''--''] @ wrap_command_with_inpid_marker (es_command start)"

text \<open>The process inherits the agent's environment, overridden by the variables of the request.\<close>

definition child_env :: "(string, string) tbl \<Rightarrow> (string, string) tbl \<Rightarrow> (string, string) tbl" where
  "child_env agent_env env = fold (\<lambda>(k, v). tbl_put k v) env agent_env"

definition stdout_chunk :: "bytes \<Rightarrow> pump_st \<Rightarrow> pump_st" where
  "stdout_chunk m p = p\<lparr>pp_stdout := pp_stdout p @ [m],
     pp_stdout_head := (if length (pp_stdout_head p) < 4096 then pp_stdout_head p @ m else pp_stdout_head p)\<rparr>"

definition stderr_chunk :: "bytes \<Rightarrow> pump_st \<Rightarrow> pump_st" where
  "stderr_chunk m p =
    (if pp_done p then pump_err m p
     else (case consume_inpid_marker (pp_scan p @ m) of
         (Inr (Some pid), rest) \<Rightarrow>
           (let p' = p\<lparr>pp_pid := Some pid, pp_done := True, pp_scan := []\<rparr>
            in if rest = [] then p' else pump_err rest p')
       | (Inr None, buf) \<Rightarrow> p\<lparr>pp_scan := buf\<rparr>
       | (Inl _, buf) \<Rightarrow> pump_err buf (p\<lparr>pp_done := True, pp_scan := []\<rparr>)))"

definition output_pumps :: "nsenter_run \<Rightarrow> pump_st" where
  "output_pumps run = fold stderr_chunk (nr_stderr run) (fold stdout_chunk (nr_stdout run) pump_new)"

definition youki_exit_info :: "nsenter_run \<Rightarrow> pump_st \<Rightarrow> ExecExitInfo" where
  "youki_exit_info run p =
    (let exit_code = (case nr_code run of None \<Rightarrow> - 1 | Some c \<Rightarrow> c)
     in \<lparr> ei_exit_code = exit_code, ei_command_not_found = (exit_code = 127 \<and>
          (detect_command_not_found (pp_stderr_head p) \<or> detect_command_not_found (pp_stdout_head p))) \<rparr>)"

record youki_exec =
  ye_handle :: ExecHandle
  ye_stdout :: "bytes list"
  ye_stderr :: "bytes list"
  ye_exit :: ExecExitInfo

definition start_exec_streaming ::
    "uuid_lib \<Rightarrow> 'k host \<Rightarrow> YoukiConfig \<Rightarrow> string \<Rightarrow> ExecStart \<Rightarrow> ('k, AgentError, youki_exec) op" where
  "start_exec_streaming U H cfg cid start = bind_op (container_pid H cfg cid) (\<lambda>target_pid k.
     let (u, k1) = hk_new_uuid H k;
         (run, k2) = hk_nsenter H (nsenter_args target_pid start) (child_env (hk_agent_env H) (es_env start)) k1
     in ((case nr_spawned run of
            Inl e \<Rightarrow> Inl (Runtime (''failed to spawn nsenter: '' @ e))
          | Inr _ \<Rightarrow>
              if \<not> nr_has_pid run then Inl (Runtime ''spawned nsenter has no PID'')
              else if \<not> nr_has_stdin run then Inl (Runtime ''nsenter stdin not available'')
              else if \<not> nr_has_stdout run then Inl (Runtime ''nsenter stdout not available'')
              else if \<not> nr_has_stderr run then Inl (Runtime ''nsenter stderr not available'')
              else
                (let p = output_pumps run;
                     in_container_pid = (case (if nr_marker_in_time run then pp_pid p else None) of None \<Rightarrow> 0 | Some pid \<Rightarrow> pid)
                 in Inr \<lparr> ye_handle = \<lparr> eh_exec_id = uuid_simple U u, eh_in_container_pid = in_container_pid \<rparr>,
                      ye_stdout = pp_stdout p, ye_stderr = pp_stderr p, ye_exit = youki_exit_info run p \<rparr>)), k2))"

definition signal_in_container :: "'k host \<Rightarrow> YoukiConfig \<Rightarrow> string \<Rightarrow> i32 \<Rightarrow> i32 \<Rightarrow> ('k, AgentError, unit) op" where
  "signal_in_container H cfg cid in_container_pid signum = bind_op (container_pid H cfg cid) (\<lambda>target_pid.
     then_op (lib_call ''nsenter kill spawn failed: '' (hk_nsenter_wait H
       [''--target'', show_int target_pid, ''--mount'', ''--pid'', ''--'', ''kill'', ''-'' @ show_int signum, show_int in_container_pid]))
     (ok_op ()))"

definition youki_start_exec ::
    "uuid_lib \<Rightarrow> 'k host \<Rightarrow> YoukiConfig \<Rightarrow> ContainerId \<Rightarrow> ExecStart \<Rightarrow> ('k youki, AgentError, youki_exec) op" where
  "youki_start_exec U H cfg c start = on_host (start_exec_streaming U H cfg (cid_str c) start)"

definition youki_signal_exec :: "'k host \<Rightarrow> YoukiConfig \<Rightarrow> ContainerId \<Rightarrow> i32 \<Rightarrow> i32 \<Rightarrow> ('k youki, AgentError, unit) op" where
  "youki_signal_exec H cfg c in_container_pid signum =
    (if in_container_pid \<le> 0 then ok_op ()
     else on_host (signal_in_container H cfg (cid_str c) in_container_pid signum))"

section \<open>Inside a container's namespaces (setns\_ops.rs)\<close>

definition joined :: "'k host \<Rightarrow> string \<Rightarrow> ('k, AgentError, 'a) op \<Rightarrow> ('k, AgentError, 'a) op" where
  "joined H what m k = (case m k of (r, k') \<Rightarrow>
     (case hk_task_panic H k' of None \<Rightarrow> (r, k') | Some _ \<Rightarrow> (Inl (Runtime (what @ '' thread dropped sender: channel closed'')), k')))"

definition invalid_pid :: "i32 \<Rightarrow> AgentError" where
  "invalid_pid pid = Runtime (''invalid container pid '' @ show_int pid)"

definition setns_op_inner :: "'k host \<Rightarrow> i32 \<Rightarrow> (mount_ns \<Rightarrow> ('k, AgentError, 'a) op) \<Rightarrow> ('k, AgentError, 'a) op" where
  "setns_op_inner H target_pid f =
    (let target_path = ''/proc/'' @ show_int target_pid @ ''/ns/mnt'' in
     then_op (os_look ''open self mnt ns: '' (hk_open_ns H ''/proc/self/ns/mnt''))
     (then_op (os_look (''open target mnt ns '' @ target_path @ '': '') (hk_open_ns H target_path))
     (then_op (os_look ''unshare CLONE_FS before setns: '' (hk_unshare_fs H))
     (then_op (os_look (''setns into target mnt ns (pid='' @ show_int target_pid @ ''): '') (hk_setns H target_path))
     (f (PidNs target_pid))))))"

definition run_in_container_mount_ns ::
    "'k host \<Rightarrow> i32 \<Rightarrow> (mount_ns \<Rightarrow> ('k, AgentError, 'a) op) \<Rightarrow> ('k, AgentError, 'a) op" where
  "run_in_container_mount_ns H target_pid f =
    (if target_pid \<le> 0 then err_op (invalid_pid target_pid)
     else then_op (os_look ''spawn setns thread: '' (hk_spawn_thread H)) (joined H ''setns'' (setns_op_inner H target_pid f)))"

definition missing_or :: "string \<Rightarrow> string \<Rightarrow> os_error \<Rightarrow> AgentError" where
  "missing_or path what e = (if oe_kind e = KindNotFound then no_such_file path else Runtime (what @ path @ '': '' @ oe_text e))"

definition read_file_in_ns :: "'k host \<Rightarrow> i32 \<Rightarrow> string \<Rightarrow> ('k, AgentError, bytes) op" where
  "read_file_in_ns H target_pid path = run_in_container_mount_ns H target_pid (\<lambda>ns k.
     (map_err (missing_or path ''read '') (hk_read H ns path k), k))"

definition write_file_in_ns :: "uuid_lib \<Rightarrow> 'k host \<Rightarrow> i32 \<Rightarrow> string \<Rightarrow> bytes \<Rightarrow> ('k, AgentError, unit) op" where
  "write_file_in_ns U H target_pid path content k =
    (let parent = (case path_parent path of None \<Rightarrow> ''.'' | Some p \<Rightarrow> p);
         (u, k1) = hk_new_uuid H k;
         temp = parent @ ''/.opensb.'' @ uuid_simple U u @ ''.tmp''
     in run_in_container_mount_ns H target_pid (\<lambda>ns.
          then_op (if parent \<noteq> [] then os_call (''mkdir -p '' @ parent @ '': '') (hk_create_dir_all H ns parent) else ok_op ())
          (then_op (os_call (''write temp '' @ temp @ '': '') (hk_write H ns temp content))
          (os_call (''rename '' @ temp @ '' -> '' @ path @ '': '') (hk_rename H ns temp path)))) k1)"

definition WRITE_TARGZ_ALLOWED_PREFIXES :: "string list" where
  "WRITE_TARGZ_ALLOWED_PREFIXES = [''/workspace'', ''/home'', ''/tmp'', ''/var/tmp'']"

definition is_target_dir_allowed :: "string \<Rightarrow> bool" where
  "is_target_dir_allowed path =
    (if ''..'' \<in> set (split_char (CHR ''/'') path) then False
     else list_ex (\<lambda>pfx. path = pfx \<or> starts_with path (pfx @ ''/'')) WRITE_TARGZ_ALLOWED_PREFIXES)"

text \<open>The refusal quotes its operands with \<open>{:?}\<close>, given by \<open>dbg\<close> and \<open>dbgs\<close>.\<close>

definition extract_targz_in_ns ::
    "(string \<Rightarrow> string) \<Rightarrow> (string list \<Rightarrow> string) \<Rightarrow> 'k host \<Rightarrow> i32 \<Rightarrow> string \<Rightarrow> bytes \<Rightarrow> ('k, AgentError, unit) op" where
  "extract_targz_in_ns dbg dbgs H target_pid target_dir tarball =
    (if \<not> is_target_dir_allowed target_dir then
       err_op (Runtime (''target_dir '' @ dbg target_dir @ '' is not under an allowed prefix; allowed: '' @
         dbgs WRITE_TARGZ_ALLOWED_PREFIXES))
     else run_in_container_mount_ns H target_pid (\<lambda>ns.
       then_op (os_call (''mkdir -p '' @ target_dir @ '': '') (hk_create_dir_all H ns target_dir))
       (lib_call (''tar extract into '' @ target_dir @ '': '') (hk_unpack_archive H ns tarball target_dir))))"

datatype NsEntryType = NsFile | NsDir | NsSymlink | NsOther

record NsDirEntry =
  nd_name :: string
  nd_entry_type :: NsEntryType
  nd_size :: u64
  nd_revision :: string
  nd_mode :: string
  nd_target :: string

record NsDirListing =
  nl_path :: string
  nl_entries :: "NsDirEntry list"
  nl_truncated :: bool
  nl_total_entries :: u64

record NsFileRevision =
  nf_revision :: string
  nf_size :: u64

text \<open>\<open>{:04o}\<close> of the permission bits: four octal digits.\<close>

definition octal_mode :: "u32 \<Rightarrow> string" where
  "octal_mode mode = (let m = unat mode mod 4096
     in map digit_char [m div 512, m div 64 mod 8, m div 8 mod 8, m mod 8])"

definition ns_entry :: "raw_entry \<Rightarrow> file_meta \<Rightarrow> NsDirEntry" where
  "ns_entry e meta =
    (let entry_type = (case fm_kind meta of SymbolicLink \<Rightarrow> NsSymlink | Directory \<Rightarrow> NsDir | RegularFile \<Rightarrow> NsFile
           | SpecialFile \<Rightarrow> NsOther);
         sz = (if entry_type = NsDir then 0 else fm_len meta)
     in \<lparr> nd_name = re_name e, nd_entry_type = entry_type, nd_size = sz,
          nd_revision = revision_of (i64_as_u64 (fm_mtime meta)) sz, nd_mode = octal_mode (fm_mode meta),
          nd_target = (if entry_type = NsSymlink then (case re_link e of None \<Rightarrow> [] | Some t \<Rightarrow> t) else []) \<rparr>)"

definition ns_list_step :: "raw_entry option \<Rightarrow> NsDirEntry list \<times> nat \<Rightarrow> NsDirEntry list \<times> nat" where
  "ns_list_step raw acc = (case acc of (entries, seen) \<Rightarrow> (case raw of
      None \<Rightarrow> (entries, seen + 1)
    | Some e \<Rightarrow>
        if LIST_DIR_MAX_ENTRIES \<le> length entries then (entries, seen + 1)
        else (case re_meta e of None \<Rightarrow> (entries, seen + 1) | Some meta \<Rightarrow> (entries @ [ns_entry e meta], seen + 1))))"

definition list_dir_in_ns :: "'k host \<Rightarrow> i32 \<Rightarrow> string \<Rightarrow> ('k, AgentError, NsDirListing) op" where
  "list_dir_in_ns H target_pid path = run_in_container_mount_ns H target_pid (\<lambda>ns k.
     (case hk_read_dir H ns path k of
        Inl e \<Rightarrow> Inl (missing_or path ''read_dir '' e)
      | Inr read_dir \<Rightarrow>
          (let (entries, seen) = fold ns_list_step read_dir ([], 0)
           in Inr \<lparr> nl_path = path, nl_entries = sort_key nd_name entries, nl_truncated = length entries < seen,
                nl_total_entries = of_nat seen \<rparr>), k))"

definition stat_revision_in_ns :: "'k host \<Rightarrow> i32 \<Rightarrow> string \<Rightarrow> ('k, AgentError, NsFileRevision) op" where
  "stat_revision_in_ns H target_pid path = run_in_container_mount_ns H target_pid (\<lambda>ns k.
     (case hk_metadata H ns path k of
        Inl e \<Rightarrow> Inl (missing_or path ''stat '' e)
      | Inr meta \<Rightarrow>
          (let sz = (if fm_kind meta = Directory then 0 else fm_len meta)
           in Inr \<lparr> nf_revision = revision_of (i64_as_u64 (fm_mtime meta)) sz, nf_size = sz \<rparr>), k))"

definition remove_dir_err :: "string \<Rightarrow> os_error \<Rightarrow> AgentError" where
  "remove_dir_err path e = Runtime (case oe_kind e of
      KindDirectoryNotEmpty \<Rightarrow> ''rm: cannot remove '' @ [CHR 0x27] @ path @ [CHR 0x27] @ '': Directory not empty''
    | _ \<Rightarrow> ''remove_dir '' @ path @ '': '' @ oe_text e)"

definition delete_in_ns :: "'k host \<Rightarrow> i32 \<Rightarrow> string \<Rightarrow> bool \<Rightarrow> ('k, AgentError, unit) op" where
  "delete_in_ns H target_pid path recursive = run_in_container_mount_ns H target_pid (\<lambda>ns k.
     case hk_symlink_metadata H ns path k of
       Inl e \<Rightarrow> if oe_kind e = KindNotFound then (Inr (), k) else (Inl (Runtime (''stat '' @ path @ '': '' @ oe_text e)), k)
     | Inr meta \<Rightarrow>
         if fm_kind meta = Directory then
           (if recursive then os_call (''remove_dir_all '' @ path @ '': '') (hk_remove_dir_all H ns path) k
            else (case hk_remove_dir H ns path k of (r, k') \<Rightarrow> (map_err (remove_dir_err path) r, k')))
         else os_call (''remove_file '' @ path @ '': '') (hk_remove_file H ns path) k)"

text \<open>The probe loop; the rounds end when the clock has reached the deadline.\<close>

fun probe_loop :: "duration \<Rightarrow> u32 \<Rightarrow> probe_round list \<Rightarrow> AgentError + bool" where
  "probe_loop timeout port [] = Inr False"
| "probe_loop timeout port (r # rs) =
    (if timeout \<le> pr_elapsed r then Inr False
     else if 65536 \<le> unat port then Inl (Runtime (''invalid probe addr 127.0.0.1:'' @ show_nat (unat port)))
     else if timeout \<le> pr_before r then Inr False
     else if pr_connects r then Inr True
     else if timeout \<le> pr_after r then Inr False
     else probe_loop timeout port rs)"

definition wait_port_listening_in_ns :: "'k host \<Rightarrow> i32 \<Rightarrow> u32 \<Rightarrow> duration \<Rightarrow> ('k, AgentError, bool) op" where
  "wait_port_listening_in_ns H target_pid port timeout =
    (if target_pid \<le> 0 then err_op (invalid_pid target_pid)
     else
       (let target_path = ''/proc/'' @ show_int target_pid @ ''/ns/net'' in
        then_op (os_look ''spawn setns net-probe thread: '' (hk_spawn_thread H))
        (joined H ''setns net-probe''
          (then_op (os_look ''open self net ns: '' (hk_open_ns H ''/proc/self/ns/net''))
          (then_op (os_look (''open target net ns '' @ target_path @ '': '') (hk_open_ns H target_path))
          (then_op (os_look ''setns into target net ns: '' (hk_setns H target_path))
          (\<lambda>k. (probe_loop timeout port (hk_probes H target_pid port timeout k), k))))))))"

section \<open>The runtime\<close>

definition youki_resolve_path :: "string \<Rightarrow> string option \<Rightarrow> string" where
  "youki_resolve_path path cwd =
    (if starts_with path ''/'' then path
     else (let base = (case cwd of None \<Rightarrow> DEFAULT_WRITE_CWD | Some d \<Rightarrow> d)
           in trim_end_matches (CHR ''/'') base @ ''/'' @ path))"

text \<open>A file call: the container's process is looked up, then \<open>f\<close> runs on its pid.\<close>

definition with_pid :: "'k host \<Rightarrow> YoukiConfig \<Rightarrow> ContainerId \<Rightarrow> (i32 \<Rightarrow> ('k, AgentError, 'a) op) \<Rightarrow> ('k youki, AgentError, 'a) op" where
  "with_pid H cfg c f = on_host (bind_op (container_pid H cfg (cid_str c)) f)"

fun ns_entry_type :: "NsEntryType \<Rightarrow> EntryType" where
  "ns_entry_type NsFile = EFile"
| "ns_entry_type NsDir = EDir"
| "ns_entry_type NsSymlink = ESymlink"
| "ns_entry_type NsOther = EOther"

definition ns_dir_entry_to_agent :: "NsDirEntry \<Rightarrow> DirEntry" where
  "ns_dir_entry_to_agent e = \<lparr> dn_name = nd_name e, dn_entry_type = ns_entry_type (nd_entry_type e), dn_size = nd_size e,
     dn_revision = nd_revision e, dn_mode = nd_mode e, dn_target = nd_target e \<rparr>"

definition youki_read_file :: "'k host \<Rightarrow> YoukiConfig \<Rightarrow> ContainerId \<Rightarrow> string \<Rightarrow> string option \<Rightarrow> ('k youki, AgentError, bytes) op" where
  "youki_read_file H cfg c path cwd = with_pid H cfg c (\<lambda>pid. read_file_in_ns H pid (youki_resolve_path path cwd))"

definition youki_write_file ::
    "uuid_lib \<Rightarrow> 'k host \<Rightarrow> YoukiConfig \<Rightarrow> ContainerId \<Rightarrow> string \<Rightarrow> string option \<Rightarrow> bytes \<Rightarrow> ('k youki, AgentError, unit) op" where
  "youki_write_file U H cfg c path cwd content =
    with_pid H cfg c (\<lambda>pid. write_file_in_ns U H pid (youki_resolve_path path cwd) content)"

definition youki_write_files_targz ::
    "(string \<Rightarrow> string) \<Rightarrow> (string list \<Rightarrow> string) \<Rightarrow> 'k host \<Rightarrow> YoukiConfig \<Rightarrow> ContainerId \<Rightarrow> string option \<Rightarrow> bytes \<Rightarrow>
     ('k youki, AgentError, unit) op" where
  "youki_write_files_targz dbg dbgs H cfg c cwd tarball = with_pid H cfg c (\<lambda>pid.
     extract_targz_in_ns dbg dbgs H pid (case cwd of None \<Rightarrow> DEFAULT_WRITE_CWD | Some d \<Rightarrow> d) tarball)"

definition youki_list_dir :: "'k host \<Rightarrow> YoukiConfig \<Rightarrow> ContainerId \<Rightarrow> string \<Rightarrow> string option \<Rightarrow> ('k youki, AgentError, DirListing) op" where
  "youki_list_dir H cfg c path cwd = with_pid H cfg c (\<lambda>pid.
     bind_op (list_dir_in_ns H pid (youki_resolve_path path cwd)) (\<lambda>l. ok_op \<lparr> dl_path = nl_path l,
       dl_entries = map ns_dir_entry_to_agent (nl_entries l), dl_truncated = nl_truncated l, dl_total_entries = nl_total_entries l \<rparr>))"

definition youki_stat_revision :: "'k host \<Rightarrow> YoukiConfig \<Rightarrow> ContainerId \<Rightarrow> string \<Rightarrow> string option \<Rightarrow> ('k youki, AgentError, FileRevision) op" where
  "youki_stat_revision H cfg c path cwd = with_pid H cfg c (\<lambda>pid.
     bind_op (stat_revision_in_ns H pid (youki_resolve_path path cwd)) (\<lambda>r. ok_op \<lparr> fr_revision = nf_revision r, fr_size = nf_size r \<rparr>))"

definition youki_delete_file ::
    "'k host \<Rightarrow> YoukiConfig \<Rightarrow> ContainerId \<Rightarrow> string \<Rightarrow> string option \<Rightarrow> bool \<Rightarrow> ('k youki, AgentError, unit) op" where
  "youki_delete_file H cfg c path cwd recursive =
    with_pid H cfg c (\<lambda>pid. delete_in_ns H pid (youki_resolve_path path cwd) recursive)"

definition youki_wait_port_listening ::
    "'k host \<Rightarrow> YoukiConfig \<Rightarrow> ContainerId \<Rightarrow> u32 \<Rightarrow> duration \<Rightarrow> ('k youki, AgentError, bool) op" where
  "youki_wait_port_listening H cfg c port timeout = with_pid H cfg c (\<lambda>pid. wait_port_listening_in_ns H pid port timeout)"

text \<open>\<open>within t s\<close> tells whether the deadline \<open>t\<close> cuts a creation short, and what it leaves.\<close>

definition youki_runtime ::
    "uuid_lib \<Rightarrow> (string \<Rightarrow> string) \<Rightarrow> (string list \<Rightarrow> string) \<Rightarrow> (duration \<Rightarrow> 'k youki \<Rightarrow> 'k youki option) \<Rightarrow> 'k host \<Rightarrow>
     YoukiConfig \<Rightarrow> 'k youki ContainerRuntime" where
  "youki_runtime U dbg dbgs within H cfg = \<lparr>
     rt_create_within = (\<lambda>t config s. case within t s of
        Some s' \<Rightarrow> (None, s')
      | None \<Rightarrow> (case youki_create_and_start U H cfg config s of (r, s') \<Rightarrow> (Some r, s'))),
     rt_stop_and_remove = youki_stop_and_remove H cfg,
     rt_pause = youki_pause H cfg,
     rt_unpause = youki_unpause H cfg,
     rt_list = youki_list_sandbox_containers H cfg,
     rt_start_exec = (\<lambda>c start s. case youki_start_exec U H cfg c start s of
        (Inl e, s') \<Rightarrow> (Inl e, s') | (Inr r, s') \<Rightarrow> (Inr (ye_handle r), s')),
     rt_signal_exec = youki_signal_exec H cfg,
     rt_read_file = youki_read_file H cfg,
     rt_write_file = youki_write_file U H cfg,
     rt_write_files_targz = youki_write_files_targz dbg dbgs H cfg,
     rt_list_dir = youki_list_dir H cfg,
     rt_stat_revision = youki_stat_revision H cfg,
     rt_delete_file = youki_delete_file H cfg,
     rt_wait_port_listening = youki_wait_port_listening H cfg \<rparr>"

section \<open>What creating a sandbox leaves behind\<close>

text \<open>\<open>watched_host H\<close> is the host \<open>H\<close> with a log of the containers built, the files written and the network
  plugins run, with their outcome; it answers as \<open>H\<close> does.\<close>

datatype host_event = Built string | Wrote string bytes | Plugin "string option" "string option" string bool

definition watched_host :: "'k host \<Rightarrow> ('k \<times> host_event list) host" where
  "watched_host H = \<lparr>
     hk_create_dir_all = (\<lambda>a1 a2 w. case hk_create_dir_all H a1 a2 (fst w) of (r, k) \<Rightarrow> (r, (k, snd w))),
     hk_exists = (\<lambda>a1 w. hk_exists H a1 (fst w)),
     hk_read = (\<lambda>a1 a2 w. hk_read H a1 a2 (fst w)),
     hk_write = (\<lambda>a1 a2 a3 w. case hk_write H a1 a2 a3 (fst w) of (r, k) \<Rightarrow> (r, (k, snd w @ [Wrote a2 a3]))),
     hk_rename = (\<lambda>a1 a2 a3 w. case hk_rename H a1 a2 a3 (fst w) of (r, k) \<Rightarrow> (r, (k, snd w))),
     hk_remove_file = (\<lambda>a1 a2 w. case hk_remove_file H a1 a2 (fst w) of (r, k) \<Rightarrow> (r, (k, snd w))),
     hk_remove_dir = (\<lambda>a1 a2 w. case hk_remove_dir H a1 a2 (fst w) of (r, k) \<Rightarrow> (r, (k, snd w))),
     hk_remove_dir_all = (\<lambda>a1 a2 w. case hk_remove_dir_all H a1 a2 (fst w) of (r, k) \<Rightarrow> (r, (k, snd w))),
     hk_metadata = (\<lambda>a1 a2 w. hk_metadata H a1 a2 (fst w)),
     hk_symlink_metadata = (\<lambda>a1 a2 w. hk_symlink_metadata H a1 a2 (fst w)),
     hk_read_dir = (\<lambda>a1 a2 w. hk_read_dir H a1 a2 (fst w)),
     hk_canonicalize = (\<lambda>a1 w. hk_canonicalize H a1 (fst w)),
     hk_new_uuid = (\<lambda>w. case hk_new_uuid H (fst w) of (r, k) \<Rightarrow> (r, (k, snd w))),
     hk_bind = (\<lambda>w. hk_bind H (fst w)),
     hk_task_panic = (\<lambda>w. hk_task_panic H (fst w)),
     hk_spawn_thread = (\<lambda>w. hk_spawn_thread H (fst w)),
     hk_open_ns = (\<lambda>a1 w. hk_open_ns H a1 (fst w)),
     hk_unshare_fs = (\<lambda>w. hk_unshare_fs H (fst w)),
     hk_setns = (\<lambda>a1 w. hk_setns H a1 (fst w)),
     hk_probes = (\<lambda>a1 a2 a3 w. hk_probes H a1 a2 a3 (fst w)),
     hk_parse_reference = hk_parse_reference H,
     hk_pull_manifest = (\<lambda>a1 w. case hk_pull_manifest H a1 (fst w) of (r, k) \<Rightarrow> (r, (k, snd w))),
     hk_pull_blob = (\<lambda>a1 a2 w. case hk_pull_blob H a1 a2 (fst w) of (r, k) \<Rightarrow> (r, (k, snd w))),
     hk_tar_entries = hk_tar_entries H,
     hk_unpack = (\<lambda>a1 a2 w. case hk_unpack H a1 a2 (fst w) of (r, k) \<Rightarrow> (r, (k, snd w))),
     hk_unpack_archive = (\<lambda>a1 a2 a3 w. case hk_unpack_archive H a1 a2 a3 (fst w) of (r, k) \<Rightarrow> (r, (k, snd w))),
     hk_oci_build = hk_oci_build H,
     hk_spec_json = hk_spec_json H,
     hk_lc_root = (\<lambda>a1 w. hk_lc_root H a1 (fst w)),
     hk_lc_build = (\<lambda>a1 a2 a3 w. case hk_lc_build H a1 a2 a3 (fst w) of (r, k) \<Rightarrow> (r, (k, snd w @ (case r of Inr _ \<Rightarrow> [Built a1] | Inl _ \<Rightarrow> [])))),
     hk_lc_load = (\<lambda>a1 w. hk_lc_load H a1 (fst w)),
     hk_lc_start = (\<lambda>a1 w. case hk_lc_start H a1 (fst w) of (r, k) \<Rightarrow> (r, (k, snd w))),
     hk_lc_pause = (\<lambda>a1 w. case hk_lc_pause H a1 (fst w) of (r, k) \<Rightarrow> (r, (k, snd w))),
     hk_lc_resume = (\<lambda>a1 w. case hk_lc_resume H a1 (fst w) of (r, k) \<Rightarrow> (r, (k, snd w))),
     hk_lc_kill = (\<lambda>a1 w. case hk_lc_kill H a1 (fst w) of (r, k) \<Rightarrow> (r, (k, snd w))),
     hk_lc_delete = (\<lambda>a1 w. case hk_lc_delete H a1 (fst w) of (r, k) \<Rightarrow> (r, (k, snd w))),
     hk_sleep = (\<lambda>a1 w. (hk_sleep H a1 (fst w), snd w)),
     hk_cni = (\<lambda>a1 a2 a3 w. case hk_cni H a1 a2 a3 (fst w) of (r, k) \<Rightarrow> (r, (k, snd w @ [Plugin (tbl_get a2 ''CNI_COMMAND'') (tbl_get a2 ''CNI_CONTAINERID'') a1 (case r of CniExited success _ _ _ \<Rightarrow> success | _ \<Rightarrow> False)]))),
     hk_parse_json = hk_parse_json H,
     hk_cni_result = hk_cni_result H,
     hk_cni_error = hk_cni_error H,
     hk_agent_env = hk_agent_env H,
     hk_nsenter = (\<lambda>a1 a2 w. case hk_nsenter H a1 a2 (fst w) of (r, k) \<Rightarrow> (r, (k, snd w))),
     hk_nsenter_wait = (\<lambda>a1 w. case hk_nsenter_wait H a1 (fst w) of (r, k) \<Rightarrow> (r, (k, snd w))) \<rparr>"

text \<open>\<open>logs m Q\<close>: running \<open>m\<close> only appends events that satisfy \<open>Q\<close>.\<close>

definition logs :: "('k \<times> host_event list \<Rightarrow> 'r \<times> ('k \<times> host_event list)) \<Rightarrow> (host_event \<Rightarrow> bool) \<Rightarrow> bool" where
  "logs m Q \<longleftrightarrow> (\<forall>w a w'. m w = (a, w') \<longrightarrow> (\<exists>es. snd w' = snd w @ es \<and> (\<forall>e \<in> set es. Q e)))"

lemma logsD: "logs m Q \<Longrightarrow> m w = (a, w') \<Longrightarrow> \<exists>es. snd w' = snd w @ es \<and> (\<forall>e \<in> set es. Q e)"
  unfolding logs_def by blast

lemma logsI: "(\<And>w a w'. m w = (a, w') \<Longrightarrow> \<exists>es. snd w' = snd w @ es \<and> (\<forall>e \<in> set es. Q e)) \<Longrightarrow> logs m Q"
  unfolding logs_def by blast

lemma logs_pure: "logs (\<lambda>w. (f w, w)) Q"
  by (simp add: logs_def)

lemma logs_silent: "(\<And>w. snd (snd (m w)) = snd w) \<Longrightarrow> logs m Q"
  by (rule logsI) (metis append_Nil2 empty_iff list.set(1) snd_conv)

lemma logs_bind: "logs m Q \<Longrightarrow> (\<And>a. logs (f a) Q) \<Longrightarrow> logs (bind_op m f) Q"
proof (rule logsI)
  fix w x w'
  assume m: "logs m Q" and f: "\<And>a. logs (f a) Q" and run: "bind_op m f w = (x, w')"
  obtain y w1 where m1: "m w = (y, w1)" by (rule prod.exhaust)
  obtain es where es: "snd w1 = snd w @ es" "\<forall>e \<in> set es. Q e" using logsD [OF m m1] by blast
  show "\<exists>es. snd w' = snd w @ es \<and> (\<forall>e \<in> set es. Q e)"
  proof (cases y)
    case (Inr a)
    with run m1 have "f a w1 = (x, w')" by (simp add: bind_op_def)
    then obtain fs where "snd w' = snd w1 @ fs" "\<forall>e \<in> set fs. Q e" using logsD [OF f] by blast
    with es show ?thesis by (intro exI [of _ "es @ fs"]) auto
  qed (use run m1 es in \<open>auto simp: bind_op_def\<close>)
qed

lemma logs_then: "logs m Q \<Longrightarrow> logs n Q \<Longrightarrow> logs (then_op m n) Q"
  by (simp add: then_op_def logs_bind)

lemma logs_each: "(\<And>x. logs (f x) Q) \<Longrightarrow> logs (each_op f xs) Q"
  by (induction xs) (auto intro: logs_then simp: ok_op_def [abs_def] logs_pure)

lemma logs_calls:
  "logs m Q \<Longrightarrow> logs (os_call t m) Q" "logs n Q \<Longrightarrow> logs (lib_call t n) Q" "logs j Q \<Longrightarrow> logs (drop_result j) Q"
  "logs (os_look t f) Q" "logs (lib_look t g) Q" "logs (ok_op a) Q" "logs (err_op e) Q"
proof -
  show "logs m Q \<Longrightarrow> logs (os_call t m) Q"
    by (rule logsI) (auto simp: os_call_def split: prod.splits dest: logsD)
  show "logs n Q \<Longrightarrow> logs (lib_call t n) Q"
    by (rule logsI) (auto simp: lib_call_def split: prod.splits dest: logsD)
  show "logs j Q \<Longrightarrow> logs (drop_result j) Q"
    by (rule logsI) (metis drop_result_def logsD prod.collapse snd_conv)
qed (auto simp: os_look_def lib_look_def ok_op_def err_op_def logs_def)

lemma logs_blocking: "logs m Q \<Longrightarrow> logs (blocking (watched_host H) t m) Q"
  by (rule logsI) (auto simp: blocking_def split: prod.splits option.splits dest: logsD)

lemma logs_if: "logs m Q \<Longrightarrow> logs n Q \<Longrightarrow> logs (\<lambda>w. if b w then m w else n w) Q"
  by (auto simp: logs_def)

definition is_write :: "host_event \<Rightarrow> bool" where
  "is_write e \<longleftrightarrow> (case e of Wrote _ _ \<Rightarrow> True | _ \<Rightarrow> False)"

lemma watched_logs:
  "logs (hk_create_dir_all (watched_host H) ns p) Q" "logs (hk_write (watched_host H) ns p b) is_write"
  "logs (hk_rename (watched_host H) ns p p') Q" "logs (hk_remove_file (watched_host H) ns p) Q"
  "logs (hk_remove_dir_all (watched_host H) ns p) Q" "logs (hk_new_uuid (watched_host H)) Q"
  "logs (hk_pull_manifest (watched_host H) r) Q" "logs (hk_pull_blob (watched_host H) r l) Q"
  "logs (hk_unpack (watched_host H) entry p) Q" "logs (hk_lc_start (watched_host H) c) Q"
  by (auto simp: logs_def watched_host_def is_write_def split: prod.splits)

lemmas log_rules = logs_bind logs_then logs_each logs_calls logs_blocking logs_pure watched_logs

section \<open>Quiet parts of a creation\<close>

lemma extract_entry_logs: "logs (extract_entry (watched_host H) root entry) Q"
proof (rule logsI)
  fix w a w'
  assume run: "extract_entry (watched_host H) root entry w = (a, w')"
  have rm: "logs (then_op (drop_result (hk_remove_file (watched_host H) HostNs t)) (drop_result (hk_remove_dir_all (watched_host H) HostNs t))) Q" for t
    by (intro log_rules)
  have un: "logs (lib_call t (hk_unpack (watched_host H) entry d)) Q" for t d
    by (intro log_rules)
  show "\<exists>es. snd w' = snd w @ es \<and> (\<forall>e \<in> set es. Q e)"
    using run unfolding extract_entry_def Let_def
    by (auto split: sum.splits if_splits option.splits dest: logsD [OF rm] logsD [OF un])
qed

lemma extract_entries_logs: "logs (extract_entries (watched_host H) root es) Q"
proof (induction es)
  case Nil
  have "extract_entries (watched_host H) root [] = (\<lambda>k. (Inr (), k))" by (rule ext) simp
  then show ?case by (simp add: logs_pure)
next
  case (Cons x es)
  show ?case
  proof (cases x)
    case (Inl e)
    have "extract_entries (watched_host H) root (x # es) = (\<lambda>k. (Inl (Runtime (''failed to read tar entry: '' @ e)), k))"
      by (rule ext) (simp add: Inl)
    then show ?thesis by (simp add: logs_pure)
  next
    case (Inr entry)
    have "extract_entries (watched_host H) root (x # es) = then_op (extract_entry (watched_host H) root entry) (extract_entries (watched_host H) root es)"
      by (rule ext) (simp add: Inr)
    then show ?thesis by (simp add: logs_then extract_entry_logs Cons.IH)
  qed
qed

lemma extract_layer_logs: "logs (extract_layer (watched_host H) data root) Q"
  unfolding extract_layer_def by (intro log_rules extract_entries_logs)

lemma pull_layer_logs: "logs (pull_layer (watched_host H) r d l) Q"
  unfolding pull_layer_def
  by (intro log_rules) (rule logsI, auto split: sum.splits dest: logsD [OF extract_layer_logs])

lemma extract_image_logs: "logs (extract_image (watched_host H) r ls d) Q"
proof (rule logsI)
  fix w a w'
  assume run: "extract_image (watched_host H) r ls d w = (a, w')"
  obtain x w1 where x: "each_op (pull_layer (watched_host H) r d) ls w = (x, w1)" by (rule prod.exhaust)
  obtain es where es: "snd w1 = snd w @ es" "\<forall>e \<in> set es. Q e"
    using logsD [OF logs_each [OF pull_layer_logs] x] by blast
  have "snd w' = snd w1"
    using run x by (cases x) (auto simp: extract_image_def watched_host_def split: prod.splits)
  with es show "\<exists>es. snd w' = snd w @ es \<and> (\<forall>e \<in> set es. Q e)" by auto
qed

lemma install_rootfs_logs: "logs (install_rootfs (watched_host H) force t r m) Q"
  unfolding install_rootfs_def by (cases force) (simp_all add: log_rules logs_if)

lemma logs_uuid: "(\<And>u. logs (f u) Q) \<Longrightarrow> logs (\<lambda>w. case hk_new_uuid (watched_host H) w of (u, w1) \<Rightarrow> f u w1) Q"
proof (rule logsI)
  fix w a w'
  assume f: "\<And>u. logs (f u) Q" and run: "(case hk_new_uuid (watched_host H) w of (u, w1) \<Rightarrow> f u w1) = (a, w')"
  obtain u w1 where u: "hk_new_uuid (watched_host H) w = (u, w1)" by (rule prod.exhaust)
  then have "snd w1 = snd w" by (auto simp: watched_host_def split: prod.splits)
  with run u logsD [OF f, of u w1 a w'] show "\<exists>es. snd w' = snd w @ es \<and> (\<forall>e \<in> set es. Q e)" by simp
qed

lemma pull_logs: "logs (pull_and_unpack_with U (watched_host H) root img force) is_write"
  unfolding pull_and_unpack_with_def
  by (intro log_rules) (auto simp: Let_def intro!: logs_if logs_uuid log_rules extract_image_logs install_rootfs_logs split: prod.split)

lemma resolv_conf_logs: "logs (write_resolv_conf (watched_host H) rootfs) is_write"
  unfolding write_resolv_conf_def Let_def
  by (intro log_rules) (rule logsI, blast dest: logsD [OF logs_calls(1) [OF watched_logs(2)]])

lemma allocate_port_logs: "logs (allocate_port (watched_host H)) Q"
  unfolding allocate_port_def by (intro log_rules)

lemma write_bundle_logs: "logs (write_bundle (watched_host H) cfg config rootfs cid) is_write"
proof -
  have w: "logs (bind_op (lib_look t f) (\<lambda>b. os_call t' (hk_write (watched_host H) HostNs p b))) is_write" for t t' f p
    by (intro log_rules)
  show ?thesis
    unfolding write_bundle_def Let_def
    by (intro log_rules) (rule logsI, auto split: sum.splits dest: logsD [OF w])
qed

section \<open>The events of a creation\<close>

definition container_events :: "host_event list \<Rightarrow> host_event list" where
  "container_events es = filter (\<lambda>e. \<not> is_write e) es"

lemma quiet_events: "logs m is_write \<Longrightarrow> m w = (a, w') \<Longrightarrow> container_events (snd w') = container_events (snd w)"
  by (frule (1) logsD) (auto simp: container_events_def)

definition plugin_event :: "YoukiConfig \<Rightarrow> string \<Rightarrow> string \<Rightarrow> string \<Rightarrow> bool \<Rightarrow> host_event" where
  "plugin_event cfg command cid name success = Plugin (Some command) (Some cid) (path_join (yc_cni_bin_path cfg) name) success"

text \<open>Running the plugins: they succeed one after the other, up to the first that fails.\<close>

definition plugin_run :: "YoukiConfig \<Rightarrow> string \<Rightarrow> string \<Rightarrow> string list \<Rightarrow> bool \<Rightarrow> host_event list \<Rightarrow> bool" where
  "plugin_run cfg command cid names complete es \<longleftrightarrow>
    (if complete then es = map (\<lambda>n. plugin_event cfg command cid n True) names
     else (\<exists>ran n rest. names = ran @ n # rest \<and>
       es = map (\<lambda>n. plugin_event cfg command cid n True) ran @ [plugin_event cfg command cid n False]))"

lemma plugin_run_Cons:
  assumes "plugin_run cfg command cid ns complete es"
  shows "plugin_run cfg command cid (n # ns) complete (plugin_event cfg command cid n True # es)"
proof (cases complete)
  case False
  with assms obtain ran m rest where "ns = ran @ m # rest"
    "es = map (\<lambda>n. plugin_event cfg command cid n True) ran @ [plugin_event cfg command cid m False]"
    by (auto simp: plugin_run_def)
  then have "n # ns = (n # ran) @ m # rest"
    "plugin_event cfg command cid n True # es = map (\<lambda>n. plugin_event cfg command cid n True) (n # ran) @ [plugin_event cfg command cid m False]"
    by simp_all
  then have "\<exists>ran m rest. n # ns = ran @ m # rest \<and> plugin_event cfg command cid n True # es =
      map (\<lambda>n. plugin_event cfg command cid n True) ran @ [plugin_event cfg command cid m False]" by blast
  with False show ?thesis by (simp only: plugin_run_def if_False)
qed (use assms in \<open>simp add: plugin_run_def\<close>)

lemma run_plugins_events:
  assumes "run_plugins (watched_host H) (build_cni_env command cid netns ''eth0'' (yc_cni_bin_path cfg)) cl command (yc_cni_bin_path cfg) prev ps w = (r, w')"
  shows "\<exists>es. snd w' = snd w @ es \<and> plugin_run cfg command cid (map pl_type ps) (is_ok r) es"
  using assms
proof (induction ps arbitrary: prev w)
  case (Cons plugin ps)
  let ?env = "build_cni_env command cid netns ''eth0'' (yc_cni_bin_path cfg)"
  have env: "tbl_get ?env ''CNI_COMMAND'' = Some command" "tbl_get ?env ''CNI_CONTAINERID'' = Some cid"
    by (simp_all add: build_cni_env_def tbl_get_def)
  obtain run k1 where c: "hk_cni H (path_join (yc_cni_bin_path cfg) (pl_type plugin)) ?env (plugin_conf cl prev plugin) (fst w) = (run, k1)"
    by (rule prod.exhaust)
  let ?e = "plugin_event cfg command cid (pl_type plugin) (case run of CniExited success _ _ _ \<Rightarrow> success | _ \<Rightarrow> False)"
  have w1: "hk_cni (watched_host H) (path_join (yc_cni_bin_path cfg) (pl_type plugin)) ?env (plugin_conf cl prev plugin) w = (run, (k1, snd w @ [?e]))"
    using c env by (simp add: watched_host_def plugin_event_def)
  show ?case
  proof (cases "case run of CniExited success _ _ _ \<Rightarrow> success | _ \<Rightarrow> False")
    case True
    then obtain code out err where run: "run = CniExited True code out err" by (cases run) auto
    with Cons.prems w1 obtain prev' where
      "run_plugins (watched_host H) ?env cl command (yc_cni_bin_path cfg) prev' ps (k1, snd w @ [?e]) = (r, w')"
      by auto
    from Cons.IH [OF this] obtain es where es: "snd w' = (snd w @ [?e]) @ es" "plugin_run cfg command cid (map pl_type ps) (is_ok r) es"
      by auto
    then have "plugin_run cfg command cid (map pl_type (plugin # ps)) (is_ok r) (?e # es)"
      using True plugin_run_Cons [OF es(2)] by simp
    with es show ?thesis by auto
  next
    case False
    then have "is_ok r = False \<and> snd w' = snd w @ [?e]"
      using Cons.prems w1 by (cases run) (auto simp: is_ok_def)
    moreover have "plugin_run cfg command cid (map pl_type (plugin # ps)) False [?e]"
      using False by (auto simp: plugin_run_def)
    ultimately show ?thesis by auto
  qed
qed (auto simp: is_ok_def plugin_run_def)

lemma conflist_plugins:
  "map pl_type (cl_plugins (inject_port_mappings hp cp (generate_conflist net))) = [''bridge'', ''portmap'']"
  by (simp add: inject_port_mappings_def generate_conflist_def)

lemma invoke_cni_events:
  assumes "invoke_cni (watched_host H) cl command cid netns (yc_cni_bin_path cfg) w = (r, w')"
  shows "\<exists>es complete. snd w' = snd w @ es \<and> plugin_run cfg command cid (map pl_type (cl_plugins cl)) complete es \<and> (is_ok r \<longrightarrow> complete)"
proof -
  obtain x w1 where x: "run_plugins (watched_host H) (build_cni_env command cid netns ''eth0'' (yc_cni_bin_path cfg)) cl command
      (yc_cni_bin_path cfg) None (cl_plugins cl) w = (x, w1)" by (rule prod.exhaust)
  have "w' = w1 \<and> (is_ok r \<longrightarrow> is_ok x)"
    using assms x by (cases x) (auto simp: invoke_cni_def bind_op_def lib_look_def ok_op_def is_ok_def split: option.splits)
  with run_plugins_events [OF x] show ?thesis by blast
qed

lemma plugin_run_quiet: "plugin_run cfg command cid ns complete es \<Longrightarrow> container_events es = es"
  by (cases complete) (auto simp: plugin_run_def container_events_def is_write_def plugin_event_def filter_True)

lemma remove_if_present_log: "snd (remove_if_present (watched_host H) p w) = snd w"
  by (simp add: remove_if_present_def watched_host_def case_prod_beta)

lemma rollback_libcontainer_log: "snd (rollback_libcontainer (watched_host H) cfg cid w) = snd w"
  by (simp add: rollback_libcontainer_def remove_if_present_log)

lemma start_container_logs: "logs (start_container (watched_host H) cfg cid) is_write"
  unfolding start_container_def by (intro log_rules)

text \<open>What networking and the start may log before they fail, and that the two directories of the
  container are then rolled back last.\<close>

definition connect_failed :: "YoukiConfig \<Rightarrow> string \<Rightarrow> host_event list \<Rightarrow> bool" where
  "connect_failed cfg cid es \<longleftrightarrow>
    (\<exists>complete. plugin_run cfg ''ADD'' cid [''bridge'', ''portmap''] complete es) \<or>
    (\<exists>dels complete. plugin_run cfg ''DEL'' cid [''bridge'', ''portmap''] complete dels \<and>
       es = [plugin_event cfg ''ADD'' cid ''bridge'' True, plugin_event cfg ''ADD'' cid ''portmap'' True] @ dels)"

lemma connect_failure:
  assumes "connect_and_start (watched_host H) cfg hp cp cid netns w = (Inl e, w')"
  shows "\<exists>es w1. snd w' = snd w @ es \<and> connect_failed cfg cid (container_events es) \<and> w' = rollback_libcontainer (watched_host H) cfg cid w1"
proof -
  let ?cl = "inject_port_mappings hp cp (generate_conflist NETWORK_NAME)"
  obtain x w1 where x: "invoke_cni (watched_host H) ?cl ''ADD'' cid netns (yc_cni_bin_path cfg) w = (x, w1)" by (rule prod.exhaust)
  from invoke_cni_events [OF this] obtain adds c where adds: "snd w1 = snd w @ adds"
    "plugin_run cfg ''ADD'' cid [''bridge'', ''portmap''] c adds" "is_ok x \<longrightarrow> c"
    by (auto simp: conflist_plugins)
  show ?thesis
  proof (cases x)
    case (Inl a)
    with assms x have "w' = rollback_libcontainer (watched_host H) cfg cid w1"
      by (simp add: connect_and_start_def Let_def)
    with adds show ?thesis
      by (intro exI [of _ adds] exI [of _ w1]) (auto simp: rollback_libcontainer_log connect_failed_def plugin_run_quiet)
  next
    case (Inr a)
    then have added: "adds = [plugin_event cfg ''ADD'' cid ''bridge'' True, plugin_event cfg ''ADD'' cid ''portmap'' True]"
      using adds by (simp add: is_ok_def plugin_run_def)
    obtain y w2 where y: "start_container (watched_host H) cfg cid w1 = (y, w2)" by (rule prod.exhaust)
    from logsD [OF start_container_logs y] obtain qs where qs: "snd w2 = snd w1 @ qs" "\<forall>e \<in> set qs. is_write e" by blast
    define w3 where "w3 = rollback_cni (watched_host H) cfg ?cl cid netns w2"
    obtain z where z: "invoke_cni (watched_host H) ?cl ''DEL'' cid netns (yc_cni_bin_path cfg) w2 = (z, w3)"
      by (cases "invoke_cni (watched_host H) ?cl ''DEL'' cid netns (yc_cni_bin_path cfg) w2") (auto simp: w3_def rollback_cni_def)
    from invoke_cni_events [OF this] obtain dels d where dels: "snd w3 = snd w2 @ dels"
      "plugin_run cfg ''DEL'' cid [''bridge'', ''portmap''] d dels"
      by (auto simp: conflist_plugins)
    have "w' = rollback_libcontainer (watched_host H) cfg cid w3"
      using assms x y Inr by (cases y) (auto simp: connect_and_start_def Let_def w3_def)
    moreover have "container_events (adds @ qs @ dels) = adds @ dels"
      using plugin_run_quiet [OF adds(2)] plugin_run_quiet [OF dels(2)] qs(2) by (simp add: container_events_def)
    ultimately show ?thesis
      using adds(1) qs(1) dels added
      by (intro exI [of _ "adds @ qs @ dels"] exI [of _ w3]) (auto simp: rollback_libcontainer_log connect_failed_def)
  qed
qed

lemma build_events:
  assumes "build_container (watched_host H) cfg cid w = (r, w')"
  shows "snd w' = snd w \<and> \<not> is_ok r \<or> snd w' = snd w @ [Built cid]"
  using assms
  by (auto simp: build_container_def blocking_def then_op_def bind_op_def lib_look_def lib_call_def map_err_def watched_host_def
      is_ok_def ok_or_def split: sum.splits prod.splits option.splits)

text \<open>Nothing before the bundle builds a container.\<close>

lemma launch_cases:
  assumes "launch U (watched_host H) cfg config w = (r, w')"
  shows "container_events (snd w') = container_events (snd w) \<and> \<not> is_ok r \<or>
    (\<exists>rootfs w1 hp cid w2. pull_and_unpack_with U (watched_host H) (yc_root_dir cfg) (cc_image config) (cc_pull_policy config = Always) w = (Inr rootfs, w1) \<and>
       container_events (snd w2) = container_events (snd w) \<and> launch_bundle (watched_host H) cfg config rootfs hp cid w2 = (r, w'))"
proof (cases "cc_pull_policy config = Never")
  case True
  with assms show ?thesis by (auto simp: launch_def err_op_def is_ok_def)
next
  case False
  obtain a w1 where a: "pull_and_unpack_with U (watched_host H) (yc_root_dir cfg) (cc_image config) (cc_pull_policy config = Always) w = (a, w1)"
    by (rule prod.exhaust)
  note ea = quiet_events [OF pull_logs a]
  show ?thesis
  proof (cases a)
    case (Inr rootfs)
    obtain b w2 where b: "write_resolv_conf (watched_host H) rootfs w1 = (b, w2)" by (rule prod.exhaust)
    note eb = quiet_events [OF resolv_conf_logs b]
    obtain c w3 where c: "allocate_port (watched_host H) w2 = (c, w3)" by (rule prod.exhaust)
    note ec = quiet_events [OF allocate_port_logs c]
    obtain u w4 where u: "hk_new_uuid (watched_host H) w3 = (u, w4)" by (rule prod.exhaust)
    note eu = quiet_events [OF watched_logs(6) u]
    show ?thesis
    proof (cases "is_ok b \<and> is_ok c")
      case True
      then obtain hp where "b = Inr ()" "c = Inr hp" by (auto simp: is_ok_def split: sum.splits)
      with assms False a Inr b c u have
        "launch_bundle (watched_host H) cfg config rootfs hp (CONTAINER_ID_PREFIX @ ''-'' @ uuid_to_string U u) w4 = (r, w')"
        by (simp add: launch_def bind_op_def then_op_def Let_def)
      moreover have "container_events (snd w4) = container_events (snd w)" using ea eb ec eu by simp
      ultimately show ?thesis using a [unfolded Inr] by blast
    next
      case no: False
      with assms False a Inr b c have "w' = w2 \<and> \<not> is_ok r \<or> w' = w3 \<and> \<not> is_ok r"
        by (cases b; cases c) (auto simp: launch_def bind_op_def then_op_def is_ok_def)
      with ea eb ec show ?thesis by auto
    qed
  qed (use assms False a ea in \<open>auto simp: launch_def bind_op_def is_ok_def\<close>)
qed

lemma bundle_failure:
  assumes "launch_bundle (watched_host H) cfg config rootfs hp cid w = (Inl e, w')"
  shows "container_events (snd w') = container_events (snd w) \<or>
    container_events (snd w') = container_events (snd w) @ [Built cid] \<and>
      (\<exists>b w1. build_container (watched_host H) cfg cid w1 = (b, w') \<and> (is_ok b \<longrightarrow> 65536 \<le> unat (cc_exposed_port config))) \<or>
    unat (cc_exposed_port config) < 65536 \<and> (\<exists>es w1. container_events (snd w') = container_events (snd w) @ Built cid # es \<and>
       connect_failed cfg cid es \<and> w' = rollback_libcontainer (watched_host H) cfg cid w1)"
proof -
  obtain a w1 where a: "write_bundle (watched_host H) cfg config rootfs cid w = (a, w1)" by (rule prod.exhaust)
  note ea = quiet_events [OF write_bundle_logs a]
  obtain b w2 where b: "build_container (watched_host H) cfg cid w1 = (b, w2)" by (rule prod.exhaust)
  have built: "container_events [Built cid] = [Built cid]" by (simp add: container_events_def is_write_def)
  then have eb: "container_events (snd w2) = container_events (snd w1) \<and> \<not> is_ok b \<or> container_events (snd w2) = container_events (snd w1) @ [Built cid]"
    using build_events [OF b] by (auto simp: container_events_def)
  show ?thesis
  proof (cases "is_ok a \<and> is_ok b \<and> unat (cc_exposed_port config) < 65536")
    case True
    then obtain pid where ok: "a = Inr ()" "b = Inr pid" by (auto simp: is_ok_def split: sum.splits)
    obtain x w3 where x: "connect_and_start (watched_host H) cfg hp (ucast (cc_exposed_port config)) cid (netns_of pid) w2 = (x, w3)"
      by (rule prod.exhaust)
    with assms a b ok True have "x = Inl e \<and> w3 = w'"
      by (cases x) (auto simp: launch_bundle_def then_op_def bind_op_def u16_port_def ok_op_def)
    with x connect_failure obtain es w4 where es: "snd w' = snd w2 @ es" "connect_failed cfg cid (container_events es)"
      "w' = rollback_libcontainer (watched_host H) cfg cid w4" by blast
    have "container_events (snd w') = container_events (snd w) @ Built cid # container_events es"
      using ea eb ok es(1) by (auto simp: container_events_def is_ok_def)
    with True es show ?thesis by blast
  next
    case False
    with assms a b have "w' = w1 \<or> w' = w2 \<and> (is_ok b \<longrightarrow> 65536 \<le> unat (cc_exposed_port config))"
      by (cases a; cases b) (auto simp: launch_bundle_def then_op_def bind_op_def u16_port_def is_ok_def split: if_splits)
    with ea [symmetric] eb b show ?thesis by metis
  qed
qed

lemma create_Inl:
  assumes "youki_create_and_start U H cfg config s = (Inl e, s')"
  shows "launch U H cfg config (yk_host s) = (Inl e, yk_host s') \<and> yk_containers s' = yk_containers s"
  using assms by (auto simp: youki_create_and_start_def bind_op_def on_host_def split: prod.splits sum.splits)

lemma create_Inr:
  assumes "youki_create_and_start U H cfg config s = (Inr info, s')"
  shows "\<exists>meta. launch U H cfg config (yk_host s) = (Inr (cid_str (ci_id info), meta), yk_host s')"
  using assms by (auto simp: youki_create_and_start_def bind_op_def on_host_def split: prod.splits sum.splits)

text \<open>C37. What a failed creation of a youki sandbox leaves behind. The table of containers is as before.
  Either no container was built; or one was built and the host is left as the building left it, with nothing
  undone (the building reported an error after all, or the exposed port does not fit 16 bits); or the network
  plugins were asked to add it, in order up to the first that failed, and then the container's state and
  bundle directories were rolled back, last of all. Only when all plugins succeeded and the start failed were
  the plugins asked to delete it again: when the second plugin fails, what the first one set up is never
  taken back.\<close>

theorem youki_failed_create:
  assumes "youki_create_and_start U (watched_host H) cfg config s = (Inl e, s')" "snd (yk_host s) = []"
  shows "yk_containers s' = yk_containers s \<and>
    (container_events (snd (yk_host s')) = [] \<or>
     (\<exists>cid b w. container_events (snd (yk_host s')) = [Built cid] \<and> build_container (watched_host H) cfg cid w = (b, yk_host s') \<and>
       (is_ok b \<longrightarrow> 65536 \<le> unat (cc_exposed_port config))) \<or>
     unat (cc_exposed_port config) < 65536 \<and> (\<exists>cid es w. container_events (snd (yk_host s')) = Built cid # es \<and>
       connect_failed cfg cid es \<and> yk_host s' = rollback_libcontainer (watched_host H) cfg cid w))"
proof -
  from create_Inl [OF assms(1)] have run: "launch U (watched_host H) cfg config (yk_host s) = (Inl e, yk_host s')"
    and tab: "yk_containers s' = yk_containers s" by auto
  have none: "container_events (snd (yk_host s)) = []" by (simp add: assms(2) container_events_def)
  from launch_cases [OF run] none show ?thesis
  proof (elim disjE exE conjE)
    fix rootfs w1 hp cid w2
    assume ev: "container_events (snd w2) = container_events (snd (yk_host s))"
      and b: "launch_bundle (watched_host H) cfg config rootfs hp cid w2 = (Inl e, yk_host s')"
    from bundle_failure [OF b, unfolded ev none append_Nil] tab show ?thesis by blast
  qed (use tab in simp)
qed

definition demo_youki_host :: "string + lc_container \<Rightarrow> mem host" where
  "demo_youki_host loaded = (mem_host [])\<lparr>hk_exists := (\<lambda>_ _. True), hk_create_dir_all := (\<lambda>_ _ k. (Inr (), k)),
     hk_write := (\<lambda>_ _ _ k. (Inr (), k)), hk_remove_dir_all := (\<lambda>_ _ k. (Inr (), k)), hk_lc_build := (\<lambda>_ _ _ k. (Inr (Some 7), k)),
     hk_lc_load := (\<lambda>_ _. loaded), hk_lc_start := (\<lambda>_ k. (Inr (), k)), hk_new_uuid := (\<lambda>k. (0, k))\<rparr>"

definition demo_config :: "u32 \<Rightarrow> ContainerConfig" where
  "demo_config port = \<lparr> cc_sandbox_id = SandboxId 7, cc_image = ''alpine'', cc_cpu_limit_millicores = 500, cc_memory_limit_bytes = 1024,
     cc_env_vars = [], cc_exposed_port = port, cc_pull_policy = IfNotPresent \<rparr>"

definition demo_youki :: "(mem \<times> host_event list) youki" where
  "demo_youki = \<lparr> yk_containers = [], yk_host = (demo_partial, []) \<rparr>"

lemmas demo_eval = bind_op_def then_op_def ok_op_def os_call_def os_look_def lib_call_def lib_look_def map_err_def blocking_def
  drop_result_def Let_def

abbreviation demo_watched where "demo_watched l \<equiv> watched_host (demo_youki_host l)"
abbreviation no_state where "no_state \<equiv> Inl ''no state''"
abbreviation demo_cfg where "demo_cfg \<equiv> default_youki_config"

lemma demo_pull: "pull_and_unpack_with rfc4122 (demo_watched l) (yc_root_dir demo_cfg) ''alpine'' False (demo_partial, []) =
    (Inr (image_rootfs (yc_root_dir demo_cfg) ''sha256:00''), (demo_partial, []))"
  by (simp add: pull_and_unpack_with_def demo_youki_host_def watched_host_def mem_host_def demo_eval)

lemma demo_dns: "\<exists>b. write_resolv_conf (demo_watched l) r w = (Inr (), (fst w, snd w @ b)) \<and> (\<forall>e \<in> set b. is_write e)"
  by (simp add: write_resolv_conf_def demo_youki_host_def watched_host_def demo_eval is_write_def)

lemma demo_port: "allocate_port (demo_watched l) w = (Inr 40000, w)" "hk_new_uuid (demo_watched l) w = (0, w)"
  by (simp_all add: allocate_port_def demo_youki_host_def watched_host_def mem_host_def demo_eval)

lemma demo_spec: "\<exists>spec. generate_full_spec (hk_oci_build (demo_watched l)) config r c = Inr spec"
  by (simp add: generate_full_spec_def oci_builders_def demo_youki_host_def watched_host_def mem_host_def Let_def)

lemma demo_bundle:
  "\<exists>b. write_bundle (demo_watched l) demo_cfg config r c w = (Inr (), (fst w, snd w @ b)) \<and> (\<forall>e \<in> set b. is_write e)"
  using demo_spec [of l config r "Some (CGROUP_PATH_PREFIX @ ''/'' @ c)"]
  by (auto simp: write_bundle_def demo_youki_host_def watched_host_def mem_host_def demo_eval is_write_def)

lemma demo_build: "build_container (demo_watched l) demo_cfg c w = (Inr 7, (fst w, snd w @ [Built c]))"
  by (simp add: build_container_def demo_youki_host_def watched_host_def mem_host_def demo_eval ok_or_def)

lemma demo_cni: "\<exists>k. invoke_cni (demo_watched l) (inject_port_mappings hp cp (generate_conflist NETWORK_NAME)) cmd c ns (yc_cni_bin_path demo_cfg) w =
    (Inr \<lparr> cnr_version = ''1.0.0'', cnr_ips = None \<rparr>,
     (k, snd w @ [plugin_event demo_cfg cmd c ''bridge'' True, plugin_event demo_cfg cmd c ''portmap'' True]))"
  by (simp add: invoke_cni_def inject_port_mappings_def generate_conflist_def build_cni_env_def demo_youki_host_def watched_host_def
      mem_host_def mem_cni_def plugin_event_def tbl_get_def demo_eval)

lemma demo_start: "\<exists>e. start_container (demo_watched no_state) demo_cfg c w = (Inl e, w)"
  by (simp add: start_container_def demo_youki_host_def watched_host_def mem_host_def demo_eval)

definition demo_trace :: "string \<Rightarrow> host_event list" where
  "demo_trace c = map (\<lambda>(cmd, n). plugin_event demo_cfg cmd c n True)
     [(''ADD'', ''bridge''), (''ADD'', ''portmap''), (''DEL'', ''bridge''), (''DEL'', ''portmap'')]"

lemma demo_connect:
  "\<exists>e w'. connect_and_start (demo_watched no_state) demo_cfg hp cp c ns w = (Inl e, w') \<and> snd w' = snd w @ demo_trace c"
proof -
  let ?cl = "inject_port_mappings hp cp (generate_conflist NETWORK_NAME)"
  let ?l = "snd w @ [plugin_event demo_cfg ''ADD'' c ''bridge'' True, plugin_event demo_cfg ''ADD'' c ''portmap'' True]"
  obtain k where add: "invoke_cni (demo_watched no_state) ?cl ''ADD'' c ns (yc_cni_bin_path demo_cfg) w = (Inr \<lparr> cnr_version = ''1.0.0'', cnr_ips = None \<rparr>, (k, ?l))"
    using demo_cni by blast
  obtain e where st: "start_container (demo_watched no_state) demo_cfg c (k, ?l) = (Inl e, (k, ?l))" using demo_start by blast
  show ?thesis
    using add st demo_cni [of no_state hp cp "''DEL''" c ns "(k, ?l)"]
    by (auto simp: connect_and_start_def rollback_cni_def rollback_libcontainer_log demo_trace_def Let_def)
qed

lemma demo_launch:
  "\<exists>e w' cid. launch rfc4122 (demo_watched no_state) demo_cfg (demo_config 8080) (demo_partial, []) = (Inl e, w') \<and>
     container_events (snd w') = Built cid # demo_trace cid"
proof -
  let ?cid = "CONTAINER_ID_PREFIX @ ''-'' @ uuid_to_string rfc4122 0"
  let ?r = "image_rootfs (yc_root_dir demo_cfg) ''sha256:00''" and ?w = "(demo_partial, [] :: host_event list)"
  obtain b1 where b1: "write_resolv_conf (demo_watched no_state) ?r ?w = (Inr (), (demo_partial, b1))" "\<forall>e \<in> set b1. is_write e"
    using demo_dns [of no_state ?r ?w] by auto
  obtain b2 where b2: "write_bundle (demo_watched no_state) demo_cfg (demo_config 8080) ?r ?cid (demo_partial, b1) = (Inr (), (demo_partial, b1 @ b2))"
    "\<forall>e \<in> set b2. is_write e"
    using demo_bundle [of no_state "demo_config 8080" ?r ?cid "(demo_partial, b1)"] by auto
  obtain e w' where c: "connect_and_start (demo_watched no_state) demo_cfg 40000 8080 ?cid (netns_of 7) (demo_partial, (b1 @ b2) @ [Built ?cid]) = (Inl e, w')"
    "snd w' = ((b1 @ b2) @ [Built ?cid]) @ demo_trace ?cid"
    using demo_connect [of 40000 8080 ?cid "netns_of 7" "(demo_partial, (b1 @ b2) @ [Built ?cid])"] by auto
  have "launch rfc4122 (demo_watched no_state) demo_cfg (demo_config 8080) ?w = (Inl e, w')"
    using demo_pull b1(1) b2(1) demo_build [of no_state ?cid "(demo_partial, b1 @ b2)"] c(1)
    by (simp add: launch_def launch_bundle_def demo_config_def demo_port bind_op_def then_op_def u16_port_def Let_def)
  moreover have "container_events (snd w') = Built ?cid # demo_trace ?cid"
    using b1(2) b2(2) unfolding c(2) by (auto simp: container_events_def is_write_def plugin_event_def demo_trace_def)
  ultimately show ?thesis by blast
qed

theorem youki_failed_create_witness:
  "\<exists>e s' cid w. youki_create_and_start rfc4122 (demo_watched no_state) demo_cfg (demo_config 8080) demo_youki = (Inl e, s') \<and> yk_containers s' = [] \<and>
     container_events (snd (yk_host s')) = Built cid # demo_trace cid \<and> yk_host s' = rollback_libcontainer (demo_watched no_state) demo_cfg cid w"
proof -
  obtain e w' cid where l: "launch rfc4122 (demo_watched no_state) demo_cfg (demo_config 8080) (demo_partial, []) = (Inl e, w')"
    "container_events (snd w') = Built cid # demo_trace cid" using demo_launch by blast
  let ?s = "demo_youki\<lparr>yk_host := w'\<rparr>"
  have run: "youki_create_and_start rfc4122 (demo_watched no_state) demo_cfg (demo_config 8080) demo_youki = (Inl e, ?s)"
    using l(1) by (simp add: youki_create_and_start_def bind_op_def on_host_def demo_youki_def)
  have "yk_containers ?s = yk_containers demo_youki \<and>
    (container_events (snd (yk_host ?s)) = [] \<or> 
     (\<exists>cid b w. container_events (snd (yk_host ?s)) = [Built cid] \<and>
       build_container (demo_watched no_state) demo_cfg cid w = (b, yk_host ?s) \<and>
       (is_ok b \<longrightarrow> 65536 \<le> unat (cc_exposed_port (demo_config 8080)))) \<or>
     unat (cc_exposed_port (demo_config 8080)) < 65536 \<and> (\<exists>cid es w. container_events (snd (yk_host ?s)) = Built cid # es \<and>
       connect_failed demo_cfg cid es \<and> yk_host ?s = rollback_libcontainer (demo_watched no_state) demo_cfg cid w))"
    by (rule youki_failed_create [OF run]) (simp add: demo_youki_def)
  moreover have "demo_trace cid \<noteq> []" by (simp add: demo_trace_def)
  ultimately obtain w where "w' = rollback_libcontainer (demo_watched no_state) demo_cfg cid w"
    using l(2) by auto
  with run l(2) show ?thesis
    by (intro exI [of _ e] exI [of _ ?s] exI [of _ cid] exI [of _ w]) (simp add: demo_youki_def)
qed

section \<open>The root file system of a sandbox\<close>

lemma pull_result:
  assumes "hk_parse_reference H img = Inr reference" "hk_pull_manifest H reference k = (Inr (layers, digest), k1)"
    and "pull_and_unpack_with U H root img force k = (Inr p, k')"
  shows "p = image_rootfs root digest"
  using assms(3) unfolding pull_and_unpack_with_def
  by (auto simp: assms(1,2) bind_op_def lib_look_def lib_call_def map_err_def Let_def case_prod_beta
      op_results split: if_splits)

lemma connect_logs:
  assumes "connect_and_start (watched_host H) cfg hp cp cid netns w = (Inr u, w')"
  shows "\<exists>es. snd w' = snd w @ es"
proof -
  let ?cl = "inject_port_mappings hp cp (generate_conflist NETWORK_NAME)"
  obtain x w1 where x: "invoke_cni (watched_host H) ?cl ''ADD'' cid netns (yc_cni_bin_path cfg) w = (x, w1)" by (rule prod.exhaust)
  from invoke_cni_events [OF this] obtain adds where adds: "snd w1 = snd w @ adds" by blast
  obtain y w2 where y: "start_container (watched_host H) cfg cid w1 = (y, w2)" by (rule prod.exhaust)
  from logsD [OF start_container_logs y] obtain qs where qs: "snd w2 = snd w1 @ qs" by blast
  have "w' = w2" using assms x y by (cases x; cases y) (auto simp: connect_and_start_def Let_def)
  with adds qs show ?thesis by simp
qed

lemma bundle_written:
  assumes "write_bundle (watched_host H) cfg config rootfs cid w = (Inr u, w')"
  shows "\<exists>spec b. generate_full_spec (hk_oci_build H) config rootfs (Some (CGROUP_PATH_PREFIX @ ''/'' @ cid)) = Inr spec \<and>
    hk_spec_json H spec = Inr b \<and> snd w' = snd w @ [Wrote (path_join (path_join (container_dir cfg cid) ''bundle'') ''config.json'') b]"
  using assms
  by (auto simp: write_bundle_def watched_host_def then_op_def bind_op_def os_call_def lib_look_def map_err_def Let_def
      split: sum.splits prod.splits)

lemma launch_bundle_written:
  assumes "launch_bundle (watched_host H) cfg config rootfs hp cid w = (Inr (c, meta), w')"
  shows "c = cid \<and> (\<exists>spec b. generate_full_spec (hk_oci_build H) config rootfs (Some (CGROUP_PATH_PREFIX @ ''/'' @ cid)) = Inr spec \<and>
    hk_spec_json H spec = Inr b \<and> Wrote (path_join (path_join (container_dir cfg cid) ''bundle'') ''config.json'') b \<in> set (snd w'))"
proof -
  from assms obtain u1 w1 pid w2 cp u3 where
    a: "write_bundle (watched_host H) cfg config rootfs cid w = (Inr u1, w1)"
    and b: "build_container (watched_host H) cfg cid w1 = (Inr pid, w2)"
    and c: "connect_and_start (watched_host H) cfg hp cp cid (netns_of pid) w2 = (Inr u3, w')" "c = cid"
    by (auto simp: launch_bundle_def op_results)
  from bundle_written [OF a] obtain spec js where spec: "generate_full_spec (hk_oci_build H) config rootfs (Some (CGROUP_PATH_PREFIX @ ''/'' @ cid)) = Inr spec"
    "hk_spec_json H spec = Inr js" "snd w1 = snd w @ [Wrote (path_join (path_join (container_dir cfg cid) ''bundle'') ''config.json'') js]"
    by blast
  from connect_logs [OF c(1)] build_events [OF b] spec(3)
  have "Wrote (path_join (path_join (container_dir cfg cid) ''bundle'') ''config.json'') js \<in> set (snd w')" by auto
  with spec c(2) show ?thesis by blast
qed

lemma spec_root:
  "generate_full_spec oci_build config rootfs cg = Inr spec \<Longrightarrow> oci_root_path spec = rootfs \<and> \<not> oci_root_readonly spec"
  by (auto simp: generate_full_spec_def Let_def split: option.splits)

text \<open>C39. Sandboxes of one image share one writable root file system. When a youki sandbox is created, the
  OCI specification written for its container names as its root, writable, the cache directory of the image's
  digest, whatever the sandbox: no copy is made, so what one sandbox writes every other sandbox of that image
  sees, and so does every sandbox created later.\<close>

theorem sandboxes_share_rootfs:
  assumes "youki_create_and_start U (watched_host H) cfg config s = (Inr info, s')"
    and "hk_parse_reference H (cc_image config) = Inr reference"
    and "hk_pull_manifest H reference (fst (yk_host s)) = (Inr (layers, digest), k1)"
  shows "\<exists>spec b. hk_spec_json H spec = Inr b \<and>
    Wrote (path_join (path_join (container_dir cfg (cid_str (ci_id info))) ''bundle'') ''config.json'') b \<in> set (snd (yk_host s')) \<and>
    oci_root_path spec = image_rootfs (yc_root_dir cfg) digest \<and> \<not> oci_root_readonly spec"
proof -
  from create_Inr [OF assms(1)] obtain meta where
    run: "launch U (watched_host H) cfg config (yk_host s) = (Inr (cid_str (ci_id info), meta), yk_host s')" by blast
  have man: "hk_parse_reference (watched_host H) (cc_image config) = Inr reference"
    "hk_pull_manifest (watched_host H) reference (yk_host s) = (Inr (layers, digest), (k1, snd (yk_host s)))"
    using assms(2,3) by (simp_all add: watched_host_def)
  from launch_cases [OF run] obtain rootfs w1 hp cid w2 where
    "pull_and_unpack_with U (watched_host H) (yc_root_dir cfg) (cc_image config) (cc_pull_policy config = Always) (yk_host s) = (Inr rootfs, w1)"
    and b: "launch_bundle (watched_host H) cfg config rootfs hp cid w2 = (Inr (cid_str (ci_id info), meta), yk_host s')"
    by (auto simp: is_ok_def)
  then have "rootfs = image_rootfs (yc_root_dir cfg) digest" by (intro pull_result [OF man])
  with launch_bundle_written [OF b] spec_root show ?thesis by blast
qed

lemma demo_youki_created:
  "\<exists>info s'. youki_create_and_start rfc4122 (demo_watched (Inr c)) demo_cfg (demo_config 8080) demo_youki = (Inr info, s')"
proof -
  let ?l = "Inr c :: string + lc_container" and ?cid = "CONTAINER_ID_PREFIX @ ''-'' @ uuid_to_string rfc4122 0"
  let ?H = "demo_watched ?l" and ?r = "image_rootfs (yc_root_dir demo_cfg) ''sha256:00''" and ?w = "(demo_partial, [] :: host_event list)"
  have conn: "\<exists>w'. connect_and_start ?H demo_cfg hp cp cid ns w = (Inr (), w')" for hp cp cid ns w
  proof -
    obtain v where "invoke_cni ?H (inject_port_mappings hp cp (generate_conflist NETWORK_NAME)) ''ADD'' cid ns (yc_cni_bin_path demo_cfg) w =
        (Inr \<lparr> cnr_version = ''1.0.0'', cnr_ips = None \<rparr>, v)" using demo_cni by blast
    moreover have "start_container ?H demo_cfg cid v = (Inr (), v)" for v
      by (simp add: start_container_def demo_youki_host_def watched_host_def mem_host_def demo_eval)
    ultimately show ?thesis by (simp add: connect_and_start_def Let_def)
  qed
  obtain b1 where b1: "write_resolv_conf ?H ?r ?w = (Inr (), b1)" using demo_dns by blast
  obtain b2 where b2: "write_bundle ?H demo_cfg (demo_config 8080) ?r ?cid b1 = (Inr (), b2)" using demo_bundle by blast
  obtain b3 where b3: "connect_and_start ?H demo_cfg 40000 8080 ?cid (netns_of 7) (fst b2, snd b2 @ [Built ?cid]) = (Inr (), b3)" using conn by blast
  show ?thesis
    using demo_pull [of ?l] b1 b2 demo_build [of ?l ?cid b2] b3
    by (simp add: youki_create_and_start_def on_host_def demo_youki_def launch_def launch_bundle_def demo_config_def demo_port
        bind_op_def then_op_def u16_port_def ok_op_def Let_def)
qed

theorem sandboxes_share_rootfs_witness:
  "\<exists>info s' spec b. youki_create_and_start rfc4122 (demo_watched (Inr \<lparr> lc_status = StCreated, lc_pid = Some 7 \<rparr>)) demo_cfg (demo_config 8080) demo_youki = (Inr info, s') \<and>
    hk_spec_json (demo_youki_host (Inr \<lparr> lc_status = StCreated, lc_pid = Some 7 \<rparr>)) spec = Inr b \<and>
    Wrote (path_join (path_join (container_dir demo_cfg (cid_str (ci_id info))) ''bundle'') ''config.json'') b \<in> set (snd (yk_host s')) \<and>
    oci_root_path spec = image_rootfs ''/run/open-sandbox'' ''sha256:00'' \<and> \<not> oci_root_readonly spec"
proof -
  let ?l = "Inr \<lparr> lc_status = StCreated, lc_pid = Some 7 \<rparr> :: string + lc_container"
  obtain info s' where run: "youki_create_and_start rfc4122 (demo_watched ?l) demo_cfg (demo_config 8080) demo_youki = (Inr info, s')"
    using demo_youki_created by blast
  have "hk_parse_reference (demo_youki_host ?l) (cc_image (demo_config 8080)) = Inr ''alpine''"
    "hk_pull_manifest (demo_youki_host ?l) ''alpine'' (fst (yk_host demo_youki)) =
      (Inr ([\<lparr> ly_digest = ''sha256:11'', ly_media = [] \<rparr>], ''sha256:00''), demo_partial)"
    by (simp_all add: demo_youki_host_def mem_host_def demo_config_def demo_youki_def)
  note shared = sandboxes_share_rootfs [OF run this]
  have "yc_root_dir demo_cfg = ''/run/open-sandbox''" by (simp add: default_youki_config_def)
  from shared [unfolded this] run show ?thesis by blast
qed

section \<open>Files in a container\<close>

text \<open>
  What the file calls rely on of the host: threads can be started and do not panic, entering a namespace
  and finding a container do not depend on files or on identifiers drawn, and what was written to a file
  that was then moved to a path reads back there, as a regular file of its length.
\<close>

lemma write_steps:
  assumes "then_op (if b then os_call t1 m1 else ok_op ()) (then_op (os_call t2 m2) (os_call t3 m3)) k = (Inr (), k')"
  shows "\<exists>k1 k2. (k1 = k \<or> k1 = snd (m1 k)) \<and> m2 k1 = (Inr (), k2) \<and> m3 k2 = (Inr (), k')"
  using assms
  by (cases b) (auto simp: op_results os_call_def ok_op_def map_err_def split: prod.splits sum.splits)

locale ns_files =
  fixes H :: "'k host"
  assumes no_panic: "hk_task_panic H k = None"
    and spawns: "hk_spawn_thread H k = Inr ()"
    and mkdir_keeps: "hk_lc_load H c (snd (hk_create_dir_all H ns p k)) = hk_lc_load H c k"
      "hk_open_ns H q (snd (hk_create_dir_all H ns p k)) = hk_open_ns H q k"
      "hk_unshare_fs H (snd (hk_create_dir_all H ns p k)) = hk_unshare_fs H k"
      "hk_setns H q (snd (hk_create_dir_all H ns p k)) = hk_setns H q k"
    and write_keeps: "hk_lc_load H c (snd (hk_write H ns p x k)) = hk_lc_load H c k"
      "hk_open_ns H q (snd (hk_write H ns p x k)) = hk_open_ns H q k"
      "hk_unshare_fs H (snd (hk_write H ns p x k)) = hk_unshare_fs H k"
      "hk_setns H q (snd (hk_write H ns p x k)) = hk_setns H q k"
    and rename_keeps: "hk_lc_load H c (snd (hk_rename H ns p p' k)) = hk_lc_load H c k"
      "hk_open_ns H q (snd (hk_rename H ns p p' k)) = hk_open_ns H q k"
      "hk_unshare_fs H (snd (hk_rename H ns p p' k)) = hk_unshare_fs H k"
      "hk_setns H q (snd (hk_rename H ns p p' k)) = hk_setns H q k"
    and uuid_keeps: "hk_lc_load H c (snd (hk_new_uuid H k)) = hk_lc_load H c k"
      "hk_open_ns H q (snd (hk_new_uuid H k)) = hk_open_ns H q k"
      "hk_unshare_fs H (snd (hk_new_uuid H k)) = hk_unshare_fs H k"
      "hk_setns H q (snd (hk_new_uuid H k)) = hk_setns H q k"
    and moved: "hk_write H ns t x k = (Inr (), k1) \<Longrightarrow> hk_rename H ns t p k1 = (Inr (), k2) \<Longrightarrow>
      hk_read H ns p k2 = Inr x \<and> (\<exists>m. hk_metadata H ns p k2 = Inr m \<and> fm_kind m \<noteq> Directory \<and> fm_len m = of_nat (length x))"
begin

text \<open>A call into a namespace that only looks, and the way in.\<close>

definition enters :: "i32 \<Rightarrow> 'k \<Rightarrow> bool" where
  "enters pid k \<longleftrightarrow> 0 < pid \<and> hk_open_ns H ''/proc/self/ns/mnt'' k = Inr () \<and>
     hk_open_ns H (''/proc/'' @ show_int pid @ ''/ns/mnt'') k = Inr () \<and> hk_unshare_fs H k = Inr () \<and>
     hk_setns H (''/proc/'' @ show_int pid @ ''/ns/mnt'') k = Inr ()"

lemma run_in_ns_ok: "enters pid k \<Longrightarrow> run_in_container_mount_ns H pid f k = f (PidNs pid) k"
  by (simp add: enters_def run_in_container_mount_ns_def joined_def setns_op_inner_def os_look_def map_err_def then_op_def
      bind_op_def spawns no_panic Let_def)

lemma run_in_ns_Inr: "run_in_container_mount_ns H pid f k = (Inr a, k') \<Longrightarrow> enters pid k \<and> f (PidNs pid) k = (Inr a, k')"
  by (auto simp: enters_def run_in_container_mount_ns_def joined_def setns_op_inner_def os_look_def map_err_def then_op_def
      bind_op_def spawns no_panic Let_def err_op_def split: if_splits sum.splits prod.splits)

lemma run_in_ns_pure: "(\<And>ns k. snd (f ns k) = k) \<Longrightarrow> snd (run_in_container_mount_ns H pid f k) = k"
  by (auto simp: run_in_container_mount_ns_def joined_def setns_op_inner_def os_look_def then_op_def bind_op_def spawns no_panic
      Let_def err_op_def case_prod_beta split: sum.splits)

lemma container_pid_pure: "snd (container_pid H cfg c k) = k"
  by (simp add: container_pid_def bind_op_def lib_look_def split: sum.split)

lemma with_pid_pure: "(\<And>pid k. snd (f pid k) = k) \<Longrightarrow> snd (with_pid H cfg c f s) = s"
proof -
  assume f: "\<And>pid k. snd (f pid k) = k"
  obtain r k where p: "container_pid H cfg (cid_str c) (yk_host s) = (r, k)" by (rule prod.exhaust)
  then have "k = yk_host s" using container_pid_pure [of cfg "cid_str c" "yk_host s"] by simp
  with p f show ?thesis by (cases r) (simp_all add: with_pid_def on_host_def bind_op_def case_prod_beta)
qed

lemma write_file_in_ns_ok:
  assumes "write_file_in_ns U H pid path x k = (Inr (), k')"
  shows "enters pid k' \<and> (\<forall>c. hk_lc_load H c k' = hk_lc_load H c k) \<and> hk_read H (PidNs pid) path k' = Inr x \<and>
    (\<exists>m. hk_metadata H (PidNs pid) path k' = Inr m \<and> fm_kind m \<noteq> Directory \<and> fm_len m = of_nat (length x))"
proof -
  define parent where "parent = (case path_parent path of None \<Rightarrow> ''.'' | Some p \<Rightarrow> p)"
  obtain u k1 where u: "hk_new_uuid H k = (u, k1)" by (rule prod.exhaust)
  define temp where "temp = parent @ ''/.opensb.'' @ uuid_simple U u @ ''.tmp''"
  let ?ns = "PidNs pid"
  have "run_in_container_mount_ns H pid (\<lambda>ns.
      then_op (if parent \<noteq> [] then os_call (''mkdir -p '' @ parent @ '': '') (hk_create_dir_all H ns parent) else ok_op ())
      (then_op (os_call (''write temp '' @ temp @ '': '') (hk_write H ns temp x))
      (os_call (''rename '' @ temp @ '' -> '' @ path @ '': '') (hk_rename H ns temp path)))) k1 = (Inr (), k')"
    using assms by (simp only: write_file_in_ns_def Let_def u prod.case parent_def [symmetric] temp_def [symmetric])
  note ns = run_in_ns_Inr [OF this]
  from write_steps [OF conjunct2 [OF ns]] obtain k2 k3 where mk: "k2 = k1 \<or> k2 = snd (hk_create_dir_all H ?ns parent k1)"
    and w: "hk_write H ?ns temp x k2 = (Inr (), k3)" and r: "hk_rename H ?ns temp path k3 = (Inr (), k')"
    by blast
  have u1: "k1 = snd (hk_new_uuid H k)" and k3: "k3 = snd (hk_write H ?ns temp x k2)" and k': "k' = snd (hk_rename H ?ns temp path k3)"
    using u w r by simp_all
  have "enters pid k' = enters pid k1"
    using mk unfolding enters_def k' k3 by (auto simp: rename_keeps write_keeps mkdir_keeps)
  moreover have "hk_lc_load H c k' = hk_lc_load H c k" for c
    using mk unfolding k' k3 by (auto simp: rename_keeps write_keeps mkdir_keeps u1 uuid_keeps)
  ultimately show ?thesis
    using ns moved [OF w r] by simp
qed

lemma bind_pure: "(\<And>k. snd (m k) = k) \<Longrightarrow> (\<And>a k. snd (f a k) = k) \<Longrightarrow> snd (bind_op m f k) = k"
proof -
  assume m: "\<And>k. snd (m k) = k" and f: "\<And>a k. snd (f a k) = k"
  obtain r k1 where "m k = (r, k1)" by (rule prod.exhaust)
  with m [of k] f show ?thesis by (cases r) (simp_all add: bind_op_def)
qed

lemma with_pid_Inr:
  assumes "with_pid H cfg c f s = (Inr a, s')"
  shows "\<exists>pid. container_pid H cfg (cid_str c) (yk_host s) = (Inr pid, yk_host s) \<and> f pid (yk_host s) = (Inr a, yk_host s')"
proof -
  obtain r k where p: "container_pid H cfg (cid_str c) (yk_host s) = (r, k)" by (rule prod.exhaust)
  then have "k = yk_host s" using container_pid_pure [of cfg "cid_str c" "yk_host s"] by simp
  with p assms show ?thesis
    by (cases r) (auto simp: with_pid_def on_host_def bind_op_def split: prod.splits)
qed

lemma with_pid_run:
  "container_pid H cfg (cid_str c) (yk_host s) = (Inr pid, yk_host s) \<Longrightarrow> fst (with_pid H cfg c f s) = fst (f pid (yk_host s))"
  by (simp add: with_pid_def on_host_def bind_op_def case_prod_beta)

lemma read_in_ns_ok: "enters pid k \<Longrightarrow> hk_read H (PidNs pid) path k = Inr x \<Longrightarrow> fst (read_file_in_ns H pid path k) = Inr x"
  by (simp add: read_file_in_ns_def run_in_ns_ok map_err_def)

lemma stat_in_ns_ok: "enters pid k \<Longrightarrow> hk_metadata H (PidNs pid) path k = Inr m \<Longrightarrow> fm_kind m \<noteq> Directory \<Longrightarrow>
    \<exists>rev. stat_revision_in_ns H pid path k = (Inr \<lparr> nf_revision = rev, nf_size = fm_len m \<rparr>, k)"
  by (simp add: stat_revision_in_ns_def run_in_ns_ok Let_def)

lemma file_laws: "file_runtime (youki_runtime U dbg dbgs within H cfg)"
proof
  let ?R = "youki_runtime U dbg dbgs within H cfg"
  have ops: "rt_read_file ?R = youki_read_file H cfg" "rt_stat_revision ?R = youki_stat_revision H cfg" "rt_write_file ?R = youki_write_file U H cfg"
    by (simp_all add: youki_runtime_def)
  fix c p d s x s'
  show "snd (rt_read_file ?R c p d s) = s"
    unfolding ops youki_read_file_def read_file_in_ns_def by (intro with_pid_pure run_in_ns_pure) simp
  show "snd (rt_stat_revision ?R c p d s) = s"
    unfolding ops youki_stat_revision_def stat_revision_in_ns_def
    by (intro with_pid_pure bind_pure run_in_ns_pure) (simp_all add: ok_op_def)
  assume "rt_write_file ?R c p d x s = (Inr (), s')"
  from with_pid_Inr [OF this [unfolded ops youki_write_file_def]] obtain pid where
    pid: "container_pid H cfg (cid_str c) (yk_host s) = (Inr pid, yk_host s)"
    and w: "write_file_in_ns U H pid (youki_resolve_path p d) x (yk_host s) = (Inr (), yk_host s')" by blast
  from write_file_in_ns_ok [OF w] obtain m where ok: "enters pid (yk_host s')" "\<And>c. hk_lc_load H c (yk_host s') = hk_lc_load H c (yk_host s)"
    "hk_read H (PidNs pid) (youki_resolve_path p d) (yk_host s') = Inr x"
    "hk_metadata H (PidNs pid) (youki_resolve_path p d) (yk_host s') = Inr m" "fm_kind m \<noteq> Directory" "fm_len m = of_nat (length x)" by blast
  have pid': "container_pid H cfg (cid_str c) (yk_host s') = (Inr pid, yk_host s')"
    using pid by (auto simp: ok(2) container_pid_def bind_op_def lib_look_def map_err_def split: sum.splits)
  show "fst (rt_read_file ?R c p d s') = Inr x"
    unfolding ops youki_read_file_def by (simp only: with_pid_run [OF pid'] read_in_ns_ok [OF ok(1,3)])
  from stat_in_ns_ok [OF ok(1,4,5)] obtain rev where
    "stat_revision_in_ns H pid (youki_resolve_path p d) (yk_host s') = (Inr \<lparr> nf_revision = rev, nf_size = fm_len m \<rparr>, yk_host s')" by blast
  then show "\<exists>r. fst (rt_stat_revision ?R c p d s') = Inr r \<and> fr_size r = of_nat (length x)"
    unfolding ops youki_stat_revision_def with_pid_run [OF pid'] by (simp add: bind_op_def ok_op_def ok(6))
qed

end

interpretation memns: ns_files "mem_host es"
proof unfold_locales
  fix ns t x k k1 p k2
  assume w: "hk_write (mem_host es) ns t x k = (Inr (), k1)" and r: "hk_rename (mem_host es) ns t p k1 = (Inr (), k2)"
  have "mm_files k1 ns (resolve t) = Some (MemFile x)"
    using w by (auto simp: mem_host_def mem_write_def Let_def split: if_splits)
  then have "mm_files k2 ns (resolve p) = Some (MemFile x)"
    using r by (auto simp: mem_host_def mem_rename_def Let_def split: if_splits)
  then show "hk_read (mem_host es) ns p k2 = Inr x \<and>
      (\<exists>m. hk_metadata (mem_host es) ns p k2 = Inr m \<and> fm_kind m \<noteq> Directory \<and> fm_len m = of_nat (length x))"
    by (simp add: mem_host_def mem_read_def mem_metadata_def)
qed (simp_all add: mem_host_def mem_load_def mem_create_dir_all_def mem_write_def mem_rename_def set_files_def Let_def)

text \<open>C38. The youki runtime keeps the file laws the agent's sessions rely on. On a host where a file that was
  written and moved into place reads back there, reading and stating a file through the runtime change
  nothing, a file written successfully reads back as written, and its revision then has its size.\<close>

theorem youki_files:
  assumes "ns_files H"
  shows "file_runtime (youki_runtime U dbg dbgs within H cfg)"
  by (rule ns_files.file_laws [OF assms])

theorem youki_files_witness: "file_runtime (youki_runtime rfc4122 id concat (\<lambda>_ _. None) (mem_host []) default_youki_config)"
  by (rule youki_files [OF memns.ns_files_axioms])

section \<open>Processes in a container\<close>

lemma fold_stdout_chunks: "fold stdout_chunk ms p = fold pump_chunk (map LogStdOut ms) p"
  by (induction ms arbitrary: p) (simp_all add: stdout_chunk_def pump_chunk_def)

lemma fold_stderr_chunks: "fold stderr_chunk ms p = fold pump_chunk (map LogStdErr ms) p"
  by (induction ms arbitrary: p) (simp_all add: stderr_chunk_def pump_chunk_def)

lemma output_pumps_eq: "output_pumps run = output_pump_docker (map LogStdOut (nr_stdout run) @ map LogStdErr (nr_stderr run))"
  by (simp add: output_pumps_def output_pump_docker_def fold_stdout_chunks fold_stderr_chunks)

lemma streams_of: "stderr_of (map LogStdOut os @ map LogStdErr es) = concat es" "stdout_of (map LogStdOut os @ map LogStdErr es) = concat os"
proof -
  have "stderr_of (map LogStdErr es) = concat es" "stdout_of (map LogStdErr es) = []" by (induction es) simp_all
  then show "stderr_of (map LogStdOut os @ map LogStdErr es) = concat es" "stdout_of (map LogStdOut os @ map LogStdErr es) = concat os"
    by (induction os) simp_all
qed

text \<open>What is returned for a process that was spawned: the environment it gets, and the handle.\<close>

lemma start_exec_run:
  assumes "youki_start_exec U H cfg c start s = (Inr x, s')"
  shows "\<exists>target k run. hk_nsenter H (nsenter_args target start) (child_env (hk_agent_env H) (es_env start)) k = (run, yk_host s') \<and>
    eh_in_container_pid (ye_handle x) = (case (if nr_marker_in_time run then pp_pid (output_pumps run) else None) of None \<Rightarrow> 0 | Some pid \<Rightarrow> pid) \<and>
    ye_stdout x = pp_stdout (output_pumps run) \<and> ye_stderr x = pp_stderr (output_pumps run)"
proof -
  obtain r k where p: "container_pid H cfg (cid_str c) (yk_host s) = (r, k)" by (rule prod.exhaust)
  obtain u k1 where u: "hk_new_uuid H k = (u, k1)" by (rule prod.exhaust)
  from assms p obtain target where r: "r = Inr target"
    by (cases r) (auto simp: youki_start_exec_def on_host_def start_exec_streaming_def bind_op_def)
  obtain run k2 where n: "hk_nsenter H (nsenter_args target start) (child_env (hk_agent_env H) (es_env start)) k1 = (run, k2)" by (rule prod.exhaust)
  have "yk_host s' = k2 \<and>
    eh_in_container_pid (ye_handle x) = (case (if nr_marker_in_time run then pp_pid (output_pumps run) else None) of None \<Rightarrow> 0 | Some pid \<Rightarrow> pid) \<and>
    ye_stdout x = pp_stdout (output_pumps run) \<and> ye_stderr x = pp_stderr (output_pumps run)"
    using assms p u r n
    by (auto simp: youki_start_exec_def on_host_def start_exec_streaming_def bind_op_def Let_def split: sum.splits if_splits)
  with n show ?thesis by blast
qed

text \<open>C40. The process a youki session can signal. A process started in a container gets the agent's own
  environment, overridden by the variables asked for. If its first standard error bytes are the line with its
  pid, and come within a second, the session knows that pid and sees exactly the bytes after the line on
  standard error, and standard output unchanged. If they do not come in time the pid is 0, and every later
  signal to it succeeds without doing anything: the process cannot be killed when the client goes away.\<close>

theorem youki_exec_pid:
  assumes "youki_start_exec U H cfg c start s = (Inr x, s')"
  shows "\<exists>target k run. hk_nsenter H (nsenter_args target start) (child_env (hk_agent_env H) (es_env start)) k = (run, yk_host s') \<and>
    (\<forall>n user. nr_marker_in_time run \<and> in_i32 (int n) \<and> concat (nr_stderr run) = inpid_line n @ user \<longrightarrow>
       eh_in_container_pid (ye_handle x) = int n \<and> concat (ye_stderr x) = user \<and> concat (ye_stdout x) = concat (nr_stdout run)) \<and>
    (\<not> nr_marker_in_time run \<longrightarrow> eh_in_container_pid (ye_handle x) = 0 \<and>
       (\<forall>signum s2. youki_signal_exec H cfg c (eh_in_container_pid (ye_handle x)) signum s2 = (Inr (), s2)))"
proof -
  from start_exec_run [OF assms] obtain target k run where
    n: "hk_nsenter H (nsenter_args target start) (child_env (hk_agent_env H) (es_env start)) k = (run, yk_host s')"
    and pid: "eh_in_container_pid (ye_handle x) = (case (if nr_marker_in_time run then pp_pid (output_pumps run) else None) of None \<Rightarrow> 0 | Some pid \<Rightarrow> pid)"
    and out: "ye_stdout x = pp_stdout (output_pumps run)" "ye_stderr x = pp_stderr (output_pumps run)" by blast
  have "eh_in_container_pid (ye_handle x) = int m \<and> concat (ye_stderr x) = user \<and> concat (ye_stdout x) = concat (nr_stdout run)"
    if "nr_marker_in_time run" "in_i32 (int m)" "concat (nr_stderr run) = inpid_line m @ user" for m user
    using output_pump_marker [OF that(2), of "map LogStdOut (nr_stdout run) @ map LogStdErr (nr_stderr run)" user] that(1,3)
    by (simp add: pid out output_pumps_eq streams_of)
  moreover have "eh_in_container_pid (ye_handle x) = 0 \<and>
      (\<forall>signum s2. youki_signal_exec H cfg c (eh_in_container_pid (ye_handle x)) signum s2 = (Inr (), s2))" if "\<not> nr_marker_in_time run"
    using that by (simp add: pid youki_signal_exec_def ok_op_def)
  ultimately show ?thesis using n by blast
qed

definition demo_exec_state :: "mem youki" where
  "demo_exec_state = \<lparr> yk_containers = [], yk_host = demo_partial \<rparr>"

theorem youki_exec_pid_witness:
  "\<exists>x s'. youki_start_exec rfc4122 (demo_youki_host (Inr \<lparr> lc_status = StRunning, lc_pid = Some 7 \<rparr>)) default_youki_config (ContainerId ''c'')
      \<lparr> es_command = [''sh''], es_cwd = [], es_env = [] \<rparr> demo_exec_state = (Inr x, s') \<and> eh_in_container_pid (ye_handle x) = 0 \<and>
    youki_signal_exec (demo_youki_host (Inr \<lparr> lc_status = StRunning, lc_pid = Some 7 \<rparr>)) default_youki_config (ContainerId ''c'')
      (eh_in_container_pid (ye_handle x)) 9 s' = (Inr (), s')"
proof -
  let ?H = "demo_youki_host (Inr \<lparr> lc_status = StRunning, lc_pid = Some 7 \<rparr>)"
  let ?start = "\<lparr> es_command = [''sh''], es_cwd = [], es_env = [] \<rparr> :: ExecStart"
  have "\<exists>x s'. youki_start_exec rfc4122 ?H default_youki_config (ContainerId ''c'') ?start demo_exec_state = (Inr x, s')"
    by (simp add: youki_start_exec_def on_host_def start_exec_streaming_def container_pid_def demo_youki_host_def mem_host_def demo_eval
        ok_or_def)
  then obtain x s' where run: "youki_start_exec rfc4122 ?H default_youki_config (ContainerId ''c'') ?start demo_exec_state = (Inr x, s')" by blast
  have late: "hk_nsenter ?H args env k = (r, k') \<Longrightarrow> \<not> nr_marker_in_time r" for args env k r k'
    by (auto simp: demo_youki_host_def mem_host_def)
  from youki_exec_pid [OF run] late run show ?thesis by blast
qed

end
