(* ===== verification/Api_Frames.thy ===== *)
theory Api_Frames
  imports Wire_Frames "HOL-Library.Countable"
begin

text \<open>
  The WebSocket envelope between the gateway and its clients: \<open>api/src/frame.rs\<close> on the gateway's
  side, the codec of \<open>ws-client/src/lib.rs\<close> on the other. One binary message is one byte of kind and
  a payload.

  The protobuf encoding of the messages is the \<open>prost\<close> crate's and a parameter, the record
  \<open>prost_lib\<close>; what both sides rely on, that a decoder reads back what the encoder wrote, is
  \<open>prost_ok\<close>.
\<close>

section \<open>Kinds (constants.rs)\<close>

definition KIND_START :: u8 where "KIND_START = 0x00"
definition KIND_STDIN :: u8 where "KIND_STDIN = 0x01"
definition KIND_SIGNAL :: u8 where "KIND_SIGNAL = 0x02"
definition KIND_STDIN_EOF :: u8 where "KIND_STDIN_EOF = 0x03"
definition KIND_STDOUT :: u8 where "KIND_STDOUT = 0x11"
definition KIND_STDERR :: u8 where "KIND_STDERR = 0x12"
definition KIND_EXITED :: u8 where "KIND_EXITED = 0x13"
definition KIND_ERROR :: u8 where "KIND_ERROR = 0x14"
definition KIND_STARTED :: u8 where "KIND_STARTED = 0x15"
definition KIND_LIST_DIR_RESULT :: u8 where "KIND_LIST_DIR_RESULT = 0x16"
definition KIND_WAIT_PORT_LISTENING_RESULT :: u8 where "KIND_WAIT_PORT_LISTENING_RESULT = 0x17"
definition KIND_FILE_META :: u8 where "KIND_FILE_META = 0x18"

lemmas kind_defs = KIND_START_def KIND_STDIN_def KIND_SIGNAL_def KIND_STDIN_EOF_def KIND_STDOUT_def
  KIND_STDERR_def KIND_EXITED_def KIND_ERROR_def KIND_STARTED_def KIND_LIST_DIR_RESULT_def
  KIND_WAIT_PORT_LISTENING_RESULT_def KIND_FILE_META_def

section \<open>Message encodings\<close>

text \<open>\<open>encode\<close> and \<open>decode\<close> of each message the envelope carries; an error is its text.\<close>

record 'm codec =
  cd_encode :: "'m \<Rightarrow> string + bytes"
  cd_decode :: "bytes \<Rightarrow> string + 'm"

record prost_lib =
  pb_start :: "IoStart codec"
  pb_signal :: "u32 codec"
  pb_exited :: "(i32 \<times> bool) codec"
  pb_error :: "(string \<times> string) codec"
  pb_started :: "(string \<times> i32) codec"
  pb_list_dir :: "ListDirResult codec"
  pb_wait_port :: "(bool \<times> u32) codec"
  pb_file_meta :: "(string \<times> u64) codec"

definition codec_ok :: "'m codec \<Rightarrow> bool" where
  "codec_ok c \<longleftrightarrow> (\<forall>m b. cd_encode c m = Inr b \<longrightarrow> cd_decode c b = Inr m)"

definition prost_ok :: "prost_lib \<Rightarrow> bool" where
  "prost_ok P \<longleftrightarrow> codec_ok (pb_start P) \<and> codec_ok (pb_signal P) \<and> codec_ok (pb_exited P) \<and> codec_ok (pb_error P) \<and>
     codec_ok (pb_started P) \<and> codec_ok (pb_list_dir P) \<and> codec_ok (pb_wait_port P) \<and> codec_ok (pb_file_meta P)"

section \<open>The gateway (api/src/frame.rs)\<close>

datatype FrameError = FEmpty | UnknownKind u8 | DecodeFailed u8 string

definition decode_as :: "u8 \<Rightarrow> 'm codec \<Rightarrow> ('m \<Rightarrow> 'p) \<Rightarrow> bytes \<Rightarrow> FrameError + 'p" where
  "decode_as kind c f payload = (case cd_decode c payload of
      Inl e \<Rightarrow> Inl (DecodeFailed kind e)
    | Inr m \<Rightarrow> Inr (f m))"

fun decode_client :: "prost_lib \<Rightarrow> bytes \<Rightarrow> FrameError + IoClientPayload" where
  "decode_client P [] = Inl FEmpty"
| "decode_client P (kind # payload) =
    (if kind = KIND_START then decode_as kind (pb_start P) CStart payload
     else if kind = KIND_STDIN then Inr (CStdin payload)
     else if kind = KIND_SIGNAL then decode_as kind (pb_signal P) CSignal payload
     else if kind = KIND_STDIN_EOF then Inr (CClose True)
     else Inl (UnknownKind kind))"

definition build_client_frame :: "IoClientPayload \<Rightarrow> IoClientFrame" where
  "build_client_frame payload = \<lparr> cf_stream_id = [], cf_payload = Some payload \<rparr>"

definition encode_as :: "u8 \<Rightarrow> 'm codec \<Rightarrow> 'm \<Rightarrow> FrameError + bytes" where
  "encode_as kind c m = (case cd_encode c m of
      Inl e \<Rightarrow> Inl (DecodeFailed kind e)
    | Inr body \<Rightarrow> Inr (kind # body))"

definition encode_server :: "prost_lib \<Rightarrow> IoServerFrame \<Rightarrow> FrameError + bytes" where
  "encode_server P frame = (case sf_payload frame of
      None \<Rightarrow> Inl FEmpty
    | Some (Stdout b) \<Rightarrow> Inr (KIND_STDOUT # b)
    | Some (Stderr b) \<Rightarrow> Inr (KIND_STDERR # b)
    | Some (Exited code nf) \<Rightarrow> encode_as KIND_EXITED (pb_exited P) (code, nf)
    | Some (IoError code detail) \<Rightarrow> encode_as KIND_ERROR (pb_error P) (code, detail)
    | Some (Started exec_id pid) \<Rightarrow> encode_as KIND_STARTED (pb_started P) (exec_id, pid)
    | Some (ListDirRes r) \<Rightarrow> encode_as KIND_LIST_DIR_RESULT (pb_list_dir P) r
    | Some (WaitPortRes ready elapsed) \<Rightarrow> encode_as KIND_WAIT_PORT_LISTENING_RESULT (pb_wait_port P) (ready, elapsed)
    | Some (FileMeta rv sz) \<Rightarrow> encode_as KIND_FILE_META (pb_file_meta P) (rv, sz))"

fun decode_server :: "prost_lib \<Rightarrow> bytes \<Rightarrow> FrameError + IoServerPayload" where
  "decode_server P [] = Inl FEmpty"
| "decode_server P (kind # payload) =
    (if kind = KIND_STDOUT then Inr (Stdout payload)
     else if kind = KIND_STDERR then Inr (Stderr payload)
     else if kind = KIND_EXITED then decode_as kind (pb_exited P) (\<lambda>(c, nf). Exited c nf) payload
     else if kind = KIND_ERROR then decode_as kind (pb_error P) (\<lambda>(c, d). IoError c d) payload
     else if kind = KIND_STARTED then decode_as kind (pb_started P) (\<lambda>(e, p). Started e p) payload
     else if kind = KIND_LIST_DIR_RESULT then decode_as kind (pb_list_dir P) ListDirRes payload
     else if kind = KIND_WAIT_PORT_LISTENING_RESULT then decode_as kind (pb_wait_port P) (\<lambda>(r, e). WaitPortRes r e) payload
     else if kind = KIND_FILE_META then decode_as kind (pb_file_meta P) (\<lambda>(r, s). FileMeta r s) payload
     else Inl (UnknownKind kind))"

section \<open>The client library (ws-client/src/lib.rs)\<close>

datatype WsClientError = WsConnect string | WsIo string | WsProtocol string | WsClosed | WsReadTimeout duration

datatype ServerFrame =
    SfStarted string i32
  | SfStdout bytes
  | SfStderr bytes
  | SfExited i32 bool
  | SfError string string
  | SfListDirResult string "ListDirEntry list" bool u64
  | SfWaitPortListeningResult bool u32
  | SfFileMeta string u64

text \<open>\<open>{k:02x}\<close>\<close>

definition hex2 :: "u8 \<Rightarrow> string" where
  "hex2 k = hex_digits 2 (unat k)"

definition ws_decode_as :: "'m codec \<Rightarrow> ('m \<Rightarrow> 'p) \<Rightarrow> bytes \<Rightarrow> WsClientError + 'p" where
  "ws_decode_as c f payload = map_err WsProtocol (case cd_decode c payload of Inl e \<Rightarrow> Inl e | Inr m \<Rightarrow> Inr (f m))"

fun ws_decode_server :: "prost_lib \<Rightarrow> bytes \<Rightarrow> WsClientError + ServerFrame" where
  "ws_decode_server P [] = Inl (WsProtocol ''empty frame'')"
| "ws_decode_server P (kind # payload) =
    (if kind = KIND_STDOUT then Inr (SfStdout payload)
     else if kind = KIND_STDERR then Inr (SfStderr payload)
     else if kind = KIND_EXITED then ws_decode_as (pb_exited P) (\<lambda>(c, nf). SfExited c nf) payload
     else if kind = KIND_ERROR then ws_decode_as (pb_error P) (\<lambda>(c, d). SfError c d) payload
     else if kind = KIND_STARTED then ws_decode_as (pb_started P) (\<lambda>(e, p). SfStarted e p) payload
     else if kind = KIND_LIST_DIR_RESULT then ws_decode_as (pb_list_dir P)
       (\<lambda>r. SfListDirResult (ld_path r) (ld_entries r) (ld_truncated r) (ld_total_entries r)) payload
     else if kind = KIND_WAIT_PORT_LISTENING_RESULT then ws_decode_as (pb_wait_port P)
       (\<lambda>(r, e). SfWaitPortListeningResult r e) payload
     else if kind = KIND_FILE_META then ws_decode_as (pb_file_meta P) (\<lambda>(r, s). SfFileMeta r s) payload
     else Inl (WsProtocol (''unknown frame kind 0x'' @ hex2 kind)))"

text \<open>\<open>ExecParams\<close> and the messages \<open>connect\<close>, \<open>send_stdin\<close>, \<open>send_signal\<close> and \<open>close_stdin\<close> send.\<close>

record ExecParams =
  xp_command :: "string list"
  xp_cwd :: "string option"
  xp_env :: "(string, string) tbl"

definition ws_start_message :: "prost_lib \<Rightarrow> string \<Rightarrow> ExecParams \<Rightarrow> WsClientError + bytes" where
  "ws_start_message P sandbox_id params =
    map_err WsProtocol (case cd_encode (pb_start P) \<lparr> st_sandbox_id = sandbox_id,
        st_params = Some (Exec (xp_command params) (case xp_cwd params of None \<Rightarrow> [] | Some c \<Rightarrow> c) (xp_env params)) \<rparr> of
      Inl e \<Rightarrow> Inl e
    | Inr b \<Rightarrow> Inr (KIND_START # b))"

definition ws_stdin_message :: "bytes \<Rightarrow> bytes" where
  "ws_stdin_message body = KIND_STDIN # body"

definition ws_signal_message :: "prost_lib \<Rightarrow> u32 \<Rightarrow> WsClientError + bytes" where
  "ws_signal_message P signum = map_err WsProtocol (case cd_encode (pb_signal P) signum of
      Inl e \<Rightarrow> Inl e
    | Inr b \<Rightarrow> Inr (KIND_SIGNAL # b))"

definition ws_close_stdin_message :: bytes where
  "ws_close_stdin_message = [KIND_STDIN_EOF]"

text \<open>\<open>next_frame\<close> over the messages still to arrive: the frame and what is left, \<open>None\<close> on a clean
  end. A read that times out is the error of the stream.\<close>

datatype ws_message = WsBinary bytes | WsText string | WsClose "(u16 \<times> string) option" | WsPing | WsPong

fun next_frame :: "prost_lib \<Rightarrow> (WsClientError + ws_message) list \<Rightarrow>
    (WsClientError + ServerFrame option) \<times> (WsClientError + ws_message) list" where
  "next_frame P [] = (Inr None, [])"
| "next_frame P (Inl e # ms) = (Inl e, ms)"
| "next_frame P (Inr (WsBinary b) # ms) = (case ws_decode_server P b of Inl e \<Rightarrow> (Inl e, ms) | Inr f \<Rightarrow> (Inr (Some f), ms))"
| "next_frame P (Inr (WsClose c) # ms) = (Inr None, ms)"
| "next_frame P (Inr WsPing # ms) = next_frame P ms"
| "next_frame P (Inr WsPong # ms) = next_frame P ms"
| "next_frame P (Inr (WsText t) # ms) = (Inl (WsProtocol ''received text frame; expected binary''), ms)"

text \<open>\<open>next_chunk\<close> of a file-read session; the flag is \<open>closed_ok\<close>.\<close>

fun next_chunk :: "bool \<Rightarrow> (WsClientError + ws_message) list \<Rightarrow>
    (WsClientError + bytes option) \<times> bool \<times> (WsClientError + ws_message) list" where
  "next_chunk closed_ok [] = (if closed_ok then Inr None else Inl WsClosed, closed_ok, [])"
| "next_chunk closed_ok (Inl e # ms) = (Inl e, closed_ok, ms)"
| "next_chunk closed_ok (Inr (WsBinary b) # ms) = (Inr (Some b), closed_ok, ms)"
| "next_chunk closed_ok (Inr (WsClose c) # ms) = (case c of
      Some (code, reason) \<Rightarrow>
        if code = 1000 then (Inr None, True, ms)
        else (Inl (WsProtocol (''server closed with code '' @ show_nat (unat code) @ '' reason: '' @ reason)), closed_ok, ms)
    | None \<Rightarrow> (Inr None, True, ms))"
| "next_chunk closed_ok (Inr WsPing # ms) = next_chunk closed_ok ms"
| "next_chunk closed_ok (Inr WsPong # ms) = next_chunk closed_ok ms"
| "next_chunk closed_ok (Inr (WsText t) # ms) = (Inl (WsProtocol ''received text frame; expected binary''), closed_ok, ms)"

section \<open>What one side writes the other reads\<close>

lemma decode_as_ok: "codec_ok c \<Longrightarrow> cd_encode c m = Inr b \<Longrightarrow> decode_as kind c f b = Inr (f m)"
  by (simp add: codec_ok_def decode_as_def)

lemma ws_decode_as_ok: "codec_ok c \<Longrightarrow> cd_encode c m = Inr b \<Longrightarrow> ws_decode_as c f b = Inr (f m)"
  by (simp add: codec_ok_def ws_decode_as_def)

lemma encode_as_Inr: "encode_as kind c m = Inr b \<longleftrightarrow> (\<exists>body. cd_encode c m = Inr body \<and> b = kind # body)"
  by (auto simp: encode_as_def split: sum.splits)

text \<open>The frame the client library makes of a server payload.\<close>

fun server_frame :: "IoServerPayload \<Rightarrow> ServerFrame" where
  "server_frame (Started e p) = SfStarted e p"
| "server_frame (Stdout b) = SfStdout b"
| "server_frame (Stderr b) = SfStderr b"
| "server_frame (Exited c nf) = SfExited c nf"
| "server_frame (IoError c d) = SfError c d"
| "server_frame (ListDirRes r) = SfListDirResult (ld_path r) (ld_entries r) (ld_truncated r) (ld_total_entries r)"
| "server_frame (WaitPortRes r e) = SfWaitPortListeningResult r e"
| "server_frame (FileMeta r s) = SfFileMeta r s"

lemma encode_server_decodes:
  assumes "prost_ok P" "encode_server P f = Inr b"
  shows "\<exists>p. sf_payload f = Some p \<and> decode_server P b = Inr p \<and> ws_decode_server P b = Inr (server_frame p)"
proof -
  from assms(2) obtain p where p: "sf_payload f = Some p"
    by (cases "sf_payload f") (auto simp: encode_server_def)
  have "decode_server P b = Inr p \<and> ws_decode_server P b = Inr (server_frame p)"
    using assms p
    by (cases p) (auto simp: encode_server_def encode_as_Inr prost_ok_def decode_as_ok ws_decode_as_ok kind_defs)
  with p show ?thesis by blast
qed

lemma encode_server_not_client: "encode_server P f = Inr b \<Longrightarrow> \<exists>k. decode_client P b = Inl (UnknownKind k)"
  by (auto simp: encode_server_def encode_as_Inr kind_defs split: option.splits IoServerPayload.splits)

lemma client_messages_decode:
  assumes "prost_ok P"
  shows "ws_start_message P sid xp = Inr b \<Longrightarrow> decode_client P b = Inr (CStart \<lparr> st_sandbox_id = sid,
      st_params = Some (Exec (xp_command xp) (case xp_cwd xp of None \<Rightarrow> [] | Some c \<Rightarrow> c) (xp_env xp)) \<rparr>)"
    and "ws_signal_message P g = Inr b \<Longrightarrow> decode_client P b = Inr (CSignal g)"
    and "decode_client P (ws_stdin_message body) = Inr (CStdin body)"
    and "decode_client P ws_close_stdin_message = Inr (CClose True)"
  using assms
  by (auto simp: ws_start_message_def ws_signal_message_def ws_stdin_message_def ws_close_stdin_message_def map_err_def
      prost_ok_def decode_as_ok kind_defs split: sum.splits)

text \<open>C10. The envelope is lossless. Whatever frame the gateway encodes, its own decoder and the client
  library's give back the payload, and no client message reads like it; and what the client library
  sends to start a process, feed it, signal it or close its input, the gateway decodes to exactly that.\<close>

theorem envelope_round_trip:
  assumes "prost_ok P"
  shows "(encode_server P f = Inr b \<longrightarrow> (\<exists>p. sf_payload f = Some p \<and> decode_server P b = Inr p \<and>
      ws_decode_server P b = Inr (server_frame p)) \<and> (\<exists>k. decode_client P b = Inl (UnknownKind k))) \<and>
    (ws_start_message P sid xp = Inr b \<longrightarrow> decode_client P b = Inr (CStart \<lparr> st_sandbox_id = sid,
      st_params = Some (Exec (xp_command xp) (case xp_cwd xp of None \<Rightarrow> [] | Some c \<Rightarrow> c) (xp_env xp)) \<rparr>)) \<and>
    (ws_signal_message P g = Inr b \<longrightarrow> decode_client P b = Inr (CSignal g)) \<and>
    decode_client P (ws_stdin_message body) = Inr (CStdin body) \<and>
    decode_client P ws_close_stdin_message = Inr (CClose True)"
  using encode_server_decodes [OF assms] encode_server_not_client client_messages_decode [OF assms] by blast

text \<open>An instance of the hypothesis: every message by its number, in unary.\<close>

instance IoParams :: countable
  by countable_datatype

instance ListDirEntryType :: countable
  by countable_datatype

definition unary_codec :: "('m \<Rightarrow> nat) \<Rightarrow> (nat \<Rightarrow> 'm) \<Rightarrow> 'm codec" where
  "unary_codec n m = \<lparr> cd_encode = (\<lambda>x. Inr (replicate (n x) 0)), cd_decode = (\<lambda>b. Inr (m (length b))) \<rparr>"

definition start_tuple :: "IoStart \<Rightarrow> string \<times> IoParams option" where
  "start_tuple s = (st_sandbox_id s, st_params s)"

definition entry_tuple :: "ListDirEntry \<Rightarrow> string \<times> ListDirEntryType \<times> u64 \<times> string \<times> string \<times> string" where
  "entry_tuple e = (de_name e, de_type e, de_size e, de_revision e, de_mode e, de_target e)"

definition listing_tuple ::
    "ListDirResult \<Rightarrow> string \<times> (string \<times> ListDirEntryType \<times> u64 \<times> string \<times> string \<times> string) list \<times> bool \<times> u64" where
  "listing_tuple r = (ld_path r, map entry_tuple (ld_entries r), ld_truncated r, ld_total_entries r)"

definition tuple_start :: "string \<times> IoParams option \<Rightarrow> IoStart" where
  "tuple_start = (\<lambda>(s, p). \<lparr> st_sandbox_id = s, st_params = p \<rparr>)"

definition tuple_entry :: "string \<times> ListDirEntryType \<times> u64 \<times> string \<times> string \<times> string \<Rightarrow> ListDirEntry" where
  "tuple_entry = (\<lambda>(n, t, s, r, m, g). \<lparr> de_name = n, de_type = t, de_size = s, de_revision = r, de_mode = m, de_target = g \<rparr>)"

definition tuple_listing ::
    "string \<times> (string \<times> ListDirEntryType \<times> u64 \<times> string \<times> string \<times> string) list \<times> bool \<times> u64 \<Rightarrow> ListDirResult" where
  "tuple_listing = (\<lambda>(p, es, t, n). \<lparr> ld_path = p, ld_entries = map tuple_entry es, ld_truncated = t, ld_total_entries = n \<rparr>)"

definition unary_prost :: prost_lib where
  "unary_prost = \<lparr> pb_start = unary_codec (to_nat \<circ> start_tuple) (tuple_start \<circ> from_nat), pb_signal = unary_codec to_nat from_nat,
     pb_exited = unary_codec to_nat from_nat, pb_error = unary_codec to_nat from_nat, pb_started = unary_codec to_nat from_nat,
     pb_list_dir = unary_codec (to_nat \<circ> listing_tuple) (tuple_listing \<circ> from_nat),
     pb_wait_port = unary_codec to_nat from_nat, pb_file_meta = unary_codec to_nat from_nat \<rparr>"

lemma unary_codec_ok: "(\<And>x. m (n x) = x) \<Longrightarrow> codec_ok (unary_codec n m)"
  by (auto simp: codec_ok_def unary_codec_def)

lemma unary_prost_ok: "prost_ok unary_prost"
proof -
  have "tuple_start (start_tuple s) = s" for s
    by (simp add: tuple_start_def start_tuple_def)
  moreover have "tuple_entry \<circ> entry_tuple = id"
    by (simp add: fun_eq_iff tuple_entry_def entry_tuple_def)
  then have "tuple_listing (listing_tuple r) = r" for r
    by (simp add: tuple_listing_def listing_tuple_def)
  ultimately show ?thesis
    by (simp add: prost_ok_def unary_prost_def unary_codec_ok)
qed

theorem envelope_round_trip_witness:
  "\<exists>b. encode_server unary_prost \<lparr> sf_stream_id = ''io-1'', sf_payload = Some (Exited 3 False) \<rparr> = Inr b \<and>
     ws_decode_server unary_prost b = Inr (SfExited 3 False)"
proof -
  obtain b where b: "encode_server unary_prost \<lparr> sf_stream_id = ''io-1'', sf_payload = Some (Exited 3 False) \<rparr> = Inr b"
    by (simp add: encode_server_def encode_as_def unary_prost_def unary_codec_def)
  with envelope_round_trip [OF unary_prost_ok] show ?thesis by fastforce
qed

end
