(* ===== verification/Api_Gateway.thy ===== *)
theory Api_Gateway
  imports Proxy_Grpc Api_Frames
begin

text \<open>
  The API gateway without its lifecycle calls: authentication, validation, the answers and the file
  operations of \<open>api/src/handlers.rs\<close>, and the pool of connections to the proxy
  (\<open>api/src/proxy_client.rs\<close>).

  A response is a status code, headers and a body; JSON is kept as a tree. A call of the proxy's
  \<open>OpenIoStream\<close> is a parameter: from the channel used, the \<open>authorization\<close> metadata and the client's
  frames to the status that refused it or the frames (and at most one final status) it yields. Request
  bodies and query strings arrive decoded, or as the text of the rejection.
\<close>

section \<open>Responses\<close>

datatype api_body = NoBody | JsonBody json | RawBody bytes | TextBody string

record Response =
  rs_status :: nat
  rs_headers :: "(string \<times> string) list"
  rs_body :: api_body

definition json_response :: "nat \<Rightarrow> json \<Rightarrow> Response" where
  "json_response code j = \<lparr> rs_status = code, rs_headers = [], rs_body = JsonBody j \<rparr>"

definition error_json :: "string \<Rightarrow> string \<Rightarrow> json" where
  "error_json msg code = JObject [(''error'', JString msg), (''error_code'', JString code)]"

definition error_response :: "nat \<Rightarrow> string \<Rightarrow> string \<Rightarrow> Response" where
  "error_response sc code msg = json_response sc (error_json msg code)"

definition invalid_request :: "string \<Rightarrow> Response" where
  "invalid_request msg = error_response 400 ''INVALID_REQUEST'' msg"

text \<open>\<open>dbg\<close> is the \<open>Debug\<close> rendering of a string.\<close>

fun ApiError_to_string :: "(string \<Rightarrow> string) \<Rightarrow> ApiError \<Rightarrow> string" where
  "ApiError_to_string dbg (Unauthorized d) = ''unauthorized: '' @ d"
| "ApiError_to_string dbg (ApiError.SandboxNotFound s) = ''sandbox '' @ s @ '' not found''"
| "ApiError_to_string dbg (ControllerUnavailable d) = ''controller unavailable: '' @ d"
| "ApiError_to_string dbg (ProxyUnavailable d) = ''proxy unavailable: '' @ d"
| "ApiError_to_string dbg (ApiError.InvalidRequest d) = ''invalid request: '' @ d"
| "ApiError_to_string dbg (InvalidUpload d) = ''invalid upload: '' @ d"
| "ApiError_to_string dbg (IoStreamFailed d) = ''I/O stream failed: '' @ d"
| "ApiError_to_string dbg (ApiError.SandboxGone s) =
    ''sandbox '' @ s @ '' no longer exists (was deleted or its agent disconnected)''"
| "ApiError_to_string dbg (ApiError.FileNotFound p) = ''file not found: '' @ p"
| "ApiError_to_string dbg (InvalidState d) = ''invalid state transition: '' @ d"
| "ApiError_to_string dbg (ApiError.RevisionMismatch r) = ''revision mismatch (current revision: '' @ dbg r @ '')''"
| "ApiError_to_string dbg (ApiError.NotImplemented d) = ''not implemented: '' @ d"
| "ApiError_to_string dbg (ApiError.DirectoryNotEmpty d) = ''directory not empty: '' @ d"
| "ApiError_to_string dbg (ApiError.Internal d) = ''internal error: '' @ d"

fun api_error_status :: "ApiError \<Rightarrow> nat" where
  "api_error_status (Unauthorized _) = 401"
| "api_error_status (ApiError.SandboxNotFound _) = 404"
| "api_error_status (ApiError.SandboxGone _) = 404"
| "api_error_status (ApiError.FileNotFound _) = 404"
| "api_error_status (ApiError.InvalidRequest _) = 400"
| "api_error_status (InvalidUpload _) = 400"
| "api_error_status (ControllerUnavailable _) = 503"
| "api_error_status (ProxyUnavailable _) = 503"
| "api_error_status (IoStreamFailed _) = 500"
| "api_error_status (InvalidState _) = 409"
| "api_error_status (ApiError.RevisionMismatch _) = 409"
| "api_error_status (ApiError.NotImplemented _) = 501"
| "api_error_status (ApiError.DirectoryNotEmpty _) = 409"
| "api_error_status (ApiError.Internal _) = 500"

definition api_error_response :: "(string \<Rightarrow> string) \<Rightarrow> ApiError \<Rightarrow> Response" where
  "api_error_response dbg err =
    (let message = ApiError_to_string dbg err; code = error_code err in
     json_response (api_error_status err) (case err of
       ApiError.RevisionMismatch actual_revision \<Rightarrow>
         JObject [(''error'', JString message), (''error_code'', JString code), (''actual_revision'', JString actual_revision)]
     | _ \<Rightarrow> error_json message code))"

section \<open>Authentication and validation\<close>

definition api_constant_time_eq :: "u8 list \<Rightarrow> u8 list \<Rightarrow> bool" where
  "api_constant_time_eq a b =
    (if length a \<noteq> length b then False
     else foldl (\<lambda>diff (x, y). or diff (xor x y)) 0 (zip a b) = 0)"

definition unauthorized_response :: Response where
  "unauthorized_response = error_response 401 ''UNAUTHORIZED'' ''missing or invalid API key''"

definition bearer_header :: "(string \<Rightarrow> string option) \<Rightarrow> (string \<times> string) list \<Rightarrow> string option" where
  "bearer_header to_str headers = bearer_token to_str (header_get headers ''authorization'')"

definition check_rest_auth :: "(string \<Rightarrow> string option) \<Rightarrow> (string \<times> string) list \<Rightarrow> string \<Rightarrow> Response + unit" where
  "check_rest_auth to_str headers api_key = (case bearer_header to_str headers of
      Some t \<Rightarrow> if api_constant_time_eq (str_bytes t) (str_bytes api_key) then Inr () else Inl unauthorized_response
    | None \<Rightarrow> Inl unauthorized_response)"

definition WS_AUTH_PROTOCOL_SENTINEL :: string where "WS_AUTH_PROTOCOL_SENTINEL = ''open-sandbox.v1''"
definition WS_AUTH_BEARER_PREFIX :: string where "WS_AUTH_BEARER_PREFIX = ''bearer.''"
definition WS_AUTH_MAX_OFFERED_PROTOCOLS :: nat where "WS_AUTH_MAX_OFFERED_PROTOCOLS = 16"

definition strip_prefix_ascii_ci :: "string \<Rightarrow> string \<Rightarrow> string option" where
  "strip_prefix_ascii_ci s pfx =
    (if length pfx \<le> length s \<and> eq_ignore_ascii_case (take (length pfx) s) pfx then Some (drop (length pfx) s) else None)"

definition offered_protocols :: "(string \<Rightarrow> string option) \<Rightarrow> (string \<times> string) list \<Rightarrow> string list" where
  "offered_protocols to_str headers =
    take WS_AUTH_MAX_OFFERED_PROTOCOLS
      (concat (map (\<lambda>raw. map str_trim (split_char (CHR '','') raw))
        (List.map_filter (\<lambda>(n, v). if eq_ignore_ascii_case n ''sec-websocket-protocol'' then to_str v else None) headers)))"

text \<open>The loop over the offered protocols: whether the sentinel was offered, whether the key was.\<close>

definition offer_step :: "string \<Rightarrow> bool \<times> bool \<Rightarrow> string \<Rightarrow> bool \<times> bool" where
  "offer_step expected_b64 = (\<lambda>(sentinel_offered, bearer_ok) offered.
    (if eq_ignore_ascii_case offered WS_AUTH_PROTOCOL_SENTINEL then (True, bearer_ok)
     else (case strip_prefix_ascii_ci offered WS_AUTH_BEARER_PREFIX of
         Some b64 \<Rightarrow>
           if api_constant_time_eq (str_bytes b64) (str_bytes expected_b64) then (sentinel_offered, True)
           else (sentinel_offered, bearer_ok)
       | None \<Rightarrow> (sentinel_offered, bearer_ok))))"

text \<open>\<open>b64url\<close> is the unpadded URL-safe Base64 encoding of the \<open>base64\<close> crate.\<close>

definition check_ws_auth ::
    "(string \<Rightarrow> string option) \<Rightarrow> (string \<Rightarrow> string) \<Rightarrow> (string \<times> string) list \<Rightarrow> string \<Rightarrow> Response + string option" where
  "check_ws_auth to_str b64url headers expected =
    (let auth_matches = (case bearer_header to_str headers of
           Some tok \<Rightarrow> api_constant_time_eq (str_bytes tok) (str_bytes expected)
         | None \<Rightarrow> False)
     in if auth_matches then Inr None
        else (case foldl (offer_step (b64url expected)) (False, False) (offered_protocols to_str headers) of
          (sentinel_offered, bearer_ok) \<Rightarrow>
            if bearer_ok then Inr (if sentinel_offered then Some WS_AUTH_PROTOCOL_SENTINEL else None)
            else Inl unauthorized_response))"

definition validate_sandbox_path :: "string \<Rightarrow> string + unit" where
  "validate_sandbox_path path =
    (if CHR 0x00 \<in> set path then Inl ''path must not contain NUL bytes''
     else if list_ex (\<lambda>c. char_code c < 32 \<and> char_code c \<noteq> 9) path then Inl ''path must not contain control characters''
     else if ''..'' \<in> set (split_char (CHR ''/'') path)
       then Inl (''path must not contain '' @ [CHR 0x27] @ ''..'' @ [CHR 0x27] @ '' segments'')
     else Inr ())"

definition parse_sandbox_id :: "uuid_lib \<Rightarrow> string \<Rightarrow> Response + SandboxId" where
  "parse_sandbox_id U sid = ok_or (map_option SandboxId (uuid_parse_str U sid)) (invalid_request ''invalid sandbox_id'')"

section \<open>The connection pool (proxy\_client.rs)\<close>

record ProxyClientPool =
  pc_channels :: "nat list"
  pc_internal_token :: "string option"

text \<open>\<open>connect\<close>: the channels are those \<open>dial\<close> opens, at least one; the first failure ends it.\<close>

fun dial_channels :: "(nat \<Rightarrow> string + nat) \<Rightarrow> nat \<Rightarrow> nat list \<Rightarrow> ApiError + nat list" where
  "dial_channels dial 0 acc = Inr acc"
| "dial_channels dial (Suc n) acc = (case dial (length acc) of
      Inl e \<Rightarrow> Inl (ProxyUnavailable e)
    | Inr ch \<Rightarrow> dial_channels dial n (acc @ [ch]))"

definition pool_connect :: "(nat \<Rightarrow> string + nat) \<Rightarrow> nat \<Rightarrow> string option \<Rightarrow> ApiError + ProxyClientPool \<times> u64" where
  "pool_connect dial sz internal_token = (case dial_channels dial (max sz 1) [] of
      Inl e \<Rightarrow> Inl e
    | Inr chs \<Rightarrow> Inr (\<lparr> pc_channels = chs, pc_internal_token = internal_token \<rparr>, 0))"

definition next_channel :: "ProxyClientPool \<Rightarrow> u64 \<Rightarrow> nat \<times> u64" where
  "next_channel pool rr = (pc_channels pool ! (unat rr mod length (pc_channels pool)), rr + 1)"

definition open_error :: "Status \<Rightarrow> ApiError" where
  "open_error st = (case st_code st of
      Code_NotFound \<Rightarrow> ApiError.SandboxGone (st_message st)
    | Code_Unauthenticated \<Rightarrow> IoStreamFailed (''proxy auth: '' @ st_message st)
    | Code_Unavailable \<Rightarrow> ProxyUnavailable (st_message st)
    | _ \<Rightarrow> IoStreamFailed (st_message st))"

definition stream_error :: "Status \<Rightarrow> ApiError" where
  "stream_error st = (case st_code st of
      Code_NotFound \<Rightarrow> ApiError.SandboxGone (st_message st)
    | Code_Unavailable \<Rightarrow> ProxyUnavailable (st_message st)
    | _ \<Rightarrow> IoStreamFailed (st_message st))"

text \<open>The task that moves the proxy's answer into the caller's channel.\<close>

fun pump_answer :: "(Status + IoServerFrame) list \<Rightarrow> (ApiError + IoServerFrame) list" where
  "pump_answer [] = []"
| "pump_answer (Inr f # fs) = Inr f # pump_answer fs"
| "pump_answer (Inl st # fs) = [Inl (stream_error st)]"

type_synonym 'p io_call = "nat \<Rightarrow> string option \<Rightarrow> IoClientFrame list \<Rightarrow> 'p \<Rightarrow> (Status + (Status + IoServerFrame) list) \<times> 'p"

record 'p gateway_net =
  gn_rr :: u64
  gn_net :: 'p

text \<open>\<open>meta_err\<close> gives the error of a metadata value that cannot be sent, and \<open>None\<close> for one that can.\<close>

definition open_io_stream ::
    "(string \<Rightarrow> string option) \<Rightarrow> 'p io_call \<Rightarrow> ProxyClientPool \<Rightarrow> IoClientFrame list \<Rightarrow>
     ('p gateway_net, ApiError, (ApiError + IoServerFrame) list) op" where
  "open_io_stream meta_err call pool frames g =
    (case next_channel pool (gn_rr g) of (ch, rr) \<Rightarrow>
      let g1 = g\<lparr>gn_rr := rr\<rparr>;
          go = (\<lambda>hdr. case call ch hdr frames (gn_net g1) of
            (Inl st, p) \<Rightarrow> (Inl (open_error st), g1\<lparr>gn_net := p\<rparr>)
          | (Inr answer, p) \<Rightarrow> (Inr (pump_answer answer), g1\<lparr>gn_net := p\<rparr>))
      in case pc_internal_token pool of
           None \<Rightarrow> go None
         | Some tok \<Rightarrow>
             (case meta_err (''Bearer '' @ tok) of
                Some e \<Rightarrow> (Inl (ApiError.Internal (''invalid internal-token: '' @ e)), g1)
              | None \<Rightarrow> go (Some (''Bearer '' @ tok))))"

section \<open>Requests (service.rs)\<close>

record WriteFileRequest =
  wq_path :: string
  wq_content :: "string option"
  wq_content_b64 :: "string option"
  wq_cwd :: "string option"
  wq_expected_revision :: "string option"
  wq_force :: bool

record ReadFileQuery =
  fq_path :: string
  fq_cwd :: "string option"

record ListDirQuery =
  lq_path :: string
  lq_cwd :: "string option"

record DeleteFileQuery =
  dq_path :: string
  dq_cwd :: "string option"
  dq_recursive :: bool

record WaitPortListeningRequest =
  pq_port :: u32
  pq_timeout_ms :: u32

text \<open>\<open>b64dec\<close> is the standard Base64 decoder of the \<open>base64\<close> crate: the error's text, or the bytes.\<close>

definition content_bytes :: "(string \<Rightarrow> string + bytes) \<Rightarrow> WriteFileRequest \<Rightarrow> ApiError + bytes" where
  "content_bytes b64dec req = (case (wq_content req, wq_content_b64 req) of
      (Some _, Some _) \<Rightarrow> Inl (ApiError.InvalidRequest ''exactly one of content or content_b64 must be set'')
    | (None, None) \<Rightarrow> Inl (ApiError.InvalidRequest ''exactly one of content or content_b64 must be set'')
    | (Some s, None) \<Rightarrow> Inr (str_bytes s)
    | (None, Some b) \<Rightarrow> map_err (\<lambda>e. ApiError.InvalidRequest (''content_b64 is not valid base64: '' @ e)) (b64dec b))"

definition unwrap_or_default :: "string option \<Rightarrow> string" where
  "unwrap_or_default x = (case x of None \<Rightarrow> [] | Some s \<Rightarrow> s)"

section \<open>File operations over an I/O stream\<close>

record UnaryFileMeta =
  um_revision :: string
  um_size :: u64

fun map_io_error :: "string \<times> string \<Rightarrow> ApiError" where
  "map_io_error (code, detail) = (case IoErrorCode_from_str code of
      IoErrorCode.FileNotFound \<Rightarrow> ApiError.FileNotFound detail
    | IoErrorCode.SandboxGone \<Rightarrow> ApiError.SandboxGone detail
    | IoErrorCode.RevisionMismatch \<Rightarrow> ApiError.RevisionMismatch detail
    | IoErrorCode.NotImplemented \<Rightarrow> ApiError.NotImplemented detail
    | IoErrorCode.DirectoryNotEmpty \<Rightarrow> ApiError.DirectoryNotEmpty detail
    | other \<Rightarrow> IoStreamFailed (IoErrorCode_as_str other @ '': '' @ detail))"

definition no_terminal_frame :: ApiError where
  "no_terminal_frame = IoStreamFailed ''proxy stream ended without terminal frame''"

definition STDIN_CHUNK_BYTES :: nat where "STDIN_CHUNK_BYTES = 64 * 1024"

text \<open>The producer's loop over \<open>offset\<close>.\<close>

function stdin_chunks :: "bytes \<Rightarrow> nat \<Rightarrow> bytes list" where
  "stdin_chunks bytes offset =
    (if offset < length bytes then
       let stop = min (offset + STDIN_CHUNK_BYTES) (length bytes)
       in take (stop - offset) (drop offset bytes) # stdin_chunks bytes stop
     else [])"
  by auto
termination
  by (relation "measure (\<lambda>(bytes, offset). length bytes - offset)") (auto simp: STDIN_CHUNK_BYTES_def)

declare stdin_chunks.simps [simp del]

definition start_frame :: "IoStart \<Rightarrow> IoClientFrame" where
  "start_frame start = \<lparr> cf_stream_id = [], cf_payload = Some (CStart start) \<rparr>"

definition producer_frames :: "bytes option \<Rightarrow> IoClientFrame list" where
  "producer_frames content =
    (case content of
       Some bytes \<Rightarrow> if bytes \<noteq> [] then map (\<lambda>chunk. \<lparr> cf_stream_id = [], cf_payload = Some (CStdin chunk) \<rparr>) (stdin_chunks bytes 0)
         else []
     | None \<Rightarrow> []) @
    [\<lparr> cf_stream_id = [], cf_payload = Some (CClose True) \<rparr>]"

definition show_bool :: "bool \<Rightarrow> string" where
  "show_bool b = (if b then ''true'' else ''false'')"

fun unary_loop :: "UnaryFileMeta option \<Rightarrow> (ApiError + IoServerFrame) list \<Rightarrow> ApiError + UnaryFileMeta option" where
  "unary_loop captured_meta [] = Inl no_terminal_frame"
| "unary_loop captured_meta (Inl e # fs) = Inl e"
| "unary_loop captured_meta (Inr f # fs) = (case sf_payload f of
      Some (Exited code nf) \<Rightarrow>
        if code = 0 \<and> \<not> nf then Inr captured_meta
        else Inl (IoStreamFailed (''exit='' @ show_int code @ '' command_not_found='' @ show_bool nf))
    | Some (IoError code detail) \<Rightarrow> Inl (map_io_error (code, detail))
    | Some (FileMeta rv sz) \<Rightarrow> unary_loop (Some \<lparr> um_revision = rv, um_size = sz \<rparr>) fs
    | _ \<Rightarrow> unary_loop captured_meta fs)"

fun read_loop :: "bytes \<Rightarrow> UnaryFileMeta option \<Rightarrow> (ApiError + IoServerFrame) list \<Rightarrow> ApiError + bytes \<times> UnaryFileMeta option" where
  "read_loop buf captured_meta [] = Inl no_terminal_frame"
| "read_loop buf captured_meta (Inl e # fs) = Inl e"
| "read_loop buf captured_meta (Inr f # fs) = (case sf_payload f of
      Some (Stdout chunk) \<Rightarrow> read_loop (buf @ chunk) captured_meta fs
    | Some (Exited code nf) \<Rightarrow>
        if code \<noteq> 0 then Inl (IoStreamFailed (''read_file exited with '' @ show_int code)) else Inr (buf, captured_meta)
    | Some (IoError code detail) \<Rightarrow> Inl (map_io_error (code, detail))
    | Some (FileMeta rv sz) \<Rightarrow> read_loop buf (Some \<lparr> um_revision = rv, um_size = sz \<rparr>) fs
    | _ \<Rightarrow> read_loop buf captured_meta fs)"

fun entry_kind :: "ListDirEntryType \<Rightarrow> string" where
  "entry_kind EntryFile = ''file''"
| "entry_kind EntryDir = ''dir''"
| "entry_kind EntrySymlink = ''symlink''"
| "entry_kind EntryOther = ''other''"
| "entry_kind EntryUnspecified = ''other''"

definition entry_json :: "ListDirEntry \<Rightarrow> json" where
  "entry_json e = JObject ([(''name'', JString (de_name e)), (''type'', JString (entry_kind (de_type e))),
      (''size'', JNumber (unat (de_size e))), (''revision'', JString (de_revision e)), (''mode'', JString (de_mode e))] @
      (if de_target e = [] then [] else [(''target'', JString (de_target e))]))"

definition listing_json :: "ListDirResult \<Rightarrow> json" where
  "listing_json r = JObject [(''path'', JString (ld_path r)), (''entries'', JArray (map entry_json (ld_entries r))),
     (''truncated'', JBool (ld_truncated r)), (''total_entries'', JNumber (unat (ld_total_entries r)))]"

fun list_loop :: "json option \<Rightarrow> (ApiError + IoServerFrame) list \<Rightarrow> ApiError + json" where
  "list_loop captured [] = Inl no_terminal_frame"
| "list_loop captured (Inl e # fs) = Inl e"
| "list_loop captured (Inr f # fs) = (case sf_payload f of
      Some (ListDirRes r) \<Rightarrow> list_loop (Some (listing_json r)) fs
    | Some (Exited code nf) \<Rightarrow>
        if code \<noteq> 0 then Inl (IoStreamFailed (''list_dir exited with '' @ show_int code))
        else ok_or captured (IoStreamFailed ''list_dir session ended without ListDirResult'')
    | Some (IoError code detail) \<Rightarrow> Inl (map_io_error (code, detail))
    | _ \<Rightarrow> list_loop captured fs)"

fun wait_port_loop :: "json option \<Rightarrow> (ApiError + IoServerFrame) list \<Rightarrow> ApiError + json" where
  "wait_port_loop captured [] = Inl no_terminal_frame"
| "wait_port_loop captured (Inl e # fs) = Inl e"
| "wait_port_loop captured (Inr f # fs) = (case sf_payload f of
      Some (WaitPortRes ready elapsed) \<Rightarrow>
        wait_port_loop (Some (JObject [(''ready'', JBool ready), (''elapsed_ms'', JNumber (unat elapsed))])) fs
    | Some (Exited code nf) \<Rightarrow>
        if code \<noteq> 0 then Inl (IoStreamFailed (''wait_port_listening exited with '' @ show_int code))
        else ok_or captured (IoStreamFailed ''wait_port_listening session ended without result'')
    | Some (IoError code detail) \<Rightarrow> Inl (map_io_error (code, detail))
    | _ \<Rightarrow> wait_port_loop captured fs)"

text \<open>What the handlers hold: the API key, the pool, and the library functions they call.\<close>

record 'p gateway =
  gw_uuid :: uuid_lib
  gw_to_str :: "string \<Rightarrow> string option"
  gw_dbg :: "string \<Rightarrow> string"
  gw_b64dec :: "string \<Rightarrow> string + bytes"
  gw_b64url :: "string \<Rightarrow> string"
  gw_header_ok :: "string \<Rightarrow> bool"
  gw_meta_err :: "string \<Rightarrow> string option"
  gw_call :: "'p io_call"
  gw_pool :: ProxyClientPool
  gw_api_key :: string

definition gw_open :: "'p gateway \<Rightarrow> IoClientFrame list \<Rightarrow> ('p gateway_net, ApiError, (ApiError + IoServerFrame) list) op" where
  "gw_open G = open_io_stream (gw_meta_err G) (gw_call G) (gw_pool G)"

definition unary_via_io_stream ::
    "'p gateway \<Rightarrow> IoStart \<Rightarrow> bytes option \<Rightarrow> ('p gateway_net, ApiError, UnaryFileMeta option) op" where
  "unary_via_io_stream G start content =
    bind_op (gw_open G (start_frame start # producer_frames content)) (\<lambda>fs g. (unary_loop None fs, g))"

definition stream_via_io_stream ::
    "'p gateway \<Rightarrow> IoStart \<Rightarrow> ('p gateway_net, ApiError, bytes \<times> UnaryFileMeta option) op" where
  "stream_via_io_stream G start = bind_op (gw_open G [start_frame start]) (\<lambda>fs g. (read_loop [] None fs, g))"

definition list_dir_via_io_stream :: "'p gateway \<Rightarrow> IoStart \<Rightarrow> ('p gateway_net, ApiError, json) op" where
  "list_dir_via_io_stream G start = bind_op (gw_open G [start_frame start]) (\<lambda>fs g. (list_loop None fs, g))"

definition wait_port_via_io_stream :: "'p gateway \<Rightarrow> IoStart \<Rightarrow> ('p gateway_net, ApiError, json) op" where
  "wait_port_via_io_stream G start = bind_op (gw_open G [start_frame start]) (\<lambda>fs g. (wait_port_loop None fs, g))"

section \<open>Handlers of file operations\<close>

definition authed :: "'p gateway \<Rightarrow> (string \<times> string) list \<Rightarrow> ('w \<Rightarrow> Response \<times> 'w) \<Rightarrow> 'w \<Rightarrow> Response \<times> 'w" where
  "authed G headers k w = (case check_rest_auth (gw_to_str G) headers (gw_api_key G) of
      Inl r \<Rightarrow> (r, w)
    | Inr _ \<Rightarrow> k w)"

definition with_sandbox :: "'p gateway \<Rightarrow> string \<Rightarrow> (SandboxId \<Rightarrow> 'w \<Rightarrow> Response \<times> 'w) \<Rightarrow> 'w \<Rightarrow> Response \<times> 'w" where
  "with_sandbox G sid k w = (case parse_sandbox_id (gw_uuid G) sid of
      Inl r \<Rightarrow> (r, w)
    | Inr sandbox_id \<Rightarrow> k sandbox_id w)"

definition respond :: "'p gateway \<Rightarrow> ('a \<Rightarrow> Response) \<Rightarrow> ('w, ApiError, 'a) op \<Rightarrow> 'w \<Rightarrow> Response \<times> 'w" where
  "respond G f m w = (case m w of
      (Inl e, w') \<Rightarrow> (api_error_response (gw_dbg G) e, w')
    | (Inr a, w') \<Rightarrow> (f a, w'))"

text \<open>\<open>ValidJson\<close> answers a body that cannot be read before the handler runs.\<close>

definition valid_json :: "string + 'b \<Rightarrow> ('b \<Rightarrow> 'w \<Rightarrow> Response \<times> 'w) \<Rightarrow> 'w \<Rightarrow> Response \<times> 'w" where
  "valid_json body k w = (case body of Inl t \<Rightarrow> (invalid_request t, w) | Inr b \<Rightarrow> k b w)"

text \<open>So does \<open>Query\<close>, with plain text.\<close>

definition valid_query :: "string + 'b \<Rightarrow> ('b \<Rightarrow> 'w \<Rightarrow> Response \<times> 'w) \<Rightarrow> 'w \<Rightarrow> Response \<times> 'w" where
  "valid_query q k w = (case q of
      Inl t \<Rightarrow> (\<lparr> rs_status = 400, rs_headers = [], rs_body = TextBody t \<rparr>, w)
    | Inr b \<Rightarrow> k b w)"

definition with_path :: "string \<Rightarrow> string \<Rightarrow> ('w \<Rightarrow> Response \<times> 'w) \<Rightarrow> 'w \<Rightarrow> Response \<times> 'w" where
  "with_path missing path k w =
    (if path = [] then (invalid_request missing, w)
     else (case validate_sandbox_path path of
         Inl msg \<Rightarrow> (invalid_request msg, w)
       | Inr _ \<Rightarrow> k w))"

definition io_start_for :: "'p gateway \<Rightarrow> SandboxId \<Rightarrow> IoParams \<Rightarrow> IoStart" where
  "io_start_for G sandbox_id params =
    \<lparr> st_sandbox_id = SandboxId_to_string (gw_uuid G) sandbox_id, st_params = Some params \<rparr>"

definition write_result_json :: "string option \<Rightarrow> json" where
  "write_result_json revision = JObject ((''success'', JBool True) #
     (case revision of None \<Rightarrow> [] | Some r \<Rightarrow> [(''revision'', JString r)]))"

definition is_gzip :: "bytes \<Rightarrow> bool" where
  "is_gzip body \<longleftrightarrow> \<not> (body = [] \<or> length body < 2 \<or> body ! 0 \<noteq> 0x1f \<or> body ! 1 \<noteq> 0x8b)"

definition write_files :: "'p gateway \<Rightarrow> (string \<times> string) list \<Rightarrow> string \<Rightarrow> bytes \<Rightarrow> 'p gateway_net \<Rightarrow> Response \<times> 'p gateway_net" where
  "write_files G headers sid body =
    authed G headers (with_sandbox G sid (\<lambda>sandbox_id g.
      if \<not> is_gzip body
      then (api_error_response (gw_dbg G) (InvalidUpload ''request body is not a gzip stream (expected magic 1f 8b)''), g)
      else
        (let cwd = unwrap_or_default (Option.bind (header_get headers ''x-cwd'') (gw_to_str G)) in
         respond G (\<lambda>_. json_response 200 (write_result_json None))
           (unary_via_io_stream G (io_start_for G sandbox_id (WriteFilesTargz cwd)) (Some body)) g)))"

definition write_file ::
    "'p gateway \<Rightarrow> (string \<times> string) list \<Rightarrow> string \<Rightarrow> string + WriteFileRequest \<Rightarrow> 'p gateway_net \<Rightarrow> Response \<times> 'p gateway_net" where
  "write_file G headers sid body = valid_json body (\<lambda>req.
    authed G headers (with_sandbox G sid (\<lambda>sandbox_id.
      with_path ''path must not be empty'' (wq_path req) (\<lambda>g.
        case content_bytes (gw_b64dec G) req of
          Inl e \<Rightarrow> (api_error_response (gw_dbg G) e, g)
        | Inr content \<Rightarrow>
            respond G (\<lambda>meta. json_response 200 (write_result_json (map_option um_revision meta)))
              (unary_via_io_stream G (io_start_for G sandbox_id (WriteFile (wq_path req) (unwrap_or_default (wq_cwd req))
                 (unwrap_or_default (wq_expected_revision req)) (wq_force req))) (Some content)) g))))"

definition read_file_response :: "'p gateway \<Rightarrow> bytes \<times> UnaryFileMeta option \<Rightarrow> Response" where
  "read_file_response G r =
    \<lparr> rs_status = 200,
      rs_headers = filter (\<lambda>(n, v). gw_header_ok G v) ((''content-type'', ''application/octet-stream'') #
        (case snd r of None \<Rightarrow> [] | Some m \<Rightarrow> [(''x-file-revision'', um_revision m)])),
      rs_body = RawBody (fst r) \<rparr>"

definition read_file ::
    "'p gateway \<Rightarrow> (string \<times> string) list \<Rightarrow> string \<Rightarrow> string + ReadFileQuery \<Rightarrow> 'p gateway_net \<Rightarrow> Response \<times> 'p gateway_net" where
  "read_file G headers sid query = valid_query query (\<lambda>q.
    authed G headers (with_sandbox G sid (\<lambda>sandbox_id.
      with_path ''path query parameter is required'' (fq_path q) (
        respond G (read_file_response G)
          (stream_via_io_stream G (io_start_for G sandbox_id (ReadFile (fq_path q) (unwrap_or_default (fq_cwd q)))))))))"

definition list_dir ::
    "'p gateway \<Rightarrow> (string \<times> string) list \<Rightarrow> string \<Rightarrow> string + ListDirQuery \<Rightarrow> 'p gateway_net \<Rightarrow> Response \<times> 'p gateway_net" where
  "list_dir G headers sid query = valid_query query (\<lambda>q.
    authed G headers (with_sandbox G sid (\<lambda>sandbox_id.
      with_path ''path query parameter is required'' (lq_path q) (
        respond G (json_response 200)
          (list_dir_via_io_stream G (io_start_for G sandbox_id (ListDir (lq_path q) (unwrap_or_default (lq_cwd q)))))))))"

definition delete_file ::
    "'p gateway \<Rightarrow> (string \<times> string) list \<Rightarrow> string \<Rightarrow> string + DeleteFileQuery \<Rightarrow> 'p gateway_net \<Rightarrow> Response \<times> 'p gateway_net" where
  "delete_file G headers sid query = valid_query query (\<lambda>q.
    authed G headers (with_sandbox G sid (\<lambda>sandbox_id.
      with_path ''path query parameter is required'' (dq_path q) (
        respond G (\<lambda>_. \<lparr> rs_status = 204, rs_headers = [], rs_body = NoBody \<rparr>)
          (unary_via_io_stream G (io_start_for G sandbox_id
             (DeleteFile (dq_path q) (unwrap_or_default (dq_cwd q)) (dq_recursive q))) None)))))"

definition wait_port_listening ::
    "'p gateway \<Rightarrow> (string \<times> string) list \<Rightarrow> string \<Rightarrow> string + WaitPortListeningRequest \<Rightarrow> 'p gateway_net \<Rightarrow> Response \<times> 'p gateway_net" where
  "wait_port_listening G headers sid body = valid_json body (\<lambda>req.
    authed G headers (with_sandbox G sid (\<lambda>sandbox_id.
      respond G (json_response 200)
        (wait_port_via_io_stream G (io_start_for G sandbox_id
           (WaitPortListening (pq_port req) (min (pq_timeout_ms req) WAIT_PORT_LISTENING_MAX_TIMEOUT_MS)))))))"

section \<open>Lemmas\<close>

lemma api_constant_time_eq_iff: "api_constant_time_eq a b \<longleftrightarrow> a = b"
  by (auto simp: api_constant_time_eq_def constant_time_fold)

lemma check_rest_auth_iff: "check_rest_auth to_str headers key = Inr () \<longleftrightarrow> bearer_header to_str headers = Some key"
  by (auto simp: check_rest_auth_def api_constant_time_eq_iff str_bytes_inj split: option.splits)

lemma check_rest_auth_Inl: "check_rest_auth to_str headers key = Inl r \<Longrightarrow> r = unauthorized_response"
  by (auto simp: check_rest_auth_def split: option.splits if_splits)

lemma authed_iff: "authed G headers k w =
    (if bearer_header (gw_to_str G) headers = Some (gw_api_key G) then k w else (unauthorized_response, w))"
proof (cases "check_rest_auth (gw_to_str G) headers (gw_api_key G)")
  case (Inl r)
  then have "bearer_header (gw_to_str G) headers \<noteq> Some (gw_api_key G)"
    by (metis check_rest_auth_iff Inl_Inr_False)
  with Inl check_rest_auth_Inl [OF Inl] show ?thesis by (simp add: authed_def)
next
  case (Inr u)
  then have "bearer_header (gw_to_str G) headers = Some (gw_api_key G)"
    using check_rest_auth_iff by simp
  with Inr show ?thesis by (simp add: authed_def)
qed

lemma stdin_chunks_chunks: "stdin_chunks bs off = chunks STDIN_CHUNK_BYTES (drop off bs)"
proof (induction bs off rule: stdin_chunks.induct)
  case (1 bs off)
  have pos: "0 < STDIN_CHUNK_BYTES" by (simp add: STDIN_CHUNK_BYTES_def)
  show ?case
  proof (cases "off < length bs")
    case True
    let ?stop = "min (off + STDIN_CHUNK_BYTES) (length bs)"
    have "take (?stop - off) (drop off bs) = take STDIN_CHUNK_BYTES (drop off bs)"
      using True by (cases "off + STDIN_CHUNK_BYTES \<le> length bs") (simp_all add: min_def)
    moreover have "drop ?stop bs = drop STDIN_CHUNK_BYTES (drop off bs)"
      by (cases "off + STDIN_CHUNK_BYTES \<le> length bs") (simp_all add: min_def add.commute)
    ultimately show ?thesis
      using True pos 1 [OF True refl]
      by (simp add: stdin_chunks.simps [of bs off] chunks.simps [of _ "drop off bs"] Let_def)
  next
    case False
    then show ?thesis by (simp add: stdin_chunks.simps)
  qed
qed

lemma stdin_chunks_concat: "concat (stdin_chunks bs 0) = bs"
  using concat_chunks [of STDIN_CHUNK_BYTES bs] by (simp add: stdin_chunks_chunks STDIN_CHUNK_BYTES_def)

section \<open>Validated paths\<close>

text \<open>Walking a path lexically: empty and single-dot segments stay, double dots climb.\<close>

fun walk :: "string list \<Rightarrow> string list \<Rightarrow> string list" where
  "walk at [] = at"
| "walk at (seg # segs) =
    walk (if seg = [] \<or> seg = ''.'' then at else if seg = ''..'' then butlast at else at @ [seg]) segs"

lemma walk_below: "''..'' \<notin> set segs \<Longrightarrow> \<exists>rest. walk at segs = at @ rest"
proof (induction segs arbitrary: at)
  case (Cons seg segs)
  then obtain rest where "walk (if seg = [] \<or> seg = ''.'' then at else at @ [seg]) segs =
      (if seg = [] \<or> seg = ''.'' then at else at @ [seg]) @ rest" by auto
  moreover have "seg \<noteq> ''..''" using Cons.prems by auto
  ultimately show ?case by (cases "seg = [] \<or> seg = ''.''") auto
qed simp

text \<open>An accepted path cannot climb. A path the gateway lets through has no control characters but tabs, and
  wherever its segments are walked from, the walk ends below its starting point.\<close>

lemma accepted_path_stays_below:
  assumes "validate_sandbox_path path = Inr ()"
  shows "(\<forall>c\<in>set path. 32 \<le> char_code c \<or> char_code c = 9) \<and>
    (\<exists>rest. walk at (split_char (CHR ''/'') path) = at @ rest)"
  using assms walk_below [of "split_char (CHR ''/'') path" at]
  by (auto simp: validate_sandbox_path_def list_ex_iff not_less split: if_splits)

lemma accepted_path_stays_below_witness:
  "walk [''home''] (split_char (CHR ''/'') ''a/../b'') = [''home'', ''b''] \<and> validate_sandbox_path ''a/../b'' \<noteq> Inr () \<and>
   (\<exists>rest. walk [''home''] (split_char (CHR ''/'') ''a/./b'') = [''home''] @ rest)"
proof -
  have "validate_sandbox_path ''a/./b'' = Inr ()" "validate_sandbox_path ''a/../b'' \<noteq> Inr ()"
    by code_simp+
  with accepted_path_stays_below [of "''a/./b''" "[''home'']"] show ?thesis by simp
qed

end
