(* ===== verification/Api_Lifecycle.thy ===== *)
theory Api_Lifecycle
  imports Controller_Management Api_Gateway
begin

text \<open>
  The gateway's lifecycle calls: the trait and data of \<open>api/src/service.rs\<close>, its gRPC implementation
  \<open>api/src/grpc_service.rs\<close>, and their handlers in \<open>api/src/handlers.rs\<close>.

  The trait \<open>SandboxService\<close> is a dictionary over the state of whatever serves it. \<open>grpc_service\<close>
  implements it over a client of the management service; \<open>controller_endpoint\<close> is the client whose
  calls the controller answers, so that the two together are a request's way from the gateway to
  the controller's handler.
\<close>

section \<open>The service (service.rs)\<close>

record SandboxInfo =
  si_sandbox_id :: SandboxId
  si_subdomain :: string
  si_agent_id :: string
  si_status :: string
  si_error :: "string option"

record CreateRequest =
  cq_image :: string
  cq_cpu_millicores :: u32
  cq_memory_bytes :: u64
  cq_env_vars :: "(string \<times> string) list"
  cq_exposed_port :: u32
  cq_pull_policy :: PullPolicy

record TransitionResult =
  tn_status :: string

record 's SandboxService =
  svc_create :: "CreateRequest \<Rightarrow> ('s, ApiError, SandboxInfo) op"
  svc_get :: "SandboxId \<Rightarrow> ('s, ApiError, SandboxInfo) op"
  svc_list :: "('s, ApiError, SandboxInfo list) op"
  svc_delete :: "SandboxId \<Rightarrow> ('s, ApiError, unit) op"
  svc_pause :: "SandboxId \<Rightarrow> ('s, ApiError, TransitionResult) op"
  svc_unpause :: "SandboxId \<Rightarrow> ('s, ApiError, TransitionResult) op"

section \<open>The gRPC implementation (grpc\_service.rs)\<close>

text \<open>A client of the management service: every call takes the \<open>authorization\<close> metadata.\<close>

record 's mgmt_client =
  mc_create :: "string option \<Rightarrow> ApiCreateSandboxRequest \<Rightarrow> ('s, Status, CreateSandboxResponse) op"
  mc_get :: "string option \<Rightarrow> string \<Rightarrow> ('s, Status, GetSandboxResponse) op"
  mc_list :: "string option \<Rightarrow> ('s, Status, GetSandboxResponse list) op"
  mc_delete :: "string option \<Rightarrow> string \<Rightarrow> ('s, Status, bool) op"
  mc_pause :: "string option \<Rightarrow> string \<Rightarrow> ('s, Status, string) op"
  mc_unpause :: "string option \<Rightarrow> string \<Rightarrow> ('s, Status, string) op"

definition admin_metadata :: "(string \<Rightarrow> string option) \<Rightarrow> string option \<Rightarrow> string option" where
  "admin_metadata meta_err admin_token = (case admin_token of
      None \<Rightarrow> None
    | Some token \<Rightarrow> (case meta_err (''Bearer '' @ token) of None \<Rightarrow> Some (''Bearer '' @ token) | Some _ \<Rightarrow> None))"

definition code_to_api :: "string \<Rightarrow> string \<Rightarrow> ApiError" where
  "code_to_api code msg =
    (if code = ''INVALID_TOKEN'' then Unauthorized msg
     else if code = ''SANDBOX_NOT_FOUND'' then ApiError.SandboxNotFound msg
     else if code = ''AGENT_NOT_FOUND'' then ControllerUnavailable msg
     else if code = ''INVALID_STATE'' then InvalidState msg
     else if code = ''NO_AVAILABLE_AGENTS'' then ControllerUnavailable (''no available agents: '' @ msg)
     else if code = ''DATABASE_ERROR'' \<or> code = ''INTERNAL'' \<or> code = ''UNKNOWN'' then ApiError.Internal msg
     else ApiError.Internal (code @ '': '' @ msg))"

definition grpc_to_api :: "Status \<Rightarrow> ApiError" where
  "grpc_to_api st = (case st_error_code st of
      Some code \<Rightarrow> code_to_api code (st_message st)
    | None \<Rightarrow>
        (case st_code st of
           Code_NotFound \<Rightarrow> ApiError.SandboxNotFound (st_message st)
         | Code_Unavailable \<Rightarrow> ControllerUnavailable (st_message st)
         | Code_InvalidArgument \<Rightarrow> ApiError.InvalidRequest (st_message st)
         | Code_FailedPrecondition \<Rightarrow> InvalidState (st_message st)
         | _ \<Rightarrow> ApiError.Internal (st_message st)))"

definition empty_to_none :: "string \<Rightarrow> string option" where
  "empty_to_none s = (if s = [] then None else Some s)"

definition parse_controller_id :: "uuid_lib \<Rightarrow> string \<Rightarrow> ApiError + SandboxId" where
  "parse_controller_id U sid = ok_or (map_option SandboxId (uuid_parse_str U sid))
     (ApiError.Internal (''controller returned invalid sandbox_id: '' @ sid))"

definition rpc :: "('s, Status, 'a) op \<Rightarrow> ('a \<Rightarrow> ApiError + 'b) \<Rightarrow> ('s, ApiError, 'b) op" where
  "rpc call f s = (case call s of
      (Inl st, s') \<Rightarrow> (Inl (grpc_to_api st), s')
    | (Inr a, s') \<Rightarrow> (f a, s'))"

definition proto_create :: "CreateRequest \<Rightarrow> ApiCreateSandboxRequest" where
  "proto_create r = \<lparr> rq_image = cq_image r, rq_cpu = cq_cpu_millicores r, rq_memory = cq_memory_bytes r,
     rq_env_vars = cq_env_vars r, rq_exposed_port = cq_exposed_port r,
     rq_pull_policy = wire_pull_policy_as_i32 (to_wire (cq_pull_policy r)) \<rparr>"

definition created_info :: "uuid_lib \<Rightarrow> CreateSandboxResponse \<Rightarrow> ApiError + SandboxInfo" where
  "created_info U resp = (case parse_controller_id U (rp_sandbox_id resp) of
      Inl e \<Rightarrow> Inl e
    | Inr sid \<Rightarrow> Inr \<lparr> si_sandbox_id = sid, si_subdomain = rp_subdomain resp, si_agent_id = rp_agent_id resp,
        si_status = rp_status resp, si_error = None \<rparr>)"

definition sandbox_info :: "uuid_lib \<Rightarrow> GetSandboxResponse \<Rightarrow> ApiError + SandboxInfo" where
  "sandbox_info U resp = (case parse_controller_id U (gr_sandbox_id resp) of
      Inl e \<Rightarrow> Inl e
    | Inr sid \<Rightarrow> Inr \<lparr> si_sandbox_id = sid, si_subdomain = gr_subdomain resp, si_agent_id = gr_agent_id resp,
        si_status = gr_status resp, si_error = empty_to_none (gr_error resp) \<rparr>)"

fun sandbox_infos :: "uuid_lib \<Rightarrow> GetSandboxResponse list \<Rightarrow> ApiError + SandboxInfo list" where
  "sandbox_infos U [] = Inr []"
| "sandbox_infos U (r # rs) = (case sandbox_info U r of
      Inl e \<Rightarrow> Inl e
    | Inr i \<Rightarrow> (case sandbox_infos U rs of Inl e \<Rightarrow> Inl e | Inr is \<Rightarrow> Inr (i # is)))"

definition grpc_service :: "uuid_lib \<Rightarrow> (string \<Rightarrow> string option) \<Rightarrow> string option \<Rightarrow> 's mgmt_client \<Rightarrow> 's SandboxService" where
  "grpc_service U meta_err admin_token C =
    (let hdr = admin_metadata meta_err admin_token; str = SandboxId_to_string U in
     \<lparr> svc_create = (\<lambda>r. rpc (mc_create C hdr (proto_create r)) (created_info U)),
       svc_get = (\<lambda>sid. rpc (mc_get C hdr (str sid)) (sandbox_info U)),
       svc_list = rpc (mc_list C hdr) (sandbox_infos U),
       svc_delete = (\<lambda>sid. rpc (mc_delete C hdr (str sid)) (\<lambda>_. Inr ())),
       svc_pause = (\<lambda>sid. rpc (mc_pause C hdr (str sid)) (\<lambda>st. Inr \<lparr> tn_status = st \<rparr>)),
       svc_unpause = (\<lambda>sid. rpc (mc_unpause C hdr (str sid)) (\<lambda>st. Inr \<lparr> tn_status = st \<rparr>)) \<rparr>)"

text \<open>The management service as the gateway reaches it: \<open>fresh\<close> is the identifier a creation draws.\<close>

definition controller_endpoint ::
    "uuid_lib \<Rightarrow> 's ControllerStore \<Rightarrow> (string \<Rightarrow> string option) \<Rightarrow> string \<Rightarrow> SandboxId \<Rightarrow> 's ctl mgmt_client" where
  "controller_endpoint U S to_str token fresh =
    \<lparr> mc_create = (\<lambda>hdr r. management_call to_str token hdr (mgmt_create_sandbox U S fresh r)),
      mc_get = (\<lambda>hdr sid. management_call to_str token hdr (mgmt_get_sandbox U S sid)),
      mc_list = (\<lambda>hdr. management_call to_str token hdr (mgmt_list_sandboxes U S)),
      mc_delete = (\<lambda>hdr sid. management_call to_str token hdr (mgmt_delete_sandbox U S sid)),
      mc_pause = (\<lambda>hdr sid. management_call to_str token hdr (mgmt_pause_sandbox U S sid)),
      mc_unpause = (\<lambda>hdr sid. management_call to_str token hdr (mgmt_unpause_sandbox U S sid)) \<rparr>"

section \<open>Handlers\<close>

definition info_json :: "uuid_lib \<Rightarrow> SandboxInfo \<Rightarrow> json" where
  "info_json U i = JObject ([(''sandbox_id'', JString (SandboxId_to_string U (si_sandbox_id i))),
      (''subdomain'', JString (si_subdomain i)), (''agent_id'', JString (si_agent_id i)), (''status'', JString (si_status i))] @
      (case si_error i of None \<Rightarrow> [] | Some e \<Rightarrow> [(''error'', JString e)]))"

definition transition_json :: "TransitionResult \<Rightarrow> json" where
  "transition_json t = JObject [(''status'', JString (tn_status t))]"

definition create_sandbox ::
    "'p gateway \<Rightarrow> 's SandboxService \<Rightarrow> (string \<times> string) list \<Rightarrow> string + CreateRequest \<Rightarrow> 's \<Rightarrow> Response \<times> 's" where
  "create_sandbox G S headers body = valid_json body (\<lambda>req.
    authed G headers (respond G (\<lambda>info. json_response 201 (info_json (gw_uuid G) info)) (svc_create S req)))"

definition list_sandboxes :: "'p gateway \<Rightarrow> 's SandboxService \<Rightarrow> (string \<times> string) list \<Rightarrow> 's \<Rightarrow> Response \<times> 's" where
  "list_sandboxes G S headers = authed G headers (respond G
     (\<lambda>items. json_response 200 (JObject [(''sandboxes'', JArray (map (info_json (gw_uuid G)) items))])) (svc_list S))"

definition get_sandbox :: "'p gateway \<Rightarrow> 's SandboxService \<Rightarrow> (string \<times> string) list \<Rightarrow> string \<Rightarrow> 's \<Rightarrow> Response \<times> 's" where
  "get_sandbox G S headers sid = authed G headers (with_sandbox G sid (\<lambda>sandbox_id.
     respond G (\<lambda>info. json_response 200 (info_json (gw_uuid G) info)) (svc_get S sandbox_id)))"

definition delete_sandbox :: "'p gateway \<Rightarrow> 's SandboxService \<Rightarrow> (string \<times> string) list \<Rightarrow> string \<Rightarrow> 's \<Rightarrow> Response \<times> 's" where
  "delete_sandbox G S headers sid = authed G headers (with_sandbox G sid (\<lambda>sandbox_id.
     respond G (\<lambda>_. \<lparr> rs_status = 204, rs_headers = [], rs_body = NoBody \<rparr>) (svc_delete S sandbox_id)))"

definition pause_sandbox :: "'p gateway \<Rightarrow> 's SandboxService \<Rightarrow> (string \<times> string) list \<Rightarrow> string \<Rightarrow> 's \<Rightarrow> Response \<times> 's" where
  "pause_sandbox G S headers sid = authed G headers (with_sandbox G sid (\<lambda>sandbox_id.
     respond G (\<lambda>r. json_response 202 (transition_json r)) (svc_pause S sandbox_id)))"

definition unpause_sandbox :: "'p gateway \<Rightarrow> 's SandboxService \<Rightarrow> (string \<times> string) list \<Rightarrow> string \<Rightarrow> 's \<Rightarrow> Response \<times> 's" where
  "unpause_sandbox G S headers sid = authed G headers (with_sandbox G sid (\<lambda>sandbox_id.
     respond G (\<lambda>r. json_response 202 (transition_json r)) (svc_unpause S sandbox_id)))"

section \<open>From the gateway to the controller\<close>

lemma rpc_Inr: "rpc call f s = (Inr b, s') \<longleftrightarrow> (\<exists>a. call s = (Inr a, s') \<and> f a = Inr b)"
  by (auto simp: rpc_def split: prod.splits sum.splits)

lemma management_call_Inr: "management_call to_str token hdr h c = (Inr a, c') \<Longrightarrow>
    h c = (Inr a, c') \<and> admin_auth_call to_str token hdr = Inr ()"
  by (auto simp: management_call_def ok_op_simps split: sum.splits)

lemma api_error_status_range: "api_error_status e \<in> {400, 401, 404, 409, 500, 501, 503}"
  by (cases e) auto

lemma error_not_success: "rs_status (api_error_response dbg e) \<ge> 400"
  using api_error_status_range [of e] by (auto simp: api_error_response_def json_response_def Let_def)

lemma respond_success:
  assumes "respond G f m w = (r, w')" "rs_status r < 400"
  shows "\<exists>a. m w = (Inr a, w') \<and> r = f a"
  using assms error_not_success [of "gw_dbg G"]
  by (auto simp: respond_def not_le [symmetric] split: prod.splits sum.splits)

lemma authed_success:
  assumes "authed G headers k w = (r, w')" "rs_status r < 400"
  shows "bearer_header (gw_to_str G) headers = Some (gw_api_key G) \<and> k w = (r, w')"
  using assms by (auto simp: authed_iff unauthorized_response_def error_response_def json_response_def split: if_splits)

lemma with_sandbox_success:
  assumes "with_sandbox G sid k w = (r, w')" "rs_status r < 400"
  shows "\<exists>u. uuid_parse_str (gw_uuid G) sid = Some u \<and> k (SandboxId u) w = (r, w')"
  using assms
  by (auto simp: with_sandbox_def parse_sandbox_id_def ok_or_def invalid_request_def error_response_def json_response_def
      split: option.splits sum.splits)

lemma valid_json_success:
  assumes "valid_json body k w = (r, w')" "rs_status r < 400"
  shows "\<exists>b. body = Inr b \<and> k b w = (r, w')"
  using assms by (auto simp: valid_json_def invalid_request_def error_response_def json_response_def split: sum.splits)

abbreviation controller_service where
  "controller_service U me atok to_str token fresh \<equiv>
     grpc_service U me atok (controller_endpoint U (PgStore U) to_str token fresh)"

lemma rest_create_effect:
  assumes "uuid_text U" "gw_uuid G = U" "pg_wf (ctl_store c)"
    and "create_sandbox G (controller_service U me atok to_str token sid) headers body c = (resp, c')" "rs_status resp = 201"
  shows "\<exists>req a ag ch cfg. admin_auth_call to_str token (admin_metadata me atok) = Inr () \<and> body = Inr req \<and> bearer_header (gw_to_str G) headers = Some (gw_api_key G) \<and>
    rs_body resp = JsonBody (JObject [(''sandbox_id'', JString (SandboxId_to_string U sid)),
      (''subdomain'', JString (subdomain U sid)), (''agent_id'', JString (AgentId_to_string U a)), (''status'', JString ''creating'')]) \<and>
    pg_route_of (ctl_store c') sid = Some a \<and> pg_agent_of (ctl_store c) a = Some ag \<and> ar_state ag = Active \<and>
    fits (if cq_cpu_millicores req = 0 then 1000 else cq_cpu_millicores req)
      (if cq_memory_bytes req = 0 then 512 * 1024 * 1024 else cq_memory_bytes req) ag \<and>
    tbl_get (senders c) a = Some ch \<and>
    sent c' = (sent c)(ch := sent c ch @ [Inr (StartSandbox (SandboxId_to_string U sid) (cq_image req) cfg)]) \<and>
    pc_cpu_limit_millicores cfg = (if cq_cpu_millicores req = 0 then 1000 else cq_cpu_millicores req) \<and>
    pc_memory_limit_bytes cfg = (if cq_memory_bytes req = 0 then 512 * 1024 * 1024 else cq_memory_bytes req)"
proof -
  have ok: "rs_status resp < 400" using assms(5) by simp
  from valid_json_success [OF assms(4) [unfolded create_sandbox_def] ok] obtain req where req: "body = Inr req"
    and a: "authed G headers (respond G (\<lambda>info. json_response 201 (info_json (gw_uuid G) info))
        (svc_create (controller_service U me atok to_str token sid) req)) c = (resp, c')"
    by blast
  from authed_success [OF a ok] have key: "bearer_header (gw_to_str G) headers = Some (gw_api_key G)"
    and r: "respond G (\<lambda>info. json_response 201 (info_json (gw_uuid G) info))
        (svc_create (controller_service U me atok to_str token sid) req) c = (resp, c')" by auto
  from respond_success [OF r ok] obtain info where
    "svc_create (controller_service U me atok to_str token sid) req c = (Inr info, c')"
    and body: "rs_body resp = JsonBody (info_json U info)"
    using assms(2) by (auto simp: json_response_def)
  then obtain rp where run: "mgmt_create_sandbox U (PgStore U) sid (proto_create req) c = (Inr rp, c')"
    and info: "created_info U rp = Inr info" and adm: "admin_auth_call to_str token (admin_metadata me atok) = Inr ()"
    by (auto simp: grpc_service_def controller_endpoint_def Let_def rpc_Inr dest!: management_call_Inr)
  have st: "rp_status rp = ''creating''"
    using run by (auto simp: mgmt_create_sandbox_def Let_def mgmt_results split: sum.splits)
  from create_starts_sandbox [OF assms(3) run] obtain a ag ch cfg where eff:
    "rp_agent_id rp = AgentId_to_string U a" "rp_sandbox_id rp = SandboxId_to_string U sid" "rp_subdomain rp = subdomain U sid"
    "pg_route_of (ctl_store c') sid = Some a" "pg_agent_of (ctl_store c) a = Some ag" "ar_state ag = Active"
    "fits (if cq_cpu_millicores req = 0 then 1000 else cq_cpu_millicores req)
       (if cq_memory_bytes req = 0 then 512 * 1024 * 1024 else cq_memory_bytes req) ag"
    "tbl_get (senders c) a = Some ch"
    "sent c' = (sent c)(ch := sent c ch @ [Inr (StartSandbox (SandboxId_to_string U sid) (cq_image req) cfg)])"
    "pc_cpu_limit_millicores cfg = (if cq_cpu_millicores req = 0 then 1000 else cq_cpu_millicores req)"
    "pc_memory_limit_bytes cfg = (if cq_memory_bytes req = 0 then 512 * 1024 * 1024 else cq_memory_bytes req)"
    unfolding proto_create_def ApiCreateSandboxRequest.simps by blast
  have "info = \<lparr> si_sandbox_id = sid, si_subdomain = subdomain U sid, si_agent_id = AgentId_to_string U a,
      si_status = ''creating'', si_error = None \<rparr>"
    using info eff(1-3) st uuid_text.sandbox_roundtrip [OF assms(1), of sid]
    by (auto simp: created_info_def parse_controller_id_def SandboxId_from_str_def ok_or_def split: option.splits)
  with body have "rs_body resp = JsonBody (JObject [(''sandbox_id'', JString (SandboxId_to_string U sid)),
      (''subdomain'', JString (subdomain U sid)), (''agent_id'', JString (AgentId_to_string U a)), (''status'', JString ''creating'')])"
    by (simp add: info_json_def)
  with req key eff adm show ?thesis by blast
qed

text \<open>C4. Creating a sandbox over HTTP starts it. When \<open>POST /v1/sandboxes\<close> answers 201, the request
  carried the API key, and the controller behind the gateway has routed the new identifier to an
  agent that was active with room for the request (zero meaning the defaults) and has sent exactly one
  command, the \<open>StartSandbox\<close> for it on that agent's connection with the requested limits; the answer
  names this identifier, its subdomain and that agent.\<close>

theorem rest_create_starts_sandbox:
  assumes "uuid_text U" "gw_uuid G = U" "pg_wf (ctl_store c)"
    and "create_sandbox G (controller_service U me atok to_str token sid) headers body c = (resp, c')" "rs_status resp = 201"
  shows "\<exists>req a ag ch cfg. body = Inr req \<and> bearer_header (gw_to_str G) headers = Some (gw_api_key G) \<and>
    rs_body resp = JsonBody (JObject [(''sandbox_id'', JString (SandboxId_to_string U sid)),
      (''subdomain'', JString (subdomain U sid)), (''agent_id'', JString (AgentId_to_string U a)), (''status'', JString ''creating'')]) \<and>
    pg_route_of (ctl_store c') sid = Some a \<and> pg_agent_of (ctl_store c) a = Some ag \<and> ar_state ag = Active \<and>
    fits (if cq_cpu_millicores req = 0 then 1000 else cq_cpu_millicores req)
      (if cq_memory_bytes req = 0 then 512 * 1024 * 1024 else cq_memory_bytes req) ag \<and>
    tbl_get (senders c) a = Some ch \<and>
    sent c' = (sent c)(ch := sent c ch @ [Inr (StartSandbox (SandboxId_to_string U sid) (cq_image req) cfg)]) \<and>
    pc_cpu_limit_millicores cfg = (if cq_cpu_millicores req = 0 then 1000 else cq_cpu_millicores req) \<and>
    pc_memory_limit_bytes cfg = (if cq_memory_bytes req = 0 then 512 * 1024 * 1024 else cq_memory_bytes req)"
  using rest_create_effect [OF assms] by blast

definition demo_gateway :: "'p io_call \<Rightarrow> 'p gateway" where
  "demo_gateway call = \<lparr> gw_uuid = rfc4122, gw_to_str = Some, gw_dbg = (\<lambda>s. s), gw_b64dec = (\<lambda>s. Inl ''unsupported''),
     gw_b64url = (\<lambda>s. s), gw_header_ok = (\<lambda>_. True), gw_meta_err = (\<lambda>_. None), gw_call = call,
     gw_pool = \<lparr> pc_channels = [0], pc_internal_token = None \<rparr>, gw_api_key = ''key'' \<rparr>"

definition no_proxy :: "unit io_call" where
  "no_proxy ch hdr fs p = (Inl (status Code_Unavailable ''no proxy''), p)"

definition demo_headers :: "(string \<times> string) list" where
  "demo_headers = [(''Authorization'', ''Bearer key'')]"

lemma demo_key: "bearer_header (gw_to_str (demo_gateway call)) demo_headers = Some (gw_api_key (demo_gateway call))"
  by (simp add: bearer_header_def bearer_token_def demo_headers_def demo_gateway_def header_get_def eq_ignore_ascii_case_def
      strip_prefix_def starts_with_def)
    code_simp

lemma demo_gateway_uuid [simp]: "gw_uuid (demo_gateway call) = rfc4122"
  by (simp add: demo_gateway_def)

abbreviation demo_service where
  "demo_service \<equiv> controller_service rfc4122 (\<lambda>_. None) (Some ''admin'') Some ''admin'' (SandboxId 7)"

lemma demo_admin: "management_call Some ''admin'' (admin_metadata (\<lambda>_. None) (Some ''admin'')) h = h"
  by (rule ext) (simp add: management_call_def admin_metadata_def admin_auth_call_def strip_prefix_def starts_with_def
      constant_time_eq_iff str_bytes_inj)

definition demo_create :: CreateRequest where
  "demo_create = \<lparr> cq_image = ''alpine'', cq_cpu_millicores = 500, cq_memory_bytes = 1024, cq_env_vars = [],
     cq_exposed_port = 0, cq_pull_policy = IfNotPresent \<rparr>"

lemma demo_conn_wf: "pg_wf (ctl_store demo_conn)"
  using demo_registered_wf by (simp add: demo_conn_def demo_ctl_def)

lemma demo_created:
  "\<exists>resp c'. create_sandbox (demo_gateway no_proxy) demo_service demo_headers (Inr demo_create) demo_conn = (resp, c') \<and>
     rs_status resp = 201 \<and> pg_healthy (ctl_store c')"
proof -
  let ?run = "mgmt_create_sandbox rfc4122 (PgStore rfc4122) (SandboxId 7) (proto_create demo_create) demo_conn"
  have "is_ok (fst ?run)" and healthy: "pg_healthy (ctl_store (snd ?run))"
    using demo_schedule
    by (simp_all add: mgmt_create_sandbox_def proto_create_def demo_create_def from_wire_i32_strict_def wire_pull_policy_try_from_def Let_def
        bind_op_def status_err_def controller_create_sandbox_def on_store_def demo_req_def demo_conn_def demo_ctl_def
        send_command_def chan_send_def table_simps then_op_def ignore_err_def ok_op_def pg_save_sandbox_state_def sql_def
        demo_assigned_def demo_start_def pg_healthy_def)
  then obtain rp c' where run: "?run = (Inr rp, c')"
    by (cases ?run) (auto simp: is_ok_def split: sum.splits)
  then have id: "rp_sandbox_id rp = SandboxId_to_string rfc4122 (SandboxId 7)"
    using create_starts_sandbox [OF demo_conn_wf run] by blast
  obtain info where info: "created_info rfc4122 rp = Inr info"
    by (simp add: created_info_def id parse_controller_id_def SandboxId_to_string_def rfc.parse_to_string)
  then show ?thesis
    using run healthy
    by (simp add: create_sandbox_def valid_json_def authed_iff demo_key respond_def grpc_service_def controller_endpoint_def
        Let_def rpc_def demo_admin json_response_def)
qed

theorem rest_create_starts_sandbox_witness:
  "\<exists>resp c'. create_sandbox (demo_gateway no_proxy) demo_service demo_headers (Inr demo_create) demo_conn = (resp, c') \<and>
     rs_status resp = 201 \<and> pg_route_of (ctl_store c') (SandboxId 7) = Some (AgentId 1) \<and> length (sent c' 4) = 1"
proof -
  obtain resp c' where http: "create_sandbox (demo_gateway no_proxy) demo_service demo_headers (Inr demo_create) demo_conn = (resp, c')"
    "rs_status resp = 201" using demo_created by blast
  from rest_create_starts_sandbox [OF rfc.uuid_text_axioms demo_gateway_uuid demo_conn_wf http] obtain a ch cfg where
    "pg_route_of (ctl_store c') (SandboxId 7) = Some a" "tbl_get (senders demo_conn) a = Some ch"
    "sent c' = (sent demo_conn)(ch := sent demo_conn ch @ [Inr (StartSandbox (SandboxId_to_string rfc4122 (SandboxId 7)) ''alpine'' cfg)])"
    by (auto simp: demo_create_def)
  with http show ?thesis
    by (auto simp: demo_conn_def demo_ctl_def table_simps split: if_splits)
qed

text \<open>C5. Deleting a sandbox over HTTP stops it. When \<open>DELETE /v1/sandboxes/{id}\<close> answers 204, the request
  carried the API key, the sandbox had a route, the only command sent is the \<open>StopSandbox\<close> for it (ten
  seconds) on its owner's connection, its reservation is gone and, if it had one, exactly its route
  has been removed.\<close>

theorem rest_delete_stops_and_frees:
  assumes "uuid_text U" "gw_uuid G = U" "pg_wf (ctl_store c)"
    and "delete_sandbox G (controller_service U me atok to_str token fresh) headers sid c = (resp, c')" "rs_status resp = 204"
  shows "\<exists>u a ch. bearer_header (gw_to_str G) headers = Some (gw_api_key G) \<and> uuid_parse_str U sid = Some u \<and>
    pg_route_of (ctl_store c) (SandboxId u) = Some a \<and> tbl_get (senders c) a = Some ch \<and>
    sent c' = (sent c)(ch := sent c ch @ [Inr (StopSandbox (uuid_to_string U u) 10)]) \<and>
    pg_reservation_of (ctl_store c') (SandboxId u) = None \<and>
    (pg_reservation_of (ctl_store c) (SandboxId u) \<noteq> None \<longrightarrow>
      pg_route_of (ctl_store c') = (pg_route_of (ctl_store c))(SandboxId u := None))"
proof -
  have ok: "rs_status resp < 400" using assms(5) by simp
  from authed_success [OF assms(4) [unfolded delete_sandbox_def] ok]
  have key: "bearer_header (gw_to_str G) headers = Some (gw_api_key G)"
    and w: "with_sandbox G sid (\<lambda>sandbox_id. respond G (\<lambda>_. \<lparr> rs_status = 204, rs_headers = [], rs_body = NoBody \<rparr>)
      (svc_delete (controller_service U me atok to_str token fresh) sandbox_id)) c = (resp, c')" by auto
  from with_sandbox_success [OF w ok] obtain u where u: "uuid_parse_str U sid = Some u"
    and r: "respond G (\<lambda>_. \<lparr> rs_status = 204, rs_headers = [], rs_body = NoBody \<rparr>)
      (svc_delete (controller_service U me atok to_str token fresh) (SandboxId u)) c = (resp, c')"
    using assms(2) by auto
  from respond_success [OF r ok] obtain b where
    run: "mgmt_delete_sandbox U (PgStore U) (SandboxId_to_string U (SandboxId u)) c = (Inr b, c')"
    by (auto simp: grpc_service_def controller_endpoint_def Let_def rpc_Inr dest!: management_call_Inr)
  have "uuid_parse_str U (SandboxId_to_string U (SandboxId u)) = Some u"
    using uuid_text.parse_to_string [OF assms(1)] by (simp add: SandboxId_to_string_def)
  with delete_stops_and_frees [OF assms(3) run] key u show ?thesis
    by (auto simp: SandboxId_to_string_def)
qed

theorem rest_delete_stops_and_frees_witness:
  "\<exists>resp c'. delete_sandbox (demo_gateway no_proxy) demo_service demo_headers (uuid_to_string rfc4122 7)
      (demo_conn\<lparr>ctl_store := demo_assigned\<rparr>) = (resp, c') \<and> rs_status resp = 204 \<and>
    pg_route_of (ctl_store c') (SandboxId 7) = None \<and> length (sent c' 4) = 1"
proof -
  let ?c = "demo_conn\<lparr>ctl_store := demo_assigned\<rparr>"
  have pre: "pg_wf (ctl_store ?c)"
    using demo_assigned_wf by simp
  obtain b c' where run: "mgmt_delete_sandbox rfc4122 (PgStore rfc4122) (uuid_to_string rfc4122 7) ?c = (Inr b, c')"
    using delete_stops_and_frees_witness by blast
  then obtain resp where http: "delete_sandbox (demo_gateway no_proxy) demo_service demo_headers (uuid_to_string rfc4122 7) ?c = (resp, c')"
    "rs_status resp = 204"
    by (simp add: delete_sandbox_def authed_iff demo_key with_sandbox_def parse_sandbox_id_def rfc.parse_to_string respond_def
        grpc_service_def controller_endpoint_def Let_def rpc_def demo_admin SandboxId_to_string_def)
  have "pg_reservation_of demo_assigned (SandboxId 7) \<noteq> None"
    by (simp add: pg_reservation_of_def demo_assigned_def assign_effect_def upsert_reservation_def table_simps)
  with rest_delete_stops_and_frees [OF rfc.uuid_text_axioms demo_gateway_uuid pre http] have
    "pg_route_of (ctl_store c') (SandboxId 7) = None \<and> length (sent c' 4) = 1"
    by (auto simp: rfc.parse_to_string demo_conn_def demo_ctl_def table_simps split: if_splits)
  with http show ?thesis by blast
qed

text \<open>With storage available, a refused transition of a routed sandbox is the controller's \<open>INVALID_STATE\<close>.\<close>

lemma guarded_refusal_error:
  assumes "pg_healthy (ctl_store c)" "tbl_get (routing_entries (db (ctl_store c))) (sandbox_uuid sid) \<noteq> None"
    and "tbl_get (sandboxes (db (ctl_store c))) (sandbox_uuid sid) = Some row"
    and "\<And>e c1. act e (Some \<lparr> ss_state = sr_state row, ss_error = sr_error row \<rparr>) c1 = (Inl st, c1)"
  shows "fst (bind_op (status_err (on_store (pg_find_routing_entry sid))) (\<lambda>entry.
        case entry of None \<Rightarrow> err_op nf
        | Some e \<Rightarrow> bind_op (status_err (on_store (pg_get_sandbox_state sid))) (act e)) c) = Inl st"
  using assms
  by (auto simp: bind_op_def status_err_def on_store_def pg_find_routing_entry_def pg_get_sandbox_state_def sql_healthy
      split: prod.splits sum.splits)

text \<open>A management call that is refused changes nothing, and its handler answers with the error.\<close>

lemma refused_transition:
  assumes "gw_uuid G = U" "uuid_parse_str U sid = Some u"
    and m: "case m c of (r, c') \<Rightarrow> \<not> is_ok r \<and> sent c' = sent c \<and> db (ctl_store c') = db (ctl_store c)"
    and e: "pg_healthy (ctl_store c) \<Longrightarrow> pg_route_of (ctl_store c) (SandboxId u) \<noteq> None \<Longrightarrow>
        fst (m c) = Inl (status_with_invalid_state msg)"
  shows "case authed G headers (with_sandbox G sid (\<lambda>s. respond G f (rpc (management_call to_str token hdr m) h))) c of (resp, c') \<Rightarrow>
      400 \<le> rs_status resp \<and> sent c' = sent c \<and> db (ctl_store c') = db (ctl_store c) \<and>
      (bearer_header (gw_to_str G) headers = Some (gw_api_key G) \<and> admin_auth_call to_str token hdr = Inr () \<and>
       pg_healthy (ctl_store c) \<and> pg_route_of (ctl_store c) (SandboxId u) \<noteq> None \<longrightarrow>
       resp = error_response 409 ''INVALID_STATE'' (''invalid state transition: '' @ msg))"
proof -
  obtain st cm where mc: "m c = (Inl st, cm)" "sent cm = sent c" "db (ctl_store cm) = db (ctl_store c)"
    using m by (cases "m c"; cases "fst (m c)") auto
  then obtain r c' where run: "management_call to_str token hdr m c = (Inl r, c')"
    and fr: "sent c' = sent c" "db (ctl_store c') = db (ctl_store c)" and r: "admin_auth_call to_str token hdr = Inr () \<Longrightarrow> r = st"
    by (cases "admin_auth_call to_str token hdr") (simp_all add: management_call_def ok_op_simps)
  have er: "r = status_with_invalid_state msg" if "admin_auth_call to_str token hdr = Inr ()" "pg_healthy (ctl_store c)"
    "pg_route_of (ctl_store c) (SandboxId u) \<noteq> None"
    using e [OF that(2,3)] r [OF that(1)] mc by simp
  show ?thesis
  proof (cases "bearer_header (gw_to_str G) headers = Some (gw_api_key G)")
    case True
    have "authed G headers (with_sandbox G sid (\<lambda>s. respond G f (rpc (management_call to_str token hdr m) h))) c =
        (api_error_response (gw_dbg G) (grpc_to_api r), c')"
      using True run assms(1,2) by (simp add: authed_iff with_sandbox_def parse_sandbox_id_def respond_def rpc_def)
    moreover have "api_error_response (gw_dbg G) (grpc_to_api (status_with_invalid_state msg)) =
        error_response 409 ''INVALID_STATE'' (''invalid state transition: '' @ msg)"
      by (simp add: grpc_to_api_def status_with_invalid_state_def status_def code_to_api_def api_error_response_def Let_def
          error_response_def)
    ultimately show ?thesis
      using fr er error_not_success by auto
  qed (simp add: authed_iff unauthorized_response_def error_response_def json_response_def)
qed

text \<open>A pause that makes no sense is a conflict. If the recorded state of the sandbox is none of
  \<open>running\<close>, \<open>pausing\<close>, \<open>paused\<close>, then \<open>POST .../pause\<close> answers with an error, no command is sent and the
  database stays as it was; and for an authorised request about a routed sandbox, with storage
  available, the error is 409 with the code \<open>INVALID_STATE\<close> and the state in its message. Likewise for
  \<open>POST .../unpause\<close> outside \<open>paused\<close>, \<open>unpausing\<close>, \<open>running\<close>.\<close>

lemma rest_pause_conflict:
  assumes "uuid_text U" "gw_uuid G = U" "uuid_parse_str U sid = Some u" "tbl_get (sandboxes (db (ctl_store c))) u = Some row"
  shows "(sr_state row \<notin> {''running'', ''pausing'', ''paused''} \<longrightarrow>
      (case pause_sandbox G (controller_service U me atok to_str token fresh) headers sid c of (resp, c') \<Rightarrow>
        400 \<le> rs_status resp \<and> sent c' = sent c \<and> db (ctl_store c') = db (ctl_store c) \<and>
        (bearer_header (gw_to_str G) headers = Some (gw_api_key G) \<and> admin_auth_call to_str token (admin_metadata me atok) = Inr () \<and>
         pg_healthy (ctl_store c) \<and> pg_route_of (ctl_store c) (SandboxId u) \<noteq> None \<longrightarrow>
         resp = error_response 409 ''INVALID_STATE'' (''invalid state transition: '' @ ''cannot pause sandbox in state '' @
           [CHR 0x27] @ sr_state row @ [CHR 0x27])))) \<and>
    (sr_state row \<notin> {''paused'', ''unpausing'', ''running''} \<longrightarrow>
      (case unpause_sandbox G (controller_service U me atok to_str token fresh) headers sid c of (resp, c') \<Rightarrow>
        400 \<le> rs_status resp \<and> sent c' = sent c \<and> db (ctl_store c') = db (ctl_store c) \<and>
        (bearer_header (gw_to_str G) headers = Some (gw_api_key G) \<and> admin_auth_call to_str token (admin_metadata me atok) = Inr () \<and>
         pg_healthy (ctl_store c) \<and> pg_route_of (ctl_store c) (SandboxId u) \<noteq> None \<longrightarrow>
         resp = error_response 409 ''INVALID_STATE'' (''invalid state transition: '' @ ''cannot unpause sandbox in state '' @
           [CHR 0x27] @ sr_state row @ [CHR 0x27]))))"
proof (intro conjI impI)
  let ?str = "SandboxId_to_string U (SandboxId u)"
  have parse: "uuid_parse_str U ?str = Some u"
    using uuid_text.parse_to_string [OF assms(1)] by (simp add: SandboxId_to_string_def)
  note pre = pause_precondition [OF parse assms(4)]
  have sb: "with_sandbox G sid k = k (SandboxId u)" for k :: "SandboxId \<Rightarrow> pg ctl \<Rightarrow> Response \<times> pg ctl"
    using assms(2,3) by (intro ext) (simp add: with_sandbox_def parse_sandbox_id_def)
  note handler = refused_transition [OF assms(2,3), unfolded sb]
  show "case pause_sandbox G (controller_service U me atok to_str token fresh) headers sid c of (resp, c') \<Rightarrow>
        400 \<le> rs_status resp \<and> sent c' = sent c \<and> db (ctl_store c') = db (ctl_store c) \<and>
        (bearer_header (gw_to_str G) headers = Some (gw_api_key G) \<and> admin_auth_call to_str token (admin_metadata me atok) = Inr () \<and>
         pg_healthy (ctl_store c) \<and> pg_route_of (ctl_store c) (SandboxId u) \<noteq> None \<longrightarrow>
         resp = error_response 409 ''INVALID_STATE'' (''invalid state transition: '' @ ''cannot pause sandbox in state '' @
           [CHR 0x27] @ sr_state row @ [CHR 0x27]))"
    if st: "sr_state row \<notin> {''running'', ''pausing'', ''paused''}"
    unfolding pause_sandbox_def grpc_service_def controller_endpoint_def Let_def SandboxService.simps mgmt_client.simps sb
  proof (rule handler)
    show "fst (mgmt_pause_sandbox U (PgStore U) ?str c) =
        Inl (status_with_invalid_state (''cannot pause sandbox in state '' @ [CHR 0x27] @ sr_state row @ [CHR 0x27]))"
      if "pg_healthy (ctl_store c)" "pg_route_of (ctl_store c) (SandboxId u) \<noteq> None"
      unfolding mgmt_pause_sandbox_def parse_id_def parse option.map ok_or_simps sum.case PgStore_simps
      by (rule guarded_refusal_error) (use st assms(4) that in \<open>auto simp: Let_def ok_op_simps pg_route_of_def\<close>)
  qed (rule pre [THEN conjunct1, THEN mp, OF st])
  show "case unpause_sandbox G (controller_service U me atok to_str token fresh) headers sid c of (resp, c') \<Rightarrow>
        400 \<le> rs_status resp \<and> sent c' = sent c \<and> db (ctl_store c') = db (ctl_store c) \<and>
        (bearer_header (gw_to_str G) headers = Some (gw_api_key G) \<and> admin_auth_call to_str token (admin_metadata me atok) = Inr () \<and>
         pg_healthy (ctl_store c) \<and> pg_route_of (ctl_store c) (SandboxId u) \<noteq> None \<longrightarrow>
         resp = error_response 409 ''INVALID_STATE'' (''invalid state transition: '' @ ''cannot unpause sandbox in state '' @
           [CHR 0x27] @ sr_state row @ [CHR 0x27]))"
    if st: "sr_state row \<notin> {''paused'', ''unpausing'', ''running''}"
    unfolding unpause_sandbox_def grpc_service_def controller_endpoint_def Let_def SandboxService.simps mgmt_client.simps sb
  proof (rule handler)
    show "fst (mgmt_unpause_sandbox U (PgStore U) ?str c) =
        Inl (status_with_invalid_state (''cannot unpause sandbox in state '' @ [CHR 0x27] @ sr_state row @ [CHR 0x27]))"
      if "pg_healthy (ctl_store c)" "pg_route_of (ctl_store c) (SandboxId u) \<noteq> None"
      unfolding mgmt_unpause_sandbox_def parse_id_def parse option.map ok_or_simps sum.case PgStore_simps
      by (rule guarded_refusal_error) (use st assms(4) that in \<open>auto simp: Let_def ok_op_simps pg_route_of_def\<close>)
  qed (rule pre [THEN conjunct2, THEN mp, OF st])
qed

lemma rest_pause_conflict_witness:
  "fst (pause_sandbox (demo_gateway no_proxy) demo_service demo_headers (uuid_to_string rfc4122 7) demo_ctl2) =
     error_response 409 ''INVALID_STATE'' (''invalid state transition: '' @ ''cannot pause sandbox in state '' @
       [CHR 0x27] @ ''reserved'' @ [CHR 0x27])"
proof -
  have row: "tbl_get (sandboxes (db (ctl_store demo_ctl2))) 7 =
      Some \<lparr> sr_agent_id = 1, sr_state = ''reserved'', sr_error = None, sr_cpu_millicores = 500, sr_memory_bytes = 1024 \<rparr>"
    by (simp add: demo_ctl2_def demo_assigned_def assign_effect_def upsert_reservation_def table_simps
        demo_registered_def empty_db_def)
  have "admin_auth_call Some ''admin'' (admin_metadata (\<lambda>_. None) (Some ''admin'')) = Inr ()"
    by (simp add: admin_metadata_def admin_auth_call_def strip_prefix_def starts_with_def constant_time_eq_iff)
  moreover have "pg_healthy (ctl_store demo_ctl2)" "pg_route_of (ctl_store demo_ctl2) (SandboxId 7) \<noteq> None"
    using demo_route by (simp_all add: demo_ctl2_def demo_assigned_def demo_start_def pg_healthy_def)
  ultimately show ?thesis
    using rest_pause_conflict [OF rfc.uuid_text_axioms demo_gateway_uuid [of no_proxy] rfc.parse_to_string row,
        where me = "\<lambda>_. None" and atok = "Some ''admin''" and to_str = Some and token = "''admin''" and fresh = "SandboxId 7"
          and headers = demo_headers] demo_key [of no_proxy]
    by (auto split: prod.splits)
qed

end
