(* ===== verification/Api_Ws.thy ===== *)
theory Api_Ws
  imports Api_Lifecycle
begin

text \<open>
  The gateway's WebSocket endpoints (\<open>api/src/ws_exec.rs\<close>, \<open>api/src/ws_read_file.rs\<close>) and the routes
  (\<open>api/src/router.rs\<close>).

  A socket is the messages its peer accepts and how many more it takes before it is gone (\<open>None\<close>: it
  stays). An exec session has two tasks, the reader of the socket and the loop that writes to it; a
  run is a list of events, one step of one task each, in any order.
\<close>

section \<open>Sockets\<close>

record socket =
  sk_out :: "ws_message list"
  sk_left :: "nat option"

definition socket_send :: "ws_message \<Rightarrow> socket \<Rightarrow> bool \<times> socket" where
  "socket_send m s =
    (let s' = s\<lparr>sk_out := sk_out s @ [m]\<rparr> in
     case sk_left s of
       None \<Rightarrow> (True, s')
     | Some 0 \<Rightarrow> (False, s)
     | Some (Suc n) \<Rightarrow> (True, s'\<lparr>sk_left := Some n\<rparr>))"

definition send_close :: "u16 \<Rightarrow> string \<Rightarrow> socket \<Rightarrow> socket" where
  "send_close code reason s = snd (socket_send (WsClose (Some (code, reason))) s)"

section \<open>Reading a file (ws\_read\_file.rs)\<close>

definition build_start :: "uuid_lib \<Rightarrow> SandboxId \<Rightarrow> string \<Rightarrow> string \<Rightarrow> IoStart" where
  "build_start U sandbox_id path cwd =
    \<lparr> st_sandbox_id = SandboxId_to_string U sandbox_id, st_params = Some (ReadFile path cwd) \<rparr>"

fun close_for_api_error :: "(string \<Rightarrow> string) \<Rightarrow> ApiError \<Rightarrow> u16 \<times> string" where
  "close_for_api_error dbg (ApiError.FileNotFound p) = (4404, ''FILE_NOT_FOUND: '' @ p)"
| "close_for_api_error dbg (ApiError.SandboxGone s) = (4404, ''SANDBOX_GONE: '' @ s)"
| "close_for_api_error dbg (ProxyUnavailable d) = (4503, ApiError_to_string dbg (ProxyUnavailable d))"
| "close_for_api_error dbg (ApiError.RevisionMismatch r) = (4409, ''REVISION_MISMATCH: '' @ r)"
| "close_for_api_error dbg (ApiError.NotImplemented d) = (4501, ''NOT_IMPLEMENTED: '' @ d)"
| "close_for_api_error dbg (ApiError.DirectoryNotEmpty d) = (4409, ''DIRECTORY_NOT_EMPTY: '' @ d)"
| "close_for_api_error dbg e = (4500, ApiError_to_string dbg e)"

definition close_with :: "(string \<Rightarrow> string) \<Rightarrow> ApiError \<Rightarrow> socket \<Rightarrow> socket" where
  "close_with dbg e s = (case close_for_api_error dbg e of (code, reason) \<Rightarrow> send_close code reason s)"

text \<open>\<open>render\<close> is the text of a JSON value.\<close>

definition meta_json :: "string \<Rightarrow> u64 \<Rightarrow> json" where
  "meta_json rv sz = JObject [(''revision'', JString rv), (''size'', JNumber (unat sz))]"

fun read_pump :: "(string \<Rightarrow> string) \<Rightarrow> (json \<Rightarrow> string) \<Rightarrow> (ApiError + IoServerFrame) list \<Rightarrow> socket \<Rightarrow> socket" where
  "read_pump dbg render [] s = send_close 4503 ''proxy stream ended without terminal frame'' s"
| "read_pump dbg render (Inl e # fs) s = close_with dbg e s"
| "read_pump dbg render (Inr f # fs) s = (case sf_payload f of
      Some (Stdout chunk) \<Rightarrow> (case socket_send (WsBinary chunk) s of
          (False, s') \<Rightarrow> s'
        | (True, s') \<Rightarrow> read_pump dbg render fs s')
    | Some (FileMeta rv sz) \<Rightarrow> (case socket_send (WsText (render (meta_json rv sz))) s of
          (False, s') \<Rightarrow> s'
        | (True, s') \<Rightarrow> read_pump dbg render fs s')
    | Some (Stderr _) \<Rightarrow> read_pump dbg render fs s
    | Some (Exited code nf) \<Rightarrow>
        if code = 0 then send_close 1000 ''EOF'' s
        else send_close 4500 (''read exited with '' @ show_int code) s
    | Some (IoError code detail) \<Rightarrow> close_with dbg (map_io_error (code, detail)) s
    | _ \<Rightarrow> read_pump dbg render fs s)"

definition read_session ::
    "'p gateway \<Rightarrow> (json \<Rightarrow> string) \<Rightarrow> SandboxId \<Rightarrow> string \<Rightarrow> string \<Rightarrow> socket \<Rightarrow> 'p gateway_net \<Rightarrow> socket \<times> 'p gateway_net" where
  "read_session G render sandbox_id path cwd s g =
    (case gw_open G [start_frame (build_start (gw_uuid G) sandbox_id path cwd)] g of
       (Inl e, g') \<Rightarrow> (close_with (gw_dbg G) e s, g')
     | (Inr fs, g') \<Rightarrow> (read_pump (gw_dbg G) render fs s, g'))"

section \<open>Streaming exec (ws\_exec.rs)\<close>

definition WS_IDLE_PING_TIMEOUT :: duration where "WS_IDLE_PING_TIMEOUT = dur_secs 60"

text \<open>The session: the socket, the frames handed to the proxy, whether the proxy still takes them, and
  whether the reader has ended.\<close>

record ws_session =
  wx_socket :: socket
  wx_client :: "IoClientFrame list"
  wx_proxy_gone :: bool
  wx_recv_done :: bool

text \<open>
  \<open>WIn m\<close>: the reader gets the next thing from the socket (\<open>None\<close>: an error or the end). \<open>WJoin\<close>: the
  loop looks whether the reader has ended. \<open>WFrame f\<close>: the loop gets the next thing from the proxy.
  \<open>WPing d\<close>: the keepalive fires, the last pong being \<open>d\<close> ago.
\<close>

datatype ws_event =
    WIn "ws_message option"
  | WJoin
  | WFrame "(ApiError + IoServerFrame) option"
  | WPing duration

definition ws_recv :: "prost_lib \<Rightarrow> ws_message option \<Rightarrow> ws_session \<Rightarrow> ws_session" where
  "ws_recv P m x =
    (if wx_recv_done x then x
     else (case m of
         None \<Rightarrow> x\<lparr>wx_recv_done := True\<rparr>
       | Some (WsBinary b) \<Rightarrow> (case decode_client P b of
             Inl e \<Rightarrow> x\<lparr>wx_recv_done := True\<rparr>
           | Inr payload \<Rightarrow>
               if wx_proxy_gone x then x\<lparr>wx_recv_done := True\<rparr>
               else x\<lparr>wx_client := wx_client x @ [build_client_frame payload]\<rparr>)
       | Some (WsText t) \<Rightarrow> x\<lparr>wx_recv_done := True\<rparr>
       | Some (WsClose c) \<Rightarrow> x\<lparr>wx_recv_done := True\<rparr>
       | Some WsPong \<Rightarrow> x
       | Some WsPing \<Rightarrow> x))"

definition ws_deliver :: "(string \<Rightarrow> string) \<Rightarrow> prost_lib \<Rightarrow> (ApiError + IoServerFrame) option \<Rightarrow> ws_session \<Rightarrow> bool \<times> ws_session" where
  "ws_deliver dbg P f x = (case f of
      None \<Rightarrow> (False, x)
    | Some (Inl e) \<Rightarrow> (False, x\<lparr>wx_socket := send_close 4500 (ApiError_to_string dbg e) (wx_socket x)\<rparr>)
    | Some (Inr sf) \<Rightarrow> (case encode_server P sf of
          Inl e \<Rightarrow> (False, x)
        | Inr b \<Rightarrow> (case socket_send (WsBinary b) (wx_socket x) of
              (False, s') \<Rightarrow> (False, x\<lparr>wx_socket := s'\<rparr>)
            | (True, s') \<Rightarrow>
                if (case sf_payload sf of None \<Rightarrow> False | Some p \<Rightarrow> is_terminal_frame p)
                then (False, x\<lparr>wx_socket := snd (socket_send (WsClose None) s')\<rparr>)
                else (True, x\<lparr>wx_socket := s'\<rparr>))))"

definition ws_keepalive :: "duration \<Rightarrow> ws_session \<Rightarrow> bool \<times> ws_session" where
  "ws_keepalive elapsed x = (case socket_send WsPing (wx_socket x) of
      (False, s') \<Rightarrow> (False, x\<lparr>wx_socket := s'\<rparr>)
    | (True, s') \<Rightarrow>
        if WS_IDLE_PING_TIMEOUT < elapsed then (False, x\<lparr>wx_socket := send_close 4408 ''ping timeout'' s'\<rparr>)
        else (True, x\<lparr>wx_socket := s'\<rparr>))"

text \<open>One event; false when the loop is left.\<close>

definition ws_step :: "(string \<Rightarrow> string) \<Rightarrow> prost_lib \<Rightarrow> ws_event \<Rightarrow> ws_session \<Rightarrow> bool \<times> ws_session" where
  "ws_step dbg P ev x = (case ev of
      WIn m \<Rightarrow> (True, ws_recv P m x)
    | WJoin \<Rightarrow> (\<not> wx_recv_done x, x)
    | WFrame f \<Rightarrow> ws_deliver dbg P f x
    | WPing d \<Rightarrow> ws_keepalive d x)"

fun pump_ws_session :: "(string \<Rightarrow> string) \<Rightarrow> prost_lib \<Rightarrow> ws_event list \<Rightarrow> ws_session \<Rightarrow> bool \<times> ws_session" where
  "pump_ws_session dbg P [] x = (False, x)"
| "pump_ws_session dbg P (ev # evs) x = (case ws_step dbg P ev x of
      (False, x') \<Rightarrow> (True, x')
    | (True, x') \<Rightarrow> pump_ws_session dbg P evs x')"

text \<open>A session whose stream cannot be opened.\<close>

definition exec_refused :: "(string \<Rightarrow> string) \<Rightarrow> ApiError \<Rightarrow> socket \<Rightarrow> socket" where
  "exec_refused dbg e s = send_close (case e of
      ApiError.SandboxGone _ \<Rightarrow> 4404
    | ProxyUnavailable _ \<Rightarrow> 4503
    | _ \<Rightarrow> 4500) (ApiError_to_string dbg e) s"

section \<open>Upgrades\<close>

datatype ws_target = ExecTarget SandboxId | ReadTarget SandboxId string string

datatype http_result = Respond Response | Upgrade "string option" ws_target

definition ws_gate :: "'p gateway \<Rightarrow> (string \<times> string) list \<Rightarrow> ws_target \<Rightarrow> http_result" where
  "ws_gate G headers target = (case check_ws_auth (gw_to_str G) (gw_b64url G) headers (gw_api_key G) of
      Inl resp \<Rightarrow> Respond resp
    | Inr p \<Rightarrow> Upgrade p target)"

definition ws_exec :: "'p gateway \<Rightarrow> (string \<times> string) list \<Rightarrow> string \<Rightarrow> http_result" where
  "ws_exec G headers sid = (case uuid_parse_str (gw_uuid G) sid of
      None \<Rightarrow> Respond (error_response 400 ''INVALID_REQUEST'' ''invalid sandbox_id'')
    | Some u \<Rightarrow> ws_gate G headers (ExecTarget (SandboxId u)))"

definition ws_read_file :: "'p gateway \<Rightarrow> (string \<times> string) list \<Rightarrow> string \<Rightarrow> ReadFileQuery \<Rightarrow> http_result" where
  "ws_read_file G headers sid q = (case uuid_parse_str (gw_uuid G) sid of
      None \<Rightarrow> Respond (error_response 400 ''INVALID_REQUEST'' ''invalid sandbox_id'')
    | Some u \<Rightarrow>
        if fq_path q = [] then Respond (error_response 400 ''INVALID_REQUEST'' ''path query parameter is required'')
        else (case validate_sandbox_path (fq_path q) of
            Inl msg \<Rightarrow> Respond (error_response 400 ''INVALID_REQUEST'' msg)
          | Inr _ \<Rightarrow>
              (case (case fq_cwd q of
                   Some cwd \<Rightarrow> if cwd \<noteq> [] then validate_sandbox_path cwd else Inr ()
                 | None \<Rightarrow> Inr ()) of
                 Inl msg \<Rightarrow> Respond (error_response 400 ''INVALID_REQUEST'' msg)
               | Inr _ \<Rightarrow> ws_gate G headers (ReadTarget (SandboxId u) (fq_path q) (unwrap_or_default (fq_cwd q))))))"

section \<open>What the client library reads\<close>

text \<open>The loops of a caller: frames until the session ends, chunks until the end of the file.\<close>

lemma next_frame_shorter: "next_frame P ms = (Inr (Some f), ms') \<Longrightarrow> length ms' < length ms"
  by (induction P ms rule: next_frame.induct) (auto split: sum.splits)

lemma next_chunk_shorter: "next_chunk ok ms = (Inr (Some b), ok', ms') \<Longrightarrow> length ms' < length ms"
  by (induction ok ms rule: next_chunk.induct) (auto split: sum.splits option.splits if_splits)

function read_frames :: "prost_lib \<Rightarrow> (WsClientError + ws_message) list \<Rightarrow> ServerFrame list" where
  "read_frames P ms = (case next_frame P ms of
      (Inr (Some f), ms') \<Rightarrow> f # read_frames P ms'
    | _ \<Rightarrow> [])"
  by auto
termination
  by (relation "measure (\<lambda>(P, ms). length ms)") (auto dest: next_frame_shorter [OF sym])

function read_chunks :: "bytes \<Rightarrow> bool \<Rightarrow> (WsClientError + ws_message) list \<Rightarrow> WsClientError + bytes" where
  "read_chunks buf ok ms = (case next_chunk ok ms of
      (Inr (Some b), ok', ms') \<Rightarrow> read_chunks (buf @ b) ok' ms'
    | (Inr None, _) \<Rightarrow> Inr buf
    | (Inl e, _) \<Rightarrow> Inl e)"
  by auto
termination
  by (relation "measure (\<lambda>(buf, ok, ms). length ms)") (auto dest: next_chunk_shorter [OF sym])

declare read_frames.simps [simp del] read_chunks.simps [simp del]

lemma read_chunks_simps [simp]:
  "read_chunks buf ok (Inr (WsBinary b) # ms) = read_chunks (buf @ b) ok ms"
  "read_chunks buf ok (Inr (WsText t) # ms) = Inl (WsProtocol ''received text frame; expected binary'')"
  "read_chunks buf ok (Inr (WsClose (Some (code, reason))) # ms) =
     (if code = 1000 then Inr buf
      else Inl (WsProtocol (''server closed with code '' @ show_nat (unat code) @ '' reason: '' @ reason)))"
  by (simp_all add: read_chunks.simps)

definition fresh_socket :: socket where
  "fresh_socket = \<lparr> sk_out = [], sk_left = None \<rparr>"

definition server_frames :: "string \<Rightarrow> IoServerPayload list \<Rightarrow> (ApiError + IoServerFrame) list" where
  "server_frames sid ps = map (\<lambda>p. Inr \<lparr> sf_stream_id = sid, sf_payload = Some p \<rparr>) ps"

lemma read_pump_stdout:
  "sk_left s = None \<Longrightarrow> read_pump dbg render (server_frames sid (map Stdout bs @ ps)) s =
     read_pump dbg render (server_frames sid ps) (s\<lparr>sk_out := sk_out s @ map WsBinary bs\<rparr>)"
proof (induction bs arbitrary: s)
  case (Cons b bs)
  from Cons.IH [of "s\<lparr>sk_out := sk_out s @ [WsBinary b]\<rparr>"] Cons.prems show ?case
    by (simp add: server_frames_def socket_send_def Let_def)
qed (simp add: server_frames_def)

lemma read_chunks_binary: "read_chunks buf ok (map Inr (map WsBinary bs) @ ms) = read_chunks (buf @ concat bs) ok ms"
  by (induction bs arbitrary: buf) simp_all

text \<open>C13. A streamed read and its client. When an agent's read session yields a file in any number of chunks
  and ends cleanly, the client library returns exactly the file; a refused read reaches it as an error that
  carries the close code; but if the session carries the revision of the file first, which the gateway
  turns into a text message, the client library fails on that message and returns nothing of the file.\<close>

theorem read_stream_client:
  "read_chunks [] False (map Inr (sk_out (read_pump dbg render (server_frames sid (map Stdout bs @ [Exited 0 nf])) fresh_socket))) =
     Inr (concat bs) \<and>
   read_chunks [] False (map Inr (sk_out (read_pump dbg render (server_frames sid [IoError ''FILE_NOT_FOUND'' d]) fresh_socket))) =
     Inl (WsProtocol (''server closed with code 4404 reason: FILE_NOT_FOUND: '' @ d)) \<and>
   read_chunks [] False (map Inr (sk_out (read_pump dbg render
       (server_frames sid (FileMeta rv sz # map Stdout bs @ [Exited 0 nf])) fresh_socket))) =
     Inl (WsProtocol ''received text frame; expected binary'')"
proof (intro conjI)
  note simps = fresh_socket_def server_frames_def socket_send_def send_close_def close_with_def
  have end1: "sk_out (read_pump dbg render (server_frames sid [Exited 0 nf]) s) = sk_out s @ [WsClose (Some (1000, ''EOF''))]"
    if "sk_left s = None" for s
    using that by (simp add: simps Let_def)
  show "read_chunks [] False (map Inr (sk_out (read_pump dbg render (server_frames sid (map Stdout bs @ [Exited 0 nf])) fresh_socket))) =
      Inr (concat bs)"
    by (simp add: read_pump_stdout end1 read_chunks_binary fresh_socket_def del: map_map)
  have four: "show_nat 4404 = ''4404''"
    by (simp add: show_nat.simps digit_char_def) code_simp
  show "read_chunks [] False (map Inr (sk_out (read_pump dbg render (server_frames sid [IoError ''FILE_NOT_FOUND'' d]) fresh_socket))) =
      Inl (WsProtocol (''server closed with code 4404 reason: FILE_NOT_FOUND: '' @ d))"
    by (simp add: simps Let_def IoErrorCode_from_str_def four)
  show "read_chunks [] False (map Inr (sk_out (read_pump dbg render
       (server_frames sid (FileMeta rv sz # map Stdout bs @ [Exited 0 nf])) fresh_socket))) =
      Inl (WsProtocol ''received text frame; expected binary'')"
  proof -
    let ?s = "\<lparr> sk_out = [WsText (render (meta_json rv sz))], sk_left = None \<rparr>"
    have "read_pump dbg render (server_frames sid (FileMeta rv sz # map Stdout bs @ [Exited 0 nf])) fresh_socket =
        read_pump dbg render (server_frames sid (map Stdout bs @ [Exited 0 nf])) ?s"
      by (simp add: simps Let_def)
    then show ?thesis
      by (simp add: read_pump_stdout end1 del: map_map)
  qed
qed

section \<open>What an exec session relays\<close>

text \<open>The payloads the reader takes from what the socket yields: those before the first thing that ends it.\<close>

fun client_payloads :: "prost_lib \<Rightarrow> ws_message option list \<Rightarrow> IoClientPayload list" where
  "client_payloads P [] = []"
| "client_payloads P (m # ms) = (case m of
      Some (WsBinary b) \<Rightarrow> (case decode_client P b of Inl _ \<Rightarrow> [] | Inr p \<Rightarrow> p # client_payloads P ms)
    | Some WsPing \<Rightarrow> client_payloads P ms
    | Some WsPong \<Rightarrow> client_payloads P ms
    | _ \<Rightarrow> [])"

definition ws_inputs :: "ws_event list \<Rightarrow> ws_message option list" where
  "ws_inputs evs = List.map_filter (\<lambda>ev. case ev of WIn m \<Rightarrow> Some m | _ \<Rightarrow> None) evs"

definition proxy_frames :: "ws_event list \<Rightarrow> IoServerPayload list" where
  "proxy_frames evs = List.map_filter (\<lambda>ev. case ev of WFrame (Some (Inr f)) \<Rightarrow> sf_payload f | _ \<Rightarrow> None) evs"

text \<open>Messages that leave the client reading: pings and frames it can decode.\<close>

definition ws_decoded :: "prost_lib \<Rightarrow> ws_message \<Rightarrow> ServerFrame list" where
  "ws_decoded P m = (case m of WsBinary b \<Rightarrow> (case ws_decode_server P b of Inl _ \<Rightarrow> [] | Inr f \<Rightarrow> [f]) | _ \<Rightarrow> [])"

definition keeps_reading :: "prost_lib \<Rightarrow> ws_message \<Rightarrow> bool" where
  "keeps_reading P m \<longleftrightarrow> m = WsPing \<or> (\<exists>b f. m = WsBinary b \<and> ws_decode_server P b = Inr f)"

lemma read_frames_append:
  "\<forall>m\<in>set ms. keeps_reading P m \<Longrightarrow> read_frames P (map Inr ms @ rest) = concat (map (ws_decoded P) ms) @ read_frames P rest"
proof (induction ms)
  case (Cons m ms)
  then show ?case
    by (auto simp: keeps_reading_def ws_decoded_def read_frames.simps [of P "Inr m # _"]
        read_frames.simps [of P "map Inr ms @ rest"])
qed simp

lemma read_frames_end: "read_frames P [] = []" "read_frames P (Inr (WsClose c) # ms) = []"
  by (simp_all add: read_frames.simps)

text \<open>\<open>relayed\<close>: the socket's messages so far read as the frames of exactly \<open>ps\<close>; \<open>running\<close>: and they leave the
  client reading.\<close>

definition relayed :: "prost_lib \<Rightarrow> IoServerPayload list \<Rightarrow> socket \<Rightarrow> bool" where
  "relayed P ps s \<longleftrightarrow> read_frames P (map Inr (sk_out s)) = map server_frame ps"

definition running :: "prost_lib \<Rightarrow> IoServerPayload list \<Rightarrow> socket \<Rightarrow> bool" where
  "running P ps s \<longleftrightarrow> sk_left s = None \<and> (\<forall>m\<in>set (sk_out s). keeps_reading P m) \<and>
     concat (map (ws_decoded P) (sk_out s)) = map server_frame ps"

lemma running_relayed: "running P ps s \<Longrightarrow> relayed P ps s"
  using read_frames_append [of "sk_out s" P "[]"] by (simp add: running_def relayed_def read_frames_end)

lemma running_send: "running P ps s \<Longrightarrow> socket_send m s = (ok, s') \<Longrightarrow>
    ok \<and> s' = s\<lparr>sk_out := sk_out s @ [m]\<rparr>"
  by (simp add: running_def socket_send_def Let_def)

lemma running_close: "running P ps s \<Longrightarrow> relayed P ps (snd (socket_send (WsClose c) s))"
  using read_frames_append [of "sk_out s" P "[Inr (WsClose c)]"]
  by (auto simp: running_def relayed_def socket_send_def Let_def read_frames_end)

lemma running_ping: "running P ps s \<Longrightarrow> running P ps (s\<lparr>sk_out := sk_out s @ [WsPing]\<rparr>)"
  by (simp add: running_def keeps_reading_def ws_decoded_def)

lemma running_frame:
  "running P ps s \<Longrightarrow> ws_decode_server P b = Inr (server_frame p) \<Longrightarrow> running P (ps @ [p]) (s\<lparr>sk_out := sk_out s @ [WsBinary b]\<rparr>)"
  by (simp add: running_def keeps_reading_def ws_decoded_def)

lemma ws_keepalive_relays:
  assumes "running P ps (wx_socket x)" "ws_keepalive d x = (go, x')"
  shows "wx_client x' = wx_client x \<and> wx_recv_done x' = wx_recv_done x \<and> wx_proxy_gone x' = wx_proxy_gone x \<and>
    relayed P ps (wx_socket x') \<and> (go \<longrightarrow> running P ps (wx_socket x'))"
  using assms running_ping [OF assms(1)] running_close [OF running_ping [OF assms(1)]] running_send [OF assms(1)]
    running_relayed [OF running_ping [OF assms(1)]]
  by (auto simp: ws_keepalive_def send_close_def split: prod.splits bool.splits if_splits)

lemma ws_deliver_relays:
  assumes "prost_ok P" "running P ps (wx_socket x)" "\<forall>p\<in>set ps. \<not> is_terminal_frame p" "ws_deliver dbg P f x = (go, x')"
  shows "wx_client x' = wx_client x \<and> wx_recv_done x' = wx_recv_done x \<and> wx_proxy_gone x' = wx_proxy_gone x \<and>
    (\<exists>qs. (qs = [] \<or> qs = proxy_frames [WFrame f]) \<and> relayed P (ps @ qs) (wx_socket x') \<and>
      (go \<longrightarrow> qs = proxy_frames [WFrame f] \<and> running P (ps @ qs) (wx_socket x') \<and> (\<forall>q\<in>set qs. \<not> is_terminal_frame q)) \<and>
      ((\<exists>q\<in>set qs. is_terminal_frame q) \<longrightarrow> \<not> go))"
proof (cases "\<exists>sf b. f = Some (Inr sf) \<and> encode_server P sf = Inr b")
  case True
  then obtain sf b where f: "f = Some (Inr sf)" "encode_server P sf = Inr b" by blast
  from encode_server_decodes [OF assms(1) f(2)] obtain p where p: "sf_payload sf = Some p"
    "ws_decode_server P b = Inr (server_frame p)" by blast
  note r = running_frame [OF assms(2) p(2)]
  have send: "socket_send (WsBinary b) (wx_socket x) = (True, (wx_socket x)\<lparr>sk_out := sk_out (wx_socket x) @ [WsBinary b]\<rparr>)"
    using assms(2) by (simp add: running_def socket_send_def Let_def)
  have q: "proxy_frames [WFrame f] = [p]" by (simp add: proxy_frames_def f p List.map_filter_def)
  show ?thesis
    using assms(4) f p send q running_close [OF r] running_relayed [OF r] r
    by (auto simp: ws_deliver_def intro!: exI [of _ "[p]"] split: if_splits)
next
  case False
  then show ?thesis
    using assms(2,4) running_relayed [OF assms(2)] running_close [OF assms(2)]
    by (auto simp: ws_deliver_def send_close_def intro!: exI [of _ "[]"] split: option.splits sum.splits)
qed

text \<open>\<open>handed lost cs ds\<close>: all of \<open>ds\<close> has been handed on, or only a part when the receiver may be gone.\<close>

definition handed :: "bool \<Rightarrow> 'a list \<Rightarrow> 'a list \<Rightarrow> bool" where
  "handed lost cs ds \<longleftrightarrow> prefix cs ds \<and> (\<not> lost \<longrightarrow> cs = ds)"

lemma handed_refl: "handed lost cs cs"
  by (simp add: handed_def)

lemma handed_prefix: "handed lost (cs @ cs') ds \<Longrightarrow> handed lost' cs'' cs' \<Longrightarrow> prefix (cs @ cs'') ds"
  by (auto simp: handed_def prefix_def)

lemma handed_trans: "handed lost (cs @ cs') ds \<Longrightarrow> handed lost cs'' cs' \<Longrightarrow> handed lost (cs @ cs'') ds"
  by (auto simp: handed_def prefix_def)

lemma ws_recv_relays:
  "wx_socket (ws_recv P m x) = wx_socket x" "wx_proxy_gone (ws_recv P m x) = wx_proxy_gone x"
  "\<exists>cs. wx_client (ws_recv P m x) = wx_client x @ map build_client_frame cs \<and>
     (\<forall>ms. handed (wx_proxy_gone x) (cs @ (if wx_recv_done (ws_recv P m x) then [] else client_payloads P ms))
       (if wx_recv_done x then [] else client_payloads P (m # ms)))"
  by (auto simp: ws_recv_def handed_def split: option.splits ws_message.splits sum.splits if_splits
      intro: exI [of _ "[]"] exI [of _ "[_]"])

lemma event_lists:
  "ws_inputs (ev # evs) = (case ev of WIn m \<Rightarrow> m # ws_inputs evs | _ \<Rightarrow> ws_inputs evs)"
  "proxy_frames (ev # evs) = proxy_frames [ev] @ proxy_frames evs"
  by (auto simp: ws_inputs_def proxy_frames_def List.map_filter_def split: ws_event.splits option.splits sum.splits)

lemma ws_step_relays:
  assumes "prost_ok P" "running P ps (wx_socket x)" "\<forall>p\<in>set ps. \<not> is_terminal_frame p" "ws_step dbg P ev x = (go, x')"
  shows "(\<exists>cs. wx_client x' = wx_client x @ map build_client_frame cs \<and>
      (\<forall>evs. handed (wx_proxy_gone x) (cs @ (if wx_recv_done x' then [] else client_payloads P (ws_inputs evs)))
        (if wx_recv_done x then [] else client_payloads P (ws_inputs (ev # evs))))) \<and>
    wx_proxy_gone x' = wx_proxy_gone x \<and>
    (\<exists>qs. (qs = [] \<or> qs = proxy_frames [ev]) \<and> relayed P (ps @ qs) (wx_socket x') \<and>
      (go \<longrightarrow> qs = proxy_frames [ev] \<and> running P (ps @ qs) (wx_socket x') \<and> (\<forall>q\<in>set qs. \<not> is_terminal_frame q)) \<and>
      ((\<exists>q\<in>set qs. is_terminal_frame q) \<longrightarrow> \<not> go))"
proof (cases ev)
  case (WIn m)
  with assms(4) have x': "x' = ws_recv P m x" "go" by (auto simp: ws_step_def)
  have none: "proxy_frames [ev] = []" by (simp add: WIn proxy_frames_def List.map_filter_def)
  obtain cs where cs: "wx_client x' = wx_client x @ map build_client_frame cs"
    "\<And>ms. handed (wx_proxy_gone x) (cs @ (if wx_recv_done x' then [] else client_payloads P ms)) (if wx_recv_done x then [] else client_payloads P (m # ms))"
    using ws_recv_relays(3) [where P = P and m = m and x = x] unfolding x'(1) by blast
  then have "wx_client x' = wx_client x @ map build_client_frame cs \<and>
    (\<forall>evs. handed (wx_proxy_gone x) (cs @ (if wx_recv_done x' then [] else client_payloads P (ws_inputs evs)))
       (if wx_recv_done x then [] else client_payloads P (ws_inputs (ev # evs))))"
    unfolding event_lists(1) WIn ws_event.case by blast
  moreover have "wx_socket x' = wx_socket x" "wx_proxy_gone x' = wx_proxy_gone x" by (simp_all add: x' ws_recv_relays(1,2))
  ultimately show ?thesis
    using assms(2) running_relayed [OF assms(2)] none by auto
next
  case WJoin
  with assms show ?thesis
    by (auto simp: ws_step_def event_lists(1) proxy_frames_def List.map_filter_def running_relayed handed_refl)
next
  case (WFrame f)
  with assms(4) have "ws_deliver dbg P f x = (go, x')" by (simp add: ws_step_def)
  from ws_deliver_relays [OF assms(1-3) this] show ?thesis
    by (auto simp: WFrame event_lists(1) handed_refl)
next
  case (WPing d)
  with assms(4) have "ws_keepalive d x = (go, x')" by (simp add: ws_step_def)
  from ws_keepalive_relays [OF assms(2) this] show ?thesis
    by (auto simp: WPing event_lists(1) proxy_frames_def List.map_filter_def handed_refl)
qed

lemma pump_ws_relays:
  assumes "prost_ok P"
  shows "running P ps (wx_socket x) \<Longrightarrow> \<forall>p\<in>set ps. \<not> is_terminal_frame p \<Longrightarrow> pump_ws_session dbg P evs x = (e, x') \<Longrightarrow>
    (\<exists>cs. wx_client x' = wx_client x @ map build_client_frame cs \<and>
      handed (wx_proxy_gone x \<or> e) cs (if wx_recv_done x then [] else client_payloads P (ws_inputs evs))) \<and>
    (\<exists>qs. handed e qs (proxy_frames evs) \<and> relayed P (ps @ qs) (wx_socket x') \<and>
      ((\<exists>q\<in>set qs. is_terminal_frame q) \<longrightarrow> e) \<and> (\<forall>q\<in>set (butlast qs). \<not> is_terminal_frame q))"
proof (induction evs arbitrary: ps x)
  case Nil
  then have x': "x' = x" by simp
  show ?case
    unfolding x' by (intro conjI exI [of _ "[]"])
      (use running_relayed [OF Nil.prems(1)] in \<open>simp_all add: ws_inputs_def proxy_frames_def List.map_filter_def handed_refl\<close>)
next
  case (Cons ev evs)
  obtain go x1 where st: "ws_step dbg P ev x = (go, x1)" by fastforce
  note step = ws_step_relays [OF assms Cons.prems(1,2) st]
  from conjunct1 [OF step] obtain cs where cs: "wx_client x1 = wx_client x @ map build_client_frame cs"
      "\<And>evs. handed (wx_proxy_gone x) (cs @ (if wx_recv_done x1 then [] else client_payloads P (ws_inputs evs)))
        (if wx_recv_done x then [] else client_payloads P (ws_inputs (ev # evs)))"
    by blast
  from step have gone: "wx_proxy_gone x1 = wx_proxy_gone x" by blast
  from conjunct2 [OF conjunct2 [OF step]] obtain qs where qs: "qs = [] \<or> qs = proxy_frames [ev]" "relayed P (ps @ qs) (wx_socket x1)"
      "go \<Longrightarrow> qs = proxy_frames [ev] \<and> running P (ps @ qs) (wx_socket x1) \<and> (\<forall>q\<in>set qs. \<not> is_terminal_frame q)"
    by blast
  have one: "length (proxy_frames [ev]) \<le> 1"
    by (auto simp: proxy_frames_def List.map_filter_def)
  show ?case
  proof (cases go)
    case False
    with Cons.prems(3) st have x': "x' = x1" "e" by auto
    have "prefix cs (if wx_recv_done x then [] else client_payloads P (ws_inputs (ev # evs)))"
      using cs(2) [of evs] unfolding handed_def by (meson append_prefixD)
    moreover have "prefix qs (proxy_frames (ev # evs))"
      using qs(1) by (auto simp: event_lists(2) [of ev evs])
    moreover have "butlast qs = []"
      using qs(1) one length_butlast [of qs] by (auto simp flip: length_0_conv)
    ultimately show ?thesis
      unfolding x'(1) using cs(1) qs(2) x'(2) by (intro conjI exI [of _ cs] exI [of _ qs]) (simp_all add: handed_def)
  next
    case True
    from qs(3) [OF True] Cons.prems(2) have q: "qs = proxy_frames [ev]" "running P (ps @ qs) (wx_socket x1)"
      "\<forall>p\<in>set (ps @ qs). \<not> is_terminal_frame p" "\<forall>q\<in>set qs. \<not> is_terminal_frame q" by auto
    from True Cons.prems(3) st have "pump_ws_session dbg P evs x1 = (e, x')" by simp
    note ih = Cons.IH [OF q(2,3) this]
    from conjunct1 [OF ih] obtain cs' where cs': "wx_client x' = wx_client x1 @ map build_client_frame cs'"
      "handed (wx_proxy_gone x \<or> e) cs' (if wx_recv_done x1 then [] else client_payloads P (ws_inputs evs))" unfolding gone by blast
    from conjunct2 [OF ih] obtain qs' where qs': "handed e qs' (proxy_frames evs)" "relayed P ((ps @ qs) @ qs') (wx_socket x')"
      "(\<exists>q\<in>set qs'. is_terminal_frame q) \<longrightarrow> e" "\<forall>q\<in>set (butlast qs'). \<not> is_terminal_frame q"
      by blast
    have "handed (wx_proxy_gone x \<or> e) (cs @ cs') (if wx_recv_done x then [] else client_payloads P (ws_inputs (ev # evs)))"
      using cs'(2) by (rule handed_trans [rotated]) (use cs(2) [of evs] in \<open>auto simp: handed_def\<close>)
    moreover have "wx_client x' = wx_client x @ map build_client_frame (cs @ cs')"
      using cs(1) cs'(1) by simp
    moreover have "handed e (qs @ qs') (proxy_frames (ev # evs))" "relayed P (ps @ qs @ qs') (wx_socket x')"
      unfolding event_lists(2) [of ev evs] q(1) [symmetric] using qs'(1,2) by (simp_all add: handed_def)
    moreover have "(\<exists>q\<in>set (qs @ qs'). is_terminal_frame q) \<longrightarrow> e" "\<forall>q\<in>set (butlast (qs @ qs')). \<not> is_terminal_frame q"
      using qs'(3,4) q(4) by (auto simp: butlast_append dest: in_set_butlastD)
    ultimately show ?thesis by blast
  qed
qed

definition fresh_ws :: ws_session where
  "fresh_ws = \<lparr> wx_socket = fresh_socket, wx_client = [], wx_proxy_gone = False, wx_recv_done = False \<rparr>"

text \<open>C11. An exec session relays faithfully. However the reader, the writer and the keepalive interleave: what
  reaches the proxy is, in order, the decoded prefix of the client's messages up to the first one that is no
  frame; what the client library reads back is, in order, a prefix of the frames the proxy sent; none of
  them but the last is terminal, and once a terminal frame is delivered the session is over. While the
  session runs nothing is missing in either direction.\<close>

theorem exec_session_relays:
  assumes "prost_ok P" "pump_ws_session dbg P evs fresh_ws = (ended, x)"
  shows "\<exists>cs qs. wx_client x = map build_client_frame cs \<and> prefix cs (client_payloads P (ws_inputs evs)) \<and>
    read_frames P (map Inr (sk_out (wx_socket x))) = map server_frame qs \<and> prefix qs (proxy_frames evs) \<and>
    (\<forall>q\<in>set (butlast qs). \<not> is_terminal_frame q) \<and> ((\<exists>q\<in>set qs. is_terminal_frame q) \<longrightarrow> ended) \<and>
    (\<not> ended \<longrightarrow> cs = client_payloads P (ws_inputs evs) \<and> qs = proxy_frames evs)"
proof -
  have "running P [] (wx_socket fresh_ws)" by (simp add: running_def fresh_ws_def fresh_socket_def)
  from pump_ws_relays [OF assms(1) this _ assms(2)] show ?thesis
    by (fastforce simp: relayed_def fresh_ws_def handed_def)
qed

theorem exec_session_relays_witness:
  "\<exists>x. pump_ws_session id unary_prost [WIn (Some (WsBinary (ws_stdin_message [104]))), WFrame (Some (Inr \<lparr> sf_stream_id = ''io-1'',
      sf_payload = Some (Stdout [104]) \<rparr>)), WIn None, WJoin] fresh_ws = (True, x) \<and>
    wx_client x = [build_client_frame (CStdin [104])] \<and> read_frames unary_prost (map Inr (sk_out (wx_socket x))) = [SfStdout [104]]"
proof -
  let ?evs = "[WIn (Some (WsBinary (ws_stdin_message [104]))), WFrame (Some (Inr \<lparr> sf_stream_id = ''io-1'',
      sf_payload = Some (Stdout [104]) \<rparr>)), WIn None, WJoin]"
  obtain x where run: "pump_ws_session id unary_prost ?evs fresh_ws = (True, x)"
    and c: "wx_client x = [build_client_frame (CStdin [104])]" and o: "sk_out (wx_socket x) = [WsBinary [KIND_STDOUT, 104]]"
    by (simp add: fresh_ws_def ws_step_def ws_recv_def ws_stdin_message_def kind_defs ws_deliver_def encode_server_def
        fresh_socket_def socket_send_def Let_def)
  from exec_session_relays [OF unary_prost_ok run] obtain qs where
    "read_frames unary_prost (map Inr (sk_out (wx_socket x))) = map server_frame qs" by blast
  moreover have "read_frames unary_prost (map Inr (sk_out (wx_socket x))) = [SfStdout [104]]"
    using read_frames_append [of "sk_out (wx_socket x)" unary_prost "[]"]
    by (simp add: o keeps_reading_def ws_decoded_def read_frames_end kind_defs)
  ultimately show ?thesis using run c by auto
qed

end
