(* ===== verification/Api_Router.thy ===== *)
theory Api_Router
  imports Api_Ws
begin

text \<open>
  The gateway's routes (\<open>api/src/router.rs\<close>): which handler answers which method and path, the size limit
  on uploads, and the configuration of cross-origin access. The extractors of \<open>axum\<close> are a parameter,
  the record \<open>axum_lib\<close>: each gives the value it extracts or the text of its rejection.
\<close>

section \<open>Cross-origin configuration (dev\_cors\_layer)\<close>

datatype cors_policy = NoCors | AnyOrigin | OriginList "string list"

definition strip_quotes :: "char \<Rightarrow> string \<Rightarrow> string option" where
  "strip_quotes q s = (case strip_prefix s [q] of
      None \<Rightarrow> None
    | Some t \<Rightarrow> if t \<noteq> [] \<and> last t = q then Some (butlast t) else None)"

definition cors_entry :: "string \<Rightarrow> string" where
  "cors_entry raw =
    (let s = str_trim raw in
     case strip_quotes (CHR 0x22) s of
       Some t \<Rightarrow> t
     | None \<Rightarrow> (case strip_quotes (CHR 0x27) s of Some t \<Rightarrow> t | None \<Rightarrow> s))"

definition dev_cors_layer :: "(string \<Rightarrow> bool) \<Rightarrow> string option \<Rightarrow> cors_policy" where
  "dev_cors_layer header_ok var = (case var of
      None \<Rightarrow> NoCors
    | Some raw \<Rightarrow>
        (let entries = filter (\<lambda>s. s \<noteq> []) (map cors_entry (split_char (CHR '','') raw));
             has_wildcard = (''*'' \<in> set entries);
             explicit = filter (\<lambda>e. e \<noteq> ''*'') entries;
             parsed = filter header_ok explicit
         in if entries = [] then NoCors
            else if has_wildcard \<and> explicit = [] then AnyOrigin
            else if parsed = [] then NoCors
            else OriginList parsed))"

section \<open>Routes (build\_router)\<close>

definition FILE_UPLOAD_BODY_LIMIT_BYTES :: nat where "FILE_UPLOAD_BODY_LIMIT_BYTES = 64 * 1024 * 1024"

record api_request =
  aq_method :: string
  aq_path :: string
  aq_query :: string
  aq_headers :: "(string \<times> string) list"
  aq_body :: bytes

record axum_lib =
  ax_segment :: "string \<Rightarrow> string + string"
  ax_create :: "api_request \<Rightarrow> string + CreateRequest"
  ax_write :: "api_request \<Rightarrow> string + WriteFileRequest"
  ax_wait :: "api_request \<Rightarrow> string + WaitPortListeningRequest"
  ax_read_query :: "string \<Rightarrow> string + ReadFileQuery"
  ax_list_query :: "string \<Rightarrow> string + ListDirQuery"
  ax_delete_query :: "string \<Rightarrow> string + DeleteFileQuery"
  ax_upgrade :: "api_request \<Rightarrow> Response + unit"

datatype api_path =
    PHealthz | PSandboxes | PSandbox string | PPause string | PUnpause string
  | PWriteFiles string | PWriteFile string | PRead string | PReadStream string | PList string
  | PFiles string | PWaitPort string | PExec string

definition sandbox_path :: "string \<Rightarrow> string list \<Rightarrow> api_path option" where
  "sandbox_path seg rest =
    (if seg = [] then None
     else if rest = [] then Some (PSandbox seg)
     else if rest = [''pause''] then Some (PPause seg)
     else if rest = [''unpause''] then Some (PUnpause seg)
     else if rest = [''files'', ''write_files''] then Some (PWriteFiles seg)
     else if rest = [''files'', ''write_file''] then Some (PWriteFile seg)
     else if rest = [''files'', ''read''] then Some (PRead seg)
     else if rest = [''files'', ''read-stream''] then Some (PReadStream seg)
     else if rest = [''files'', ''list''] then Some (PList seg)
     else if rest = [''files''] then Some (PFiles seg)
     else if rest = [''wait_port_listening''] then Some (PWaitPort seg)
     else if rest = [''exec''] then Some (PExec seg)
     else None)"

definition match_path :: "string \<Rightarrow> api_path option" where
  "match_path path = (case split_char (CHR ''/'') path of
      [r, a] \<Rightarrow> if r = [] \<and> a = ''healthz'' then Some PHealthz else None
    | [r, a, b] \<Rightarrow> if r = [] \<and> a = ''v1'' \<and> b = ''sandboxes'' then Some PSandboxes else None
    | r # a # b # seg # rest \<Rightarrow> if r = [] \<and> a = ''v1'' \<and> b = ''sandboxes'' then sandbox_path seg rest else None
    | _ \<Rightarrow> None)"

record ('s, 'p) api_world =
  wl_svc :: 's
  wl_net :: "'p gateway_net"

definition plain :: "nat \<Rightarrow> string \<Rightarrow> http_result" where
  "plain code t = Respond \<lparr> rs_status = code, rs_headers = [], rs_body = TextBody t \<rparr>"

definition on_svc :: "('s \<Rightarrow> Response \<times> 's) \<Rightarrow> ('s, 'p) api_world \<Rightarrow> http_result \<times> ('s, 'p) api_world" where
  "on_svc f w = (case f (wl_svc w) of (r, s) \<Rightarrow> (Respond r, w\<lparr>wl_svc := s\<rparr>))"

definition on_net :: "('p gateway_net \<Rightarrow> Response \<times> 'p gateway_net) \<Rightarrow> ('s, 'p) api_world \<Rightarrow> http_result \<times> ('s, 'p) api_world" where
  "on_net f w = (case f (wl_net w) of (r, g) \<Rightarrow> (Respond r, w\<lparr>wl_net := g\<rparr>))"

text \<open>\<open>Path\<close>, \<open>Query\<close> and the upgrade extractor run before the handler.\<close>

definition with_segment :: "axum_lib \<Rightarrow> string \<Rightarrow> (string \<Rightarrow> 'w \<Rightarrow> http_result \<times> 'w) \<Rightarrow> 'w \<Rightarrow> http_result \<times> 'w" where
  "with_segment A seg k w = (case ax_segment A seg of Inl t \<Rightarrow> (plain 400 t, w) | Inr sid \<Rightarrow> k sid w)"

definition with_upgrade :: "axum_lib \<Rightarrow> api_request \<Rightarrow> http_result \<Rightarrow> 'w \<Rightarrow> http_result \<times> 'w" where
  "with_upgrade A req k w = (case ax_upgrade A req of Inl r \<Rightarrow> (Respond r, w) | Inr _ \<Rightarrow> (k, w))"

definition is_get :: "api_request \<Rightarrow> bool" where
  "is_get req \<longleftrightarrow> aq_method req = ''GET'' \<or> aq_method req = ''HEAD''"

definition method_not_allowed :: http_result where
  "method_not_allowed = Respond \<lparr> rs_status = 405, rs_headers = [], rs_body = NoBody \<rparr>"

definition sandbox_route ::
    "axum_lib \<Rightarrow> 'p gateway \<Rightarrow> 's SandboxService \<Rightarrow> api_request \<Rightarrow> api_path \<Rightarrow> ('s, 'p) api_world \<Rightarrow> http_result \<times> ('s, 'p) api_world" where
  "sandbox_route A G S req path w =
    (let hs = aq_headers req; post = (aq_method req = ''POST''); delete = (aq_method req = ''DELETE'') in
     case path of
       PHealthz \<Rightarrow> (if is_get req then plain 200 ''ok'' else method_not_allowed, w)
     | PSandboxes \<Rightarrow>
         if post then on_svc (create_sandbox G S hs (ax_create A req)) w
         else if is_get req then on_svc (list_sandboxes G S hs) w
         else (method_not_allowed, w)
     | PSandbox seg \<Rightarrow>
         if is_get req then with_segment A seg (\<lambda>sid. on_svc (get_sandbox G S hs sid)) w
         else if delete then with_segment A seg (\<lambda>sid. on_svc (delete_sandbox G S hs sid)) w
         else (method_not_allowed, w)
     | PPause seg \<Rightarrow> if post then with_segment A seg (\<lambda>sid. on_svc (pause_sandbox G S hs sid)) w else (method_not_allowed, w)
     | PUnpause seg \<Rightarrow> if post then with_segment A seg (\<lambda>sid. on_svc (unpause_sandbox G S hs sid)) w else (method_not_allowed, w)
     | PWriteFiles seg \<Rightarrow>
         if post then with_segment A seg (\<lambda>sid w.
           if FILE_UPLOAD_BODY_LIMIT_BYTES < length (aq_body req) then (plain 413 ''length limit exceeded'', w)
           else on_net (write_files G hs sid (aq_body req)) w) w
         else (method_not_allowed, w)
     | PWriteFile seg \<Rightarrow> if post then with_segment A seg (\<lambda>sid. on_net (write_file G hs sid (ax_write A req))) w
         else (method_not_allowed, w)
     | PRead seg \<Rightarrow> if is_get req then with_segment A seg (\<lambda>sid. on_net (read_file G hs sid (ax_read_query A (aq_query req)))) w
         else (method_not_allowed, w)
     | PReadStream seg \<Rightarrow>
         if is_get req then with_segment A seg (\<lambda>sid w. (case ax_read_query A (aq_query req) of
             Inl t \<Rightarrow> (plain 400 t, w)
           | Inr q \<Rightarrow> with_upgrade A req (ws_read_file G hs sid q) w)) w
         else (method_not_allowed, w)
     | PList seg \<Rightarrow> if is_get req then with_segment A seg (\<lambda>sid. on_net (list_dir G hs sid (ax_list_query A (aq_query req)))) w
         else (method_not_allowed, w)
     | PFiles seg \<Rightarrow> if delete then with_segment A seg (\<lambda>sid. on_net (delete_file G hs sid (ax_delete_query A (aq_query req)))) w
         else (method_not_allowed, w)
     | PWaitPort seg \<Rightarrow> if post then with_segment A seg (\<lambda>sid. on_net (wait_port_listening G hs sid (ax_wait A req))) w
         else (method_not_allowed, w)
     | PExec seg \<Rightarrow> if is_get req then with_segment A seg (\<lambda>sid. with_upgrade A req (ws_exec G hs sid)) w
         else (method_not_allowed, w))"

definition api_handle ::
    "axum_lib \<Rightarrow> 'p gateway \<Rightarrow> 's SandboxService \<Rightarrow> api_request \<Rightarrow> ('s, 'p) api_world \<Rightarrow> http_result \<times> ('s, 'p) api_world" where
  "api_handle A G S req w = (case match_path (aq_path req) of
      None \<Rightarrow> (Respond \<lparr> rs_status = 404, rs_headers = [], rs_body = NoBody \<rparr>, w)
    | Some path \<Rightarrow> sandbox_route A G S req path w)"

section \<open>Who gets through\<close>

definition offers_key :: "'p gateway \<Rightarrow> (string \<times> string) list \<Rightarrow> bool" where
  "offers_key G headers \<longleftrightarrow> (\<exists>offered \<in> set (offered_protocols (gw_to_str G) headers).
     strip_prefix_ascii_ci offered WS_AUTH_BEARER_PREFIX = Some (gw_b64url G (gw_api_key G)))"

definition offers_sentinel :: "'p gateway \<Rightarrow> (string \<times> string) list \<Rightarrow> bool" where
  "offers_sentinel G headers \<longleftrightarrow> (\<exists>offered \<in> set (offered_protocols (gw_to_str G) headers).
     eq_ignore_ascii_case offered WS_AUTH_PROTOCOL_SENTINEL)"

lemma offer_fold: "foldl (offer_step k) (s, b) os = (s', b') \<Longrightarrow>
    (s' \<longleftrightarrow> s \<or> (\<exists>x\<in>set os. eq_ignore_ascii_case x WS_AUTH_PROTOCOL_SENTINEL)) \<and>
    (b' \<longrightarrow> b \<or> (\<exists>x\<in>set os. strip_prefix_ascii_ci x WS_AUTH_BEARER_PREFIX = Some k))"
  by (induction os arbitrary: s b)
    (fastforce simp: offer_step_def api_constant_time_eq_iff str_bytes_inj split: option.splits if_splits)+

lemma ws_gate_upgrade: "ws_gate G headers t = Upgrade p t' \<Longrightarrow>
    (bearer_header (gw_to_str G) headers = Some (gw_api_key G) \<or> offers_key G headers) \<and>
    (p = None \<or> p = Some WS_AUTH_PROTOCOL_SENTINEL \<and> offers_sentinel G headers)"
  by (auto simp: ws_gate_def check_ws_auth_def Let_def api_constant_time_eq_iff str_bytes_inj offers_key_def offers_sentinel_def
      split: sum.splits option.splits if_splits prod.splits dest!: offer_fold)

text \<open>A handler is \<open>guarded\<close> when without the key it changes nothing and answers with an error.\<close>

definition guarded :: "'p gateway \<Rightarrow> (string \<times> string) list \<Rightarrow> ('w \<Rightarrow> Response \<times> 'w) \<Rightarrow> bool" where
  "guarded G headers f \<longleftrightarrow> (bearer_header (gw_to_str G) headers \<noteq> Some (gw_api_key G) \<longrightarrow>
     (\<forall>w. \<exists>r. f w = (r, w) \<and> 400 \<le> rs_status r))"

named_theorems guards

lemma guarded_authed [guards]: "guarded G headers (authed G headers k)"
  by (simp add: guarded_def authed_iff unauthorized_response_def error_response_def json_response_def)

lemma guarded_valid_json [guards]: "(\<And>b. guarded G headers (k b)) \<Longrightarrow> guarded G headers (valid_json body k)"
  by (auto simp: guarded_def valid_json_def invalid_request_def error_response_def json_response_def split: sum.splits)

lemma guarded_valid_query [guards]: "(\<And>b. guarded G headers (k b)) \<Longrightarrow> guarded G headers (valid_query q k)"
  by (auto simp: guarded_def valid_query_def split: sum.splits)

lemmas handler_defs = create_sandbox_def list_sandboxes_def get_sandbox_def delete_sandbox_def pause_sandbox_def
  unpause_sandbox_def write_files_def write_file_def read_file_def list_dir_def delete_file_def wait_port_listening_def

lemma handlers_guarded:
  "guarded G hs (create_sandbox G S hs cr)" "guarded G hs (list_sandboxes G S hs)" "guarded G hs (get_sandbox G S hs sid)"
  "guarded G hs (delete_sandbox G S hs sid)" "guarded G hs (pause_sandbox G S hs sid)" "guarded G hs (unpause_sandbox G S hs sid)"
  "guarded G hs (write_files G hs sid body)" "guarded G hs (write_file G hs sid wr)" "guarded G hs (read_file G hs sid rq)"
  "guarded G hs (list_dir G hs sid lq)" "guarded G hs (delete_file G hs sid dq)" "guarded G hs (wait_port_listening G hs sid pq)"
  unfolding handler_defs by (intro guards)+

text \<open>What an outcome may be.\<close>

definition admitted :: "'p gateway \<Rightarrow> (string \<times> string) list \<Rightarrow> http_result \<times> 'w \<Rightarrow> 'w \<Rightarrow> bool" where
  "admitted G headers out w = (case out of
      (Respond r, w') \<Rightarrow> w' = w \<and> 400 \<le> rs_status r \<or> bearer_header (gw_to_str G) headers = Some (gw_api_key G)
    | (Upgrade p t, w') \<Rightarrow> w' = w \<and>
        (bearer_header (gw_to_str G) headers = Some (gw_api_key G) \<or> offers_key G headers) \<and>
        (p = None \<or> p = Some WS_AUTH_PROTOCOL_SENTINEL \<and> offers_sentinel G headers))"

lemma admitted_on_svc [guards]: "guarded G hs f \<Longrightarrow> admitted G hs (on_svc f w) w"
proof (cases "bearer_header (gw_to_str G) hs = Some (gw_api_key G)")
  case False
  assume "guarded G hs f"
  with False obtain r where "f (wl_svc w) = (r, wl_svc w)" "400 \<le> rs_status r" by (auto simp: guarded_def)
  then show ?thesis by (simp add: admitted_def on_svc_def)
qed (simp add: admitted_def on_svc_def split: prod.splits)

lemma admitted_on_net [guards]: "guarded G hs f \<Longrightarrow> admitted G hs (on_net f w) w"
proof (cases "bearer_header (gw_to_str G) hs = Some (gw_api_key G)")
  case False
  assume "guarded G hs f"
  with False obtain r where "f (wl_net w) = (r, wl_net w)" "400 \<le> rs_status r" by (auto simp: guarded_def)
  then show ?thesis by (simp add: admitted_def on_net_def)
qed (simp add: admitted_def on_net_def split: prod.splits)

lemma admitted_refusals [guards]:
  "admitted G hs (method_not_allowed, w) w" "admitted G hs (plain 400 t, w) w" "admitted G hs (plain 413 t, w) w"
  by (simp_all add: admitted_def method_not_allowed_def plain_def)

lemma admitted_segment [guards]: "(\<And>sid. admitted G hs (k sid w) w) \<Longrightarrow> admitted G hs (with_segment A seg k w) w"
  by (simp add: with_segment_def admitted_refusals split: sum.splits)

lemma admitted_gate: "admitted G hs (ws_gate G hs t, w) w"
proof (cases "ws_gate G hs t")
  case (Respond r)
  then show ?thesis
    by (auto simp: admitted_def ws_gate_def check_ws_auth_def Let_def unauthorized_response_def error_response_def json_response_def
        split: sum.splits if_splits prod.splits)
next
  case (Upgrade p t')
  with ws_gate_upgrade [OF Upgrade] show ?thesis by (simp add: admitted_def)
qed

lemma admitted_ws: "admitted G hs (ws_exec G hs sid, w) w" "admitted G hs (ws_read_file G hs sid q, w) w"
proof -
  have r: "admitted G hs (Respond (error_response 400 c m), w) w" for c m
    by (simp add: admitted_def error_response_def json_response_def)
  show "admitted G hs (ws_exec G hs sid, w) w" "admitted G hs (ws_read_file G hs sid q, w) w"
    by (simp_all add: ws_exec_def ws_read_file_def r admitted_gate split: option.splits sum.splits)
qed

lemma admitted_upgrade [guards]:
  "(\<And>r. ax_upgrade A req = Inl r \<Longrightarrow> 400 \<le> rs_status r) \<Longrightarrow> admitted G hs (k, w) w \<Longrightarrow> admitted G hs (with_upgrade A req k w) w"
  by (auto simp: with_upgrade_def admitted_def split: sum.splits)

text \<open>C9. Nothing gets past the gateway without the API key. Whatever the method, path, headers and body, unless the
  path is the liveness probe: a request changes the state of the services or gets an answer other
  than an error only if its \<open>Authorization\<close> header is \<open>Bearer\<close> and the key; a WebSocket is opened only with
  that header or with the key among the first sixteen offered subprotocols, and the subprotocol echoed
  back is never the key, only the sentinel, and only if the client offered it.\<close>

theorem gateway_requires_key:
  assumes "match_path (aq_path req) \<noteq> Some PHealthz" and "\<And>r. ax_upgrade A req = Inl r \<Longrightarrow> 400 \<le> rs_status r"
  shows "admitted G (aq_headers req) (api_handle A G S req w) w"
proof (cases "match_path (aq_path req)")
  case None
  then show ?thesis by (simp add: api_handle_def admitted_def)
next
  case (Some path)
  show ?thesis
  proof (cases "\<exists>seg. path = PReadStream seg \<or> path = PExec seg \<or> path = PWriteFiles seg")
    case True
    with Some show ?thesis
      using handlers_guarded admitted_ws assms(2)
      by (auto simp: api_handle_def sandbox_route_def Let_def split: sum.splits intro!: guards)
  next
    case False
    with Some assms(1) show ?thesis
      using handlers_guarded
      by (cases path) (auto simp: api_handle_def sandbox_route_def Let_def intro!: guards)
  qed
qed

definition demo_axum :: axum_lib where
  "demo_axum = \<lparr> ax_segment = Inr, ax_create = (\<lambda>_. Inr demo_create), ax_write = (\<lambda>_. Inl ''no body''), ax_wait = (\<lambda>_. Inl ''no body''),
     ax_read_query = (\<lambda>_. Inl ''missing field path''), ax_list_query = (\<lambda>_. Inl ''missing field path''),
     ax_delete_query = (\<lambda>_. Inl ''missing field path''), ax_upgrade = (\<lambda>_. Inr ()) \<rparr>"

definition demo_post :: "(string \<times> string) list \<Rightarrow> api_request" where
  "demo_post hs = \<lparr> aq_method = ''POST'', aq_path = ''/v1/sandboxes'', aq_query = [], aq_headers = hs, aq_body = [] \<rparr>"

theorem gateway_requires_key_witness:
  "\<exists>r. api_handle demo_axum (demo_gateway no_proxy) demo_service (demo_post []) \<lparr> wl_svc = demo_conn, wl_net = \<lparr> gn_rr = 0, gn_net = () \<rparr> \<rparr> =
     (Respond r, \<lparr> wl_svc = demo_conn, wl_net = \<lparr> gn_rr = 0, gn_net = () \<rparr> \<rparr>) \<and> 400 \<le> rs_status r"
proof -
  let ?w = "\<lparr> wl_svc = demo_conn, wl_net = \<lparr> gn_rr = 0, gn_net = () \<rparr> \<rparr>"
  have path: "match_path (aq_path (demo_post [])) = Some PSandboxes"
    by (simp add: match_path_def demo_post_def)
  have "admitted (demo_gateway no_proxy) (aq_headers (demo_post [])) (api_handle demo_axum (demo_gateway no_proxy) demo_service (demo_post []) ?w) ?w"
    by (rule gateway_requires_key) (simp_all add: path demo_axum_def)
  moreover have "bearer_header (gw_to_str (demo_gateway no_proxy)) (aq_headers (demo_post [])) = None"
    by (simp add: bearer_header_def bearer_token_def header_get_def demo_post_def)
  moreover have "\<exists>r w'. api_handle demo_axum (demo_gateway no_proxy) demo_service (demo_post []) ?w = (Respond r, w')"
    unfolding api_handle_def path option.case sandbox_route_def
    by (simp add: demo_post_def on_svc_def Let_def split: prod.splits)
  ultimately show ?thesis by (auto simp: admitted_def)
qed

section \<open>Cross-origin access\<close>

text \<open>A wildcard counts only when it stands alone: mixed with explicit origins it is dropped, and no
  policy is ever an empty list.\<close>

lemma cors_wildcard_alone:
  "dev_cors_layer ok var = AnyOrigin \<longleftrightarrow> (\<exists>raw. var = Some raw \<and>
     (\<forall>e\<in>set (map cors_entry (split_char (CHR '','') raw)). e = [] \<or> e = ''*'') \<and> ''*'' \<in> set (map cors_entry (split_char (CHR '','') raw)))"
  "dev_cors_layer ok var = OriginList os \<Longrightarrow> os \<noteq> [] \<and> (\<forall>x\<in>set os. ok x \<and> x \<noteq> ''*'')"
proof -
  show "dev_cors_layer ok var = AnyOrigin \<longleftrightarrow> (\<exists>raw. var = Some raw \<and>
     (\<forall>e\<in>set (map cors_entry (split_char (CHR '','') raw)). e = [] \<or> e = ''*'') \<and> ''*'' \<in> set (map cors_entry (split_char (CHR '','') raw)))"
    by (cases var) (auto simp: dev_cors_layer_def Let_def filter_empty_conv)
  show "dev_cors_layer ok var = OriginList os \<Longrightarrow> os \<noteq> [] \<and> (\<forall>x\<in>set os. ok x \<and> x \<noteq> ''*'')"
    by (cases var) (auto simp: dev_cors_layer_def Let_def split: if_splits)
qed

end
