(* ===== verification/Cli_Client.thy ===== *)
theory Cli_Client
  imports Api_Router Agent_Runtime
begin

text \<open>
  The command line programs that run a command in a sandbox over the exec WebSocket: \<open>open-sandbox run\<close>
  (\<open>cli/src/run_subcommand.rs\<close>, \<open>stream_exec\<close>), \<open>opensandbox-exec\<close>
  (\<open>ws-client/src/bin/opensandbox-exec.rs\<close>) and \<open>open-sandbox ssh-pipe\<close> (\<open>cli/src/ssh.rs\<close>).

  Each is one loop that waits for several things at once. A run is a list of events, in the order in which
  the loop takes them; an event that the loop does not wait for at that moment is passed over. The messages
  the socket will yield are a list, the socket's own end is that of \<open>Api_Ws\<close>, and the terminal keeps what
  was written. The locale \<open>exec_client\<close> is what the three loops share.
\<close>

section \<open>Arguments (cli.rs)\<close>

definition parse_env_kv :: "string \<Rightarrow> string + string \<times> string" where
  "parse_env_kv s = (case split_once (CHR ''='') s of
      Some (k, v) \<Rightarrow> if k \<noteq> [] then Inr (k, v) else Inl (''expected KEY=VAL with non-empty KEY, got `'' @ s @ ''`'')
    | None \<Rightarrow> Inl (''expected KEY=VAL with non-empty KEY, got `'' @ s @ ''`''))"

definition parse_pull_policy :: "string \<Rightarrow> string + PullPolicy" where
  "parse_pull_policy s =
    (if s = ''if-not-present'' then Inr IfNotPresent
     else if s = ''always'' then Inr Always
     else if s = ''never'' then Inr Never
     else Inl (''unknown pull policy `'' @ s @ ''`; expected if-not-present, always, or never''))"

section \<open>The terminal\<close>

text \<open>\<open>tm_room\<close> is how many more writes standard output takes before its reader is gone (\<open>None\<close>: it stays).\<close>

record terminal =
  tm_stdout :: "bytes list"
  tm_room :: "nat option"
  tm_stderr :: "bytes list"

definition write_stdout :: "bytes \<Rightarrow> terminal \<Rightarrow> bool \<times> terminal" where
  "write_stdout b t = (case tm_room t of
      None \<Rightarrow> (True, t\<lparr>tm_stdout := tm_stdout t @ [b]\<rparr>)
    | Some 0 \<Rightarrow> (False, t)
    | Some (Suc n) \<Rightarrow> (True, t\<lparr>tm_stdout := tm_stdout t @ [b], tm_room := Some n\<rparr>))"

definition write_stderr :: "bytes \<Rightarrow> terminal \<Rightarrow> terminal" where
  "write_stderr b t = t\<lparr>tm_stderr := tm_stderr t @ [b]\<rparr>"

definition eprintln :: "string \<Rightarrow> terminal \<Rightarrow> terminal" where
  "eprintln s = write_stderr (as_bytes (s @ [CHR 0x0A]))"

text \<open>The renderings \<open>{:?}\<close> of a duration and of a frame.\<close>

record debug =
  db_duration :: "duration \<Rightarrow> string"
  db_frame :: "ServerFrame \<Rightarrow> string"

fun WsClientError_to_string :: "debug \<Rightarrow> WsClientError \<Rightarrow> string" where
  "WsClientError_to_string D (WsConnect e) = ''connect failed: '' @ e"
| "WsClientError_to_string D (WsIo e) = ''websocket I/O: '' @ e"
| "WsClientError_to_string D (WsProtocol e) = ''protocol: '' @ e"
| "WsClientError_to_string D WsClosed = ''session closed by peer''"
| "WsClientError_to_string D (WsReadTimeout t) = ''read timeout (no server frame within '' @ db_duration D t @ '')''"

section \<open>The session (ExecSession)\<close>

text \<open>\<open>P\<close> encodes the messages, \<open>gone\<close> is the text of the error of a socket whose peer is gone.\<close>

definition session_send :: "string \<Rightarrow> bytes \<Rightarrow> socket \<Rightarrow> (WsClientError + unit) \<times> socket" where
  "session_send gone b s = (case socket_send (WsBinary b) s of
      (True, s') \<Rightarrow> (Inr (), s')
    | (False, s') \<Rightarrow> (Inl (WsIo gone), s'))"

definition send_stdin :: "string \<Rightarrow> bytes \<Rightarrow> socket \<Rightarrow> (WsClientError + unit) \<times> socket" where
  "send_stdin gone b = session_send gone (ws_stdin_message b)"

definition send_signal :: "prost_lib \<Rightarrow> string \<Rightarrow> u32 \<Rightarrow> socket \<Rightarrow> (WsClientError + unit) \<times> socket" where
  "send_signal P gone signum s = (case ws_signal_message P signum of
      Inl e \<Rightarrow> (Inl e, s)
    | Inr b \<Rightarrow> session_send gone b s)"

definition close_stdin :: "string \<Rightarrow> socket \<Rightarrow> (WsClientError + unit) \<times> socket" where
  "close_stdin gone = session_send gone ws_close_stdin_message"

type_synonym incoming = "(WsClientError + ws_message) list"

text \<open>\<open>connect\<close>: \<open>dial\<close> builds the request for the address with the bearer key and upgrades it, giving the socket
  and what it will yield.\<close>

definition session_connect ::
    "prost_lib \<Rightarrow> string \<Rightarrow> (string \<Rightarrow> string \<Rightarrow> 'w \<Rightarrow> (string + socket \<times> incoming) \<times> 'w) \<Rightarrow> string \<Rightarrow> string \<Rightarrow> string \<Rightarrow>
     ExecParams \<Rightarrow> 'w \<Rightarrow> (WsClientError + socket \<times> incoming) \<times> 'w" where
  "session_connect P gone dial base_url sandbox_id api_key params w =
    (case dial (base_url @ ''/v1/sandboxes/'' @ sandbox_id @ ''/exec'') (''Bearer '' @ api_key) w of
       (Inl e, w') \<Rightarrow> (Inl (WsConnect e), w')
     | (Inr (s, ms), w') \<Rightarrow> (case ws_start_message P sandbox_id params of
           Inl e \<Rightarrow> (Inl e, w')
         | Inr b \<Rightarrow> (case session_send gone b s of
               (Inl e, _) \<Rightarrow> (Inl e, w')
             | (Inr _, s') \<Rightarrow> (Inr (s', ms), w'))))"

section \<open>The loops\<close>

datatype StdinMsg = Chunk bytes | Eof

text \<open>The thread that reads standard input: what it sends for the reads it makes.\<close>

fun stdin_thread :: "(string + bytes) list \<Rightarrow> StdinMsg list" where
  "stdin_thread [] = []"
| "stdin_thread (Inl e # rs) = [Eof]"
| "stdin_thread (Inr b # rs) = (if b = [] then [Eof] else Chunk b # stdin_thread rs)"

datatype cli_event =
    CeStdin "StdinMsg option"
  | CeRead "string + bytes"
  | CeSigint
  | CeFrame
  | CeDeadline

record client =
  cl_socket :: socket
  cl_in :: incoming
  cl_terminal :: terminal
  cl_stdin_done :: bool

definition EXIT_CREATE_FAILED :: u8 where "EXIT_CREATE_FAILED = 120"
definition EXIT_START_TIMEOUT :: u8 where "EXIT_START_TIMEOUT = 121"
definition EXIT_SANDBOX_FAILED :: u8 where "EXIT_SANDBOX_FAILED = 122"
definition EXIT_CONNECT_FAILED :: u8 where "EXIT_CONNECT_FAILED = 124"
definition EXIT_REMOTE_ERROR :: u8 where "EXIT_REMOTE_ERROR = 125"
definition EXIT_SESSION_BROKEN :: u8 where "EXIT_SESSION_BROKEN = 126"
definition EXIT_IO_ERROR :: u8 where "EXIT_IO_ERROR = 127"

text \<open>\<open>(exit_code & 0xff) as u8\<close>\<close>

definition exit_byte :: "i32 \<Rightarrow> u8" where
  "exit_byte code = word_of_int (code mod 256)"

fun client_loop :: "(cli_event \<Rightarrow> client \<Rightarrow> u8 option \<times> client) \<Rightarrow> cli_event list \<Rightarrow> client \<Rightarrow> (u8 \<times> client) option" where
  "client_loop step [] c = None"
| "client_loop step (ev # evs) c = (case step ev c of
      (Some code, c') \<Rightarrow> Some (code, c')
    | (None, c') \<Rightarrow> client_loop step evs c')"

definition on_frame ::
    "prost_lib \<Rightarrow> (WsClientError + ServerFrame option \<Rightarrow> terminal \<Rightarrow> u8 option \<times> terminal) \<Rightarrow> client \<Rightarrow> u8 option \<times> client" where
  "on_frame P handle c = (case next_frame P (cl_in c) of (r, rest) \<Rightarrow>
     (case handle r (cl_terminal c) of (x, t) \<Rightarrow> (x, c\<lparr>cl_in := rest, cl_terminal := t\<rparr>)))"

text \<open>\<open>stream_exec\<close> of \<open>open-sandbox run\<close>: the frame, then the loop.\<close>

definition run_frame :: "debug \<Rightarrow> WsClientError + ServerFrame option \<Rightarrow> terminal \<Rightarrow> u8 option \<times> terminal" where
  "run_frame D r t = (case r of
      Inr (Some f) \<Rightarrow> (case f of
          SfStarted _ _ \<Rightarrow> (None, t)
        | SfStdout b \<Rightarrow> (None, snd (write_stdout b t))
        | SfStderr b \<Rightarrow> (None, write_stderr b t)
        | SfExited code missing \<Rightarrow>
            (Some (exit_byte code), if missing then eprintln ''# command not found'' t else t)
        | SfError code detail \<Rightarrow> (Some EXIT_REMOTE_ERROR, eprintln (''# error code='' @ code @ '' detail='' @ detail) t)
        | _ \<Rightarrow> (None, eprintln (''# ignoring out-of-band server frame: '' @ db_frame D f) t))
    | Inr None \<Rightarrow> (Some EXIT_SESSION_BROKEN, eprintln ''# session closed without exit'' t)
    | Inl (WsReadTimeout d) \<Rightarrow> (Some EXIT_IO_ERROR, eprintln (''# read timeout after '' @ db_duration D d) t)
    | Inl e \<Rightarrow> (Some EXIT_IO_ERROR, eprintln (''# i/o: '' @ WsClientError_to_string D e) t))"

text \<open>A message from the thread that reads standard input; a failed send is only noted.\<close>

definition on_stdin :: "debug \<Rightarrow> string \<Rightarrow> StdinMsg option \<Rightarrow> client \<Rightarrow> client" where
  "on_stdin D gone msg c = (case msg of
      Some (Chunk b) \<Rightarrow> (case send_stdin gone b (cl_socket c) of
          (Inr _, s) \<Rightarrow> c\<lparr>cl_socket := s\<rparr>
        | (Inl e, s) \<Rightarrow> c\<lparr>cl_socket := s, cl_terminal := eprintln (''# stdin send: '' @ WsClientError_to_string D e) (cl_terminal c)\<rparr>)
    | _ \<Rightarrow> c\<lparr>cl_socket := snd (close_stdin gone (cl_socket c)), cl_stdin_done := True\<rparr>)"

definition on_sigint :: "prost_lib \<Rightarrow> string \<Rightarrow> client \<Rightarrow> client" where
  "on_sigint P gone c = c\<lparr>cl_socket := snd (send_signal P gone 2 (cl_socket c))\<rparr>"

definition run_step :: "debug \<Rightarrow> prost_lib \<Rightarrow> string \<Rightarrow> cli_event \<Rightarrow> client \<Rightarrow> u8 option \<times> client" where
  "run_step D P gone ev c = (case ev of
      CeFrame \<Rightarrow> on_frame P (run_frame D) c
    | CeStdin msg \<Rightarrow> (None, if cl_stdin_done c then c else on_stdin D gone msg c)
    | CeSigint \<Rightarrow> (None, on_sigint P gone c)
    | _ \<Rightarrow> (None, c))"

text \<open>\<open>opensandbox-exec\<close>; \<open>limit\<close> is \<open>--read-for-secs\<close>.\<close>

definition exec_frame :: "debug \<Rightarrow> WsClientError + ServerFrame option \<Rightarrow> terminal \<Rightarrow> u8 option \<times> terminal" where
  "exec_frame D r t = (case r of
      Inr (Some f) \<Rightarrow> (case f of
          SfStarted exec_id pid \<Rightarrow> (None, eprintln (''# started exec_id='' @ exec_id @ '' pid='' @ show_int pid) t)
        | SfStdout b \<Rightarrow> (None, snd (write_stdout b t))
        | SfStderr b \<Rightarrow> (None, write_stderr b t)
        | SfExited code missing \<Rightarrow>
            (Some (exit_byte code), if missing then eprintln ''# command not found'' t else t)
        | SfError code detail \<Rightarrow> (Some 125, eprintln (''# error code='' @ code @ '' detail='' @ detail) t)
        | _ \<Rightarrow> (None, eprintln (''# ignoring out-of-band server frame: '' @ db_frame D f) t))
    | Inr None \<Rightarrow> (Some 126, eprintln ''# session closed without exit'' t)
    | Inl e \<Rightarrow> (Some 127, eprintln (''# i/o: '' @ WsClientError_to_string D e) t))"

definition exec_step :: "debug \<Rightarrow> prost_lib \<Rightarrow> string \<Rightarrow> u64 \<Rightarrow> cli_event \<Rightarrow> client \<Rightarrow> u8 option \<times> client" where
  "exec_step D P gone limit ev c = (case ev of
      CeFrame \<Rightarrow> on_frame P (exec_frame D) c
    | CeStdin msg \<Rightarrow> (None, if cl_stdin_done c then c else on_stdin D gone msg c)
    | CeSigint \<Rightarrow> (None, on_sigint P gone c)
    | CeDeadline \<Rightarrow>
        if 0 < limit then (Some 0, c\<lparr>cl_terminal := eprintln (''# read deadline reached after '' @ show_nat (unat limit) @ ''s '' @
          [CHR 0xE2, CHR 0x80, CHR 0x94] @ '' exiting cleanly'') (cl_terminal c)\<rparr>)
        else (None, c)
    | _ \<Rightarrow> (None, c))"

text \<open>\<open>ssh-pipe\<close>: it reads standard input itself, and gives up as soon as bytes cannot be passed on.\<close>

definition ssh_frame :: "debug \<Rightarrow> WsClientError + ServerFrame option \<Rightarrow> terminal \<Rightarrow> u8 option \<times> terminal" where
  "ssh_frame D r t = (case r of
      Inr (Some f) \<Rightarrow> (case f of
          SfStarted _ _ \<Rightarrow> (None, t)
        | SfStdout b \<Rightarrow> (case write_stdout b t of (True, t') \<Rightarrow> (None, t') | (False, t') \<Rightarrow> (Some EXIT_IO_ERROR, t'))
        | SfStderr b \<Rightarrow> (None, write_stderr b t)
        | SfExited code missing \<Rightarrow>
            (Some (exit_byte code), if missing then eprintln (''# ssh-pipe: in-container command not found '' @
               [CHR 0xE2, CHR 0x80, CHR 0x94] @ '' the image likely lacks /bin/sh. open-sandbox ssh requires a busybox-class image '' @
               ''(alpine, ubuntu, debian, '' @ [CHR 0xE2, CHR 0x80, CHR 0xA6] @ '').'') t else t)
        | SfError code detail \<Rightarrow>
            (Some EXIT_REMOTE_ERROR, eprintln (''# ssh-pipe: remote error code='' @ code @ '' detail='' @ detail) t)
        | _ \<Rightarrow> (None, eprintln (''# ssh-pipe: ignoring out-of-band server frame: '' @ db_frame D f) t))
    | Inr None \<Rightarrow> (Some EXIT_SESSION_BROKEN, t)
    | Inl (WsReadTimeout d) \<Rightarrow> (Some EXIT_IO_ERROR, eprintln (''# ssh-pipe: read timeout after '' @ db_duration D d) t)
    | Inl e \<Rightarrow> (Some EXIT_IO_ERROR, eprintln (''# ssh-pipe: i/o: '' @ WsClientError_to_string D e) t))"

definition ssh_read :: "debug \<Rightarrow> string \<Rightarrow> string + bytes \<Rightarrow> client \<Rightarrow> u8 option \<times> client" where
  "ssh_read D gone r c = (case r of
      Inl e \<Rightarrow> (Some EXIT_IO_ERROR, c\<lparr>cl_terminal := eprintln (''# ssh-pipe: stdin read: '' @ e) (cl_terminal c)\<rparr>)
    | Inr b \<Rightarrow>
        if b = [] then (None, c\<lparr>cl_socket := snd (close_stdin gone (cl_socket c)), cl_stdin_done := True\<rparr>)
        else (case send_stdin gone b (cl_socket c) of
            (Inr _, s) \<Rightarrow> (None, c\<lparr>cl_socket := s\<rparr>)
          | (Inl e, s) \<Rightarrow> (Some EXIT_IO_ERROR, c\<lparr>cl_socket := s,
              cl_terminal := eprintln (''# ssh-pipe: stdin send: '' @ WsClientError_to_string D e) (cl_terminal c)\<rparr>)))"

definition ssh_step :: "debug \<Rightarrow> prost_lib \<Rightarrow> string \<Rightarrow> cli_event \<Rightarrow> client \<Rightarrow> u8 option \<times> client" where
  "ssh_step D P gone ev c = (case ev of
      CeFrame \<Rightarrow> on_frame P (ssh_frame D) c
    | CeRead r \<Rightarrow> if cl_stdin_done c then (None, c) else ssh_read D gone r c
    | _ \<Rightarrow> (None, c))"

section \<open>What the loops have in common\<close>

text \<open>What the frames alone say: how the session ends and what it prints.\<close>

definition frame_exit :: "WsClientError + ServerFrame option \<Rightarrow> u8 option" where
  "frame_exit r = (case r of
      Inr (Some f) \<Rightarrow> (case f of SfExited code _ \<Rightarrow> Some (exit_byte code) | SfError _ _ \<Rightarrow> Some EXIT_REMOTE_ERROR | _ \<Rightarrow> None)
    | Inr None \<Rightarrow> Some EXIT_SESSION_BROKEN
    | Inl _ \<Rightarrow> Some EXIT_IO_ERROR)"

definition frame_out :: "ServerFrame \<Rightarrow> bytes" where
  "frame_out f = (case f of SfStdout b \<Rightarrow> b | _ \<Rightarrow> [])"

definition final_frame :: "ServerFrame \<Rightarrow> bool" where
  "final_frame f \<longleftrightarrow> frame_exit (Inr (Some f)) \<noteq> None"

lemma frame_exit_Some: "frame_exit r = None \<Longrightarrow> \<exists>f. r = Inr (Some f)"
  by (auto simp: frame_exit_def split: sum.splits option.splits)

function session_result :: "prost_lib \<Rightarrow> incoming \<Rightarrow> u8 \<times> bytes" where
  "session_result P ms = (case next_frame P ms of
      (Inr (Some f), rest) \<Rightarrow> (case frame_exit (Inr (Some f)) of
          Some code \<Rightarrow> (code, [])
        | None \<Rightarrow> (case session_result P rest of (code, out) \<Rightarrow> (code, frame_out f @ out)))
    | (r, rest) \<Rightarrow> (the (frame_exit r), []))"
  by auto
termination
  by (relation "measure (\<lambda>(P, ms). length ms)") (auto dest: next_frame_shorter [OF sym])

declare session_result.simps [simp del]

definition printed :: "client \<Rightarrow> bytes" where
  "printed c = concat (tm_stdout (cl_terminal c))"

locale exec_client =
  fixes P :: prost_lib and step :: "cli_event \<Rightarrow> client \<Rightarrow> u8 option \<times> client"
  assumes frame_step: "tm_room (cl_terminal c) = None \<Longrightarrow> next_frame P (cl_in c) = (r, rest) \<Longrightarrow> step CeFrame c = (x, c') \<Longrightarrow>
      x = frame_exit r \<and> cl_in c' = rest \<and> tm_room (cl_terminal c') = None \<and>
      printed c' = printed c @ (case r of Inr (Some f) \<Rightarrow> frame_out f | _ \<Rightarrow> [])"
    and other_step: "ev \<noteq> CeFrame \<Longrightarrow> step ev c = (x, c') \<Longrightarrow>
      cl_in c' = cl_in c \<and> tm_room (cl_terminal c') = tm_room (cl_terminal c) \<and> printed c' = printed c"
begin

text \<open>Unless something else than a frame ends the loop, the frames decide what it returns and prints.\<close>

lemma loop_result:
  assumes "tm_room (cl_terminal c) = None" "client_loop step evs c = Some (code, c')"
  shows "(\<exists>ev c1 c2. ev \<in> set evs \<and> ev \<noteq> CeFrame \<and> step ev c1 = (Some code, c2)) \<or>
    code = fst (session_result P (cl_in c)) \<and> printed c' = printed c @ snd (session_result P (cl_in c))"
  using assms
proof (induction evs arbitrary: c)
  case (Cons ev evs)
  obtain x c1 where st: "step ev c = (x, c1)" by (rule prod.exhaust)
  show ?case
  proof (cases "ev = CeFrame")
    case True
    obtain r rest where nf: "next_frame P (cl_in c) = (r, rest)" by (rule prod.exhaust)
    note fs = frame_step [OF Cons.prems(1) nf st [unfolded True]]
    show ?thesis
    proof (cases x)
      case None
      with fs have "frame_exit r = None" by simp
      then obtain f where r: "r = Inr (Some f)" using frame_exit_Some by blast
      with None Cons.prems st have "client_loop step evs c1 = Some (code, c')" by simp
      from Cons.IH [OF _ this] fs have ih: "(\<exists>ev c1 c2. ev \<in> set evs \<and> ev \<noteq> CeFrame \<and> step ev c1 = (Some code, c2)) \<or>
        code = fst (session_result P rest) \<and> printed c' = printed c1 @ snd (session_result P rest)" by simp
      have "session_result P (cl_in c) = (fst (session_result P rest), frame_out f @ snd (session_result P rest))"
        using fs None r by (simp add: session_result.simps [of P "cl_in c"] nf case_prod_beta)
      with ih fs r show ?thesis by auto
    next
      case (Some n)
      with Cons.prems st have "n = code" "c' = c1" by simp_all
      with Some fs nf show ?thesis
        by (auto simp: session_result.simps [of P "cl_in c"] frame_out_def frame_exit_def
            split: sum.splits option.splits ServerFrame.splits)
    qed
  next
    case False
    note keeps = other_step [OF False st]
    show ?thesis
    proof (cases x)
      case None
      with st Cons.prems keeps Cons.IH [of c1] show ?thesis by auto
    next
      case (Some n)
      with st Cons.prems(2) have "step ev c = (Some code, c')" by simp
      with False show ?thesis by auto
    qed
  qed
qed simp

text \<open>And it does end, once the loop has taken more frames than there are messages.\<close>

lemma loop_ends:
  assumes "tm_room (cl_terminal c) = None" "length (cl_in c) < length (filter (\<lambda>ev. ev = CeFrame) evs)"
  shows "client_loop step evs c \<noteq> None"
  using assms
proof (induction evs arbitrary: c)
  case (Cons ev evs)
  obtain x c1 where st: "step ev c = (x, c1)" by (rule prod.exhaust)
  show ?case
  proof (cases "ev = CeFrame")
    case True
    obtain r rest where nf: "next_frame P (cl_in c) = (r, rest)" by (rule prod.exhaust)
    note fs = frame_step [OF Cons.prems(1) nf st [unfolded True]]
    show ?thesis
    proof (cases x)
      case None
      with fs have "frame_exit r = None" by simp
      then obtain f where "r = Inr (Some f)" using frame_exit_Some by blast
      with nf have "length rest < length (cl_in c)" using next_frame_shorter by blast
      with Cons.prems(2) True fs have "length (cl_in c1) < length (filter (\<lambda>ev. ev = CeFrame) evs)" by simp
      with Cons.IH fs None st show ?thesis by simp
    qed (simp add: st)
  next
    case False
    with other_step [OF False st] st Cons show ?thesis by (cases x) auto
  qed
qed simp

end

lemma on_frame_laws:
  assumes "\<And>r t x t'. tm_room t = None \<Longrightarrow> handle r t = (x, t') \<Longrightarrow> x = frame_exit r \<and> tm_room t' = None \<and>
      concat (tm_stdout t') = concat (tm_stdout t) @ (case r of Inr (Some f) \<Rightarrow> frame_out f | _ \<Rightarrow> [])"
    and "tm_room (cl_terminal c) = None" "next_frame P (cl_in c) = (r, rest)" "on_frame P handle c = (x, c')"
  shows "x = frame_exit r \<and> cl_in c' = rest \<and> tm_room (cl_terminal c') = None \<and>
    printed c' = printed c @ (case r of Inr (Some f) \<Rightarrow> frame_out f | _ \<Rightarrow> [])"
  using assms(2-4) assms(1) [OF assms(2)] by (auto simp: on_frame_def printed_def split: prod.splits)

lemmas terminal_defs = write_stdout_def write_stderr_def eprintln_def

lemma session_send_prints: "printed (c\<lparr>cl_socket := s\<rparr>) = printed c" "printed (c\<lparr>cl_stdin_done := b\<rparr>) = printed c"
  "printed (c\<lparr>cl_terminal := eprintln t (cl_terminal c)\<rparr>) = printed c" "tm_room (eprintln u tm) = tm_room tm"
  by (simp_all add: printed_def terminal_defs)

lemma on_stdin_keeps: "cl_in (on_stdin D gone msg c) = cl_in c \<and>
    tm_room (cl_terminal (on_stdin D gone msg c)) = tm_room (cl_terminal c) \<and> printed (on_stdin D gone msg c) = printed c"
  by (auto simp: on_stdin_def printed_def terminal_defs split: option.splits StdinMsg.splits prod.splits sum.splits)

lemma on_sigint_keeps: "cl_in (on_sigint P gone c) = cl_in c" "cl_terminal (on_sigint P gone c) = cl_terminal c"
  by (simp_all add: on_sigint_def)

interpretation runc: exec_client P "run_step D P gone"
proof
  fix c r rest x c'
  assume "tm_room (cl_terminal c) = None" "next_frame P (cl_in c) = (r, rest)" "run_step D P gone CeFrame c = (x, c')"
  then show "x = frame_exit r \<and> cl_in c' = rest \<and> tm_room (cl_terminal c') = None \<and>
      printed c' = printed c @ (case r of Inr (Some f) \<Rightarrow> frame_out f | _ \<Rightarrow> [])"
    unfolding run_step_def cli_event.case
    by (rule on_frame_laws [rotated])
      (auto simp: run_frame_def frame_exit_def frame_out_def terminal_defs split: sum.splits option.splits ServerFrame.splits
        WsClientError.splits if_splits)
next
  fix ev c x c'
  assume "ev \<noteq> CeFrame" "run_step D P gone ev c = (x, c')"
  then show "cl_in c' = cl_in c \<and> tm_room (cl_terminal c') = tm_room (cl_terminal c) \<and> printed c' = printed c"
    using on_stdin_keeps by (auto simp: run_step_def on_sigint_keeps printed_def split: cli_event.splits if_splits)
qed

interpretation execc: exec_client P "exec_step D P gone limit"
proof
  fix c r rest x c'
  assume "tm_room (cl_terminal c) = None" "next_frame P (cl_in c) = (r, rest)" "exec_step D P gone limit CeFrame c = (x, c')"
  then show "x = frame_exit r \<and> cl_in c' = rest \<and> tm_room (cl_terminal c') = None \<and>
      printed c' = printed c @ (case r of Inr (Some f) \<Rightarrow> frame_out f | _ \<Rightarrow> [])"
    unfolding exec_step_def cli_event.case
    by (rule on_frame_laws [rotated])
      (auto simp: exec_frame_def frame_exit_def frame_out_def terminal_defs EXIT_REMOTE_ERROR_def EXIT_SESSION_BROKEN_def
        EXIT_IO_ERROR_def split: sum.splits option.splits ServerFrame.splits if_splits)
next
  fix ev c x c'
  assume "ev \<noteq> CeFrame" "exec_step D P gone limit ev c = (x, c')"
  then show "cl_in c' = cl_in c \<and> tm_room (cl_terminal c') = tm_room (cl_terminal c) \<and> printed c' = printed c"
    using on_stdin_keeps
    by (auto simp: exec_step_def on_sigint_keeps printed_def terminal_defs split: cli_event.splits if_splits)
qed

interpretation sshc: exec_client P "ssh_step D P gone"
proof
  fix c r rest x c'
  assume "tm_room (cl_terminal c) = None" "next_frame P (cl_in c) = (r, rest)" "ssh_step D P gone CeFrame c = (x, c')"
  then show "x = frame_exit r \<and> cl_in c' = rest \<and> tm_room (cl_terminal c') = None \<and>
      printed c' = printed c @ (case r of Inr (Some f) \<Rightarrow> frame_out f | _ \<Rightarrow> [])"
    unfolding ssh_step_def cli_event.case
    by (rule on_frame_laws [rotated])
      (auto simp: ssh_frame_def frame_exit_def frame_out_def terminal_defs split: sum.splits option.splits ServerFrame.splits
        WsClientError.splits if_splits)
next
  fix ev c x c'
  assume "ev \<noteq> CeFrame" "ssh_step D P gone ev c = (x, c')"
  then show "cl_in c' = cl_in c \<and> tm_room (cl_terminal c') = tm_room (cl_terminal c) \<and> printed c' = printed c"
    by (auto simp: ssh_step_def ssh_read_def printed_def terminal_defs split: cli_event.splits if_splits sum.splits prod.splits)
qed

section \<open>The exit code of a remote command\<close>

text \<open>The result in terms of the frames the client library reads.\<close>

lemma session_result_frames:
  "(\<exists>fs f gs. read_frames P ms = fs @ f # gs \<and> (\<forall>g\<in>set fs. \<not> final_frame g) \<and> final_frame f \<and>
      session_result P ms = (the (frame_exit (Inr (Some f))), concat (map frame_out fs))) \<or>
   (\<forall>g\<in>set (read_frames P ms). \<not> final_frame g) \<and>
     fst (session_result P ms) \<in> {EXIT_SESSION_BROKEN, EXIT_IO_ERROR} \<and>
     snd (session_result P ms) = concat (map frame_out (read_frames P ms))"
proof (induction P ms rule: session_result.induct)
  case (1 P ms)
  obtain r rest where nf: "next_frame P ms = (r, rest)" by (rule prod.exhaust)
  show ?case
  proof (cases "\<exists>f. r = Inr (Some f)")
    case True
    then obtain f where r: "r = Inr (Some f)" by blast
    have rf: "read_frames P ms = f # read_frames P rest" by (simp add: read_frames.simps [of P ms] nf r)
    show ?thesis
    proof (cases "frame_exit (Inr (Some f))")
      case None
      have res: "session_result P ms = (fst (session_result P rest), frame_out f @ snd (session_result P rest))"
        by (simp add: session_result.simps [of P ms] nf r None case_prod_beta)
      have nfin: "\<not> final_frame f" by (simp add: final_frame_def None)
      from "1.IH" [OF nf [symmetric, unfolded r] refl refl None]
      show ?thesis
      proof (elim disjE exE conjE)
        fix fs g gs
        assume "read_frames P rest = fs @ g # gs" "\<forall>g\<in>set fs. \<not> final_frame g" "final_frame g"
          "session_result P rest = (the (frame_exit (Inr (Some g))), concat (map frame_out fs))"
        then show ?thesis using res rf nfin
          by (intro disjI1 exI [of _ "f # fs"] exI [of _ g] exI [of _ gs]) simp
      qed (use res rf nfin in simp)
    next
      case (Some code)
      then have "session_result P ms = (code, [])" by (simp add: session_result.simps [of P ms] nf r)
      with Some rf show ?thesis
        by (intro disjI1 exI [of _ "[]"] exI [of _ f] exI [of _ "read_frames P rest"]) (simp add: final_frame_def)
    qed
  next
    case False
    then have "r = Inr None \<or> (\<exists>e. r = Inl e)" by (cases r) (auto simp: not_Some_eq [symmetric] simp del: not_Some_eq)
    then show ?thesis
      by (auto simp: session_result.simps [of P ms] read_frames.simps [of P ms] nf frame_exit_def)
  qed
qed

text \<open>What the gateway's socket holds after any run of a session: frames of which only the last is terminal.\<close>

lemma gateway_frames:
  assumes "prost_ok P" "pump_ws_session dbg P gevs fresh_ws = (ended, x)"
  shows "\<exists>qs. read_frames P (map Inr (sk_out (wx_socket x))) = map server_frame qs \<and> prefix qs (proxy_frames gevs) \<and>
    (\<forall>q\<in>set (butlast qs). \<not> is_terminal_frame q) \<and> (\<not> ended \<longrightarrow> qs = proxy_frames gevs)"
proof -
  have "running P [] (wx_socket fresh_ws)" by (simp add: running_def fresh_ws_def fresh_socket_def)
  from pump_ws_relays [OF assms(1) this _ assms(2)] show ?thesis
    by (fastforce simp: relayed_def fresh_ws_def handed_def)
qed

fun payload_out :: "IoServerPayload \<Rightarrow> bytes" where
  "payload_out (Stdout b) = b"
| "payload_out _ = []"

lemma frame_out_server [simp]: "frame_out (server_frame q) = payload_out q"
  by (cases q) (simp_all add: frame_out_def)

lemma final_server: "final_frame (server_frame q) \<longleftrightarrow> is_terminal_frame q"
  by (cases q) (simp_all add: final_frame_def frame_exit_def)

text \<open>The result of the messages of such a socket.\<close>

lemma gateway_result:
  assumes "read_frames P ms = map server_frame qs" "\<forall>q\<in>set (butlast qs). \<not> is_terminal_frame q"
  shows "snd (session_result P ms) = concat (map payload_out qs) \<and>
    ((\<exists>n nf. qs \<noteq> [] \<and> last qs = Exited n nf \<and> fst (session_result P ms) = exit_byte n) \<or>
     (\<exists>e d. qs \<noteq> [] \<and> last qs = IoError e d \<and> fst (session_result P ms) = EXIT_REMOTE_ERROR) \<or>
     (\<forall>q\<in>set qs. \<not> is_terminal_frame q) \<and> fst (session_result P ms) \<in> {EXIT_SESSION_BROKEN, EXIT_IO_ERROR})"
  using session_result_frames [of P ms]
proof (elim disjE exE conjE)
  fix fs f gs
  assume r: "read_frames P ms = fs @ f # gs" "\<forall>g\<in>set fs. \<not> final_frame g" "final_frame f"
    "session_result P ms = (the (frame_exit (Inr (Some f))), concat (map frame_out fs))"
  from assms(1) r(1) have "map server_frame qs = fs @ f # gs" by simp
  then obtain ps q rs where qs: "qs = ps @ q # rs" and ps: "fs = map server_frame ps" "f = server_frame q"
    by (auto simp: map_eq_append_conv Cons_eq_map_conv)
  from r(3) ps have t: "is_terminal_frame q" by (simp add: final_server)
  then have "rs = []" using assms(2) qs by (cases rs rule: rev_cases) (auto simp: butlast_append)
  with qs have q: "qs = ps @ [q]" by simp
  from t show ?thesis
    by (cases q) (simp_all add: q r(4) ps o_def frame_exit_def)
next
  assume r: "\<forall>g\<in>set (read_frames P ms). \<not> final_frame g"
    "fst (session_result P ms) \<in> {EXIT_SESSION_BROKEN, EXIT_IO_ERROR}" "snd (session_result P ms) = concat (map frame_out (read_frames P ms))"
  then show ?thesis by (auto simp: assms(1) o_def final_server)
qed

lemma exit_byte_uint: "uint (exit_byte n) = n mod 256"
  by (simp add: exit_byte_def uint_word_of_int_eq take_bit_eq_mod)

text \<open>C12. The exit code of \<open>open-sandbox run\<close> is that of the remote command. Let the client read what the
  gateway's session wrote, in any run of that session. However local input, interrupts and frames interleave,
  once the loop has looked for a frame often enough it ends, and it has written to standard output exactly the
  bytes of the command's output that the proxy sent and the gateway relayed. If these frames end with the
  command's exit, the program exits with the low eight bits of that code; if they end with an error, with 125;
  and with 126 or 127 if neither arrived.\<close>

theorem run_exits_as_remote:
  assumes "prost_ok P" "pump_ws_session dbg P gevs fresh_ws = (ended, x)" "cl_in c = map Inr (sk_out (wx_socket x))"
    and "tm_room (cl_terminal c) = None" "tm_stdout (cl_terminal c) = []"
    and "length (cl_in c) < length (filter (\<lambda>ev. ev = CeFrame) evs)"
  shows "\<exists>code c' qs. client_loop (run_step D P gone) evs c = Some (code, c') \<and>
    read_frames P (cl_in c) = map server_frame qs \<and> prefix qs (proxy_frames gevs) \<and>
    concat (tm_stdout (cl_terminal c')) = concat (map payload_out qs) \<and>
    ((\<exists>n nf. qs \<noteq> [] \<and> last qs = Exited n nf \<and> uint code = n mod 256) \<or>
     (\<exists>e d. qs \<noteq> [] \<and> last qs = IoError e d \<and> code = 125) \<or>
     (\<forall>q\<in>set qs. \<not> is_terminal_frame q) \<and> code \<in> {126, 127})"
proof -
  from gateway_frames [OF assms(1,2)] obtain qs where
    qs: "read_frames P (cl_in c) = map server_frame qs" "prefix qs (proxy_frames gevs)" "\<forall>q\<in>set (butlast qs). \<not> is_terminal_frame q"
    by (auto simp: assms(3))
  from runc.loop_ends [OF assms(4,6)] obtain code c' where run: "client_loop (run_step D P gone) evs c = Some (code, c')" by fastforce
  have "ev \<noteq> CeFrame \<Longrightarrow> fst (run_step D P gone ev c1) = None" for ev c1
    by (auto simp: run_step_def split: cli_event.splits)
  then have "ev \<noteq> CeFrame \<Longrightarrow> run_step D P gone ev c1 \<noteq> (Some code, c2)" for ev c1 c2 by (metis fst_conv option.distinct(1))
  with runc.loop_result [OF assms(4) run]
  have "code = fst (session_result P (cl_in c)) \<and> printed c' = snd (session_result P (cl_in c))"
    using assms(5) by (auto simp: printed_def)
  with gateway_result [OF qs(1,3)] run qs show ?thesis
    by (auto simp: printed_def EXIT_REMOTE_ERROR_def EXIT_SESSION_BROKEN_def EXIT_IO_ERROR_def exit_byte_uint)
qed

definition demo_gevs :: "ws_event list" where
  "demo_gevs = [WFrame (Some (Inr \<lparr> sf_stream_id = ''io-1'', sf_payload = Some (Stdout [104]) \<rparr>)),
     WFrame (Some (Inr \<lparr> sf_stream_id = ''io-1'', sf_payload = Some (Exited 259 False) \<rparr>))]"

definition demo_events :: "cli_event list" where
  "demo_events = [CeFrame, CeSigint, CeFrame, CeStdin None, CeFrame, CeFrame]"

lemma demo_gateway_run:
  "\<exists>x b. pump_ws_session id unary_prost demo_gevs fresh_ws = (True, x) \<and>
     sk_out (wx_socket x) = [WsBinary [KIND_STDOUT, 104], WsBinary b, WsClose None] \<and>
     ws_decode_server unary_prost b = Inr (SfExited 259 False)"
proof -
  let ?f = "\<lparr> sf_stream_id = ''io-1'', sf_payload = Some (Exited 259 False) \<rparr>"
  obtain b where b: "encode_server unary_prost ?f = Inr b"
    by (simp add: encode_server_def encode_as_def unary_prost_def unary_codec_def)
  from encode_server_decodes [OF unary_prost_ok b] have "ws_decode_server unary_prost b = Inr (SfExited 259 False)" by auto
  with b show ?thesis
    by (auto simp: demo_gevs_def fresh_ws_def fresh_socket_def ws_step_def ws_deliver_def encode_server_def [of _ "\<lparr> sf_stream_id = _, sf_payload = Some (Stdout _) \<rparr>"]
        socket_send_def Let_def)
qed

definition demo_debug :: debug where
  "demo_debug = \<lparr> db_duration = (\<lambda>d. show_nat d), db_frame = (\<lambda>_. ''frame'') \<rparr>"

theorem run_exits_as_remote_witness:
  "\<exists>x c'. pump_ws_session id unary_prost demo_gevs fresh_ws = (True, x) \<and>
     client_loop (run_step demo_debug unary_prost []) demo_events \<lparr> cl_socket = fresh_socket, cl_in = map Inr (sk_out (wx_socket x)),
       cl_terminal = \<lparr> tm_stdout = [], tm_room = None, tm_stderr = [] \<rparr>, cl_stdin_done = False \<rparr> = Some (3, c') \<and>
     concat (tm_stdout (cl_terminal c')) = [104]"
proof -
  from demo_gateway_run obtain x b where g: "pump_ws_session id unary_prost demo_gevs fresh_ws = (True, x)"
    and o: "sk_out (wx_socket x) = [WsBinary [KIND_STDOUT, 104], WsBinary b, WsClose None]"
    and b: "ws_decode_server unary_prost b = Inr (SfExited 259 False)" by blast
  let ?c = "\<lparr> cl_socket = fresh_socket, cl_in = map Inr (sk_out (wx_socket x)),
       cl_terminal = \<lparr> tm_stdout = [], tm_room = None, tm_stderr = [] \<rparr>, cl_stdin_done = False \<rparr>"
  have rf: "read_frames unary_prost (cl_in ?c) = [SfStdout [104], SfExited 259 False]"
    by (simp add: o b read_frames.simps kind_defs)
  have n: "length (cl_in ?c) < length (filter (\<lambda>ev. ev = CeFrame) demo_events)" by (simp add: o demo_events_def)
  from run_exits_as_remote [OF unary_prost_ok g _ _ _ n, of demo_debug "[]"] obtain code c' qs where
    r: "client_loop (run_step demo_debug unary_prost []) demo_events ?c = Some (code, c')" "read_frames unary_prost (cl_in ?c) = map server_frame qs"
      "concat (tm_stdout (cl_terminal c')) = concat (map payload_out qs)"
      "(\<exists>n nf. qs \<noteq> [] \<and> last qs = Exited n nf \<and> uint code = n mod 256) \<or> (\<exists>e d. qs \<noteq> [] \<and> last qs = IoError e d \<and> code = 125) \<or>
        (\<forall>q\<in>set qs. \<not> is_terminal_frame q) \<and> code \<in> {126, 127}" by auto
  have inj: "q = q'" if "server_frame q = server_frame q'" for q q'
    using that by (cases q; cases q') auto
  from r(2) rf have "map server_frame qs = map server_frame [Stdout [104], Exited 259 False]" by simp
  then have "qs = [Stdout [104], Exited 259 False]" using inj by (auto simp: map_eq_Cons_conv Cons_eq_map_conv)
  with r(3,4) have "uint code = uint (3 :: u8)" "concat (tm_stdout (cl_terminal c')) = [104]" by auto
  then have "code = 3" "concat (tm_stdout (cl_terminal c')) = [104]" by (simp_all only: word_uint_eqI)
  with g r(1) show ?thesis by blast
qed

end
