(* ===== verification/System_Path.thy ===== *)
theory System_Path
  imports Proxy_Reach Agent_Tunnel Api_Router
begin

text \<open>
  A file operation on its whole way: the gateway's handler, the proxy's \<open>OpenIoStream\<close>, the tunnel to
  one agent, the agent's session on its container runtime, and back.

  \<open>system_call\<close> composes the models of the parts into the call the gateway's pool makes. It fixes one
  order of the tasks: the proxy forwards all of the client's frames, the agent's session runs on them,
  and its frames come back one by one. What stays open is the pace of the gateway, which is a parameter:
  after the i-th message from the agent it takes \<open>pace i\<close> items from its channel. The proxy drops a frame
  that finds the channel full.
\<close>

section \<open>The parts together\<close>

record 'rt system =
  sy_store :: pg
  sy_proxy :: proxy
  sy_agent :: "'rt agent_tunnel"
  sy_registry :: ExecRegistry
  sy_next_tx :: nat

record 'rt system_cfg =
  sc_uuid :: uuid_lib
  sc_to_str :: "string \<Rightarrow> string option"
  sc_role :: ProxyRole
  sc_internal_token :: "string option"
  sc_agent_id :: AgentId
  sc_tunnel :: nat
  sc_generation :: u64
  sc_runtime :: "'rt ContainerRuntime"
  sc_env :: io_env
  sc_uuid_error :: "string \<Rightarrow> string"
  sc_http :: "u16 \<Rightarrow> ForwardRequest \<Rightarrow> AgentError + ForwardResponse"
  sc_pace :: "nat \<Rightarrow> nat"

text \<open>The agent takes the messages of its tunnel.\<close>

fun agent_takes :: "'rt system_cfg \<Rightarrow> TunnelRequest list \<Rightarrow> 'rt agent_tunnel \<Rightarrow> 'rt agent_tunnel" where
  "agent_takes C [] t = t"
| "agent_takes C (r # rs) t = (case agent_tunnel_msg (sc_uuid C) (sc_uuid_error C) (sc_http C) r t of
      (Inl e, t') \<Rightarrow> tunnel_down t'
    | (Inr _, t') \<Rightarrow> agent_takes C rs t')"

text \<open>The session of a stream runs on the frames it has been given, and its pump sends what it says.\<close>

definition agent_runs ::
    "'rt system_cfg \<Rightarrow> string \<Rightarrow> 'rt agent_tunnel \<times> ExecRegistry \<Rightarrow> 'rt agent_tunnel \<times> ExecRegistry" where
  "agent_runs C sid = (\<lambda>(t, reg). (case tbl_get (at_sessions t) sid of
      None \<Rightarrow> (t, reg)
    | Some s \<Rightarrow>
        (let x = snd (drive_io_session (sc_runtime C) (sc_env C) sid (as_sandbox_id s) (as_container_id s)
               (map Inr (as_frames s))
               \<lparr> is_rt = sm_runtime (at_mgr t), is_registry = reg, is_out = [], is_left = None \<rparr>)
         in (session_pump sid (is_out x) (t\<lparr>at_mgr := (at_mgr t)\<lparr>sm_runtime := is_rt x\<rparr>\<rparr>), is_registry x))))"

definition reader_takes :: "nat \<Rightarrow> nat \<Rightarrow> proxy \<Rightarrow> proxy" where
  "reader_takes tx k p = p\<lparr>px_io := (px_io p)\<lparr>taken := (taken (px_io p))(tx :=
     min (taken (px_io p) tx + k) (length (accepted (px_io p) tx)))\<rparr>\<rparr>"

fun proxy_takes :: "'rt system_cfg \<Rightarrow> nat \<Rightarrow> nat \<Rightarrow> TunnelResponse list \<Rightarrow> proxy \<Rightarrow> proxy" where
  "proxy_takes C tx i [] p = p"
| "proxy_takes C tx i (r # rs) p =
    (case tunnel_msg (sc_uuid C) (sc_tunnel C) r (Some (sc_agent_id C), Some (sc_generation C)) p of
       (_, _, p') \<Rightarrow> proxy_takes C tx (Suc i) rs (reader_takes tx (sc_pace C i) p'))"

definition system_session ::
    "'rt system_cfg \<Rightarrow> nat \<Rightarrow> AgentId \<Rightarrow> string \<Rightarrow> IoClientFrame list \<Rightarrow> nat \<Rightarrow> 'rt system \<Rightarrow> 'rt system" where
  "system_session C tx a sid rest sent_before y =
    (let p1 = pump_inbound a sid rest (sy_proxy y);
         requests = drop sent_before (accepted (px_tun p1) (sc_tunnel C));
         t1 = agent_takes C requests (sy_agent y);
         (t2, reg) = agent_runs C sid (t1, sy_registry y);
         responses = drop (length (at_out (sy_agent y))) (at_out t2);
         p2 = proxy_takes C tx 0 responses p1
     in y\<lparr>sy_proxy := dispatch_finish sid p2, sy_agent := t2, sy_registry := reg\<rparr>)"

definition system_call :: "'rt system_cfg \<Rightarrow> 'rt system io_call" where
  "system_call C ch hdr frames y =
    (case open_io_stream_gate (sc_to_str C) (sc_role C) (sc_internal_token C) hdr (px_draining (sy_proxy y)) of
       Inl st \<Rightarrow> (Inl st, y)
     | Inr _ \<Rightarrow>
         (let tx = sy_next_tx y;
              sent_before = length (accepted (px_tun (sy_proxy y)) (sc_tunnel C));
              first = (case frames of [] \<Rightarrow> Inr None | f # _ \<Rightarrow> Inr (Some f))
          in case dispatch_start (sc_uuid C) (PgRoutingStore (sc_uuid C)) first tx (sy_store y, sy_proxy y) of
               (opened, (st', p')) \<Rightarrow>
                 (let y1 = y\<lparr>sy_store := st', sy_proxy := p', sy_next_tx := Suc tx\<rparr>;
                      y2 = (case opened of
                          None \<Rightarrow> y1
                        | Some (a, sid) \<Rightarrow> system_session C tx a sid (tl frames) sent_before y1)
                  in (Inr (accepted (px_io (sy_proxy y2)) tx), y2))))"

section \<open>One call, end to end\<close>

text \<open>
  A system that is \<open>ready\<close> for a sandbox: the proxy is not draining, has the sandbox's route to the agent
  in its cache and the agent's tunnel in its pool; the channels not handed out yet are empty; the agent
  has the sandbox, not paused, in container \<open>c\<close>, and no other session is open on it.
\<close>

definition ready :: "'rt system_cfg \<Rightarrow> SandboxId \<Rightarrow> ContainerId \<Rightarrow> 'rt system \<Rightarrow> bool" where
  "ready C sb c y \<longleftrightarrow>
    \<not> px_draining (sy_proxy y) \<and>
    cache_lookup (px_cache (sy_proxy y)) (subdomain (sc_uuid C) sb) = Some \<lparr> ca_agent_id = sc_agent_id C, ca_sandbox_id = sb \<rparr> \<and>
    get_sender_with_generation (sc_agent_id C) (px_pool (sy_proxy y)) = Some (sc_tunnel C, sc_generation C) \<and>
    \<not> rx_gone (px_tun (sy_proxy y)) (sc_tunnel C) \<and>
    (\<forall>n \<ge> sy_next_tx y. accepted (px_io (sy_proxy y)) n = [] \<and> taken (px_io (sy_proxy y)) n = 0 \<and> \<not> rx_gone (px_io (sy_proxy y)) n) \<and>
    \<not> at_out_gone (sy_agent y) \<and> at_sessions (sy_agent y) = [] \<and>
    (\<exists>e. tbl_get (sm_sandboxes (at_mgr (sy_agent y))) sb = Some e \<and> se_container_id e = c \<and> se_state e \<noteq> Paused)"

lemma get_sender_of_generation: "get_sender_with_generation a pl = Some (ch, g) \<Longrightarrow> get_sender a pl = Some ch"
  by (auto simp: get_sender_with_generation_def get_sender_def)

text \<open>Opening: the stream's name, and the proxy with the session and the start frame on the tunnel.\<close>

lemma dispatch_start_ready:
  assumes "ready C sb c y" "uuid_text (sc_uuid C)" "st_sandbox_id start = SandboxId_to_string (sc_uuid C) sb"
  shows "\<exists>sid s1. dispatch_start (sc_uuid C) S (Inr (Some (start_frame start))) tx (r, sy_proxy y) =
    (Some (sc_agent_id C, sid), (r, (sy_proxy y)\<lparr>px_sessions := io_insert sid
       \<lparr> is_agent_id = sc_agent_id C, is_server_tx = tx, is_generation = sc_generation C \<rparr> s1,
       px_tun := push_item (sc_tunnel C) (io_request sid (Some (CStart start))) (px_tun (sy_proxy y))\<rparr>))"
proof -
  obtain sid s1 where n: "io_next_stream_id (px_sessions (sy_proxy y)) = (sid, s1)" by fastforce
  obtain u where u: "sb = SandboxId u" by (cases sb)
  have "uuid_parse_str (sc_uuid C) (st_sandbox_id start) = Some u"
    using uuid_text.parse_to_string [OF assms(2)] assms(3) by (simp add: SandboxId_to_string_def u)
  then show ?thesis
    using assms(1) by (intro exI [of _ sid] exI [of _ s1])
      (simp add: dispatch_start_def start_frame_def cached_lookup_def lookup_or_fetch_def open_session_def n u ready_def send_item_def)
qed

text \<open>Forwarding.\<close>

lemma pump_inbound_open:
  assumes "get_sender a (px_pool p) = Some ch" "\<not> rx_gone (px_tun p) ch"
  shows "\<exists>cs. pump_inbound a sid fs p = p\<lparr>px_tun := cs\<rparr> \<and> rx_gone cs = rx_gone (px_tun p)"
proof -
  from pump_frames_open [OF assms, of sid fs False] obtain cs b where
    cs: "pump_frames a sid fs False p = (Some b, p\<lparr>px_tun := cs\<rparr>)" "rx_gone cs = rx_gone (px_tun p)" by blast
  with assms show ?thesis
    by (cases b) (auto simp: pump_inbound_def send_item_def chan_simps)
qed

text \<open>The agent's side.\<close>

lemma agent_takes_frames:
  "at_sessions t = [(sid, s)] \<Longrightarrow> \<not> as_driver_gone s \<Longrightarrow> \<forall>pl\<in>set pls. \<forall>st. pl \<noteq> Some (CStart st) \<Longrightarrow>
   agent_takes C (map (io_request sid) pls) t =
     t\<lparr>at_sessions := [(sid, s\<lparr>as_frames := as_frames s @ map (\<lambda>pl. \<lparr> cf_stream_id = sid, cf_payload = pl \<rparr>) pls\<rparr>)]\<rparr>"
proof (induction pls arbitrary: t s)
  case (Cons pl pls)
  let ?f = "\<lparr> cf_stream_id = sid, cf_payload = pl \<rparr>"
  let ?t = "t\<lparr>at_sessions := [(sid, s\<lparr>as_frames := as_frames s @ [?f]\<rparr>)]\<rparr>"
  have "handle_io_client_frame (sc_uuid C) ?f t = ?t"
    using Cons.prems
    by (auto simp: handle_io_client_frame_def tbl_get_def tbl_put_def split: option.splits IoClientPayload.splits)
  then have "agent_takes C (map (io_request sid) (pl # pls)) t = agent_takes C (map (io_request sid) pls) ?t"
    by (simp add: agent_tunnel_msg_def io_request_def)
  with Cons.IH [of ?t] Cons.prems show ?case by simp
qed simp

lemma session_pump_open: "\<not> at_out_gone t \<Longrightarrow> session_pump sid fs t =
    t\<lparr>at_out := at_out t @ map (\<lambda>f. \<lparr> tr_stream_id = sid, tr_payload = Some (TRIoServer f) \<rparr>) fs,
      at_sessions := tbl_del sid (at_sessions t)\<rparr>"
  by (induction fs arbitrary: t) (simp_all add: session_closed_def session_out_def out_send_def)

lemma agent_opens:
  assumes "uuid_text (sc_uuid C)" "st_sandbox_id start = SandboxId_to_string (sc_uuid C) sb"
    and "at_sessions t = []" "tbl_get (sm_sandboxes (at_mgr t)) sb = Some e" "se_state e \<noteq> Paused"
    and "\<forall>pl\<in>set pls. \<forall>st. pl \<noteq> Some (CStart st)"
  shows "agent_takes C (map (io_request sid) (Some (CStart start) # pls)) t =
    t\<lparr>at_sessions := [(sid, \<lparr> as_sandbox_id = sb, as_container_id = se_container_id e,
       as_frames = map (\<lambda>pl. \<lparr> cf_stream_id = sid, cf_payload = pl \<rparr>) (Some (CStart start) # pls), as_driver_gone = False \<rparr>)]\<rparr>"
proof -
  obtain u where u: "sb = SandboxId u" by (cases sb)
  have "uuid_parse_str (sc_uuid C) (st_sandbox_id start) = Some u"
    using uuid_text.parse_to_string [OF assms(1)] assms(2) by (simp add: SandboxId_to_string_def u)
  then have "agent_takes C (map (io_request sid) (Some (CStart start) # pls)) t =
      agent_takes C (map (io_request sid) pls) (t\<lparr>at_sessions := [(sid, \<lparr> as_sandbox_id = sb, as_container_id = se_container_id e,
        as_frames = [\<lparr> cf_stream_id = sid, cf_payload = Some (CStart start) \<rparr>], as_driver_gone = False \<rparr>)]\<rparr>)"
    using assms(3-5) by (simp add: agent_tunnel_msg_def io_request_def handle_io_client_frame_def open_agent_session_def Let_def
        container_for_io_def ok_or_def u tbl_get_def tbl_put_def)
  also note agent_takes_frames [OF _ _ assms(6)]
  finally show ?thesis by simp
qed

text \<open>
  The way back. \<open>kept pace i b fs\<close>: of the frames \<open>fs\<close>, those the session's channel takes when it holds \<open>b\<close> items
  before the i-th message. A gateway that takes an item after each message gets every frame.
\<close>

fun kept :: "(nat \<Rightarrow> nat) \<Rightarrow> nat \<Rightarrow> nat \<Rightarrow> 'f list \<Rightarrow> 'f list" where
  "kept pace i b [] = []"
| "kept pace i b (f # fs) =
    (if b < IO_SESSION_BUFFER then f # kept pace (Suc i) (Suc b - pace i) fs else kept pace (Suc i) (b - pace i) fs)"

lemma kept_all: "(\<And>i. 1 \<le> pace i) \<Longrightarrow> kept pace i 0 fs = fs"
proof (induction fs arbitrary: i)
  case (Cons f fs)
  from Cons.prems [of i] have "Suc 0 - pace i = 0" by simp
  with Cons show ?case by (simp add: IO_SESSION_BUFFER_def)
qed simp

lemma kept_map: "kept pace i b (map h fs) = map h (kept pace i b fs)"
  by (induction fs arbitrary: i b) simp_all

lemma kept_short: "b + length fs \<le> IO_SESSION_BUFFER \<Longrightarrow> kept pace i b fs = fs"
proof (induction fs arbitrary: i b)
  case (Cons f fs)
  have "Suc b - pace i + length fs \<le> Suc b + length fs" by simp
  with Cons show ?case by simp
qed simp

text \<open>While the gateway takes nothing the channel fills, and then everything is dropped.\<close>

lemma kept_fills: "(\<And>j. j < length fs \<Longrightarrow> pace (i + j) = 0) \<Longrightarrow> b + length fs \<le> IO_SESSION_BUFFER \<Longrightarrow>
    kept pace i b (fs @ rest) = fs @ kept pace (i + length fs) (b + length fs) rest"
proof (induction fs arbitrary: i b)
  case (Cons f fs)
  have idle: "pace (Suc i + j) = 0" if "j < length fs" for j
    using that Cons.prems(1) [of "Suc j"] by simp
  from Cons.prems(1) [of 0] Cons.IH [OF idle, of "Suc b"] Cons.prems(2) show ?case by simp
qed simp

lemma kept_full: "(\<And>j. j < length fs \<Longrightarrow> pace (i + j) = 0) \<Longrightarrow>
    kept pace i IO_SESSION_BUFFER (fs @ rest) = kept pace (i + length fs) IO_SESSION_BUFFER rest"
proof (induction fs arbitrary: i)
  case (Cons f fs)
  have idle: "pace (Suc i + j) = 0" if "j < length fs" for j
    using that Cons.prems [of "Suc j"] by simp
  from Cons.prems [of 0] Cons.IH [OF idle] show ?case by simp
qed simp

lemma kept_idle:
  assumes "255 < length bs"
  shows "kept (\<lambda>i. if i = length bs then 1 else 0) 0 0 (m # map h bs @ [t]) = m # map h (take 255 bs) @ [t]"
proof -
  let ?pace = "\<lambda>i. if i = length bs then 1 else 0 :: nat"
  define mid where "mid = drop 255 (butlast bs)"
  have len: "length mid = length bs - 256" by (simp add: mid_def)
  have "take 255 (butlast bs) = take 255 bs" using assms by (simp add: take_butlast)
  then have "butlast bs = take 255 bs @ mid"
    using append_take_drop_id [of 255 "butlast bs"] by (simp add: mid_def)
  then have bs: "bs = take 255 bs @ mid @ [last bs]"
    using assms append_butlast_last_id [of bs] by fastforce
  let ?front = "m # map h (take 255 bs)"
  have front: "length ?front = IO_SESSION_BUFFER" using assms by (simp add: IO_SESSION_BUFFER_def)
  have "kept ?pace 0 0 (?front @ map h mid @ [h (last bs), t]) =
      ?front @ kept ?pace IO_SESSION_BUFFER IO_SESSION_BUFFER (map h mid @ [h (last bs), t])"
    using kept_fills [of ?front ?pace 0 0 "map h mid @ [h (last bs), t]"] front assms by (simp add: IO_SESSION_BUFFER_def)
  also have "kept ?pace IO_SESSION_BUFFER IO_SESSION_BUFFER (map h mid @ [h (last bs), t]) =
      kept ?pace (length bs) IO_SESSION_BUFFER [h (last bs), t]"
    using kept_full [of "map h mid" ?pace IO_SESSION_BUFFER "[h (last bs), t]"] len assms by (simp add: IO_SESSION_BUFFER_def)
  also have "\<dots> = [t]" by (simp add: IO_SESSION_BUFFER_def)
  finally show ?thesis
    by (subst (1) bs) simp
qed

lemma proxy_takes_kept:
  "tbl_get (io_inner (px_sessions p)) sid = Some \<lparr> is_agent_id = sc_agent_id C, is_server_tx = tx, is_generation = g \<rparr> \<Longrightarrow>
    \<not> rx_gone (px_io p) tx \<Longrightarrow> taken (px_io p) tx \<le> length (accepted (px_io p) tx) \<Longrightarrow>
    \<exists>cs. proxy_takes C tx i (map (\<lambda>f. \<lparr> tr_stream_id = sid, tr_payload = Some (TRIoServer f) \<rparr>) fs) p = p\<lparr>px_io := cs\<rparr> \<and>
      accepted cs = (accepted (px_io p))(tx := accepted (px_io p) tx @ map Inr (kept (sc_pace C) i (buffered tx (px_io p)) fs)) \<and>
      rx_gone cs = rx_gone (px_io p) \<and> (\<forall>n. n \<noteq> tx \<longrightarrow> taken cs n = taken (px_io p) n)"
proof (induction fs arbitrary: i p)
  case Nil
  then show ?case by (intro exI [of _ "px_io p"]) simp
next
  case (Cons f fs)
  let ?full = "IO_SESSION_BUFFER \<le> buffered tx (px_io p)"
  let ?c = "if ?full then px_io p else push_item tx (Inr f) (px_io p)"
  let ?cs = "?c\<lparr>taken := (taken (px_io p))(tx := min (taken (px_io p) tx + sc_pace C i) (length (accepted ?c tx)))\<rparr>"
  let ?p = "p\<lparr>px_io := ?cs\<rparr>"
  have step: "proxy_takes C tx i (map (\<lambda>f. \<lparr> tr_stream_id = sid, tr_payload = Some (TRIoServer f) \<rparr>) (f # fs)) p =
      proxy_takes C tx (Suc i) (map (\<lambda>f. \<lparr> tr_stream_id = sid, tr_payload = Some (TRIoServer f) \<rparr>) fs) ?p"
    using Cons.prems
    by (cases p) (auto simp: tunnel_msg_def on_io_def deliver_server_frame_def try_send_def reader_takes_def chan_simps)
  have left: "buffered tx ?cs = (if ?full then buffered tx (px_io p) - sc_pace C i else Suc (buffered tx (px_io p)) - sc_pace C i)"
    using Cons.prems(3) by (auto simp: buffered_def chan_simps)
  have "\<exists>cs. proxy_takes C tx (Suc i) (map (\<lambda>f. \<lparr> tr_stream_id = sid, tr_payload = Some (TRIoServer f) \<rparr>) fs) ?p =
      ?p\<lparr>px_io := cs\<rparr> \<and> accepted cs = (accepted (px_io ?p))(tx := accepted (px_io ?p) tx @
        map Inr (kept (sc_pace C) (Suc i) (buffered tx (px_io ?p)) fs)) \<and>
      rx_gone cs = rx_gone (px_io ?p) \<and> (\<forall>n. n \<noteq> tx \<longrightarrow> taken cs n = taken (px_io ?p) n)"
    by (rule Cons.IH) (use Cons.prems in \<open>simp_all add: chan_simps\<close>)
  then obtain cs where cs: "proxy_takes C tx (Suc i) (map (\<lambda>f. \<lparr> tr_stream_id = sid, tr_payload = Some (TRIoServer f) \<rparr>) fs) ?p =
      ?p\<lparr>px_io := cs\<rparr>"
      "accepted cs = (accepted (px_io ?p))(tx := accepted (px_io ?p) tx @ map Inr (kept (sc_pace C) (Suc i) (buffered tx ?cs) fs))"
      "rx_gone cs = rx_gone (px_io ?p)" "\<forall>n. n \<noteq> tx \<longrightarrow> taken cs n = taken (px_io ?p) n" by auto
  show ?case
    unfolding step using cs(1,3,4) cs(2) [unfolded left]
    by (intro exI [of _ cs]) (auto simp: chan_simps split: if_splits)
qed

text \<open>
  The whole call. The gateway gets the kept frames of the agent's session, which has run on the start
  frame, the gateway's other frames, and a close when they have none; the system is ready again, and
  its runtime is the one the session left.
\<close>

definition session_frames :: "string \<Rightarrow> IoStart \<Rightarrow> IoClientFrame list \<Rightarrow> IoClientFrame list" where
  "session_frames sid start rest = map (\<lambda>pl. \<lparr> cf_stream_id = sid, cf_payload = pl \<rparr>)
     (Some (CStart start) # map cf_payload rest @
      (if \<exists>f\<in>set rest. cf_payload f = Some (CClose False) then [] else [Some (CClose False)]))"

lemma system_call_ready:
  assumes "ready C sb c y" "uuid_text (sc_uuid C)"
    and "open_io_stream_gate (sc_to_str C) (sc_role C) (sc_internal_token C) hdr False = Inr ()"
    and "st_sandbox_id start = SandboxId_to_string (sc_uuid C) sb"
    and "\<forall>f\<in>set rest. \<forall>st. cf_payload f \<noteq> Some (CStart st)"
  shows "\<exists>sid y' x. x = snd (drive_io_session (sc_runtime C) (sc_env C) sid sb c (map Inr (session_frames sid start rest))
        \<lparr> is_rt = sm_runtime (at_mgr (sy_agent y)), is_registry = sy_registry y, is_out = [], is_left = None \<rparr>) \<and>
    system_call C ch hdr (start_frame start # rest) y = (Inr (map Inr (kept (sc_pace C) 0 0 (is_out x))), y') \<and>
    ready C sb c y' \<and> sm_runtime (at_mgr (sy_agent y')) = is_rt x"
proof -
  note r = assms(1) [unfolded ready_def]
  let ?p = "sy_proxy y" and ?t = "sy_agent y" and ?tx = "sy_next_tx y" and ?tun = "sc_tunnel C"
  from dispatch_start_ready [OF assms(1,2,4), of "PgRoutingStore (sc_uuid C)" ?tx "sy_store y"] obtain sid s1 where
    d: "dispatch_start (sc_uuid C) (PgRoutingStore (sc_uuid C)) (Inr (Some (start_frame start))) ?tx (sy_store y, ?p) =
      (Some (sc_agent_id C, sid), (sy_store y, ?p\<lparr>px_sessions := io_insert sid
        \<lparr> is_agent_id = sc_agent_id C, is_server_tx = ?tx, is_generation = sc_generation C \<rparr> s1,
        px_tun := push_item ?tun (io_request sid (Some (CStart start))) (px_tun ?p)\<rparr>))" (is "_ = (_, (_, ?opened))") by blast
  let ?pls = "map cf_payload rest @ (if \<exists>f\<in>set rest. cf_payload f = Some (CClose False) then [] else [Some (CClose False)])"
  have sender: "get_sender (sc_agent_id C) (px_pool ?opened) = Some ?tun" "\<not> rx_gone (px_tun ?opened) ?tun"
    using r get_sender_of_generation by (auto simp: chan_simps)
  from pump_inbound_open [OF sender, of sid rest] obtain tc where
    p1: "pump_inbound (sc_agent_id C) sid rest ?opened = ?opened\<lparr>px_tun := tc\<rparr>" "rx_gone tc = rx_gone (px_tun ?p)" by (auto simp: chan_simps)
  have "accepted tc ?tun = accepted (px_tun ?p) ?tun @ map (io_request sid) (Some (CStart start) # ?pls)"
    using fun_cong [OF pump_closes_session [OF sender, of sid rest], of ?tun] unfolding p1(1)
    by (simp add: chan_simps split: if_splits)
  then have reqs: "drop (length (accepted (px_tun ?p) ?tun)) (accepted tc ?tun) = map (io_request sid) (Some (CStart start) # ?pls)"
    by simp
  from r obtain e where e: "tbl_get (sm_sandboxes (at_mgr ?t)) sb = Some e" "se_container_id e = c" "se_state e \<noteq> Paused" by blast
  define x where "x = snd (drive_io_session (sc_runtime C) (sc_env C) sid sb c (map Inr (session_frames sid start rest))
     \<lparr> is_rt = sm_runtime (at_mgr ?t), is_registry = sy_registry y, is_out = [], is_left = None \<rparr>)"
  let ?resp = "map (\<lambda>f. \<lparr> tr_stream_id = sid, tr_payload = Some (TRIoServer f) \<rparr>)"
  have t1: "agent_takes C (map (io_request sid) (Some (CStart start) # ?pls)) ?t =
    ?t\<lparr>at_sessions := [(sid, \<lparr> as_sandbox_id = sb, as_container_id = c, as_frames = session_frames sid start rest, as_driver_gone = False \<rparr>)]\<rparr>"
    using agent_opens [OF assms(2,4) _ e(1,3), of ?pls] r assms(5) by (auto simp: session_frames_def e(2) split: if_splits)
  have t2: "agent_runs C sid (agent_takes C (map (io_request sid) (Some (CStart start) # ?pls)) ?t, sy_registry y) =
    (?t\<lparr>at_mgr := (at_mgr ?t)\<lparr>sm_runtime := is_rt x\<rparr>, at_out := at_out ?t @ ?resp (is_out x), at_sessions := []\<rparr>, is_registry x)"
    unfolding t1 using r by (simp add: agent_runs_def x_def [symmetric] tbl_get_def tbl_del_def tbl_retain_def session_pump_open Let_def)
  let ?p1 = "?opened\<lparr>px_tun := tc\<rparr>"
  have "\<exists>cs. proxy_takes C ?tx 0 (?resp (is_out x)) ?p1 = ?p1\<lparr>px_io := cs\<rparr> \<and>
      accepted cs = (accepted (px_io ?p1))(?tx := accepted (px_io ?p1) ?tx @
        map Inr (kept (sc_pace C) 0 (buffered ?tx (px_io ?p1)) (is_out x))) \<and>
      rx_gone cs = rx_gone (px_io ?p1) \<and> (\<forall>n. n \<noteq> ?tx \<longrightarrow> taken cs n = taken (px_io ?p1) n)"
    by (rule proxy_takes_kept) (use r in \<open>simp_all add: io_insert_def table_simps\<close>)
  then obtain cs where p2: "proxy_takes C ?tx 0 (?resp (is_out x)) ?p1 = ?p1\<lparr>px_io := cs\<rparr>"
    and cs: "accepted cs = (accepted (px_io ?p))(?tx := map Inr (kept (sc_pace C) 0 0 (is_out x)))"
      "rx_gone cs = rx_gone (px_io ?p)" "\<And>n. n \<noteq> ?tx \<Longrightarrow> taken cs n = taken (px_io ?p) n"
    using r by (auto simp: buffered_def)
  let ?t2 = "?t\<lparr>at_mgr := (at_mgr ?t)\<lparr>sm_runtime := is_rt x\<rparr>, at_out := at_out ?t @ ?resp (is_out x), at_sessions := []\<rparr>"
  let ?y = "y\<lparr>sy_next_tx := Suc ?tx, sy_proxy := dispatch_finish sid (?p1\<lparr>px_io := cs\<rparr>), sy_agent := ?t2, sy_registry := is_registry x\<rparr>"
  have "system_session C ?tx (sc_agent_id C) sid rest (length (accepted (px_tun ?p) ?tun)) (y\<lparr>sy_proxy := ?opened, sy_next_tx := Suc ?tx\<rparr>) = ?y"
    by (simp add: system_session_def p1(1) reqs t2 p2 [simplified] del: list.map)
  then have "system_call C ch hdr (start_frame start # rest) y = (Inr (map Inr (kept (sc_pace C) 0 0 (is_out x))), ?y)"
    using assms(3) r by (simp add: system_call_def Let_def d cs dispatch_finish_def)
  moreover have "ready C sb c ?y"
    using r p1(2) cs by (simp add: ready_def dispatch_finish_def)
  ultimately show ?thesis
    unfolding x_def by (intro exI conjI) (rule refl | assumption | simp)+
qed

section \<open>The gateway on the system\<close>

text \<open>A gateway whose pool leads to the system, where the proxy accepts its token; and one that keeps up with the answers.\<close>

definition wired :: "'rt system gateway \<Rightarrow> 'rt system_cfg \<Rightarrow> bool" where
  "wired G C \<longleftrightarrow> gw_call G = system_call C \<and> gw_uuid G = sc_uuid C \<and> uuid_text (sc_uuid C) \<and>
    (\<forall>tok. pc_internal_token (gw_pool G) = Some tok \<longrightarrow> gw_meta_err G (''Bearer '' @ tok) = None) \<and>
    open_io_stream_gate (sc_to_str C) (sc_role C) (sc_internal_token C)
      (map_option (\<lambda>tok. ''Bearer '' @ tok) (pc_internal_token (gw_pool G))) False = Inr ()"

definition keeps_up :: "'rt system_cfg \<Rightarrow> bool" where
  "keeps_up C \<longleftrightarrow> (\<forall>i. 1 \<le> sc_pace C i)"

definition agent_rt :: "'rt system gateway_net \<Rightarrow> 'rt" where
  "agent_rt g = sm_runtime (at_mgr (sy_agent (gn_net g)))"

lemma pump_answer_frames: "pump_answer (map Inr fs) = map Inr fs"
  by (induction fs) simp_all

lemma gw_open_ready:
  assumes "wired G C" "ready C sb c (gn_net g)" "\<forall>f\<in>set rest. \<forall>st. cf_payload f \<noteq> Some (CStart st)"
    and "st_sandbox_id start = SandboxId_to_string (sc_uuid C) sb" "st_params start = Some params"
  shows "\<exists>sid s x g'. x = snd (drive_params (sc_runtime C) (sc_env C) sid sb c params
        (map Inr (tl (session_frames sid start rest))) s) \<and>
    is_rt s = agent_rt g \<and> is_out s = [] \<and> is_left s = None \<and>
    gw_open G (start_frame start # rest) g = (Inr (map Inr (kept (sc_pace C) 0 0 (is_out x))), g') \<and>
    ready C sb c (gn_net g') \<and> agent_rt g' = is_rt x"
proof -
  note w = assms(1) [unfolded wired_def]
  let ?hdr = "map_option (\<lambda>tok. ''Bearer '' @ tok) (pc_internal_token (gw_pool G))"
  obtain ch rr where n: "next_channel (gw_pool G) (gn_rr g) = (ch, rr)" by fastforce
  from system_call_ready [OF assms(2) _ _ assms(4,3), of ?hdr ch] w obtain sid x y where
    x: "x = snd (drive_io_session (sc_runtime C) (sc_env C) sid sb c (map Inr (session_frames sid start rest))
        \<lparr> is_rt = sm_runtime (at_mgr (sy_agent (gn_net g))), is_registry = sy_registry (gn_net g), is_out = [], is_left = None \<rparr>)"
      (is "_ = snd (drive_io_session _ _ _ _ _ _ ?s)") and
    y: "system_call C ch ?hdr (start_frame start # rest) (gn_net g) = (Inr (map Inr (kept (sc_pace C) 0 0 (is_out x))), y)" "ready C sb c y"
      "sm_runtime (at_mgr (sy_agent y)) = is_rt x" by blast
  have "gw_open G (start_frame start # rest) g = (Inr (map Inr (kept (sc_pace C) 0 0 (is_out x))), g\<lparr>gn_rr := rr, gn_net := y\<rparr>)"
    using y(1) w by (cases "pc_internal_token (gw_pool G)") (simp_all add: gw_open_def open_io_stream_def n pump_answer_frames Let_def)
  moreover have "x = snd (drive_params (sc_runtime C) (sc_env C) sid sb c params (map Inr (tl (session_frames sid start rest))) ?s)"
    unfolding x by (simp add: drive_io_session_def session_frames_def assms(5))
  ultimately show ?thesis
    using y(2,3) by (intro exI [of _ sid] exI [of _ ?s] exI [of _ x] exI [of _ "g\<lparr>gn_rr := rr, gn_net := y\<rparr>"])
      (simp add: agent_rt_def)
qed

text \<open>What the file sessions of a runtime that keeps its laws send.\<close>

definition file_meta :: "FileRevision \<Rightarrow> IoServerPayload" where
  "file_meta v = FileMeta (fr_revision v) (fr_size v)"

lemma emit_open: "is_left s = None \<Longrightarrow>
    emit sid p s = (True, s\<lparr>is_out := is_out s @ [\<lparr> sf_stream_id = sid, sf_payload = Some p \<rparr>]\<rparr>)"
  by (simp add: emit_def)

lemma emit_chunks_open: "is_left s = None \<Longrightarrow>
    emit_chunks sid bs s = (True, s\<lparr>is_out := is_out s @ map (\<lambda>b. \<lparr> sf_stream_id = sid, sf_payload = Some (Stdout b) \<rparr>) bs\<rparr>)"
  by (induction bs arbitrary: s) (simp_all add: emit_open)

context file_runtime
begin

lemma stat_exact: "fst (rt_stat_revision R c path cwd rt) = Inr v \<Longrightarrow> rt_stat_revision R c path cwd rt = (Inr v, rt)"
  using stat_pure [of c path cwd rt] by (metis prod.collapse)

lemma read_session_frames:
  assumes "is_left s = None" "rt_read_file R c path (cwd_opt cwd) (is_rt s) = (Inr content, is_rt s)"
    and "rt_stat_revision R c path (cwd_opt cwd) (is_rt s) = (Inr v, is_rt s)"
  shows "emits sid s (drive_read_file R sid c path cwd s)
      (file_meta v # map Stdout (chunks READ_FILE_CHUNK_BYTES content) @ [Exited 0 False]) \<and>
    is_rt (drive_read_file R sid c path cwd s) = is_rt s"
  using assms by (simp add: drive_read_file_def with_rt_def emit_file_meta_def file_meta_def emit_open emit_chunks_open
      send_exited_def emits_def)

lemma write_session_frames:
  assumes "is_left s = None" "rt_write_file R c path (cwd_opt cwd) content (is_rt s) = (Inr (), rt')"
    and "rt_stat_revision R c path (cwd_opt cwd) rt' = (Inr v, rt')"
    and "expected \<noteq> [] \<and> \<not> force \<longrightarrow> (\<exists>v0. fst (rt_stat_revision R c path (cwd_opt cwd) (is_rt s)) = Inr v0 \<and> fr_revision v0 = expected)"
    and "fst (collect_upload ''write_file'' [] fs) = Upload content"
  shows "emits sid s (snd (drive_write_file R sid c path cwd expected force fs s)) [file_meta v, Exited 0 False] \<and>
    is_rt (snd (drive_write_file R sid c path cwd expected force fs s)) = rt'"
proof -
  have check: "check_revision R c path (cwd_opt cwd) expected force s = (None, s)"
    using assms(4) stat_exact [of c path "cwd_opt cwd" "is_rt s"] by (auto simp: check_revision_def with_rt_def)
  obtain rest where u: "collect_upload ''write_file'' [] fs = (Upload content, rest)"
    using assms(5) by (cases "collect_upload ''write_file'' [] fs") simp
  show ?thesis
    using assms(1-3) by (simp add: drive_write_file_def check u with_rt_def emit_file_meta_def file_meta_def emit_open
        send_exited_def emits_def)
qed

end

text \<open>The gateway's chunks arrive as the upload, and its loops over the answers.\<close>

lemma producer_payloads:
  "map cf_payload (producer_frames (Some content)) = map (\<lambda>b. Some (CStdin b)) (stdin_chunks content 0) @ [Some (CClose True)]"
  by (simp add: producer_frames_def comp_def stdin_chunks.simps [of "[]"])

lemma producer_frames_plain:
  "f \<in> set (producer_frames content) \<Longrightarrow> cf_payload f \<noteq> Some (CStart st) \<and> cf_payload f \<noteq> Some (CClose False)"
  by (auto simp: producer_frames_def split: option.splits if_splits)

lemma upload_arrives:
  assumes "length content \<le> MAX_WRITE_BYTES"
  shows "fst (collect_upload op [] (map Inr (tl (session_frames sid start (producer_frames (Some content)))))) = Upload content"
proof -
  let ?frame = "\<lambda>pl. Inr \<lparr> cf_stream_id = sid, cf_payload = pl \<rparr> :: AgentError + IoClientFrame"
  have "map Inr (tl (session_frames sid start (producer_frames (Some content)))) =
      map ?frame (map cf_payload (producer_frames (Some content)) @ [Some (CClose False)])"
    using producer_frames_plain by (fastforce simp: session_frames_def)
  also have "\<dots> = map (\<lambda>b. client_frame sid (CStdin b)) (stdin_chunks content 0) @ [?frame (Some (CClose True)), ?frame (Some (CClose False))]"
    unfolding producer_payloads by (simp add: client_frame_def)
  finally show ?thesis
    using collect_upload_all [of "[?frame (Some (CClose True)), ?frame (Some (CClose False))]" "[]" "stdin_chunks content 0" op sid] assms
    by (simp add: upload_end_def stdin_chunks_concat)
qed

lemma read_loop_chunks:
  "read_loop buf m (map (\<lambda>p. Inr \<lparr> sf_stream_id = sid, sf_payload = Some p \<rparr>) (map Stdout bs) @ rest) = read_loop (buf @ concat bs) m rest"
  by (induction bs arbitrary: buf) simp_all

lemma length_chunks_le: "0 < n \<Longrightarrow> length (chunks n xs) \<le> k \<longleftrightarrow> length xs \<le> k * n"
proof (induction k arbitrary: xs)
  case 0
  then show ?case by (simp add: chunks.simps [of n xs])
next
  case (Suc k)
  from Suc.IH [OF Suc.prems, of "drop n xs"] Suc.prems show ?case
    by (cases "xs = []") (auto simp: chunks.simps [of n xs])
qed

lemma concat_take_chunks: "0 < n \<Longrightarrow> concat (take k (chunks n xs)) = take (k * n) xs"
proof (induction k arbitrary: xs)
  case (Suc k)
  from Suc.IH [OF Suc.prems, of "drop n xs"] Suc.prems show ?case
    by (cases "xs = []") (simp_all add: chunks.simps [of n xs] take_add)
qed simp

text \<open>What the handlers do once their request is valid.\<close>

lemma write_file_valid:
  assumes "bearer_header (gw_to_str G) headers = Some (gw_api_key G)" "uuid_text (gw_uuid G)"
    and "wq_path req \<noteq> []" "validate_sandbox_path (wq_path req) = Inr ()" "content_bytes (gw_b64dec G) req = Inr content"
  shows "write_file G headers (SandboxId_to_string (gw_uuid G) sb) (Inr req) g =
    respond G (\<lambda>meta. json_response 200 (write_result_json (map_option um_revision meta)))
      (unary_via_io_stream G (io_start_for G sb (WriteFile (wq_path req) (unwrap_or_default (wq_cwd req))
         (unwrap_or_default (wq_expected_revision req)) (wq_force req))) (Some content)) g"
  using assms uuid_text.parse_to_string [OF assms(2)]
  by (cases sb) (simp add: write_file_def valid_json_def authed_iff with_sandbox_def parse_sandbox_id_def SandboxId_to_string_def with_path_def)

lemma read_file_valid:
  assumes "bearer_header (gw_to_str G) headers = Some (gw_api_key G)" "uuid_text (gw_uuid G)"
    and "fq_path q \<noteq> []" "validate_sandbox_path (fq_path q) = Inr ()"
  shows "read_file G headers (SandboxId_to_string (gw_uuid G) sb) (Inr q) g =
    respond G (read_file_response G) (stream_via_io_stream G (io_start_for G sb (ReadFile (fq_path q) (unwrap_or_default (fq_cwd q))))) g"
  using assms uuid_text.parse_to_string [OF assms(2)]
  by (cases sb) (simp add: read_file_def valid_query_def authed_iff with_sandbox_def parse_sandbox_id_def SandboxId_to_string_def with_path_def)

text \<open>The calls: a read, a write the revision check lets pass, and one it refuses.\<close>

lemma system_read_frames:
  assumes "file_runtime (sc_runtime C)" "wired G C" "ready C sb c (gn_net g)"
    and "fst (rt_read_file (sc_runtime C) c path (cwd_opt cwd) (agent_rt g)) = Inr content"
    and "fst (rt_stat_revision (sc_runtime C) c path (cwd_opt cwd) (agent_rt g)) = Inr v"
  shows "\<exists>sid g'. stream_via_io_stream G (io_start_for G sb (ReadFile path cwd)) g =
      (read_loop [] None (map (\<lambda>p. Inr \<lparr> sf_stream_id = sid, sf_payload = Some p \<rparr>) (kept (sc_pace C) 0 0
         (file_meta v # map Stdout (chunks READ_FILE_CHUNK_BYTES content) @ [Exited 0 False]))), g') \<and>
    ready C sb c (gn_net g') \<and> agent_rt g' = agent_rt g"
proof -
  let ?R = "sc_runtime C" and ?start = "io_start_for G sb (ReadFile path cwd)"
  from gw_open_ready [OF assms(2,3), of "[]" ?start "ReadFile path cwd"] assms(2) obtain sid s x g' where
    x: "x = drive_read_file ?R sid c path cwd s" and s: "is_rt s = agent_rt g" "is_out s = []" "is_left s = None" and
    g: "gw_open G [start_frame ?start] g = (Inr (map Inr (kept (sc_pace C) 0 0 (is_out x))), g')" "ready C sb c (gn_net g')"
      "agent_rt g' = is_rt x"
    by (auto simp: io_start_for_def wired_def drive_params_def)
  have rd: "rt_read_file ?R c path (cwd_opt cwd) (is_rt s) = (Inr content, is_rt s)"
    using file_runtime.read_pure [OF assms(1)] assms(4) s(1) by (metis prod.collapse)
  have st: "rt_stat_revision ?R c path (cwd_opt cwd) (is_rt s) = (Inr v, is_rt s)"
    using file_runtime.stat_exact [OF assms(1) assms(5)] s(1) by simp
  from file_runtime.read_session_frames [OF assms(1) s(3) rd st, of sid] s(2) have
    "is_out x = map (\<lambda>p. \<lparr> sf_stream_id = sid, sf_payload = Some p \<rparr>)
       (file_meta v # map Stdout (chunks READ_FILE_CHUNK_BYTES content) @ [Exited 0 False])" "is_rt x = is_rt s"
    by (simp_all add: x emits_def)
  with g s(1) show ?thesis
    by (intro exI [of _ sid] exI [of _ g']) (simp add: stream_via_io_stream_def bind_op_def kept_map comp_def del: list.map map_append)
qed

lemma system_read:
  assumes "file_runtime (sc_runtime C)" "wired G C" "ready C sb c (gn_net g)"
    and "fst (rt_read_file (sc_runtime C) c path (cwd_opt cwd) (agent_rt g)) = Inr content"
    and "fst (rt_stat_revision (sc_runtime C) c path (cwd_opt cwd) (agent_rt g)) = Inr v"
    and "keeps_up C \<or> length (chunks READ_FILE_CHUNK_BYTES content) \<le> 254"
  shows "\<exists>g'. stream_via_io_stream G (io_start_for G sb (ReadFile path cwd)) g =
      (Inr (content, Some \<lparr> um_revision = fr_revision v, um_size = fr_size v \<rparr>), g') \<and>
    ready C sb c (gn_net g') \<and> agent_rt g' = agent_rt g"
proof -
  let ?ps = "file_meta v # map Stdout (chunks READ_FILE_CHUNK_BYTES content) @ [Exited 0 False]"
  have k: "kept (sc_pace C) 0 0 ?ps = ?ps"
    using assms(6) kept_all [of "sc_pace C" 0 ?ps] kept_short [of 0 ?ps "sc_pace C" 0]
    by (auto simp: keeps_up_def IO_SESSION_BUFFER_def simp del: kept.simps)
  have c: "concat (chunks READ_FILE_CHUNK_BYTES content) = content"
    using concat_chunks [of READ_FILE_CHUNK_BYTES content] by (simp add: READ_FILE_CHUNK_BYTES_def)
  from system_read_frames [OF assms(1-5)] show ?thesis
    unfolding k by (simp add: file_meta_def read_loop_chunks c del: map_map)
qed

lemma system_write:
  assumes "file_runtime (sc_runtime C)" "wired G C" "ready C sb c (gn_net g)" "length content \<le> MAX_WRITE_BYTES"
    and "rt_write_file (sc_runtime C) c path (cwd_opt cwd) content (agent_rt g) = (Inr (), rt')"
    and "fst (rt_stat_revision (sc_runtime C) c path (cwd_opt cwd) rt') = Inr v"
    and "expected \<noteq> [] \<and> \<not> force \<longrightarrow>
      (\<exists>v0. fst (rt_stat_revision (sc_runtime C) c path (cwd_opt cwd) (agent_rt g)) = Inr v0 \<and> fr_revision v0 = expected)"
  shows "\<exists>g'. unary_via_io_stream G (io_start_for G sb (WriteFile path cwd expected force)) (Some content) g =
      (Inr (Some \<lparr> um_revision = fr_revision v, um_size = fr_size v \<rparr>), g') \<and> ready C sb c (gn_net g') \<and> agent_rt g' = rt'"
proof -
  let ?R = "sc_runtime C" and ?start = "io_start_for G sb (WriteFile path cwd expected force)"
  let ?fs = "\<lambda>sid. map Inr (tl (session_frames sid ?start (producer_frames (Some content))))"
  from gw_open_ready [OF assms(2,3), of "producer_frames (Some content)" ?start "WriteFile path cwd expected force"] assms(2)
    producer_frames_plain [of _ "Some content"] obtain sid s x g' where
    x: "x = snd (drive_write_file ?R sid c path cwd expected force (?fs sid) s)" and
    s: "is_rt s = agent_rt g" "is_out s = []" "is_left s = None" and
    g: "gw_open G (start_frame ?start # producer_frames (Some content)) g = (Inr (map Inr (kept (sc_pace C) 0 0 (is_out x))), g')"
      "ready C sb c (gn_net g')" "agent_rt g' = is_rt x"
    by (auto simp: io_start_for_def wired_def drive_params_def)
  from file_runtime.write_session_frames [OF assms(1) s(3) _ _ _ upload_arrives [OF assms(4)], of c path cwd rt' v expected force sid sid ?start]
    assms(5-7) s(1) file_runtime.stat_exact [OF assms(1) assms(6)]
  have "emits sid s x [file_meta v, Exited 0 False]" "is_rt x = rt'" by (simp_all add: x)
  with g s(2) show ?thesis
    by (simp add: unary_via_io_stream_def bind_op_def emits_def file_meta_def kept_short IO_SESSION_BUFFER_def)
qed

lemma system_stale_write:
  assumes "file_runtime (sc_runtime C)" "wired G C" "ready C sb c (gn_net g)"
    and "expected \<noteq> []" "\<not> force"
    and "fst (rt_stat_revision (sc_runtime C) c path (cwd_opt cwd) (agent_rt g)) = Inr v" "fr_revision v \<noteq> expected"
  shows "\<exists>g'. unary_via_io_stream G (io_start_for G sb (WriteFile path cwd expected force)) (Some content) g =
      (Inl (ApiError.RevisionMismatch (fr_revision v)), g') \<and> ready C sb c (gn_net g') \<and> agent_rt g' = agent_rt g"
proof -
  let ?R = "sc_runtime C" and ?start = "io_start_for G sb (WriteFile path cwd expected force)"
  let ?fs = "\<lambda>sid. map Inr (tl (session_frames sid ?start (producer_frames (Some content))))"
  from gw_open_ready [OF assms(2,3), of "producer_frames (Some content)" ?start "WriteFile path cwd expected force"] assms(2)
    producer_frames_plain [of _ "Some content"] obtain sid s x g' where
    x: "x = snd (drive_write_file ?R sid c path cwd expected force (?fs sid) s)" and
    s: "is_rt s = agent_rt g" "is_out s = []" "is_left s = None" and
    g: "gw_open G (start_frame ?start # producer_frames (Some content)) g = (Inr (map Inr (kept (sc_pace C) 0 0 (is_out x))), g')"
      "ready C sb c (gn_net g')" "agent_rt g' = is_rt x"
    by (auto simp: io_start_for_def wired_def drive_params_def)
  have "check_revision ?R c path (cwd_opt cwd) expected force s = (Some (''REVISION_MISMATCH'', fr_revision v), s)"
    using assms(4,5,7) file_runtime.stat_exact [OF assms(1,6)] s(1) by (simp add: check_revision_def with_rt_def)
  then have "x = send_error sid ''REVISION_MISMATCH'' (fr_revision v) s"
    by (simp add: x drive_write_file_def)
  with g s show ?thesis
    by (simp add: unary_via_io_stream_def bind_op_def send_error_def emit_open kept_short IO_SESSION_BUFFER_def IoErrorCode_from_str_def)
qed

section \<open>End-to-end properties\<close>

text \<open>C6. A file written over REST reads back over REST. Through the gateway, the proxy, the tunnel and the agent, on
  a sandbox that is routed and not paused, with any runtime that keeps the trait's file laws: a write of at
  most 256 MiB that passes the revision check and that the runtime accepts is answered 200 with the file's new
  revision, and the read that follows is answered 200 with exactly the bytes written and that revision, if the
  gateway keeps up with the agent or the file has at most 254 chunks.\<close>

theorem rest_write_then_read:
  assumes "file_runtime (sc_runtime C)" "wired G C" "ready C sb c (gn_net g)"
    and "bearer_header (gw_to_str G) headers = Some (gw_api_key G)"
    and "wq_path req \<noteq> []" "validate_sandbox_path (wq_path req) = Inr ()"
    and "content_bytes (gw_b64dec G) req = Inr content" "length content \<le> MAX_WRITE_BYTES"
    and "unwrap_or_default (wq_expected_revision req) \<noteq> [] \<and> \<not> wq_force req \<longrightarrow>
      (\<exists>v0. fst (rt_stat_revision (sc_runtime C) c (wq_path req) (cwd_opt (unwrap_or_default (wq_cwd req))) (agent_rt g)) = Inr v0 \<and>
        fr_revision v0 = unwrap_or_default (wq_expected_revision req))"
    and "fst (rt_write_file (sc_runtime C) c (wq_path req) (cwd_opt (unwrap_or_default (wq_cwd req))) content (agent_rt g)) = Inr ()"
    and "keeps_up C \<or> length content \<le> 254 * READ_FILE_CHUNK_BYTES"
  shows "\<exists>(v :: FileRevision) g' resp g''. fr_size v = of_nat (length content) \<and>
    write_file G headers (SandboxId_to_string (gw_uuid G) sb) (Inr req) g =
      (json_response 200 (write_result_json (Some (fr_revision v))), g') \<and>
    read_file G headers (SandboxId_to_string (gw_uuid G) sb) (Inr \<lparr> fq_path = wq_path req, fq_cwd = wq_cwd req \<rparr>) g' = (resp, g'') \<and>
    rs_status resp = 200 \<and> rs_body resp = RawBody content \<and>
    (gw_header_ok G (fr_revision v) \<longrightarrow> (''x-file-revision'', fr_revision v) \<in> set (rs_headers resp)) \<and>
    ready C sb c (gn_net g'')"
proof -
  let ?R = "sc_runtime C" and ?path = "wq_path req" and ?cwd = "unwrap_or_default (wq_cwd req)"
  from assms(2) have U: "uuid_text (gw_uuid G)" by (simp add: wired_def)
  from assms(10) obtain rt' where w: "rt_write_file ?R c ?path (cwd_opt ?cwd) content (agent_rt g) = (Inr (), rt')"
    by (metis prod.collapse)
  from file_runtime.stat_written [OF assms(1) w] obtain v where v: "fst (rt_stat_revision ?R c ?path (cwd_opt ?cwd) rt') = Inr v"
    "fr_size v = of_nat (length content)" by blast
  from system_write [OF assms(1-3,8) w v(1) assms(9)] obtain g' where
    g': "unary_via_io_stream G (io_start_for G sb (WriteFile ?path ?cwd (unwrap_or_default (wq_expected_revision req)) (wq_force req)))
      (Some content) g = (Inr (Some \<lparr> um_revision = fr_revision v, um_size = fr_size v \<rparr>), g')" "ready C sb c (gn_net g')" "agent_rt g' = rt'"
    by blast
  have few: "keeps_up C \<or> length (chunks READ_FILE_CHUNK_BYTES content) \<le> 254"
    using assms(11) length_chunks_le [of READ_FILE_CHUNK_BYTES content 254] by (auto simp: READ_FILE_CHUNK_BYTES_def)
  from system_read [OF assms(1,2) g'(2) _ _ few] file_runtime.read_written [OF assms(1) w] v(1) g'(3) obtain g'' where
    "stream_via_io_stream G (io_start_for G sb (ReadFile ?path ?cwd)) g' =
      (Inr (content, Some \<lparr> um_revision = fr_revision v, um_size = fr_size v \<rparr>), g'')" "ready C sb c (gn_net g'')" by blast
  with write_file_valid [OF assms(4) U assms(5-7), of sb g] g'(1) v(2)
    read_file_valid [OF assms(4) U, of "\<lparr> fq_path = ?path, fq_cwd = wq_cwd req \<rparr>" sb g'] assms(5,6)
  show ?thesis
    by (intro exI [of _ v] exI [of _ g'] exI [of _ "read_file_response G (content, Some \<lparr> um_revision = fr_revision v, um_size = fr_size v \<rparr>)"]
        exI [of _ g'']) (simp add: respond_def read_file_response_def)
qed

text \<open>A concrete system: sandbox 7 on agent 1, the agent's mock runtime, a combined listener.\<close>

definition demo_cfg :: "(nat \<Rightarrow> nat) \<Rightarrow> mock_state system_cfg" where
  "demo_cfg pace = \<lparr> sc_uuid = rfc4122, sc_to_str = Some, sc_role = RoleCombined, sc_internal_token = None, sc_agent_id = AgentId 1,
     sc_tunnel = 20, sc_generation = 2, sc_runtime = mock_runtime rfc4122,
     sc_env = \<lparr> ie_elapsed = 0, ie_room = None, ie_ticks = [] \<rparr>, sc_uuid_error = (\<lambda>_. ''invalid''),
     sc_http = (\<lambda>_ _. Inl TunnelDisconnected), sc_pace = pace \<rparr>"

definition demo_system :: "mock_state \<Rightarrow> mock_state system" where
  "demo_system rt = \<lparr> sy_store = Controller_Capacity.demo_start,
     sy_proxy = demo_proxy\<lparr>px_cache := [(subdomain rfc4122 (SandboxId 7), \<lparr> ca_agent_id = AgentId 1, ca_sandbox_id = SandboxId 7 \<rparr>)]\<rparr>,
     sy_agent = \<lparr> at_mgr = \<lparr> sm_runtime = rt, sm_sandboxes = [(SandboxId 7, \<lparr> se_sandbox_id = SandboxId 7,
       se_container_id = ContainerId ''c'', se_host_port = 9000, se_state = Running \<rparr>)] \<rparr>, at_sessions = [], at_out = [], at_out_gone = False \<rparr>,
     sy_registry = [], sy_next_tx = 7 \<rparr>"

definition demo_net :: "mock_state \<Rightarrow> mock_state system gateway_net" where
  "demo_net rt = \<lparr> gn_rr = 0, gn_net = demo_system rt \<rparr>"

definition demo_write :: "string \<Rightarrow> string option \<Rightarrow> WriteFileRequest" where
  "demo_write text expected = \<lparr> wq_path = ''a.txt'', wq_content = Some text, wq_content_b64 = None, wq_cwd = Some ''/w'',
     wq_expected_revision = expected, wq_force = False \<rparr>"

lemma demo_wired: "wired (demo_gateway (system_call (demo_cfg pace))) (demo_cfg pace)"
  using rfc.uuid_text_axioms
  by (simp add: wired_def demo_gateway_def demo_cfg_def open_io_stream_gate_def accepts_open_io_stream_def)

lemma demo_ready: "ready (demo_cfg pace) (SandboxId 7) (ContainerId ''c'') (gn_net (demo_net rt))"
  by (simp add: ready_def demo_net_def demo_system_def demo_cfg_def demo_proxy_def cache_lookup_def tbl_get_def
      get_sender_with_generation_def no_chans_def)

lemma demo_path: "wq_path (demo_write text expected) \<noteq> []" "validate_sandbox_path (wq_path (demo_write text expected)) = Inr ()"
  by (simp_all add: demo_write_def) code_simp

lemma demo_content: "content_bytes dec (demo_write text expected) = Inr (str_bytes text)"
  by (simp add: content_bytes_def demo_write_def)

theorem rest_write_then_read_witness:
  "\<exists>v g' resp g''. fr_size (v :: FileRevision) = 2 \<and>
    write_file (demo_gateway (system_call (demo_cfg (\<lambda>_. 1)))) demo_headers (SandboxId_to_string rfc4122 (SandboxId 7))
      (Inr (demo_write ''hi'' None)) (demo_net mock_new) = (json_response 200 (write_result_json (Some (fr_revision v))), g') \<and>
    read_file (demo_gateway (system_call (demo_cfg (\<lambda>_. 1)))) demo_headers (SandboxId_to_string rfc4122 (SandboxId 7))
      (Inr \<lparr> fq_path = ''a.txt'', fq_cwd = Some ''/w'' \<rparr>) g' = (resp, g'') \<and> rs_status resp = 200 \<and> rs_body resp = RawBody (str_bytes ''hi'')"
proof -
  let ?G = "demo_gateway (system_call (demo_cfg (\<lambda>_. 1)))" and ?C = "demo_cfg (\<lambda>_. 1)"
  have R: "file_runtime (sc_runtime ?C)"
    using mockrt.file_runtime_axioms by (simp add: demo_cfg_def)
  have len: "length (str_bytes ''hi'') \<le> MAX_WRITE_BYTES" "length (str_bytes ''hi'') = 2"
    by (simp_all add: str_bytes_def MAX_WRITE_BYTES_def)
  have w: "fst (rt_write_file (sc_runtime ?C) (ContainerId ''c'') p d x rt) = Inr ()" for p d x rt
    by (simp add: demo_cfg_def mock_runtime_def mock_write_file_def Let_def)
  have none: "unwrap_or_default (wq_expected_revision (demo_write ''hi'' None)) = []"
    by (simp add: demo_write_def unwrap_or_default_def)
  have U: "gw_uuid ?G = rfc4122" by (simp add: demo_gateway_def)
  have wf: "wired ?G ?C" by (rule demo_wired)
  have up: "keeps_up ?C" by (simp add: keeps_up_def demo_cfg_def)
  from rest_write_then_read [OF R wf demo_ready demo_key demo_path demo_content len(1) _ w, of None mock_new] none len(2) up
  show ?thesis
    unfolding U by (fastforce simp: demo_write_def)
qed



text \<open>C14. A gateway that falls behind loses data silently. When a file has more than 255 chunks of 64 KiB and the
  gateway takes nothing until the agent has sent the last chunk, the read is answered 200 with the first 255
  chunks only: the proxy drops every chunk that finds the session's channel full, and delivers the clean exit.\<close>

theorem slow_reader_truncates:
  assumes "file_runtime (sc_runtime C)" "wired G C" "ready C sb c (gn_net g)"
    and "bearer_header (gw_to_str G) headers = Some (gw_api_key G)"
    and "fq_path q \<noteq> []" "validate_sandbox_path (fq_path q) = Inr ()"
    and "fst (rt_read_file (sc_runtime C) c (fq_path q) (cwd_opt (unwrap_or_default (fq_cwd q))) (agent_rt g)) = Inr content"
    and "fst (rt_stat_revision (sc_runtime C) c (fq_path q) (cwd_opt (unwrap_or_default (fq_cwd q))) (agent_rt g)) = Inr v"
    and "255 * READ_FILE_CHUNK_BYTES < length content"
    and "sc_pace C = (\<lambda>i. if i = length (chunks READ_FILE_CHUNK_BYTES content) then 1 else 0)"
  shows "\<exists>resp g'. read_file G headers (SandboxId_to_string (gw_uuid G) sb) (Inr q) g = (resp, g') \<and>
    rs_status resp = 200 \<and> rs_body resp = RawBody (take (255 * READ_FILE_CHUNK_BYTES) content)"
proof -
  let ?bs = "chunks READ_FILE_CHUNK_BYTES content"
  from assms(2) have U: "uuid_text (gw_uuid G)" by (simp add: wired_def)
  have many: "255 < length ?bs"
    using assms(9) length_chunks_le [of READ_FILE_CHUNK_BYTES content 255] by (simp add: READ_FILE_CHUNK_BYTES_def)
  have first: "concat (take 255 ?bs) = take (255 * READ_FILE_CHUNK_BYTES) content"
    by (rule concat_take_chunks) (simp add: READ_FILE_CHUNK_BYTES_def)
  have k: "kept (sc_pace C) 0 0 (file_meta v # map Stdout ?bs @ [Exited 0 False]) = file_meta v # map Stdout (take 255 ?bs) @ [Exited 0 False]"
    using kept_idle [of ?bs "file_meta v" Stdout "Exited 0 False"] many unfolding assms(10) by simp
  from system_read_frames [OF assms(1-3,7,8)] obtain g' where
    "stream_via_io_stream G (io_start_for G sb (ReadFile (fq_path q) (unwrap_or_default (fq_cwd q)))) g =
      (Inr (take (255 * READ_FILE_CHUNK_BYTES) content, Some \<lparr> um_revision = fr_revision v, um_size = fr_size v \<rparr>), g')"
    unfolding k by (auto simp: file_meta_def read_loop_chunks first simp del: map_map)
  with read_file_valid [OF assms(4) U assms(5,6), of sb g] show ?thesis
    by (simp add: respond_def read_file_response_def)
qed

definition demo_big :: bytes where
  "demo_big = replicate (256 * READ_FILE_CHUNK_BYTES) 0"

theorem slow_reader_truncates_witness:
  "\<exists>pace resp g'. read_file (demo_gateway (system_call (demo_cfg pace))) demo_headers (SandboxId_to_string rfc4122 (SandboxId 7))
      (Inr \<lparr> fq_path = ''a.txt'', fq_cwd = Some ''/w'' \<rparr>) (demo_net (mock_new\<lparr>mk_files := [(''/w/a.txt'', demo_big)]\<rparr>)) = (resp, g') \<and>
    rs_status resp = 200 \<and> (\<exists>b. rs_body resp = RawBody b \<and> length b < length demo_big)"
proof -
  let ?pace = "\<lambda>i. if i = length (chunks READ_FILE_CHUNK_BYTES demo_big) then 1 else 0"
  let ?C = "demo_cfg ?pace" and ?G = "demo_gateway (system_call (demo_cfg ?pace))" and ?q = "\<lparr> fq_path = ''a.txt'', fq_cwd = Some ''/w'' \<rparr>"
  let ?rt = "mock_new\<lparr>mk_files := [(''/w/a.txt'', demo_big)]\<rparr>"
  have R: "file_runtime (sc_runtime ?C)"
    using mockrt.file_runtime_axioms by (simp add: demo_cfg_def)
  have len: "length demo_big = 256 * READ_FILE_CHUNK_BYTES" unfolding demo_big_def by (rule length_replicate)
  then have big: "255 * READ_FILE_CHUNK_BYTES < length demo_big" by (simp add: READ_FILE_CHUNK_BYTES_def)
  have path: "resolve_path ''a.txt'' (cwd_opt (unwrap_or_default (Some ''/w''))) = ''/w/a.txt''" by code_simp
  have p: "fq_path ?q \<noteq> []" "validate_sandbox_path (fq_path ?q) = Inr ()" by (simp, code_simp)
  have rd: "fst (rt_read_file (sc_runtime ?C) (ContainerId ''c'') (fq_path ?q) (cwd_opt (unwrap_or_default (fq_cwd ?q)))
      (agent_rt (demo_net ?rt))) = Inr demo_big"
    by (simp add: demo_cfg_def mock_runtime_def mock_read_file_def agent_rt_def demo_net_def demo_system_def path Let_def tbl_get_def ok_or_def)
  have st: "fst (rt_stat_revision (sc_runtime ?C) (ContainerId ''c'') (fq_path ?q) (cwd_opt (unwrap_or_default (fq_cwd ?q)))
      (agent_rt (demo_net ?rt))) = Inr \<lparr> fr_revision = ''mock:'' @ show_nat (length demo_big), fr_size = of_nat (length demo_big) \<rparr>"
    by (simp add: demo_cfg_def mock_runtime_def mock_stat_revision_def agent_rt_def demo_net_def demo_system_def path Let_def tbl_get_def)
  have pace: "sc_pace ?C = ?pace" by (simp add: demo_cfg_def)
  have U: "gw_uuid ?G = rfc4122" by (simp add: demo_gateway_def)
  have short: "length (take (255 * READ_FILE_CHUNK_BYTES) demo_big) < length demo_big" using big by simp
  from slow_reader_truncates [OF R demo_wired demo_ready demo_key p rd st big pace] short show ?thesis
    unfolding U by blast
qed

end
