(* ===== verification/System_Lifecycle.thy ===== *)
theory System_Lifecycle
  imports Api_Router Agent_Tunnel
begin

text \<open>
  The life of a sandbox across the gateway, the controller and the agent: a command the controller has sent
  is handled by the agent, the agent's report comes back on its stream, and the gateway shows it.
\<close>

section \<open>A report becomes visible\<close>

text \<open>What \<open>GET /v1/sandboxes/{id}\<close> answers for a sandbox with owner, state and error.\<close>

definition shown :: "uuid_lib \<Rightarrow> SandboxId \<Rightarrow> AgentId \<Rightarrow> string \<Rightarrow> string \<Rightarrow> Response" where
  "shown U sid a st err = json_response 200 (JObject ([(''sandbox_id'', JString (SandboxId_to_string U sid)),
     (''subdomain'', JString (subdomain U sid)), (''agent_id'', JString (AgentId_to_string U a)), (''status'', JString st)] @
     (if err = [] then [] else [(''error'', JString err)])))"

lemma get_shows_row:
  assumes "uuid_text U" "gw_uuid G = U" "bearer_header (gw_to_str G) headers = Some (gw_api_key G)"
    and "admin_auth_call to_str token (admin_metadata me atok) = Inr ()"
    and "pg_healthy (ctl_store c)" "pg_route_of (ctl_store c) (SandboxId u) = Some a"
    and "tbl_get (sandboxes (db (ctl_store c))) u = Some row"
  shows "fst (get_sandbox G (controller_service U me atok to_str token fresh) headers (SandboxId_to_string U (SandboxId u)) c) =
    shown U (SandboxId u) a (sr_state row) (case sr_error row of None \<Rightarrow> [] | Some e \<Rightarrow> e)"
  using assms uuid_text.parse_to_string [OF assms(1)]
  by (auto simp: get_sandbox_def authed_iff with_sandbox_def parse_sandbox_id_def SandboxId_to_string_def respond_def
      grpc_service_def controller_endpoint_def Let_def rpc_def management_call_def mgmt_get_sandbox_def parse_id_def bind_op_def
      status_err_def on_store_def pg_find_routing_entry_def pg_get_sandbox_state_def sql_healthy ok_op_def entry_view_def
      sandbox_info_def parse_controller_id_def ok_or_def pg_route_of_def info_json_def shown_def empty_to_none_def
      split: option.splits)

lemma status_recorded:
  assumes "uuid_text U" "pg_healthy (ctl_store c)" "pg_route_of (ctl_store c) (SandboxId u) = Some a"
    and "agent_stream_msg U (PgStore U) validate now ch (status_report (SandboxId_to_string U (SandboxId u)) fallback r) (Some a) c = (go, reg, c')"
  shows "go \<and> reg = Some a \<and> pg_healthy (ctl_store c') \<and> pg_route_of (ctl_store c') = pg_route_of (ctl_store c) \<and>
    (\<exists>row. tbl_get (sandboxes (db (ctl_store c'))) u = Some row \<and>
      sr_state row = sandbox_state_to_str (case r of Inr s \<Rightarrow> s | Inl _ \<Rightarrow> fallback) \<and>
      (case sr_error row of None \<Rightarrow> [] | Some e \<Rightarrow> e) = (case r of Inr _ \<Rightarrow> [] | Inl e \<Rightarrow> AgentError_to_string e))"
  using assms uuid_text.parse_to_string [OF assms(1)] healthy_tl(1) [OF healthy_tl(1) [OF assms(2)]]
  by (auto simp: agent_stream_msg_def status_report_def handle_status_def SandboxId_to_string_def Let_def on_store_def
      pg_find_routing_entry_def pg_save_sandbox_state_def sql_healthy pg_route_of_def table_simps split: option.splits sum.splits)

text \<open>A report that arrived is what \<open>GET\<close> shows, and what a start leaves in the agent's table.\<close>

lemma report_shown:
  assumes "uuid_text U" "gw_uuid G = U" "bearer_header (gw_to_str G) headers = Some (gw_api_key G)"
    and "admin_auth_call to_str token (admin_metadata me atok) = Inr ()"
    and "pg_healthy (ctl_store c)" "pg_route_of (ctl_store c) sid = Some a"
    and "agent_stream_msg U (PgStore U) validate now ch (status_report (SandboxId_to_string U sid) fallback r) (Some a) c = (go, reg, c')"
  shows "fst (get_sandbox G (controller_service U me atok to_str token fresh) headers (SandboxId_to_string U sid) c') =
    shown U sid a (sandbox_state_to_str (case r of Inr s \<Rightarrow> s | Inl _ \<Rightarrow> fallback)) (case r of Inr _ \<Rightarrow> [] | Inl e \<Rightarrow> AgentError_to_string e)"
proof -
  obtain u where u: "sid = SandboxId u" by (cases sid)
  note recorded = status_recorded [OF assms(1,5) assms(6,7) [unfolded u]]
  from recorded obtain row where row: "tbl_get (sandboxes (db (ctl_store c'))) u = Some row"
      "sr_state row = sandbox_state_to_str (case r of Inr s \<Rightarrow> s | Inl _ \<Rightarrow> fallback)"
      "(case sr_error row of None \<Rightarrow> [] | Some e \<Rightarrow> e) = (case r of Inr _ \<Rightarrow> [] | Inl e \<Rightarrow> AgentError_to_string e)" by blast
  from recorded assms(6) have c': "pg_healthy (ctl_store c')" "pg_route_of (ctl_store c') (SandboxId u) = Some a" by (simp_all add: u)
  show ?thesis using get_shows_row [OF assms(1-4) c' row(1)] row(2,3) by (simp add: u)
qed

lemma start_outcome:
  assumes "uuid_text U" "start_sandbox U ue R (SandboxId_to_string U sid) img (Some cfg) m = (r, m')"
  shows "case fst (rt_create_within R SANDBOX_CREATE_DEADLINE (container_config sid img cfg) (sm_runtime m)) of
      Some (Inr info) \<Rightarrow> r = Inr Running \<and> tbl_get (sm_sandboxes m') sid = Some \<lparr> se_sandbox_id = sid, se_container_id = ci_id info,
        se_host_port = ci_host_port info, se_state = Running \<rparr>
    | _ \<Rightarrow> (\<exists>err. r = Inl err) \<and> tbl_get (sm_sandboxes m') sid = Some \<lparr> se_sandbox_id = sid, se_container_id = ContainerId [],
        se_host_port = 0, se_state = Failed \<rparr>"
proof -
  obtain timed rt where t: "rt_create_within R SANDBOX_CREATE_DEADLINE (container_config sid img cfg) (sm_runtime m) = (timed, rt)"
    by fastforce
  have id: "agent_parse_sandbox_id U ue (SandboxId_to_string U sid) = Inr sid"
    using uuid_text.parse_to_string [OF assms(1)]
    by (cases sid) (simp add: agent_parse_sandbox_id_def SandboxId_to_string_def ok_or_def)
  show ?thesis
    using assms(2) by (auto simp: start_sandbox_def id t sm_insert_def Let_def table_simps split: option.splits sum.splits)
qed

section \<open>From the request to the running container\<close>

text \<open>C8. A created sandbox ends up as its agent says. After a 201, when the agent handles the command the controller
  sent it and its report arrives on its stream while storage is available: if the runtime has made the
  container in time, from the requested image and for the new identifier, the agent records that container as
  running and \<open>GET\<close> shows the sandbox as \<open>running\<close>, without error; otherwise the agent records a failure and \<open>GET\<close> shows
  \<open>failed\<close> with the error. In both cases it names the agent the route points to.\<close>

theorem created_sandbox_reported:
  assumes "uuid_text U" "gw_uuid G = U" "pg_wf (ctl_store c)"
    and "create_sandbox G (controller_service U me atok to_str token sid) headers body c = (resp, c1)" "rs_status resp = 201"
    and "pg_route_of (ctl_store c1) sid = Some a" "tbl_get (senders c) a = Some ch" "last (sent c1 ch) = Inr cmd"
    and "handle_command U ue R cmd m = (out, m')"
    and "pg_healthy (ctl_store c1)"
    and "agent_stream_msg U (PgStore U) validate now ch (hd out) (Some a) c1 = (go, reg, c2)"
  shows "\<exists>req cfg e. body = Inr req \<and> cmd = StartSandbox (SandboxId_to_string U sid) (cq_image req) cfg \<and> tbl_get (sm_sandboxes m') sid = Some e \<and>
    (case fst (rt_create_within R SANDBOX_CREATE_DEADLINE (container_config sid (cq_image req) cfg) (sm_runtime m)) of
       Some (Inr info) \<Rightarrow> se_state e = Running \<and> se_container_id e = ci_id info \<and> se_host_port e = ci_host_port info \<and>
         fst (get_sandbox G (controller_service U me atok to_str token fresh) headers (SandboxId_to_string U sid) c2) =
           shown U sid a ''running'' []
     | _ \<Rightarrow> se_state e = Failed \<and> (\<exists>err. err \<noteq> [] \<and>
         fst (get_sandbox G (controller_service U me atok to_str token fresh) headers (SandboxId_to_string U sid) c2) =
           shown U sid a ''failed'' err))"
proof -
  from rest_create_effect [OF assms(1-5)] obtain req a' ch' cfg where
    adm: "admin_auth_call to_str token (admin_metadata me atok) = Inr ()" and req: "body = Inr req" and
    key: "bearer_header (gw_to_str G) headers = Some (gw_api_key G)" and
    eff: "pg_route_of (ctl_store c1) sid = Some a'" "tbl_get (senders c) a' = Some ch'"
      "sent c1 = (sent c)(ch' := sent c ch' @ [Inr (StartSandbox (SandboxId_to_string U sid) (cq_image req) cfg)])" by blast
  with assms(6-8) have cmd: "cmd = StartSandbox (SandboxId_to_string U sid) (cq_image req) cfg" by auto
  obtain r m1 where st: "start_sandbox U ue R (SandboxId_to_string U sid) (cq_image req) (Some cfg) m = (r, m1)" by fastforce
  with assms(9) have out: "out = [status_report (SandboxId_to_string U sid) Failed r]" "m' = m1"
    by (simp_all add: cmd handle_command_def)
  let ?shown = "\<lambda>st err. fst (get_sandbox G (controller_service U me atok to_str token fresh) headers (SandboxId_to_string U sid) c2) =
      shown U sid a st err"
  have get: "?shown (sandbox_state_to_str (case r of Inr s \<Rightarrow> s | Inl _ \<Rightarrow> Failed)) (case r of Inr _ \<Rightarrow> [] | Inl e \<Rightarrow> AgentError_to_string e)"
    using report_shown [OF assms(1,2) key adm assms(10,6) assms(11) [unfolded out(1) list.sel]] .
  let ?t = "fst (rt_create_within R SANDBOX_CREATE_DEADLINE (container_config sid (cq_image req) cfg) (sm_runtime m))"
  note outcome = start_outcome [OF assms(1) st, folded out(2)]
  have "\<exists>e. tbl_get (sm_sandboxes m') sid = Some e \<and> (case ?t of
       Some (Inr info) \<Rightarrow> se_state e = Running \<and> se_container_id e = ci_id info \<and> se_host_port e = ci_host_port info \<and> ?shown ''running'' []
     | _ \<Rightarrow> se_state e = Failed \<and> (\<exists>err. err \<noteq> [] \<and> ?shown ''failed'' err))"
  proof (cases "\<exists>info. ?t = Some (Inr info)")
    case True
    then obtain info where "?t = Some (Inr info)" by blast
    with outcome get show ?thesis by auto
  next
    case False
    with outcome have "\<exists>err. r = Inl err" and e: "tbl_get (sm_sandboxes m') sid = Some \<lparr> se_sandbox_id = sid,
        se_container_id = ContainerId [], se_host_port = 0, se_state = Failed \<rparr>" by (auto split: option.splits sum.splits)
    then obtain err where "r = Inl err" by blast
    with get have "\<exists>err. err \<noteq> [] \<and> ?shown ''failed'' err" by (intro exI [of _ "AgentError_to_string err"]) simp
    with e False show ?thesis by (auto split: option.splits sum.splits)
  qed
  with req cmd show ?thesis by blast
qed

theorem created_sandbox_reported_witness:
  "\<exists>resp c1 cmd out m' go reg c2.
     create_sandbox (demo_gateway no_proxy) demo_service demo_headers (Inr demo_create) demo_conn = (resp, c1) \<and>
     last (sent c1 4) = Inr cmd \<and> handle_command rfc4122 (\<lambda>_. ''invalid'') (mock_runtime rfc4122) cmd (sm_new mock_new) = (out, m') \<and>
     agent_stream_msg rfc4122 (PgStore rfc4122) (\<lambda>_. True) 0 4 (hd out) (Some (AgentId 1)) c1 = (go, reg, c2) \<and>
     fst (get_sandbox (demo_gateway no_proxy) demo_service demo_headers (SandboxId_to_string rfc4122 (SandboxId 7)) c2) =
       shown rfc4122 (SandboxId 7) (AgentId 1) ''running'' []"
proof -
  obtain resp c1 where http: "create_sandbox (demo_gateway no_proxy) demo_service demo_headers (Inr demo_create) demo_conn = (resp, c1)"
    "rs_status resp = 201" and healthy: "pg_healthy (ctl_store c1)" using demo_created by blast
  have only: "tbl_get (senders demo_conn) a = Some ch \<Longrightarrow> a = AgentId 1 \<and> ch = 4" for a ch
    by (auto simp: demo_conn_def demo_ctl_def table_simps split: if_splits)
  from rest_create_effect [OF rfc.uuid_text_axioms demo_gateway_uuid demo_conn_wf http] obtain a ch cmd where
    "pg_route_of (ctl_store c1) (SandboxId 7) = Some a" "tbl_get (senders demo_conn) a = Some ch" "last (sent c1 ch) = Inr cmd"
    by auto
  with only [of a ch] have sent: "pg_route_of (ctl_store c1) (SandboxId 7) = Some (AgentId 1)"
    "tbl_get (senders demo_conn) (AgentId 1) = Some 4" "last (sent c1 4) = Inr cmd" by auto
  obtain out m' where h: "handle_command rfc4122 (\<lambda>_. ''invalid'') (mock_runtime rfc4122) cmd (sm_new mock_new) = (out, m')" by fastforce
  obtain go reg c2 where msg: "agent_stream_msg rfc4122 (PgStore rfc4122) (\<lambda>_. True) 0 4 (hd out) (Some (AgentId 1)) c1 = (go, reg, c2)"
    by (metis prod_cases3)
  have ok: "fst (rt_create_within (mock_runtime rfc4122) d cfg s) = Some (Inr \<lparr> ci_id =
      ContainerId (''mock-'' @ SandboxId_to_string rfc4122 (cc_sandbox_id cfg)), ci_sandbox_id = cc_sandbox_id cfg,
      ci_host_port = of_nat (mk_port_counter s), ci_state = CRunning \<rparr>)" for d cfg s
    by (simp add: mock_runtime_def mock_create_and_start_def)
  from created_sandbox_reported [OF rfc.uuid_text_axioms demo_gateway_uuid demo_conn_wf http sent h healthy msg, of "SandboxId 7"]
  have "fst (get_sandbox (demo_gateway no_proxy) demo_service demo_headers (SandboxId_to_string rfc4122 (SandboxId 7)) c2) =
      shown rfc4122 (SandboxId 7) (AgentId 1) ''running'' []"
    unfolding ok option.case sum.case by blast
  with http sent(3) h msg show ?thesis by blast
qed

end
