(* ===== verification/Spec2Isabelle.thy ===== *)
theory Spec2Isabelle
  imports Proxy_Reach Controller_Management Agent_Tunnel Agent_Youki Cli_Client System_Path System_Lifecycle
begin

text \<open>
  A model of open-sandbox, a service that runs sandboxes (containers) on a fleet of agents. Paths below are
  relative to \<open>src/crates\<close> unless they start with \<open>src\<close>.

  \<^bold>\<open>The program.\<close> A client talks HTTP and WebSocket to the \<^emph>\<open>gateway\<close> (\<open>api\<close>). For the life cycle of sandboxes the
  gateway calls the \<^emph>\<open>controller\<close> (\<open>controller\<close>), which keeps agents, reservations, routes and sandbox states in
  a database and sends commands to the agents over a stream each agent opens. For files and processes the
  gateway opens an I/O stream to the \<^emph>\<open>proxy\<close> (\<open>proxy\<close>), which also takes public HTTP requests; the proxy learns
  routes from the database's notifications and reaches an agent through the tunnel the agent opened. The
  \<^emph>\<open>agent\<close> (\<open>agent\<close>) carries out commands, requests and I/O sessions on a container runtime: Docker
  (\<open>agent-docker\<close>) or youki (\<open>agent-youki\<close>). Client programs are in \<open>ws-client\<close> and \<open>cli\<close>.

  \<^bold>\<open>How code becomes definitions.\<close> A struct is a record and an enum a datatype with the source's names; a trait is a
  record of operations that the generic code takes as an argument. A fallible call is an \<open>op\<close>, a function from
  a state to a result and a state, where \<open>Inl\<close> is the error; \<open>bind_op\<close> and \<open>then_op\<close> are the question mark. Unsigned
  integers are words of their width, signed ones integers with their range written out. Strings are lists of
  bytes as characters. Hash maps are association lists (\<open>tbl\<close>). Tasks that run at once are cut at their waits:
  a run is a list of events or a chain of steps, and the properties hold for every order. Libraries, the
  database server's transport, the Docker daemon, the operating system and the encodings of protobuf and JSON
  are parameters; what is relied on of them is a named hypothesis or a locale with an interpretation.

  \<^bold>\<open>Theories.\<close>

  \<^descr> \<open>Prelude\<close>, \<open>Rust_Std\<close>, \<open>Channels\<close>: tables with their laws (locale \<open>keyed_table\<close>), results, integer
  conversions, the string functions and durations the sources use, JSON values, bounded channels.

  \<^descr> \<open>Contracts\<close>: \<open>contracts/src\<close>, that is identifiers, subdomains, pull policies, signals, ports and the error
  enums with their codes. What is relied on of UUID texts is the locale \<open>uuid_text\<close>, interpreted on
  \<open>rfc4122\<close>, the usual form.

  \<^descr> \<open>Controller_Store\<close>, \<open>Pg_Store\<close>: the trait of \<open>controller/src/store.rs\<close>, its contract as the locale
  \<open>controller_store\<close>, and \<open>pg_store.rs\<close> over explicit tables, where any statement may fail and a transaction
  that fails changes nothing; the interpretation \<open>pgs\<close> shows that it keeps the contract.

  \<^descr> \<open>Controller_Services\<close>, \<open>Controller_Capacity\<close>, \<open>Controller_Grpc\<close>, \<open>Controller_Management\<close>: \<open>registry.rs\<close>,
  \<open>heartbeat.rs\<close>, \<open>scheduler.rs\<close>, \<open>auth.rs\<close>; the accounting of capacity over every sequence of store
  operations; \<open>grpc.rs\<close> (connections, the agent stream message by message, creation with its rollback, the
  sweep for dead agents); and \<open>management.rs\<close>. Shown: agents are never overcommitted, marking an agent dead is
  all or nothing, assignment finds room whenever there is some, a failed creation leaves nothing behind,
  only the owner of a sandbox changes its state, silent agents are evicted, every reachable database is
  well-typed; and two defects, that registering again forgets reservations and that the end of an old stream
  drops a new connection.

  \<^descr> \<open>Proxy_Routing\<close>, \<open>Wire_Frames\<close>, \<open>Proxy_Tunnel\<close>, \<open>Proxy_Grpc\<close>, \<open>Proxy_Runs\<close>, \<open>Proxy_Reach\<close>: the routing
  store and cache, the messages of \<open>src/proto/proxy.proto\<close>, the tunnel pool, the waiting requests and I/O
  sessions (their cancellation by generation is the locale \<open>generation_scoped\<close>), the handlers, and the proxy
  as a transition system. Shown: the cache fed by notifications agrees with the table, lookups answer live
  routes only, requests reach the owner's tunnel and are answered at most once, an agent's messages touch
  only its own streams, the end of a tunnel ends exactly its own work, the gates hold, draining is clean.

  \<^descr> \<open>Agent_Runtime\<close>, \<open>Agent_Sandbox\<close>, \<open>Agent_Io\<close>, \<open>Agent_Tunnel\<close>: the runtime trait with the file laws the agent
  relies on (locale \<open>file_runtime\<close>, interpreted on \<open>MockContainerRuntime\<close>), the sandbox manager (locale
  \<open>lifecycle_command\<close> for its four commands), the exec registry, reconnection, the controller client; every kind
  of I/O session; the agent's end of the tunnel. Shown: commands touch only their sandbox, a session ends with
  exactly one terminal frame, an exec session ends, signals go to the session's own process, sessions are
  only opened on sandboxes the agent runs.

  \<^descr> \<open>Agent_Docker\<close>: \<open>agent-docker/src/lib.rs\<close> over the daemon as a record of calls. Shown: no container is left
  behind by a failed creation, whatever the daemon answers; the pid marker is found however output is cut.

  \<^descr> \<open>Youki_Host\<close>, \<open>Youki_Image\<close>, \<open>Youki_Memory\<close>, \<open>Agent_Youki\<close>: \<open>agent-youki/src\<close> over a \<open>host\<close>, the record of
  the calls to the operating system, \<open>libcontainer\<close>, the registry and the network plugins: \<open>spec.rs\<close>, \<open>cni.rs\<close>
  and \<open>dns.rs\<close>; \<open>image.rs\<close>; an in-memory host; \<open>lib.rs\<close>, \<open>exec.rs\<close> and \<open>setns_ops.rs\<close>. The locales \<open>plain_files\<close> and
  \<open>ns_files\<close> say what is relied on of a file system; both are interpreted on the in-memory host. Shown: no layer
  can be unpacked outside its directory, the completion marker of the image cache is kept sound, what a failed
  creation leaves, that the runtime keeps the laws of \<open>file_runtime\<close> (so the properties of \<open>System_Path\<close> hold over
  it too), which process a session can signal, and that sandboxes of one image share their root.

  \<^descr> \<open>Api_Frames\<close>, \<open>Api_Gateway\<close>, \<open>Api_Lifecycle\<close>, \<open>Api_Ws\<close>, \<open>Api_Router\<close>: the WebSocket envelope on both sides
  (\<open>api/src/frame.rs\<close>, \<open>ws-client/src/lib.rs\<close>), the REST handlers, the calls to the controller, the two
  WebSocket endpoints, and the routes. Shown: nothing but the health route answers without the key, the
  envelope round-trips, sessions are relayed in order, creation and deletion over HTTP do what they say.

  \<^descr> \<open>Cli_Client\<close>: the exec loops of \<open>open-sandbox run\<close>, \<open>open-sandbox ssh-pipe\<close> (\<open>cli/src\<close>) and \<open>opensandbox-exec\<close>
  (\<open>ws-client/src/bin\<close>), one locale \<open>exec_client\<close> with three interpretations. Shown: whatever the interleaving,
  the program prints the remote command's output and exits with its code.

  \<^descr> \<open>System_Path\<close>, \<open>System_Lifecycle\<close>: the parts put together. A file written over HTTP reads back, through gateway,
  proxy, tunnel and agent; of two writes that name one revision the second is refused; a slow reader gets a
  truncated file; a created sandbox is shown as running exactly when the agent's runtime started it.

  \<^bold>\<open>Bounds.\<close> There is no fuel: every loop of the model recurses on data (the messages still to come, the attempts
  left, the entries of an archive, the rounds of a probe) or has a termination proof by the length of what is
  left. Sizes and limits (channel capacities, 256 MiB per upload, 64 MiB per request body, chunk sizes, list
  caps, timeouts) are the constants of the sources. A run given as a list of events is a prefix of an execution;
  where a property says that something ends, it says how many of which events are enough.

  \<^bold>\<open>Simplifications.\<close> A critical section under a lock is one step, and locks are not poisoned. Text is valid UTF-8.
  Logging and metrics are left out. \<open>System_Path\<close> fixes the order of the tasks on the way except for the pace of
  the gateway, which is a parameter.

  \<^bold>\<open>Not modelled.\<close> Start-up and configuration (\<open>cli/src/main.rs\<close>, most of \<open>cli/src/run.rs\<close>, \<open>tls.rs\<close>, the derived argument
  parsers): they wire up servers of libraries. In \<open>cli\<close>, the HTTP calls \<open>run\<close> makes around its exec loop, the
  shell script \<open>ssh-pipe\<close> starts and the command line of the local \<open>ssh\<close>: their behaviour is that of programs outside
  the sources. The accept loop of the proxy's HTTP server and the OpenAPI document: library code and text. The
  parser of \<open>ls\<close> output in \<open>agent-docker\<close>: nothing calls it. Test doubles other than the agent's, tests, examples
  and \<open>src/spikes\<close>: not part of the running system.
\<close>

end
